(* ===== verification/GoPrelude.thy ===== *)
theory GoPrelude
  imports Main "HOL-Library.Sublist"
begin

text \<open>
  What every component of the development shares: the collections the component proofs feed to the
  simplifier, and the part of Go's \<open>strings\<close> and \<open>strconv\<close> packages the sources call. A Go string
  is a byte sequence and is modelled as a \<^typ>\<open>string\<close> whose characters are its bytes. A Go
  function that returns \<open>(T, error)\<close> returns a sum here, with the error on the left; a function
  that returns only an error returns an option, where \<^const>\<open>None\<close> is Go's nil.
\<close>

named_theorems go_defs \<open>definitions of the model, unfolded by the component proofs\<close>
named_theorems go_eval \<open>facts that evaluate a model function on a concrete argument\<close>
named_theorems go_dest \<open>what a successful call tells about its arguments\<close>

type_synonym ('e, 'a) result = "'e + 'a"

section \<open>Bytes the sources name\<close>

abbreviation newline_byte :: char where "newline_byte \<equiv> CHR 0x0A"
abbreviation return_byte :: char where "return_byte \<equiv> CHR 0x0D"
abbreviation tab_byte :: char where "tab_byte \<equiv> CHR 0x09"
abbreviation nul_byte :: char where "nul_byte \<equiv> CHR 0x00"
abbreviation squote :: char where "squote \<equiv> CHR 0x27"
abbreviation dquote :: char where "dquote \<equiv> CHR 0x22"
abbreviation backslash :: char where "backslash \<equiv> CHR 0x5C"

definition byte :: "char \<Rightarrow> nat" where
  "byte c = of_char c"

lemma byte_less_256 [simp]: "byte c < 256"
  by (simp add: byte_def)

lemma byte_inject [simp]: "byte c = byte d \<longleftrightarrow> c = d"
  by (simp add: byte_def)

definition is_digit :: "char \<Rightarrow> bool" where
  "is_digit c \<longleftrightarrow> 48 \<le> byte c \<and> byte c \<le> 57"

definition is_lower :: "char \<Rightarrow> bool" where
  "is_lower c \<longleftrightarrow> 97 \<le> byte c \<and> byte c \<le> 122"

definition is_upper :: "char \<Rightarrow> bool" where
  "is_upper c \<longleftrightarrow> 65 \<le> byte c \<and> byte c \<le> 90"

lemmas byte_class_defs [go_defs] = is_digit_def is_lower_def is_upper_def

section \<open>Package strings\<close>

abbreviation HasPrefix :: "string \<Rightarrow> string \<Rightarrow> bool" where
  "HasPrefix s p \<equiv> prefix p s"

abbreviation HasSuffix :: "string \<Rightarrow> string \<Rightarrow> bool" where
  "HasSuffix s p \<equiv> suffix p s"

definition TrimPrefix :: "string \<Rightarrow> string \<Rightarrow> string" where
  "TrimPrefix s p = (if HasPrefix s p then drop (length p) s else s)"

definition TrimSuffix :: "string \<Rightarrow> string \<Rightarrow> string" where
  "TrimSuffix s p = (if HasSuffix s p then take (length s - length p) s else s)"

text \<open>
  \<open>strings.Cut\<close>: \<^const>\<open>None\<close> when the separator does not occur (Go's \<open>found = false\<close>, where the
  before part is the whole string and the after part is empty).
\<close>

fun Cut :: "string \<Rightarrow> string \<Rightarrow> (string \<times> string) option" where
  "Cut [] sep = (if sep = [] then Some ([], []) else None)"
| "Cut (c # cs) sep =
     (if HasPrefix (c # cs) sep then Some ([], drop (length sep) (c # cs))
      else map_option (\<lambda>(a, b). (c # a, b)) (Cut cs sep))"

definition CutPrefix :: "string \<Rightarrow> string \<Rightarrow> string option" where
  "CutPrefix s p = (if HasPrefix s p then Some (drop (length p) s) else None)"

definition CutSuffix :: "string \<Rightarrow> string \<Rightarrow> string option" where
  "CutSuffix s p = (if HasSuffix s p then Some (take (length s - length p) s) else None)"

definition Contains :: "string \<Rightarrow> string \<Rightarrow> bool" where
  "Contains s sub = (Cut s sub \<noteq> None)"

definition ContainsAny :: "string \<Rightarrow> string \<Rightarrow> bool" where
  "ContainsAny s chars = list_ex (\<lambda>c. c \<in> set chars) s"

fun Join :: "string list \<Rightarrow> string \<Rightarrow> string" where
  "Join [] sep = []"
| "Join [x] sep = x"
| "Join (x # y # xs) sep = x @ sep @ Join (y # xs) sep"

text \<open>\<open>strings.Split\<close> and \<open>strings.SplitSeq\<close> with a one-byte separator.\<close>

fun Split :: "string \<Rightarrow> char \<Rightarrow> string list" where
  "Split [] sep = [[]]"
| "Split (c # cs) sep =
     (if c = sep then [] # Split cs sep
      else (case Split cs sep of [] \<Rightarrow> [[c]] | x # xs \<Rightarrow> (c # x) # xs))"

text \<open>\<open>strings.ReplaceAll\<close> where the replaced text is one byte.\<close>

definition ReplaceByte :: "string \<Rightarrow> char \<Rightarrow> string \<Rightarrow> string" where
  "ReplaceByte s old new = concat (map (\<lambda>c. if c = old then new else [c]) s)"

text \<open>
  \<open>strings.TrimSpace\<close> removes the code points Unicode calls white space. They are listed by their
  UTF-8 encodings, which is what a byte sequence starts or ends with.
\<close>

definition space_encodings :: "string list" where
  "space_encodings =
     [[CHR 0x09], [CHR 0x0A], [CHR 0x0B], [CHR 0x0C], [CHR 0x0D], [CHR 0x20],
      [CHR 0xC2, CHR 0x85], [CHR 0xC2, CHR 0xA0], [CHR 0xE1, CHR 0x9A, CHR 0x80],
      [CHR 0xE2, CHR 0x80, CHR 0x80], [CHR 0xE2, CHR 0x80, CHR 0x81],
      [CHR 0xE2, CHR 0x80, CHR 0x82], [CHR 0xE2, CHR 0x80, CHR 0x83],
      [CHR 0xE2, CHR 0x80, CHR 0x84], [CHR 0xE2, CHR 0x80, CHR 0x85],
      [CHR 0xE2, CHR 0x80, CHR 0x86], [CHR 0xE2, CHR 0x80, CHR 0x87],
      [CHR 0xE2, CHR 0x80, CHR 0x88], [CHR 0xE2, CHR 0x80, CHR 0x89],
      [CHR 0xE2, CHR 0x80, CHR 0x8A], [CHR 0xE2, CHR 0x80, CHR 0xA8],
      [CHR 0xE2, CHR 0x80, CHR 0xA9], [CHR 0xE2, CHR 0x80, CHR 0xAF],
      [CHR 0xE2, CHR 0x81, CHR 0x9F], [CHR 0xE3, CHR 0x80, CHR 0x80]]"

definition leading_space :: "string list \<Rightarrow> string \<Rightarrow> nat" where
  "leading_space encs s = (case find (\<lambda>e. prefix e s) encs of None \<Rightarrow> 0 | Some e \<Rightarrow> length e)"

function trim_leading :: "string list \<Rightarrow> string \<Rightarrow> string" where
  "trim_leading encs s =
     (let n = leading_space encs s in
      if n = 0 \<or> s = [] then s else trim_leading encs (drop n s))"
  by pat_completeness auto
termination
  by (relation "measure (\<lambda>(encs, s). length s)") auto

declare trim_leading.simps [simp del]

definition TrimSpace :: "string \<Rightarrow> string" where
  "TrimSpace s =
     rev (trim_leading (map rev space_encodings) (rev (trim_leading space_encodings s)))"

text \<open>\<open>strings.Fields\<close>: the pieces between runs of white space; \<open>cur\<close> is the piece being read.\<close>

function fields_from :: "string \<Rightarrow> string \<Rightarrow> string list" where
  "fields_from cur s =
     (if s = [] then (if cur = [] then [] else [cur])
      else let n = leading_space space_encodings s in
        if n = 0 then fields_from (cur @ [hd s]) (tl s)
        else (if cur = [] then [] else [cur]) @ fields_from [] (drop n s))"
  by pat_completeness auto
termination
  by (relation "measure (\<lambda>(cur, s). length s)") auto

declare fields_from.simps [simp del]

definition Fields :: "string \<Rightarrow> string list" where "Fields s = fields_from [] s"

section \<open>Package strconv\<close>

definition digit_char :: "nat \<Rightarrow> char" where
  "digit_char d = char_of (48 + d)"

function show_nat :: "nat \<Rightarrow> string" where
  "show_nat n = (if n < 10 then [digit_char n] else show_nat (n div 10) @ [digit_char (n mod 10)])"
  by pat_completeness auto
termination
  by (relation "measure id") auto

declare show_nat.simps [simp del]

definition Itoa :: "int \<Rightarrow> string" where
  "Itoa i = (if i < 0 then CHR ''-'' # show_nat (nat (- i)) else show_nat (nat i))"

text \<open>The value of a run of decimal digits; \<^const>\<open>None\<close> when it is empty or holds another byte.\<close>

fun digits_value :: "nat \<Rightarrow> string \<Rightarrow> nat option" where
  "digits_value acc [] = Some acc"
| "digits_value acc (c # cs) =
     (if is_digit c then digits_value (10 * acc + (byte c - 48)) cs else None)"

definition max_int64 :: int where
  "max_int64 = 9223372036854775807"

definition min_int64 :: int where
  "min_int64 = - 9223372036854775808"

text \<open>
  \<open>strconv.Atoi\<close> and \<open>strconv.ParseInt(s, 10, 64)\<close>: an optional sign, then at least one digit, and
  the value has to fit 64 bits. Both return an error otherwise.
\<close>

definition ParseInt :: "string \<Rightarrow> int option" where
  "ParseInt s =
     (let (neg, ds) =
        (case s of [] \<Rightarrow> (False, [])
         | c # cs \<Rightarrow> if c = CHR ''-'' then (True, cs) else if c = CHR ''+'' then (False, cs)
                    else (False, c # cs))
      in if ds = [] then None
         else case digits_value 0 ds of None \<Rightarrow> None
         | Some n \<Rightarrow>
             (let v = (if neg then - int n else int n)
              in if min_int64 \<le> v \<and> v \<le> max_int64 then Some v else None))"

definition ParseBool :: "string \<Rightarrow> bool option" where
  "ParseBool s =
     (if s \<in> set [''1'', ''t'', ''T'', ''true'', ''TRUE'', ''True''] then Some True
      else if s \<in> set [''0'', ''f'', ''F'', ''false'', ''FALSE'', ''False''] then Some False
      else None)"

section \<open>Facts about them\<close>

lemma Cut_Some: "Cut s sep = Some (a, b) \<Longrightarrow> s = a @ sep @ b"
proof (induction s arbitrary: a)
  case Nil
  then show ?case by (simp split: if_splits)
next
  case (Cons c cs)
  then show ?case by (auto simp: prefix_def split: if_splits)
qed

lemma Cut_byte_Some:
  "Cut s [c] = Some (a, b) \<longleftrightarrow> s = a @ c # b \<and> c \<notin> set a"
proof (induction s arbitrary: a)
  case (Cons x xs)
  show ?case
  proof (cases "x = c")
    case True
    then show ?thesis by (cases a) auto
  next
    case False
    with Cons.IH show ?thesis by (cases a) auto
  qed
qed simp

lemma Cut_byte_None: "Cut s [c] = None \<longleftrightarrow> c \<notin> set s"
  by (induction s) auto

lemma Cut_None_iff: "Cut s sep = None \<longleftrightarrow> \<not> (\<exists>a b. s = a @ sep @ b)"
proof (induction s)
  case (Cons c cs)
  show ?case
  proof (cases "HasPrefix (c # cs) sep")
    case True
    then have "c # cs = [] @ sep @ drop (length sep) (c # cs)" by (auto simp: prefix_def)
    with True show ?thesis by (metis Cut.simps(2) option.distinct(1))
  next
    case False
    have "(\<exists>a b. c # cs = a @ sep @ b) \<longleftrightarrow> (\<exists>a b. cs = a @ sep @ b)"
    proof
      assume "\<exists>a b. c # cs = a @ sep @ b"
      then obtain a b where ab: "c # cs = a @ sep @ b" by blast
      with False have "a \<noteq> []" by (metis append_Nil prefixI)
      with ab show "\<exists>a b. cs = a @ sep @ b" by (cases a) auto
    next
      assume "\<exists>a b. cs = a @ sep @ b"
      then show "\<exists>a b. c # cs = a @ sep @ b" by (metis append_Cons)
    qed
    with False Cons.IH show ?thesis by simp
  qed
qed auto

lemma Contains_iff: "Contains s sub \<longleftrightarrow> (\<exists>a b. s = a @ sub @ b)"
  using Cut_None_iff by (auto simp: Contains_def)

lemma Contains_byte [simp]: "Contains s [c] \<longleftrightarrow> c \<in> set s"
  by (simp add: Contains_def Cut_byte_None)

lemma ContainsAny_iff: "ContainsAny s chars \<longleftrightarrow> set s \<inter> set chars \<noteq> {}"
  by (auto simp: ContainsAny_def list_ex_iff)

lemma CutSuffix_append [simp]: "CutSuffix (s @ p) p = Some s"
  by (simp add: CutSuffix_def suffix_def)

lemma CutSuffix_Some: "CutSuffix s p = Some t \<Longrightarrow> s = t @ p"
  by (auto simp: CutSuffix_def suffix_def split: if_splits)

lemma CutPrefix_append [simp]: "CutPrefix (p @ s) p = Some s"
  by (simp add: CutPrefix_def)

lemma CutPrefix_Some: "CutPrefix s p = Some t \<Longrightarrow> s = p @ t"
  by (auto simp: CutPrefix_def prefix_def split: if_splits)

lemma Split_not_Nil [simp]: "Split s sep \<noteq> []"
  by (induction s) (auto split: list.splits)

lemma Join_Cons: "xs \<noteq> [] \<Longrightarrow> Join (x # xs) sep = x @ sep @ Join xs sep"
  by (cases xs) auto

lemma Join_append: "xs \<noteq> [] \<Longrightarrow> ys \<noteq> [] \<Longrightarrow> Join (xs @ ys) sep = Join xs sep @ sep @ Join ys sep"
  by (induction xs sep rule: Join.induct) (auto simp: Join_Cons)

lemma Join_flat:
  assumes "xs \<noteq> []"
  shows "Join (as @ [Join xs sep] @ bs) sep = Join (as @ xs @ bs) sep"
proof -
  from assms have "Join ([Join xs sep] @ bs) sep = Join (xs @ bs) sep"
    by (cases "bs = []") (simp_all add: Join_append Join_Cons)
  with assms show ?thesis by (cases "as = []") (simp_all add: Join_append)
qed

lemma Join_eq_Nil: "list_all (\<lambda>p. p \<noteq> []) ps \<Longrightarrow> Join ps sep = [] \<longleftrightarrow> ps = []"
  by (cases ps; cases "tl ps") (auto simp: Join_Cons)

lemma Join_Split: "Join (Split s sep) [sep] = s"
proof (induction s)
  case (Cons c cs)
  then show ?case by (cases "Split cs sep" rule: list.exhaust)
      (auto simp: Join_Cons split: list.splits, case_tac x22, auto)
qed simp

lemma Split_no_sep: "x \<in> set (Split s sep) \<Longrightarrow> sep \<notin> set x"
  by (induction s arbitrary: x) (auto split: list.splits if_splits)

lemma Split_append_sep: "Split (a @ sep # b) sep = Split a sep @ Split b sep"
proof (induction a)
  case (Cons c cs)
  then show ?case by (cases "Split cs sep") auto
qed simp

lemma Split_single: "sep \<notin> set s \<Longrightarrow> Split s sep = [s]"
  by (induction s) auto

lemma Split_Join: "xs \<noteq> [] \<Longrightarrow> \<forall>x\<in>set xs. sep \<notin> set x \<Longrightarrow> Split (Join xs [sep]) sep = xs"
proof (induction xs)
  case (Cons x xs)
  then show ?case
    by (cases xs) (auto simp: Split_single Split_append_sep)
qed simp

lemma ReplaceByte_Nil [simp]: "ReplaceByte [] old new = []"
  by (simp add: ReplaceByte_def)

lemma ReplaceByte_Cons [simp]:
  "ReplaceByte (c # s) old new = (if c = old then new else [c]) @ ReplaceByte s old new"
  by (simp add: ReplaceByte_def)

lemma digit_char_byte: "d < 10 \<Longrightarrow> byte (digit_char d) = 48 + d"
  by (simp add: byte_def digit_char_def)

lemma digit_char_is_digit [simp]: "d < 10 \<Longrightarrow> is_digit (digit_char d)"
  by (simp add: is_digit_def digit_char_byte)

lemma show_nat_digits: "c \<in> set (show_nat n) \<Longrightarrow> is_digit c"
proof (induction n arbitrary: c rule: show_nat.induct)
  case (1 n)
  then show ?case by (cases "n < 10") (auto simp: show_nat.simps [of n])
qed

lemma show_nat_not_Nil [simp]: "show_nat n \<noteq> []"
  by (subst show_nat.simps) simp

lemma digits_value_append:
  "digits_value acc (xs @ ys) = Option.bind (digits_value acc xs) (\<lambda>a. digits_value a ys)"
  by (induction xs arbitrary: acc) auto

lemma digits_value_show_nat: "digits_value 0 (show_nat n) = Some n"
proof (induction n rule: show_nat.induct)
  case (1 n)
  show ?case
  proof (cases "n < 10")
    case True
    then show ?thesis by (simp add: show_nat.simps [of n] digit_char_byte)
  next
    case False
    with 1 have "digits_value 0 (show_nat (n div 10)) = Some (n div 10)" by simp
    with False show ?thesis
      by (simp add: show_nat.simps [of n] digits_value_append digit_char_byte)
  qed
qed

lemma show_nat_inject [simp]: "show_nat m = show_nat n \<longleftrightarrow> m = n"
  by (metis digits_value_show_nat option.inject)

lemma show_nat_no_hyphen: "CHR ''-'' \<notin> set (show_nat n)"
  by (auto simp: is_digit_def byte_def dest!: show_nat_digits)

lemma Itoa_inject [simp]: "Itoa i = Itoa j \<longleftrightarrow> i = j"
proof -
  have "show_nat n \<noteq> CHR ''-'' # s" for n s
    using show_nat_no_hyphen [of n] by auto
  then show ?thesis by (auto simp: Itoa_def) (metis eq_nat_nat_iff linorder_le_less_linear)+
qed

lemma Itoa_chars: "c \<in> set (Itoa i) \<Longrightarrow> is_digit c \<or> c = CHR ''-''"
  by (auto simp: Itoa_def dest: show_nat_digits split: if_splits)

section \<open>Searching and numbers\<close>

lemma map_sum_Inr_iff: "map_sum f g r = Inr y \<longleftrightarrow> (\<exists>x. r = Inr x \<and> y = g x)"
  by (cases r) auto

lemma Cut_first:
  assumes "hd sep \<notin> set (tl sep)" and "sep \<noteq> []" and "\<not> Contains a sep"
  shows "Cut (a @ sep @ b) sep = Some (a, b)"
  using assms(3)
proof (induction a)
  case Nil
  obtain c cs where "sep = c # cs" using assms(2) by (cases sep) auto
  then show ?case by simp
next
  case (Cons c a)
  have "\<not> prefix sep (c # a @ sep @ b)"
  proof
    assume p: "prefix sep (c # a @ sep @ b)"
    then obtain zs where zs: "c # a @ sep @ b = sep @ zs" by (auto simp: prefix_def)
    show False
    proof (cases "length sep \<le> length (c # a)")
      case True
      then have "prefix sep (c # a)" using p by (metis append_Cons prefix_length_prefix prefixI)
      then show False using Cons.prems by (simp add: Contains_def)
    next
      case False
      then have l: "length (c # a) < length sep" by simp
      then have "sep ! length (c # a) = (sep @ zs) ! length (c # a)" by (simp add: nth_append)
      also have "\<dots> = ((c # a) @ sep @ b) ! length (c # a)" using zs by simp
      also have "\<dots> = hd sep" using assms(2) by (simp add: nth_append hd_conv_nth del: append_Cons)
      finally have "hd sep = tl sep ! length a" using l by (simp add: nth_tl)
      moreover have "length a < length (tl sep)" using l by simp
      ultimately show False using assms(1) by (metis nth_mem)
    qed
  qed
  moreover have "\<not> Contains a sep"
    using Cons.prems by (cases "Cut a sep") (auto simp: Contains_def split: if_splits)
  ultimately show ?case using Cons.IH by simp
qed

lemma Contains_eval [go_eval]:
  "Contains [] sep \<longleftrightarrow> sep = []"
  "Contains (c # cs) sep \<longleftrightarrow> HasPrefix (c # cs) sep \<or> Contains cs sep"
  by (auto simp: Contains_def)

lemma ParseInt_show_nat: "int n \<le> max_int64 \<Longrightarrow> ParseInt (show_nat n) = Some (int n)"
proof -
  assume a: "int n \<le> max_int64"
  obtain c cs where s: "show_nat n = c # cs" by (cases "show_nat n") auto
  then have "is_digit c" using show_nat_digits [of c n] by simp
  then have "c \<noteq> CHR ''-''" "c \<noteq> CHR ''+''" by (auto simp: is_digit_def byte_def)
  with s a show ?thesis using digits_value_show_nat [of n]
    by (simp add: ParseInt_def min_int64_def)
qed

lemma Contains_skip: "hd sep \<notin> set a \<Longrightarrow> sep \<noteq> [] \<Longrightarrow> Contains (a @ b) sep = Contains b sep"
proof (induction a)
  case (Cons c a)
  then have "\<not> prefix sep (c # a @ b)" by (cases sep) auto
  with Cons show ?case by (auto simp: Contains_def)
qed simp

lemma show_nat_lacks: "\<not> is_digit c \<Longrightarrow> c \<notin> set (show_nat n)"
  using show_nat_digits by blast

lemma takeWhile_digits:
  "t = [] \<or> \<not> is_digit (hd t) \<Longrightarrow> takeWhile is_digit (show_nat n @ t) = show_nat n"
  using show_nat_digits [of _ n] by (cases t) (auto simp: takeWhile_append takeWhile_eq_all_conv)

section \<open>Trimming\<close>

lemma trim_leading_suffix: "suffix (trim_leading encs s) s"
proof (induction encs s rule: trim_leading.induct)
  case (1 encs s)
  show ?case
  proof (cases "leading_space encs s = 0 \<or> s = []")
    case False
    with 1 have "suffix (trim_leading encs (drop (leading_space encs s) s)) (drop (leading_space encs s) s)"
      by simp
    with False show ?thesis
      by (subst trim_leading.simps) (auto simp: Let_def intro: suffix_order.trans suffix_drop)
  qed (auto simp: trim_leading.simps [of encs s] Let_def)
qed

lemma trim_leading_length: "length (trim_leading encs s) \<le> length s"
  using trim_leading_suffix by (rule suffix_length_le)

lemma trim_leading_same: "length (trim_leading encs s) = length s \<Longrightarrow> trim_leading encs s = s"
  using trim_leading_suffix [of encs s] by (metis append_Nil append_eq_append_conv suffix_def)

text \<open>A value \<open>TrimSpace\<close> leaves alone has no white space at either end.\<close>

lemma TrimSpace_fixed:
  assumes "TrimSpace v = v"
  shows "trim_leading space_encodings v = v"
    and "trim_leading (map rev space_encodings) (rev v) = rev v"
proof -
  have "length v \<le> length (trim_leading space_encodings v)"
    using assms trim_leading_length [of "map rev space_encodings" "rev (trim_leading space_encodings v)"]
    by (metis TrimSpace_def length_rev)
  with trim_leading_length show left: "trim_leading space_encodings v = v"
    by (intro trim_leading_same) (metis le_antisym)
  with assms show "trim_leading (map rev space_encodings) (rev v) = rev v"
    by (metis TrimSpace_def rev_rev_ident)
qed

text \<open>A visible ASCII byte at an end stops the trimming there.\<close>

definition solid :: "char \<Rightarrow> bool" where
  "solid c \<longleftrightarrow> 33 \<le> byte c \<and> byte c < 127"

lemma leading_space_solid:
  assumes "solid c"
  shows "leading_space space_encodings (c # s) = 0"
    and "leading_space (map rev space_encodings) (c # s) = 0"
proof -
  have "find (\<lambda>e. prefix e (c # s)) space_encodings = None"
    using assms unfolding find_None_iff by (auto simp: space_encodings_def solid_def byte_def)
  then show "leading_space space_encodings (c # s) = 0" by (simp add: leading_space_def)
  have "find (\<lambda>e. prefix e (c # s)) (map rev space_encodings) = None"
    using assms unfolding find_None_iff by (auto simp: space_encodings_def solid_def byte_def)
  then show "leading_space (map rev space_encodings) (c # s) = 0" by (simp add: leading_space_def)
qed

lemma trim_leading_solid [simp]:
  assumes "solid c"
  shows "trim_leading space_encodings (c # s) = c # s"
    and "trim_leading (map rev space_encodings) (c # s) = c # s"
  using leading_space_solid [OF assms] by (simp_all add: trim_leading.simps [of _ "c # s"] Let_def)

lemma trim_leading_blank [simp]:
  "trim_leading space_encodings (CHR '' '' # s) = trim_leading space_encodings s"
  "trim_leading (map rev space_encodings) (CHR '' '' # s) = trim_leading (map rev space_encodings) s"
proof -
  have "leading_space space_encodings (CHR '' '' # s) = 1"
       "leading_space (map rev space_encodings) (CHR '' '' # s) = 1"
    by (simp_all add: leading_space_def space_encodings_def)
  then show "trim_leading space_encodings (CHR '' '' # s) = trim_leading space_encodings s"
    "trim_leading (map rev space_encodings) (CHR '' '' # s) = trim_leading (map rev space_encodings) s"
    by (simp_all add: trim_leading.simps [of _ "CHR '' '' # s"] Let_def)
qed

lemma TrimSpace_blank_left: "TrimSpace v = v \<Longrightarrow> TrimSpace (CHR '' '' # v) = v"
  using TrimSpace_fixed [of v] by (simp add: TrimSpace_def)

lemma TrimSpace_solid:
  assumes "solid c" and "solid (last (c # s))"
  shows "TrimSpace (c # s) = c # s" and "TrimSpace ((c # s) @ '' '') = c # s"
proof -
  obtain d t where rv: "rev (c # s) = d # t" by (metis rev_is_Nil_conv neq_Nil_conv list.distinct(1))
  then have "solid d" using assms(2) by (metis hd_rev list.sel(1))
  then show "TrimSpace (c # s) = c # s"
    using assms(1) rv by (metis TrimSpace_def rev_rev_ident trim_leading_solid)
  have "rev ((c # s) @ '' '') = CHR '' '' # d # t" using rv by simp
  then show "TrimSpace ((c # s) @ '' '') = c # s"
    using assms(1) \<open>solid d\<close> rv unfolding TrimSpace_def
    by (metis append_Cons rev_rev_ident trim_leading_blank(2) trim_leading_solid)
qed

end
