(* ===== verification/Shell.thy ===== *)
theory Shell
  imports GoPrelude
begin

text \<open>
  Package \<open>internal/shell\<close>: the quoting of a value as one POSIX shell word and the check that a
  value can sit on one line of the Job template (\<open>src/internal/shell/quote.go\<close>). The package
  promises that a quoted value reaches the program unchanged, so the theory also states what the
  shell does with a command line: \<open>sh_lex\<close> splits the subset of the POSIX grammar the built
  commands use, and answers \<^const>\<open>None\<close> outside it. The components that build commands prove
  their results against it.
\<close>

section \<open>UTF-8, as unicode/utf8 reads it\<close>

definition cont :: "nat \<Rightarrow> bool" where
  "cont b \<longleftrightarrow> 128 \<le> b \<and> b < 192"

definition two_byte :: "nat \<Rightarrow> nat \<Rightarrow> bool" where
  "two_byte a b \<longleftrightarrow> 194 \<le> a \<and> a \<le> 223 \<and> cont b"

definition three_byte :: "nat \<Rightarrow> nat \<Rightarrow> nat \<Rightarrow> bool" where
  "three_byte a b c \<longleftrightarrow>
     224 \<le> a \<and> a \<le> 239 \<and> cont b \<and> cont c \<and> (a = 224 \<longrightarrow> 160 \<le> b) \<and> (a = 237 \<longrightarrow> b < 160)"

definition four_byte :: "nat \<Rightarrow> nat \<Rightarrow> nat \<Rightarrow> nat \<Rightarrow> bool" where
  "four_byte a b c d \<longleftrightarrow>
     240 \<le> a \<and> a \<le> 244 \<and> cont b \<and> cont c \<and> cont d \<and>
     (a = 240 \<longrightarrow> 144 \<le> b) \<and> (a = 244 \<longrightarrow> b < 144)"

text \<open>
  The first code point of a string and what follows it; \<^const>\<open>None\<close> where the bytes are not a
  well-formed encoding (a stray continuation byte, an overlong form, a surrogate, a value beyond
  the last code point, a cut-off sequence).
\<close>

fun decode_rune :: "string \<Rightarrow> (nat \<times> string) option" where
  "decode_rune [] = None"
| "decode_rune (a # as) =
     (if byte a < 128 then Some (byte a, as)
      else case as of [] \<Rightarrow> None
      | b # bs \<Rightarrow>
          if two_byte (byte a) (byte b)
          then Some ((byte a - 192) * 64 + (byte b - 128), bs)
          else (case bs of [] \<Rightarrow> None
          | c # cs \<Rightarrow>
              if three_byte (byte a) (byte b) (byte c)
              then Some ((byte a - 224) * 4096 + (byte b - 128) * 64 + (byte c - 128), cs)
              else (case cs of [] \<Rightarrow> None
              | d # ds \<Rightarrow>
                  if four_byte (byte a) (byte b) (byte c) (byte d)
                  then Some ((byte a - 240) * 262144 + (byte b - 128) * 4096
                             + (byte c - 128) * 64 + (byte d - 128), ds)
                  else None)))"

lemma decode_rune_shorter: "decode_rune s = Some (r, s') \<Longrightarrow> length s' < length s"
  by (cases s) (auto split: if_splits list.splits)

text \<open>All code points of a string, where the string is valid UTF-8.\<close>

function runes :: "string \<Rightarrow> nat list option" where
  "runes s =
     (if s = [] then Some []
      else case decode_rune s of None \<Rightarrow> None
      | Some (r, s') \<Rightarrow> map_option (Cons r) (runes s'))"
  by pat_completeness auto
termination
  by (relation "measure length") (auto dest: decode_rune_shorter)

declare runes.simps [simp del]

definition ValidString :: "string \<Rightarrow> bool" where
  "ValidString s \<longleftrightarrow> runes s \<noteq> None"

lemma runes_Nil [simp]: "runes [] = Some []"
  by (simp add: runes.simps)

lemma runes_ascii [simp]: "byte c < 128 \<Longrightarrow> runes (c # s) = map_option (Cons (byte c)) (runes s)"
  by (simp add: runes.simps [of "c # s"])

lemma runes_ascii_string: "list_all (\<lambda>c. byte c < 128) s \<Longrightarrow> runes s = Some (map byte s)"
  by (induction s) auto

lemma decode_rune_ascii_bytes:
  assumes "decode_rune s = Some (r, s')" and "c \<in> set s" and "byte c < 128"
  shows "c \<in> set s' \<or> byte c = r"
  using assms
  by (cases s) (auto simp: two_byte_def three_byte_def four_byte_def cont_def
      split: if_splits list.splits)

text \<open>A byte below 128 in a valid string is a code point of its own.\<close>

lemma runes_ascii_bytes: "runes s = Some rs \<Longrightarrow> c \<in> set s \<Longrightarrow> byte c < 128 \<Longrightarrow> byte c \<in> set rs"
proof (induction s arbitrary: rs rule: runes.induct)
  case (1 s)
  from "1.prems" obtain r s' rs' where d: "decode_rune s = Some (r, s')"
    and r: "runes s' = Some rs'" "rs = r # rs'" and ne: "s \<noteq> []"
    by (auto simp: runes.simps [of s] split: if_splits option.splits)
  from decode_rune_ascii_bytes [OF d "1.prems"(2,3)] show ?case
    using "1.IH" [OF ne d] r "1.prems"(3) by auto
qed

section \<open>Quote and CheckSingleLine\<close>

definition Quote :: "string \<Rightarrow> string" where
  "Quote v =
     (if v = [] then [squote, squote]
      else [squote] @ ReplaceByte v squote [squote, dquote, squote, dquote, squote] @ [squote])"

definition notPlainYAML :: "nat \<Rightarrow> bool" where
  "notPlainYAML r =
     (if r = 0x09 then False
      else if r < 0x20 then True
      else if 0x7f \<le> r \<and> r \<le> 0x9f then True
      else if r = 0x2028 \<or> r = 0x2029 then True
      else if r = 0xfffe \<or> r = 0xffff then True
      else False)"

datatype shell_error =
    NotUTF8 string
  | ForbiddenChar string nat

definition CheckSingleLine :: "string \<Rightarrow> string \<Rightarrow> shell_error option" where
  "CheckSingleLine name value =
     (case runes value of None \<Rightarrow> Some (NotUTF8 name)
      | Some rs \<Rightarrow>
          (case find notPlainYAML rs of None \<Rightarrow> None
           | Some found \<Rightarrow> Some (ForbiddenChar name found)))"

text \<open>
  The loop \<open>for _, field := range fields { if err := CheckSingleLine(...) }\<close> the command builders
  share: the first field that fails decides.
\<close>

fun check_fields :: "(string \<times> string) list \<Rightarrow> shell_error option" where
  "check_fields [] = None"
| "check_fields ((name, value) # fs) =
     (case CheckSingleLine name value of Some e \<Rightarrow> Some e | None \<Rightarrow> check_fields fs)"

lemma check_fields_None [go_dest]:
  "check_fields fs = None \<longleftrightarrow> (\<forall>(n, v) \<in> set fs. CheckSingleLine n v = None)"
  by (induction fs rule: check_fields.induct) (auto split: option.splits)

lemma CheckSingleLine_ascii:
  assumes "list_all (\<lambda>c. 0x20 \<le> byte c \<and> byte c < 0x7f) s"
  shows "CheckSingleLine n s = None"
proof -
  have "runes s = Some (map byte s)"
    using assms by (intro runes_ascii_string) (auto simp: list_all_iff)
  moreover have "find notPlainYAML (map byte s) = None"
    using assms by (auto simp: find_None_iff notPlainYAML_def list_all_iff)
  ultimately show ?thesis by (simp add: CheckSingleLine_def)
qed

lemmas CheckSingleLine_eval [go_eval] = CheckSingleLine_ascii byte_def

text \<open>A byte that breaks the line of the block scalar, or ends it.\<close>

definition line_safe :: "string \<Rightarrow> bool" where
  "line_safe s \<longleftrightarrow> (\<forall>c \<in> set s. c = tab_byte \<or> 0x20 \<le> byte c \<and> byte c \<noteq> 0x7f)"

lemma line_safe_append [simp]: "line_safe (s @ t) \<longleftrightarrow> line_safe s \<and> line_safe t"
  by (auto simp: line_safe_def)

lemma line_safe_Cons [simp]:
  "line_safe (c # s) \<longleftrightarrow> (c = tab_byte \<or> 0x20 \<le> byte c \<and> byte c \<noteq> 0x7f) \<and> line_safe s"
  by (auto simp: line_safe_def)

lemma line_safe_Nil [simp]: "line_safe []"
  by (simp add: line_safe_def)

lemma line_safe_Join: "\<forall>x \<in> set xs. line_safe x \<Longrightarrow> line_safe sep \<Longrightarrow> line_safe (Join xs sep)"
  by (induction xs sep rule: Join.induct) auto

lemma byte_lits [simp]:
  "byte squote = 39" "byte dquote = 34" "byte backslash = 92" "byte (CHR '' '') = 32"
  "byte tab_byte = 9" "byte newline_byte = 10" "byte return_byte = 13"
  by (simp_all add: byte_def)

lemma CheckSingleLine_line_safe: "CheckSingleLine n v = None \<Longrightarrow> line_safe v"
proof (unfold line_safe_def, rule ballI)
  fix c assume ok: "CheckSingleLine n v = None" and c: "c \<in> set v"
  from ok obtain rs where rs: "runes v = Some rs" and "find notPlainYAML rs = None"
    by (auto simp: CheckSingleLine_def split: option.splits)
  then have plain: "\<forall>r \<in> set rs. \<not> notPlainYAML r" by (auto simp: find_None_iff)
  show "c = tab_byte \<or> 0x20 \<le> byte c \<and> byte c \<noteq> 0x7f"
  proof (cases "byte c < 128")
    case True
    with runes_ascii_bytes [OF rs c] plain have "\<not> notPlainYAML (byte c)" by blast
    moreover have "byte c = 9 \<Longrightarrow> c = tab_byte" by (metis byte_inject byte_lits(5))
    ultimately show ?thesis by (auto simp: notPlainYAML_def split: if_splits)
  qed auto
qed

lemma line_safe_Quote: "line_safe v \<Longrightarrow> line_safe (Quote v)"
proof -
  have "line_safe v \<Longrightarrow> line_safe (ReplaceByte v squote [squote, dquote, squote, dquote, squote])"
    by (induction v) auto
  then show "line_safe v \<Longrightarrow> line_safe (Quote v)" by (auto simp: Quote_def)
qed

lemma line_safe_Itoa [simp]: "line_safe (Itoa i)"
proof -
  have "\<forall>n. line_safe (show_nat n)"
    by (auto simp: line_safe_def is_digit_def dest!: show_nat_digits)
  then show ?thesis by (simp add: Itoa_def byte_def)
qed

lemmas line_safe_eval = line_safe_Join line_safe_Quote byte_def

section \<open>What the shell reads\<close>

datatype sh_token = Word string | Op string

datatype sh_mode = Unquoted | Single | Double

text \<open>
  Bytes that stand for themselves outside quotes. The other printable bytes start an expansion,
  an operator, a comment or a pattern; a command that used one is outside the subset.
\<close>

definition plain_byte :: "char \<Rightarrow> bool" where
  "plain_byte c \<longleftrightarrow> is_digit c \<or> is_lower c \<or> is_upper c \<or> c \<in> set ''-_=./+,:@%''"

definition emit :: "string option \<Rightarrow> sh_token list" where
  "emit cur = (case cur of None \<Rightarrow> [] | Some w \<Rightarrow> [Word w])"

definition word_so_far :: "string option \<Rightarrow> string" where
  "word_so_far cur = (case cur of None \<Rightarrow> [] | Some w \<Rightarrow> w)"

fun sh_lex :: "sh_mode \<Rightarrow> string option \<Rightarrow> string \<Rightarrow> sh_token list option" where
  "sh_lex Unquoted cur [] = Some (emit cur)"
| "sh_lex Unquoted cur (c # cs) =
     (if c = CHR '' '' \<or> c = tab_byte
      then map_option (append (emit cur)) (sh_lex Unquoted None cs)
      else if c = squote then sh_lex Single (Some (word_so_far cur)) cs
      else if c = dquote then sh_lex Double (Some (word_so_far cur)) cs
      else if c = CHR '';'' then map_option (append (emit cur @ [Op '';''])) (sh_lex Unquoted None cs)
      else if c = CHR ''|'' then map_option (append (emit cur @ [Op ''|''])) (sh_lex Unquoted None cs)
      else if c = CHR ''&'' then
        (case cs of [] \<Rightarrow> None
         | d # ds \<Rightarrow>
             if d = CHR ''&''
             then map_option (append (emit cur @ [Op ''&&''])) (sh_lex Unquoted None ds)
             else None)
      else if plain_byte c then sh_lex Unquoted (Some (word_so_far cur @ [c])) cs
      else None)"
| "sh_lex Single cur [] = None"
| "sh_lex Single cur (c # cs) =
     (if c = squote then sh_lex Unquoted cur cs
      else sh_lex Single (Some (word_so_far cur @ [c])) cs)"
| "sh_lex Double cur [] = None"
| "sh_lex Double cur (c # cs) =
     (if c = dquote then sh_lex Unquoted cur cs
      else if c \<in> {CHR ''$'', CHR 0x60, backslash} then None
      else sh_lex Double (Some (word_so_far cur @ [c])) cs)"

definition sh_tokens :: "string \<Rightarrow> sh_token list option" where
  "sh_tokens s = sh_lex Unquoted None s"

lemma emit_simps [simp]: "emit None = []" "emit (Some w) = [Word w]"
  by (simp_all add: emit_def)

lemma word_so_far_simps [simp]: "word_so_far None = []" "word_so_far (Some w) = w"
  by (simp_all add: word_so_far_def)

lemma plain_byte_not_special:
  "plain_byte c \<Longrightarrow> c \<noteq> CHR '' '' \<and> c \<noteq> tab_byte \<and> c \<noteq> squote \<and> c \<noteq> dquote \<and>
     c \<noteq> CHR '';'' \<and> c \<noteq> CHR ''|'' \<and> c \<noteq> CHR ''&''"
  by (auto simp: plain_byte_def is_digit_def is_lower_def is_upper_def byte_def)

text \<open>
  A piece of command text is rendered as a word when the shell, starting between words, reads the
  piece as exactly that word and goes on unquoted with whatever follows.
\<close>

definition renders :: "string \<Rightarrow> string \<Rightarrow> bool" where
  "renders piece w \<longleftrightarrow>
     (\<forall>rest. sh_lex Unquoted None (piece @ rest) = sh_lex Unquoted (Some w) rest)"

lemma sh_lex_single_quoted:
  "sh_lex Single (Some w)
     (ReplaceByte v squote [squote, dquote, squote, dquote, squote] @ squote # rest) =
   sh_lex Unquoted (Some (w @ v)) rest"
  by (induction v arbitrary: w) auto

lemma renders_Quote [intro, simp]: "renders (Quote v) v"
  by (simp add: renders_def Quote_def sh_lex_single_quoted)

lemma sh_lex_plain:
  "list_all plain_byte s \<Longrightarrow> sh_lex Unquoted (Some w) (s @ rest) = sh_lex Unquoted (Some (w @ s)) rest"
  by (induction s arbitrary: w) (auto simp: plain_byte_not_special)

lemma renders_plain [intro]: "s \<noteq> [] \<Longrightarrow> list_all plain_byte s \<Longrightarrow> renders s s"
proof (cases s)
  case (Cons c cs)
  assume "list_all plain_byte s"
  with Cons show ?thesis
    using sh_lex_plain [of cs "[c]"] by (simp add: renders_def plain_byte_not_special)
qed simp

text \<open>Evaluates \<^const>\<open>renders\<close> on a literal without shell syntax, and on lists of pieces.\<close>

lemmas renders_eval = renders_plain plain_byte_def is_digit_def is_lower_def is_upper_def byte_def

lemma renders_Itoa [simp]: "renders (Itoa i) (Itoa i)"
proof (rule renders_plain)
  show "Itoa i \<noteq> []" by (simp add: Itoa_def)
  have "\<forall>n. list_all plain_byte (show_nat n)"
    by (auto simp: list_all_iff plain_byte_def dest: show_nat_digits)
  then show "list_all plain_byte (Itoa i)" by (simp add: Itoa_def plain_byte_def)
qed

lemma renders_if [simp]:
  "list_all2 renders (if b then ps else []) (if b then ws else []) \<longleftrightarrow> (b \<longrightarrow> list_all2 renders ps ws)"
  by simp

lemma renders_not_Nil: "renders p w \<Longrightarrow> p \<noteq> []"
proof
  assume "renders p w" "p = []"
  then have "sh_lex Unquoted None [] = sh_lex Unquoted (Some w) []"
    unfolding renders_def by (metis append_Nil)
  then show False by simp
qed

lemma sh_lex_Join_words:
  "list_all2 renders ps ws \<Longrightarrow> ps \<noteq> [] \<Longrightarrow>
     sh_lex Unquoted None (Join ps '' '' @ rest) =
     map_option (append (map Word (butlast ws))) (sh_lex Unquoted (Some (last ws)) rest)"
proof (induction ps ws rule: list_all2_induct)
  case (Cons p ps w ws)
  show ?case
  proof (cases "ps = []")
    case True
    with Cons show ?thesis by (auto simp: renders_def option.map_ident)
  next
    case False
    then have "Join (p # ps) '' '' = p @ '' '' @ Join ps '' ''" by (simp add: Join_Cons)
    with Cons False show ?thesis
      by (auto simp: renders_def option.map_comp comp_def intro!: option.map_cong0)
  qed
qed simp

text \<open>Pieces separated by single spaces are read as exactly the words they render.\<close>

lemma sh_tokens_Join:
  assumes "list_all2 renders ps ws" and "ps \<noteq> []"
  shows "sh_tokens (Join ps '' '') = Some (map Word ws)"
proof -
  from assms have "ws \<noteq> []" by auto
  with sh_lex_Join_words [OF assms, of "[]"] show ?thesis
    by (simp add: sh_tokens_def flip: map_append) (metis append_butlast_last_id list.simps(8,9) map_append)
qed

text \<open>A chained command: the words, an operator, then the rest of the line.\<close>

lemma sh_tokens_Join_and:
  assumes "list_all2 renders ps ws" and "ps \<noteq> []"
  shows "sh_tokens (Join ps '' '' @ '' && '' @ rest) =
           map_option (append (map Word ws @ [Op ''&&''])) (sh_tokens rest)"
proof -
  from assms have "ws \<noteq> []" by auto
  then have "map Word (butlast ws) @ [Word (last ws)] = map Word ws"
    by (metis append_butlast_last_id list.simps(8,9) map_append)
  with sh_lex_Join_words [OF assms, of "'' && '' @ rest"] show ?thesis
    by (simp add: sh_tokens_def option.map_comp comp_def)
      (metis append_Cons append_Nil append_assoc)
qed

text \<open>
  A segment of a longer line: text that ends where the shell is between words and contributes a
  fixed run of tokens whatever follows. Segments compose by concatenation.
\<close>

definition seg :: "string \<Rightarrow> sh_token list \<Rightarrow> bool" where
  "seg s ts \<longleftrightarrow>
     (\<forall>rest. sh_lex Unquoted None (s @ rest) =
        (case sh_lex Unquoted None rest of None \<Rightarrow> None | Some us \<Rightarrow> Some (ts @ us)))"

lemma seg_Nil [intro, simp]: "seg [] []"
  by (simp add: seg_def split: option.splits)

lemma seg_append [intro]: "seg s ts \<Longrightarrow> seg t us \<Longrightarrow> seg (s @ t) (ts @ us)"
  by (simp add: seg_def split: option.splits)

lemma seg_if: "(b \<Longrightarrow> seg s ts) \<Longrightarrow> seg (if b then s else []) (if b then ts else [])"
  by simp

lemma seg_words:
  assumes "list_all2 renders ps ws"
  shows "seg (concat (map (\<lambda>p. p @ '' '') ps)) (map Word ws)"
  using assms
proof (induction rule: list_all2_induct)
  case (Cons p ps w ws)
  have "seg (p @ '' '') [Word w]" using Cons.hyps
    by (simp add: seg_def renders_def map_option_case split: option.splits)
  from seg_append [OF this Cons.IH] show ?case by simp
qed simp

lemma seg_ops [intro]:
  "seg ''&& '' [Op ''&&'']" "seg ''| '' [Op ''|'']" "seg ''; '' [Op '';'']"
  by (simp_all add: seg_def map_option_case split: option.splits)

text \<open>Words separated by blanks, with the operator or the end of the line right behind them.\<close>

lemma seg_Join_blank:
  assumes "list_all2 renders ps ws" and "ps \<noteq> []"
  shows "seg (Join ps '' '' @ '' '') (map Word ws)"
proof -
  have "concat (map (\<lambda>p. p @ '' '') ps) = Join ps '' '' @ '' ''" if "ps \<noteq> []" for ps
    using that by (induction ps rule: list_nonempty_induct) (simp_all add: Join_Cons)
  with seg_words [OF assms(1)] assms(2) show ?thesis by metis
qed

lemma seg_Join_semi:
  assumes "list_all2 renders ps ws" and "ps \<noteq> []"
  shows "seg (Join ps '' '' @ ''; '') (map Word ws @ [Op '';''])"
proof -
  from assms have "ws \<noteq> []" by auto
  then have "map Word (butlast ws) @ [Word (last ws)] = map Word ws"
    by (metis append_butlast_last_id list.simps(8,9) map_append)
  with sh_lex_Join_words [OF assms] show ?thesis
    by (simp add: seg_def map_option_case split: option.splits)
qed

lemma seg_tokens:
  assumes "seg s ts" and "list_all2 renders ps ws" and "ps \<noteq> []"
  shows "sh_tokens (s @ Join ps '' '') = Some (ts @ map Word ws)"
  using assms(1) sh_tokens_Join [OF assms(2,3)] by (simp add: seg_def sh_tokens_def)

text \<open>
  C7: \<open>Quote\<close> renders any value, whatever bytes it holds, as exactly one POSIX shell word: the
  shell reads the quoted text back as that value and as nothing else.
\<close>

theorem Quote_one_word: "sh_tokens (Quote v) = Some [Word v]"
  using renders_Quote [of v] by (simp add: renders_def sh_tokens_def) (metis append_Nil2 emit_simps(2) sh_lex.simps(1))

end
