(* ===== verification/GoPath.thy ===== *)
theory GoPath
  imports GoPrelude
begin

text \<open>
  The part of Go's \<open>path\<close> package the sources use (\<open>Clean\<close>, \<open>Join\<close>, \<open>Dir\<close>, \<open>Base\<close>, \<open>IsAbs\<close>),
  written over the elements between slashes, and a lexical reading of a path as a walk through
  directories. The components that resolve a user's path against a mount point prove that the
  result stays under it with the lemmas below. Symbolic links are not modelled: the guarantee of
  the code is lexical, as \<open>src/internal/strategy/paths.go\<close> says.
\<close>

abbreviation slash :: char where "slash \<equiv> CHR ''/''"

definition clean_step :: "bool \<Rightarrow> string \<Rightarrow> string list \<Rightarrow> string list" where
  "clean_step rooted e st =
     (if e = [] \<or> e = ''.'' then st
      else if e = ''..'' then
        (case st of [] \<Rightarrow> if rooted then [] else [''..'']
         | t # ts \<Rightarrow> if t = ''..'' then ''..'' # st else ts)
      else e # st)"

definition IsAbs :: "string \<Rightarrow> bool" where
  "IsAbs p = HasPrefix p ''/''"

definition Clean :: "string \<Rightarrow> string" where
  "Clean p =
     (let body = Join (rev (fold (clean_step (IsAbs p)) (Split p slash) [])) ''/''
      in if IsAbs p then ''/'' @ body else if body = [] then ''.'' else body)"

definition path_Join :: "string list \<Rightarrow> string" where
  "path_Join elems =
     (case dropWhile (\<lambda>e. e = []) elems of [] \<Rightarrow> [] | es \<Rightarrow> Clean (Join es ''/''))"

definition path_Dir :: "string \<Rightarrow> string" where
  "path_Dir p = Clean (rev (dropWhile (\<lambda>c. c \<noteq> slash) (rev p)))"

definition path_Base :: "string \<Rightarrow> string" where
  "path_Base p =
     (if p = [] then ''.''
      else let q = dropWhile (\<lambda>c. c = slash) (rev p)
           in if q = [] then ''/'' else rev (takeWhile (\<lambda>c. c \<noteq> slash) q))"

text \<open>The non-empty elements of a path, and where a walk along them ends.\<close>

definition elements :: "string \<Rightarrow> string list" where
  "elements p = filter (\<lambda>e. e \<noteq> []) (Split p slash)"

fun walk :: "string list \<Rightarrow> string list \<Rightarrow> string list" where
  "walk here [] = here"
| "walk here (e # es) =
     (if e = [] \<or> e = ''.'' then walk here es
      else if e = ''..'' then walk (butlast here) es
      else walk (here @ [e]) es)"

text \<open>The absolute location a path names, as a list of directory names from the root.\<close>

definition location :: "string \<Rightarrow> string list" where
  "location p = walk [] (Split p slash)"

definition plain_elements :: "string list \<Rightarrow> bool" where
  "plain_elements es \<longleftrightarrow> (\<forall>e \<in> set es. e \<noteq> [] \<and> e \<noteq> ''.'' \<and> e \<noteq> ''..'' \<and> slash \<notin> set e)"

text \<open>
  A path lies under a root when its elements are the root's followed by ordinary names, so no
  element of the rest can lead out again.
\<close>

definition under :: "string \<Rightarrow> string \<Rightarrow> bool" where
  "under root p \<longleftrightarrow> (\<exists>rest. elements p = elements root @ rest \<and> plain_elements rest)"

lemma plain_elements_simps [simp]:
  "plain_elements []"
  "plain_elements (e # es) \<longleftrightarrow> e \<noteq> [] \<and> e \<noteq> ''.'' \<and> e \<noteq> ''..'' \<and> slash \<notin> set e \<and> plain_elements es"
  "plain_elements (es @ fs) \<longleftrightarrow> plain_elements es \<and> plain_elements fs"
  by (auto simp: plain_elements_def)

lemma plain_elements_butlast: "plain_elements es \<Longrightarrow> plain_elements (butlast es)"
  by (auto simp: plain_elements_def dest: in_set_butlastD)

lemma plain_elements_walk:
  "plain_elements here \<Longrightarrow> \<forall>e \<in> set es. slash \<notin> set e \<Longrightarrow> plain_elements (walk here es)"
  by (induction here es rule: walk.induct) (auto intro: plain_elements_butlast)

lemma fold_clean_step_rooted:
  "plain_elements st \<Longrightarrow> \<forall>e \<in> set es. slash \<notin> set e \<Longrightarrow>
     rev (fold (clean_step True) es st) = walk (rev st) es"
proof (induction es arbitrary: st)
  case (Cons e es)
  show ?case
  proof (cases "e = [] \<or> e = ''.'' \<or> e = ''..''")
    case True
    with Cons show ?thesis by (cases st) (auto simp: clean_step_def)
  next
    case False
    with Cons show ?thesis by (auto simp: clean_step_def)
  qed
qed simp

lemma walk_append: "walk here (es @ fs) = walk (walk here es) fs"
  by (induction here es rule: walk.induct) auto

lemma walk_plain: "plain_elements es \<Longrightarrow> walk here es = here @ es"
  by (induction here es rule: walk.induct) auto

lemma Split_slash_free: "\<forall>e \<in> set (Split p slash). slash \<notin> set e"
  using Split_no_sep by blast

lemma plain_elements_location: "plain_elements (location p)"
  unfolding location_def by (rule plain_elements_walk) (simp_all add: Split_slash_free)

lemma elements_rooted_Join: "plain_elements es \<Longrightarrow> elements (slash # Join es ''/'') = es"
proof (cases "es = []")
  case False
  assume p: "plain_elements es"
  then have "Split (Join es ''/'') slash = es"
    using False Split_Join [of es slash] by (auto simp: plain_elements_def)
  with p show ?thesis by (auto simp: elements_def plain_elements_def filter_id_conv)
qed (simp add: elements_def)

text \<open>Cleaning an absolute path writes out the location it names.\<close>

lemma Clean_rooted: "IsAbs p \<Longrightarrow> Clean p = ''/'' @ Join (location p) ''/''"
  using fold_clean_step_rooted [of "[]" "Split p slash"]
  by (simp add: Clean_def location_def Split_slash_free Let_def)

lemma elements_Clean_rooted: "IsAbs p \<Longrightarrow> elements (Clean p) = location p"
  by (simp add: Clean_rooted elements_rooted_Join plain_elements_location)

lemma walk_elements: "walk here (filter (\<lambda>e. e \<noteq> []) es) = walk here es"
  by (induction here es rule: walk.induct) auto

lemma location_Clean: "IsAbs p \<Longrightarrow> location (Clean p) = location p"
  using elements_Clean_rooted [of p] walk_elements [of "[]" "Split (Clean p) slash"]
    walk_plain [OF plain_elements_location, of "[]" p]
  by (simp add: location_def elements_def)

lemma IsAbs_append: "IsAbs m \<Longrightarrow> IsAbs (m @ s)"
  by (simp add: IsAbs_def prefix_append)

lemma location_append: "location (m @ ''/'' @ s) = walk (location m) (Split s slash)"
  by (simp add: location_def Split_append_sep walk_append)

lemma elements_append: "elements (m @ ''/'' @ s) = elements m @ elements s"
  by (simp add: elements_def Split_append_sep)

lemma elements_Nil [simp]: "elements [] = []"
  by (simp add: elements_def)

lemma elements_trailing_slash: "elements (p @ ''/'') = elements p"
  using elements_append [of p "[]"] by simp

lemma under_trailing_slash: "under root (p @ ''/'') \<longleftrightarrow> under root p"
  by (simp add: under_def elements_trailing_slash)

text \<open>
  The prefix test of the code against the location: an absolute cleaned path begins with the
  mount point followed by a slash exactly when it names something strictly inside it.
\<close>

lemma location_single: "plain_elements [name] \<Longrightarrow> location (slash # name) = [name]"
  by (simp add: location_def Split_single)

lemma Join_slash_prefix:
  assumes "plain_elements (name # es)" and "slash \<notin> set m"
  shows "prefix (m @ ''/'') (Join (name # es) ''/'') \<longleftrightarrow> m = name \<and> es \<noteq> []"
proof (cases "es = []")
  case True
  with assms show ?thesis by (auto simp: prefix_def)
next
  case False
  then have j: "Join (name # es) ''/'' = name @ ''/'' @ Join es ''/''" by (simp add: Join_Cons)
  have "prefix (m @ ''/'') (name @ ''/'' @ Join es ''/'') \<Longrightarrow> m = name"
  proof -
    assume "prefix (m @ ''/'') (name @ ''/'' @ Join es ''/'')"
    then obtain z where z: "name @ slash # Join es ''/'' = m @ slash # z"
      by (auto simp: prefix_def)
    have "Cut (name @ slash # Join es ''/'') [slash] = Some (name, Join es ''/'')"
      using assms(1) by (simp add: Cut_byte_Some)
    moreover have "Cut (name @ slash # Join es ''/'') [slash] = Some (m, z)"
      unfolding z using assms(2) by (simp add: Cut_byte_Some)
    ultimately show "m = name" by simp
  qed
  with j False show ?thesis by (auto simp: prefix_def)
qed

lemma Clean_inside_iff:
  assumes "plain_elements [m]" and "IsAbs p"
  shows "prefix (''/'' @ m @ ''/'') (Clean p) \<longleftrightarrow> (\<exists>es. es \<noteq> [] \<and> location p = m # es)"
proof (cases "location p")
  case Nil
  with assms show ?thesis by (simp add: Clean_rooted)
next
  case (Cons n es)
  with plain_elements_location [of p] assms Join_slash_prefix [of n es m] show ?thesis
    by (auto simp: Clean_rooted)
qed

lemma Clean_at_iff:
  assumes "plain_elements [m]" and "IsAbs p"
  shows "Clean p = ''/'' @ m \<longleftrightarrow> location p = [m]"
proof
  assume "Clean p = ''/'' @ m"
  then have "elements (''/'' @ m) = location p"
    using elements_Clean_rooted [OF assms(2)] by simp
  with assms(1) show "location p = [m]" by (auto simp: elements_def Split_single)
qed (use assms in \<open>simp add: Clean_rooted\<close>)

section \<open>Relative paths\<close>

text \<open>
  For a relative path the stack may begin with parent steps; below them it holds ordinary names.
\<close>

definition rel_stack :: "string list \<Rightarrow> bool" where
  "rel_stack st \<longleftrightarrow> (\<exists>n es. st = es @ replicate n ''..'' \<and> plain_elements es)"

lemma clean_step_rel:
  "rel_stack st \<Longrightarrow> slash \<notin> set e \<Longrightarrow> rel_stack (clean_step False e st)"
proof -
  assume r: "rel_stack st" and e: "slash \<notin> set e"
  from r obtain n es where st: "st = es @ replicate n ''..''" "plain_elements es"
    by (auto simp: rel_stack_def)
  show ?thesis
  proof (cases "e = [] \<or> e = ''.''")
    case True
    with r show ?thesis by (simp add: clean_step_def)
  next
    case ne: False
    show ?thesis
    proof (cases "e = ''..''")
      case False
      with st ne e have "clean_step False e st = (e # es) @ replicate n ''..''"
        and "plain_elements (e # es)" by (auto simp: clean_step_def)
      then show ?thesis unfolding rel_stack_def by blast
    next
      case True
      show ?thesis
      proof (cases es)
        case Nil
        with st True have "clean_step False e st = [] @ replicate (Suc n) ''..''"
          by (cases n) (auto simp: clean_step_def replicate_append_same)
        then show ?thesis unfolding rel_stack_def using plain_elements_simps(1) by blast
      next
        case (Cons x xs)
        with st True have "clean_step False e st = xs @ replicate n ''..''" "plain_elements xs"
          by (auto simp: clean_step_def)
        then show ?thesis unfolding rel_stack_def by blast
      qed
    qed
  qed
qed

lemma fold_clean_step_rel:
  "rel_stack st \<Longrightarrow> \<forall>e \<in> set es. slash \<notin> set e \<Longrightarrow> rel_stack (fold (clean_step False) es st)"
  by (induction es arbitrary: st) (auto intro: clean_step_rel)

lemma walk_clean_step:
  "rel_stack st \<Longrightarrow> walk here (rev (clean_step False e st)) = walk (walk here (rev st)) [e]"
proof (cases st)
  case (Cons t ts)
  assume "rel_stack st"
  then obtain n es where "st = es @ replicate n ''..''" "plain_elements es"
    by (auto simp: rel_stack_def)
  with Cons have "t \<noteq> ''..'' \<Longrightarrow> t \<noteq> [] \<and> t \<noteq> ''.''" by (cases es; cases n) auto
  with Cons show ?thesis by (auto simp: clean_step_def walk_append)
qed (simp add: clean_step_def)

lemma walk_fold_clean_step:
  "rel_stack st \<Longrightarrow> \<forall>e \<in> set es. slash \<notin> set e \<Longrightarrow>
     walk here (rev (fold (clean_step False) es st)) = walk (walk here (rev st)) es"
proof (induction es arbitrary: st)
  case (Cons e es)
  then have "walk here (rev (fold (clean_step False) (e # es) st)) =
      walk (walk (walk here (rev st)) [e]) es"
    by (simp add: clean_step_rel walk_clean_step)
  then show ?case by (simp flip: walk_append)
qed simp

text \<open>
  The test the code makes on a relative path (not \<open>..\<close> and not beginning with \<open>../\<close> once cleaned)
  leaves only paths that walk downwards.
\<close>

lemma Clean_relative_inside:
  assumes "\<not> IsAbs p" and "Clean p \<noteq> ''..''" and "\<not> HasPrefix (Clean p) ''../''"
  shows "\<exists>es. plain_elements es \<and> (\<forall>here. walk here (Split p slash) = here @ es) \<and>
           Clean p = (if es = [] then ''.'' else Join es ''/'')"
proof -
  let ?st = "fold (clean_step False) (Split p slash) []"
  have "rel_stack []" unfolding rel_stack_def using plain_elements_simps(1)
    by (metis append_Nil replicate_empty)
  from fold_clean_step_rel [OF this Split_slash_free, of p]
  obtain n es where st: "?st = es @ replicate n ''..''" and es: "plain_elements es"
    unfolding rel_stack_def by blast
  have c: "Clean p = (if Join (rev ?st) ''/'' = [] then ''.'' else Join (rev ?st) ''/'')"
    using assms(1) by (simp add: Clean_def Let_def)
  have "n = 0"
  proof (rule ccontr)
    assume "n \<noteq> 0"
    then obtain m where m: "rev ?st = ''..'' # replicate m ''..'' @ rev es"
      using st by (cases n) (auto simp: replicate_append_same)
    show False
    proof (cases "replicate m ''..'' @ rev es = []")
      case True
      with m c assms(2) show False by auto
    next
      case False
      with m have "Join (rev ?st) ''/'' = ''../'' @ Join (replicate m ''..'' @ rev es) ''/''"
        by (simp add: Join_Cons)
      with c assms(3) show False by (auto simp: prefix_def)
    qed
  qed
  with st have st': "rev ?st = rev es" by simp
  have "plain_elements (rev es)" using es by (simp add: plain_elements_def)
  moreover have "walk here (Split p slash) = here @ rev es" for here
    using walk_fold_clean_step [OF \<open>rel_stack []\<close> Split_slash_free, of here p] st' walk_plain
      [OF \<open>plain_elements (rev es)\<close>] by simp
  moreover have "Join (rev es) ''/'' = [] \<longleftrightarrow> rev es = []"
    using \<open>plain_elements (rev es)\<close> by (cases "rev es" rule: list.exhaust; cases "tl (rev es)") auto
  ultimately show ?thesis using c st' by auto
qed

section \<open>Splitting off the last element\<close>

lemma path_Dir_Base:
  assumes "p = a @ slash # b" and "slash \<notin> set b" and "b \<noteq> []"
  shows "path_Dir p = Clean (a @ ''/'')" and "path_Base p = b"
proof -
  have "dropWhile (\<lambda>c. c \<noteq> slash) (rev p) = slash # rev a"
    using assms by (auto simp: dropWhile_append split: if_splits)
  then show "path_Dir p = Clean (a @ ''/'')" by (simp add: path_Dir_def)
  obtain c d where b: "rev b = c # d" using assms(3) by (metis list.exhaust rev_is_Nil_conv)
  with assms(2) have "c \<noteq> slash" by (metis in_set_conv_decomp set_rev append_Nil)
  then have "dropWhile (\<lambda>c. c = slash) (rev p) = rev p" using assms(1) b by simp
  moreover have "takeWhile (\<lambda>c. c \<noteq> slash) (rev p) = rev b"
    using assms by (auto simp: takeWhile_append split: if_splits)
  ultimately show "path_Base p = b" using assms by (simp add: path_Base_def)
qed

lemma last_slash:
  assumes "IsAbs p" and "\<not> HasSuffix p ''/''"
  obtains a b where "p = a @ slash # b" "slash \<notin> set b" "b \<noteq> []" "a = [] \<or> IsAbs a"
proof -
  have "slash \<in> set p" using assms(1) by (auto simp: IsAbs_def prefix_def)
  then obtain a b where ab: "p = a @ slash # b" "slash \<notin> set b" by (metis split_list_last)
  with assms(2) have "b \<noteq> []" by (auto simp: suffix_def)
  moreover have "a = [] \<or> IsAbs a" using assms(1) ab(1) by (cases a) (auto simp: IsAbs_def)
  ultimately show thesis using ab that by blast
qed

lemma location_Dir_Base:
  assumes "IsAbs p" and "\<not> HasSuffix p ''/''"
  shows "location (path_Dir p @ ''/'' @ path_Base p) = location p"
proof -
  obtain a b where ab: "p = a @ slash # b" "slash \<notin> set b" "b \<noteq> []" "a = [] \<or> IsAbs a"
    using assms by (rule last_slash)
  have abs: "IsAbs (a @ ''/'')" using ab(4) by (auto simp: IsAbs_def prefix_def)
  have "location (a @ ''/'') = location a"
    using location_append [of a "[]"] by simp
  then have "location (path_Dir p) = location a"
    using location_Clean [OF abs] path_Dir_Base(1) [OF ab(1-3)] by simp
  moreover have "location p = walk (location a) (Split b slash)"
    using location_append [of a b] ab(1) by simp
  ultimately show ?thesis
    using location_append [of "path_Dir p" "path_Base p"] path_Dir_Base(2) [OF ab(1-3)] by simp
qed

section \<open>Resolving into a mount\<close>

text \<open>
  What a mover relies on: a path it is handed is absolute and lies under the mount point, so that
  anything it derives from the path by going down stays there too.
\<close>

locale mount_resolver =
  fixes resolve :: "string \<Rightarrow> ('e, string) result" and root :: string
  assumes resolved_abs: "resolve s = Inr p \<Longrightarrow> IsAbs p"
    and resolved_plain: "resolve s = Inr p \<Longrightarrow> plain_elements (elements p)"
    and resolved_under: "resolve s = Inr p \<Longrightarrow> under root p"
begin

lemma location_resolved: "resolve s = Inr p \<Longrightarrow> location p = elements p"
  using resolved_plain [of s p] walk_plain [of "elements p" "[]"] walk_elements [of "[]" "Split p slash"]
  by (simp add: location_def elements_def)

text \<open>A name below a resolved path, as the clean step of a tar restore forms it.\<close>

lemma joined_under:
  assumes "resolve s = Inr p" and "plain_elements [name]"
  shows "under root (path_Join [p, name])"
proof -
  have "p \<noteq> []" using resolved_abs [OF assms(1)] by (auto simp: IsAbs_def)
  then have j: "path_Join [p, name] = Clean (p @ ''/'' @ name)"
    by (simp add: path_Join_def)
  have "elements (Clean (p @ ''/'' @ name)) = location (p @ ''/'' @ name)"
    using resolved_abs [OF assms(1)] by (simp add: elements_Clean_rooted IsAbs_append)
  also have "\<dots> = elements p @ [name]"
    using assms(2) location_resolved [OF assms(1)] by (simp add: location_append Split_single del: append_Cons)
  finally show ?thesis
    using resolved_under [OF assms(1)] assms(2) by (auto simp: under_def j)
qed

end

end
