(* ===== verification/Opid.thy ===== *)
theory Opid
  imports GoPrelude
begin

text \<open>
  Package \<open>internal/opid\<close>: the identifier that names one operation and the limit that keeps every
  name derived from it acceptable (\<open>src/internal/opid/opid.go\<close>). The regular expression is modelled
  by the executable \<open>valid_id\<close> and shown equal to the language it denotes. The generator of pet
  names is a third-party package and is left to the callers as a parameter.
\<close>

definition ReleasePrefix :: string where
  "ReleasePrefix = ''pv-migrate-''"

definition MaxLength :: nat where
  "MaxLength = 53 - 29"

definition id_byte :: "char \<Rightarrow> bool" where
  "id_byte c \<longleftrightarrow> is_lower c \<or> is_digit c"

definition id_segment :: "string \<Rightarrow> bool" where
  "id_segment s \<longleftrightarrow> s \<noteq> [] \<and> list_all id_byte s"

definition valid_id :: "string \<Rightarrow> bool" where
  "valid_id s = list_all id_segment (Split s CHR ''-'')"

datatype opid_error = IDEmpty | IDTooLong string nat nat | IDInvalid string

definition Validate :: "string \<Rightarrow> opid_error option" where
  "Validate i =
     (if length i = 0 then Some IDEmpty
      else if MaxLength < length i then Some (IDTooLong i (length i) MaxLength)
      else if \<not> valid_id i then Some (IDInvalid i)
      else None)"

text \<open>The language of the regular expression: segments joined by single hyphens.\<close>

inductive id_language :: "string \<Rightarrow> bool" where
  segment: "id_segment s \<Longrightarrow> id_language s"
| hyphen: "id_language s \<Longrightarrow> id_segment t \<Longrightarrow> id_language (s @ ''-'' @ t)"

inductive_cases id_languageE: "id_language s"

lemma id_byte_not_hyphen: "id_byte c \<Longrightarrow> c \<noteq> CHR ''-''"
  by (auto simp: id_byte_def is_lower_def is_digit_def byte_def)

lemma id_segment_no_hyphen: "id_segment s \<Longrightarrow> CHR ''-'' \<notin> set s"
  using id_byte_not_hyphen by (auto simp: id_segment_def list_all_iff)

lemma valid_id_append: "valid_id (s @ ''-'' @ t) \<longleftrightarrow> valid_id s \<and> valid_id t"
  by (simp add: valid_id_def Split_append_sep)

lemma valid_id_segment: "id_segment s \<Longrightarrow> valid_id s"
  by (simp add: valid_id_def Split_single id_segment_no_hyphen)

lemma id_language_Join: "xs \<noteq> [] \<Longrightarrow> list_all id_segment xs \<Longrightarrow> id_language (Join xs ''-'')"
proof (induction xs rule: rev_induct)
  case (snoc x xs)
  show ?case
  proof (cases "xs = []")
    case True
    with snoc show ?thesis by (auto intro: segment)
  next
    case False
    then have "Join (xs @ [x]) ''-'' = Join xs ''-'' @ ''-'' @ x"
      by (induction xs rule: list_nonempty_induct) (auto simp: Join_Cons)
    with snoc False show ?thesis using hyphen by (simp only: list_all_append) auto
  qed
qed simp

lemma valid_id_iff_language: "valid_id s \<longleftrightarrow> id_language s"
proof
  assume "valid_id s"
  then show "id_language s"
    using id_language_Join [of "Split s CHR ''-''"] by (simp add: valid_id_def Join_Split)
next
  assume "id_language s"
  then show "valid_id s"
    by induction (simp_all add: valid_id_segment valid_id_append del: append_Cons)
qed

lemma valid_id_bytes: "valid_id s \<Longrightarrow> c \<in> set s \<Longrightarrow> id_byte c \<or> c = CHR ''-''"
  unfolding valid_id_iff_language
  by (induction arbitrary: c rule: id_language.induct) (auto simp: id_segment_def list_all_iff)

lemma Validate_None [go_dest]:
  "Validate i = None \<longleftrightarrow> i \<noteq> [] \<and> length i \<le> 24 \<and> valid_id i"
  by (auto simp: Validate_def MaxLength_def)

end
