(* ===== verification/Rsync.thy ===== *)
theory Rsync
  imports Shell
begin

text \<open>
  Package \<open>internal/rsync\<close> without its progress parser: the rsync command line
  (\<open>src/internal/rsync/cmd.go\<close>) and the reading of rsync's exit status
  (\<open>src/internal/rsync/exitcode.go\<close>). The lemmas show what the shell hands to rsync for a built
  command.
\<close>

record rsync_Cmd =
  rs_Port :: int
  rs_NoChown :: bool
  rs_NonRoot :: bool
  rs_Delete :: bool
  rs_SrcUseSSH :: bool
  rs_DestUseSSH :: bool
  rs_SrcSSHUser :: string
  rs_SrcSSHHost :: string
  rs_SrcPath :: string
  rs_DestSSHUser :: string
  rs_DestSSHHost :: string
  rs_DestPath :: string
  rs_Compress :: bool
  rs_ExtraArgs :: string

datatype rsync_error = SSHOnBothSides | RsyncField shell_error

text \<open>The zero value of the struct, which a Go composite literal starts from.\<close>

definition rsync_Cmd_zero :: rsync_Cmd where
  "rsync_Cmd_zero =
     \<lparr>rs_Port = 0, rs_NoChown = False, rs_NonRoot = False, rs_Delete = False,
      rs_SrcUseSSH = False, rs_DestUseSSH = False, rs_SrcSSHUser = [], rs_SrcSSHHost = [],
      rs_SrcPath = [], rs_DestSSHUser = [], rs_DestSSHHost = [], rs_DestPath = [],
      rs_Compress = False, rs_ExtraArgs = []\<rparr>"

definition rsync_sshUser :: "string \<Rightarrow> string" where
  "rsync_sshUser user = (if user = [] then ''root'' else user)"

definition rsync_buildSrc :: "rsync_Cmd \<Rightarrow> string" where
  "rsync_buildSrc c =
     (if \<not> rs_SrcUseSSH c then rs_SrcPath c
      else rsync_sshUser (rs_SrcSSHUser c) @ ''@'' @ rs_SrcSSHHost c @ '':'' @ rs_SrcPath c)"

definition rsync_buildDest :: "rsync_Cmd \<Rightarrow> string" where
  "rsync_buildDest c =
     (if \<not> rs_DestUseSSH c then rs_DestPath c
      else rsync_sshUser (rs_DestSSHUser c) @ ''@'' @ rs_DestSSHHost c @ '':'' @ rs_DestPath c)"

definition rsync_validate :: "rsync_Cmd \<Rightarrow> shell_error option" where
  "rsync_validate c =
     check_fields
       [(''--source-path'', rs_SrcPath c), (''--dest-path'', rs_DestPath c),
        (''ssh host'', rs_SrcSSHHost c), (''ssh host'', rs_DestSSHHost c)]"

definition rsync_sshArgs :: "rsync_Cmd \<Rightarrow> string list" where
  "rsync_sshArgs c =
     [''ssh'', ''-o'', ''StrictHostKeyChecking=no'', ''-o'', ''UserKnownHostsFile=/dev/null'',
      ''-o'', ''ConnectTimeout=5'', ''-o'', ''ServerAliveInterval=10'',
      ''-o'', ''ServerAliveCountMax=3'']
     @ (if rs_Port c \<noteq> 0 then [''-p'', Itoa (rs_Port c)] else [])"

definition rsync_args :: "rsync_Cmd \<Rightarrow> string list" where
  "rsync_args c =
     [''-av'', ''--info=progress2,misc0,flist0'', ''--no-inc-recursive'', ''-e'',
      Quote (Join (rsync_sshArgs c) '' ''), ''--exclude=/lost+found'']
     @ (if rs_Compress c
        then [''--compress'', ''--compress-choice=zstd'', ''--compress-level=1''] else [])
     @ (if rs_NoChown c \<or> rs_NonRoot c then [''--no-o'', ''--no-g''] else [])
     @ (if rs_NonRoot c then [''--omit-dir-times''] else [])
     @ (if rs_Delete c then [''--delete''] else [])
     @ (if rs_ExtraArgs c \<noteq> [] then [rs_ExtraArgs c] else [])"

definition rsync_Build :: "rsync_Cmd \<Rightarrow> (rsync_error, string) result" where
  "rsync_Build c =
     (if rs_SrcUseSSH c \<and> rs_DestUseSSH c then Inl SSHOnBothSides
      else case rsync_validate c of Some e \<Rightarrow> Inl (RsyncField e)
      | None \<Rightarrow>
          Inr (''rsync '' @ Join (rsync_args c) '' '' @ '' '' @ Quote (rsync_buildSrc c)
               @ '' '' @ Quote (rsync_buildDest c)))"

section \<open>Exit status\<close>

definition rsync_exitCodeMeanings :: "(int \<times> string) list" where
  "rsync_exitCodeMeanings =
     [(1, ''Syntax or usage error''),
      (2, ''Protocol incompatibility''),
      (3, ''Errors selecting input/output files, dirs''),
      (4, ''Requested action not supported''),
      (5, ''Error starting client-server protocol''),
      (6, ''Daemon unable to append to log-file''),
      (10, ''Error in socket I/O''),
      (11, ''Error in file I/O''),
      (12, ''Error in rsync protocol data stream''),
      (13, ''Errors with program diagnostics''),
      (14, ''Error in IPC code''),
      (20, ''Received SIGUSR1 or SIGINT''),
      (21, ''Some error returned by waitpid()''),
      (22, ''Error allocating core memory buffers''),
      (23, ''Partial transfer due to error''),
      (24, ''Partial transfer due to vanished source files''),
      (25, ''The --max-delete limit stopped deletions''),
      (30, ''Timeout in data send/receive''),
      (35, ''Timeout waiting for daemon connection'')]"

definition VanishedFilesExitCode :: int where
  "VanishedFilesExitCode = 24"

definition VanishedFilesMarker :: string where
  "VanishedFilesMarker = ''pv-migrate: some source files vanished during the transfer''"

definition rsync_ToleratedExitCodes :: "int list" where
  "rsync_ToleratedExitCodes = [VanishedFilesExitCode]"

definition rsync_NoRetryExitCodes :: "int list" where
  "rsync_NoRetryExitCodes = [1]"

definition rsync_Interpret :: "int \<Rightarrow> string" where
  "rsync_Interpret code =
     (if code = 255
      then ''255 is not an rsync exit value: rsync passes through the status of the remote shell, ''
           @ ''and ssh uses 255 for its own errors''
      else case map_of rsync_exitCodeMeanings code of None \<Rightarrow> []
      | Some meaning \<Rightarrow> ''rsync documents this exit code as: '' @ meaning)"

section \<open>What the shell hands to rsync\<close>

text \<open>The argument vector the command asks for, with the user's extra arguments in their place.\<close>

definition rsync_argv :: "rsync_Cmd \<Rightarrow> string list \<Rightarrow> string list" where
  "rsync_argv c extra =
     [''rsync'', ''-av'', ''--info=progress2,misc0,flist0'', ''--no-inc-recursive'',
      ''-e'', Join (rsync_sshArgs c) '' '', ''--exclude=/lost+found'']
     @ (if rs_Compress c
        then [''--compress'', ''--compress-choice=zstd'', ''--compress-level=1''] else [])
     @ (if rs_NoChown c \<or> rs_NonRoot c then [''--no-o'', ''--no-g''] else [])
     @ (if rs_NonRoot c then [''--omit-dir-times''] else [])
     @ (if rs_Delete c then [''--delete''] else [])
     @ extra @ [rsync_buildSrc c, rsync_buildDest c]"

text \<open>The flags before the extra arguments, as pieces of command text and as the words they are.\<close>

definition rsync_fixed :: "rsync_Cmd \<Rightarrow> string list" where
  "rsync_fixed c = ''rsync'' # rsync_args (c\<lparr>rs_ExtraArgs := []\<rparr>)"

lemma rsync_args_fixed:
  "''rsync'' # rsync_args c =
     rsync_fixed c @ (if rs_ExtraArgs c \<noteq> [] then [rs_ExtraArgs c] else [])"
  by (simp add: rsync_args_def rsync_fixed_def rsync_sshArgs_def)

lemma rsync_fixed_renders:
  "list_all2 renders (rsync_fixed c)
     ([''rsync'', ''-av'', ''--info=progress2,misc0,flist0'', ''--no-inc-recursive'', ''-e'']
      @ [Join (rsync_sshArgs c) '' ''] @ [''--exclude=/lost+found'']
      @ (if rs_Compress c
         then [''--compress'', ''--compress-choice=zstd'', ''--compress-level=1''] else [])
      @ (if rs_NoChown c \<or> rs_NonRoot c then [''--no-o'', ''--no-g''] else [])
      @ (if rs_NonRoot c then [''--omit-dir-times''] else [])
      @ (if rs_Delete c then [''--delete''] else []))"
proof -
  have ssh: "rsync_sshArgs (c\<lparr>rs_ExtraArgs := []\<rparr>) = rsync_sshArgs c"
    by (simp add: rsync_sshArgs_def)
  have "rsync_fixed c =
     [''rsync'', ''-av'', ''--info=progress2,misc0,flist0'', ''--no-inc-recursive'', ''-e'']
      @ [Quote (Join (rsync_sshArgs c) '' '')] @ [''--exclude=/lost+found'']
      @ (if rs_Compress c
         then [''--compress'', ''--compress-choice=zstd'', ''--compress-level=1''] else [])
      @ (if rs_NoChown c \<or> rs_NonRoot c then [''--no-o'', ''--no-g''] else [])
      @ (if rs_NonRoot c then [''--omit-dir-times''] else [])
      @ (if rs_Delete c then [''--delete''] else [])"
    by (simp add: rsync_fixed_def rsync_args_def ssh)
  then show ?thesis
    by (simp only:) (intro list_all2_appendI, simp_all add: renders_eval)
qed

text \<open>The built line, as pieces separated by single spaces.\<close>

lemma rsync_Build_pieces:
  assumes "rsync_Build c = Inr s" and "rs_ExtraArgs c = Join pieces '' ''"
    and "list_all (\<lambda>p. p \<noteq> []) pieces"
  shows "s = Join (rsync_fixed c @ pieces
                   @ [Quote (rsync_buildSrc c), Quote (rsync_buildDest c)]) '' ''"
proof -
  let ?specs = "[Quote (rsync_buildSrc c), Quote (rsync_buildDest c)]"
  from assms(1) have "s = Join ((''rsync'' # rsync_args c) @ ?specs) '' ''"
    by (auto simp: rsync_Build_def Join_append Join_Cons rsync_args_def split: if_splits option.splits)
  moreover have "Join pieces '' '' = [] \<longleftrightarrow> pieces = []"
    using assms(3) by (cases pieces; cases "tl pieces") (auto simp: Join_Cons)
  ultimately show ?thesis
    unfolding rsync_args_fixed using assms(2) Join_flat [of pieces "rsync_fixed c" "'' ''" ?specs]
    by auto
qed

text \<open>
  C11: whatever the paths, hosts and users hold, the shell of the mover hands rsync exactly the
  argument vector the command asks for: the fixed flags, ssh's whole command line as the value of
  \<open>-e\<close>, the extra arguments as the words the user wrote, then the source and the destination as
  one word each.
\<close>

theorem rsync_Build_argv:
  assumes "rsync_Build c = Inr s" and "rs_ExtraArgs c = Join pieces '' ''"
    and "list_all2 renders pieces extra"
  shows "sh_tokens s = Some (map Word (rsync_argv c extra))"
proof -
  have "list_all (\<lambda>p. p \<noteq> []) pieces"
    using assms(3) by (induction pieces extra rule: list_all2_induct) (auto dest: renders_not_Nil)
  with assms have s: "s = Join (rsync_fixed c @ pieces
                   @ [Quote (rsync_buildSrc c), Quote (rsync_buildDest c)]) '' ''"
    by (rule_tac rsync_Build_pieces)
  have "list_all2 renders (rsync_fixed c @ pieces
            @ [Quote (rsync_buildSrc c), Quote (rsync_buildDest c)]) (rsync_argv c extra)"
    using list_all2_appendI [OF rsync_fixed_renders [of c]
            list_all2_appendI [OF assms(3), of "[Quote (rsync_buildSrc c), Quote (rsync_buildDest c)]"
               "[rsync_buildSrc c, rsync_buildDest c]"]]
    by (simp add: rsync_argv_def)
  then show ?thesis unfolding s by (rule sh_tokens_Join) simp
qed

definition rsync_example :: rsync_Cmd where
  "rsync_example =
     rsync_Cmd_zero\<lparr>rs_Port := 22, rs_NonRoot := True, rs_DestUseSSH := True,
       rs_SrcPath := ''/source/it is; rm -rf /'', rs_DestSSHHost := ''host'',
       rs_DestPath := ''/dest/'', rs_ExtraArgs := ''--bwlimit=10 -v''\<rparr>"

lemma rsync_Build_argv_witness:
  "\<exists>s. rsync_Build rsync_example = Inr s \<and>
       sh_tokens s = Some (map Word (rsync_argv rsync_example [''--bwlimit=10'', ''-v'']))"
proof -
  have "rsync_validate rsync_example = None"
    by (simp add: rsync_validate_def rsync_example_def rsync_Cmd_zero_def CheckSingleLine_eval)
  then obtain s where s: "rsync_Build rsync_example = Inr s"
    by (simp add: rsync_Build_def rsync_example_def rsync_Cmd_zero_def)
  have "sh_tokens s = Some (map Word (rsync_argv rsync_example [''--bwlimit=10'', ''-v'']))"
    by (rule rsync_Build_argv [OF s, of "[''--bwlimit=10'', ''-v'']"])
      (simp_all add: rsync_example_def renders_eval)
  with s show ?thesis by blast
qed

text \<open>
  A line without extra arguments holds no byte that would end it or that the manifest could not
  carry, so the script it is written into stays the script it was.
\<close>

lemma rsync_Build_line_safe:
  assumes "rsync_Build c = Inr s" and "line_safe (rs_ExtraArgs c)"
    and "line_safe (rs_SrcSSHUser c)" and "line_safe (rs_DestSSHUser c)"
  shows "line_safe s"
proof -
  from assms(1) have safe: "line_safe (rs_SrcPath c)" "line_safe (rs_DestPath c)"
      "line_safe (rs_SrcSSHHost c)" "line_safe (rs_DestSSHHost c)"
    by (auto simp: rsync_Build_def rsync_validate_def intro: CheckSingleLine_line_safe
        split: if_splits option.splits)
  have ssh: "line_safe (Join (rsync_sshArgs c) '' '')"
    by (auto simp: rsync_sshArgs_def byte_def intro!: line_safe_Join)
  then have "line_safe (Join (rsync_args c) '' '')"
    using assms(2) by (auto simp: rsync_args_def byte_def intro!: line_safe_Join line_safe_Quote)
  moreover have "line_safe (rsync_buildSrc c)" "line_safe (rsync_buildDest c)"
    using safe assms by (auto simp: rsync_buildSrc_def rsync_buildDest_def rsync_sshUser_def byte_def)
  ultimately show ?thesis
    using assms(1) by (auto simp: rsync_Build_def byte_def line_safe_Quote split: if_splits option.splits)
qed

end
