(* ===== verification/Rclone.thy ===== *)
theory Rclone
  imports Shell
begin

text \<open>
  Package \<open>internal/rclone\<close> without its progress parser: the rclone command line
  (\<open>src/internal/rclone/cmd.go\<close>), the generated \<open>rclone.conf\<close> (\<open>config.go\<close>) and the exit status
  (\<open>exitcode.go\<close>). \<open>json.Compact\<close> of the standard library, which the GCS credential goes
  through, is modelled as the byte-driven scanner it is. The lemmas show what the shell hands to
  rclone and that every generated configuration reads back as the entries that were asked for.
\<close>

section \<open>The command line\<close>

definition DirectionBackup :: string where "DirectionBackup = ''backup''"
definition DirectionRestore :: string where "DirectionRestore = ''restore''"

definition defaultProgressFlags :: string where
  "defaultProgressFlags =
     ''--stats 1s --stats-log-level NOTICE --use-json-log --stats-one-line''"

record rclone_Cmd =
  rc_Direction :: string
  rc_RemotePath :: string
  rc_LocalPath :: string
  rc_ConfigPath :: string
  rc_ExtraArgs :: string
  rc_Delete :: bool

datatype rclone_error =
    RcloneField shell_error
  | InvalidDirection string
  | BackendEmpty
  | UnsupportedBackend string
  | ConfigLineBreak string
  | ConfigOuterSpace string
  | HalfCredentials
  | BadServiceAccountJSON

definition rclone_Build :: "rclone_Cmd \<Rightarrow> (rclone_error, string) result" where
  "rclone_Build c =
     (case check_fields
        [(''--path'', rc_LocalPath c), (''remote path'', rc_RemotePath c),
         (''rclone config path'', rc_ConfigPath c)] of
        Some e \<Rightarrow> Inl (RcloneField e)
      | None \<Rightarrow>
          (case (if rc_Direction c = DirectionBackup then Some (rc_LocalPath c, rc_RemotePath c)
                 else if rc_Direction c = DirectionRestore
                 then Some (rc_RemotePath c, rc_LocalPath c)
                 else None) of
             None \<Rightarrow> Inl (InvalidDirection (rc_Direction c))
           | Some (src, dest) \<Rightarrow>
               let action = (if rc_Direction c = DirectionRestore \<and> \<not> rc_Delete c
                             then ''copy'' else ''sync'')
               in Inr (''rclone '' @ action
                       @ (if rc_ConfigPath c \<noteq> [] then '' --config '' @ Quote (rc_ConfigPath c) else [])
                       @ '' '' @ defaultProgressFlags
                       @ '' '' @ Quote src @ '' '' @ Quote dest
                       @ (if rc_ExtraArgs c \<noteq> [] then '' '' @ rc_ExtraArgs c else []))))"

definition remoteName :: string where "remoteName = ''remote''"

definition BuildRemotePath :: "string \<Rightarrow> string \<Rightarrow> string \<Rightarrow> string" where
  "BuildRemotePath bucket pre name =
     (if pre = [] then remoteName @ '':'' @ bucket @ ''/'' @ name @ ''/''
      else remoteName @ '':'' @ bucket @ ''/'' @ pre @ ''/'' @ name @ ''/'')"

definition BuildMetadataRemotePath :: "string \<Rightarrow> string \<Rightarrow> string \<Rightarrow> string" where
  "BuildMetadataRemotePath bucket pre name =
     (if pre = [] then remoteName @ '':'' @ bucket @ ''/'' @ name @ ''.meta.yaml''
      else remoteName @ '':'' @ bucket @ ''/'' @ pre @ ''/'' @ name @ ''.meta.yaml'')"

definition BuildObjectPath :: "string \<Rightarrow> string \<Rightarrow> string" where
  "BuildObjectPath bucket key = remoteName @ '':'' @ bucket @ ''/'' @ TrimPrefix key ''/''"

definition BuildRemotePathRaw :: "string \<Rightarrow> string" where
  "BuildRemotePathRaw remote = remote"

definition rclone_exitCodeMeanings :: "(int \<times> string) list" where
  "rclone_exitCodeMeanings = [(3, ''Directory not found''), (4, ''File not found'')]"

definition rclone_Interpret :: "int \<Rightarrow> string" where
  "rclone_Interpret code =
     (case map_of rclone_exitCodeMeanings code of None \<Rightarrow> []
      | Some meaning \<Rightarrow> ''rclone documents this exit code as: '' @ meaning)"

section \<open>json.Compact\<close>

text \<open>
  The scanner of \<open>encoding/json\<close>: one state per position of the grammar, and a stack that says
  what encloses the position. A byte is kept, dropped (insignificant white space) or an error.
\<close>

datatype json_state =
    BeginValue | BeginValueOrEmpty | BeginStringOrEmpty | BeginString | EndValue | EndTop
  | InString | InStringEsc | InStringEscU nat | Neg | Digits1 | Digits0 | Dot | Dot0 | Exp | ExpSign | Exp0
  | Literal string

datatype json_parse = ObjectKey | ObjectValue | ArrayValue

datatype json_action =
    Keep json_state "json_parse list"
  | Skip json_state "json_parse list"
  | Bad

definition json_space :: "char \<Rightarrow> bool" where
  "json_space c \<longleftrightarrow> c = CHR '' '' \<or> c = tab_byte \<or> c = return_byte \<or> c = newline_byte"

definition is_hex :: "char \<Rightarrow> bool" where
  "is_hex c \<longleftrightarrow> is_digit c \<or> 97 \<le> byte c \<and> byte c \<le> 102 \<or> 65 \<le> byte c \<and> byte c \<le> 70"

definition max_nesting :: nat where "max_nesting = 10000"

definition json_push :: "json_state \<Rightarrow> json_parse \<Rightarrow> json_parse list \<Rightarrow> json_action" where
  "json_push st p stack =
     (if length stack < max_nesting then Keep st (p # stack) else Bad)"

definition json_pop :: "json_parse list \<Rightarrow> json_action" where
  "json_pop stack = (if tl stack = [] then Keep EndTop [] else Keep EndValue (tl stack))"

definition json_end_top :: "char \<Rightarrow> json_action" where
  "json_end_top c = (if json_space c then Skip EndTop [] else Bad)"

definition json_end_value :: "json_parse list \<Rightarrow> char \<Rightarrow> json_action" where
  "json_end_value stack c =
     (case stack of [] \<Rightarrow> json_end_top c
      | p # ps \<Rightarrow>
          if json_space c then Skip EndValue stack
          else (case p of
             ObjectKey \<Rightarrow> if c = CHR '':'' then Keep BeginValue (ObjectValue # ps) else Bad
           | ObjectValue \<Rightarrow>
               if c = CHR '','' then Keep BeginString (ObjectKey # ps)
               else if c = CHR ''}'' then json_pop stack else Bad
           | ArrayValue \<Rightarrow>
               if c = CHR '','' then Keep BeginValue stack
               else if c = CHR '']'' then json_pop stack else Bad))"

definition json_begin_value :: "json_parse list \<Rightarrow> char \<Rightarrow> json_action" where
  "json_begin_value stack c =
     (if json_space c then Skip BeginValue stack
      else if c = CHR ''{'' then json_push BeginStringOrEmpty ObjectKey stack
      else if c = CHR ''['' then json_push BeginValueOrEmpty ArrayValue stack
      else if c = dquote then Keep InString stack
      else if c = CHR ''-'' then Keep Neg stack
      else if c = CHR ''0'' then Keep Digits0 stack
      else if c = CHR ''t'' then Keep (Literal ''rue'') stack
      else if c = CHR ''f'' then Keep (Literal ''alse'') stack
      else if c = CHR ''n'' then Keep (Literal ''ull'') stack
      else if is_digit c then Keep Digits1 stack
      else Bad)"

definition json_begin_string :: "json_parse list \<Rightarrow> char \<Rightarrow> json_action" where
  "json_begin_string stack c =
     (if json_space c then Skip BeginString stack
      else if c = dquote then Keep InString stack else Bad)"

definition json_digits0 :: "json_parse list \<Rightarrow> char \<Rightarrow> json_action" where
  "json_digits0 stack c =
     (if c = CHR ''.'' then Keep Dot stack
      else if c = CHR ''e'' \<or> c = CHR ''E'' then Keep Exp stack
      else json_end_value stack c)"

definition json_exp_sign :: "json_parse list \<Rightarrow> char \<Rightarrow> json_action" where
  "json_exp_sign stack c = (if is_digit c then Keep Exp0 stack else Bad)"

fun json_step :: "json_state \<Rightarrow> json_parse list \<Rightarrow> char \<Rightarrow> json_action" where
  "json_step BeginValue stack c = json_begin_value stack c"
| "json_step BeginValueOrEmpty stack c =
     (if json_space c then Skip BeginValueOrEmpty stack
      else if c = CHR '']'' then json_end_value stack c
      else json_begin_value stack c)"
| "json_step BeginStringOrEmpty stack c =
     (if json_space c then Skip BeginStringOrEmpty stack
      else if c = CHR ''}'' then json_end_value (ObjectValue # tl stack) c
      else json_begin_string stack c)"
| "json_step BeginString stack c = json_begin_string stack c"
| "json_step EndValue stack c = json_end_value stack c"
| "json_step EndTop stack c = json_end_top c"
| "json_step InString stack c =
     (if c = dquote then Keep EndValue stack
      else if c = backslash then Keep InStringEsc stack
      else if byte c < 0x20 then Bad
      else Keep InString stack)"
| "json_step InStringEsc stack c =
     (if c \<in> set ''bfnrt/'' \<or> c = backslash \<or> c = dquote then Keep InString stack
      else if c = CHR ''u'' then Keep (InStringEscU 3) stack else Bad)"
| "json_step (InStringEscU n) stack c =
     (if is_hex c then Keep (if n = 0 then InString else InStringEscU (n - 1)) stack else Bad)"
| "json_step Neg stack c =
     (if c = CHR ''0'' then Keep Digits0 stack
      else if is_digit c then Keep Digits1 stack else Bad)"
| "json_step Digits1 stack c =
     (if is_digit c then Keep Digits1 stack else json_digits0 stack c)"
| "json_step Digits0 stack c = json_digits0 stack c"
| "json_step Dot stack c = (if is_digit c then Keep Dot0 stack else Bad)"
| "json_step Dot0 stack c =
     (if is_digit c then Keep Dot0 stack
      else if c = CHR ''e'' \<or> c = CHR ''E'' then Keep Exp stack
      else json_end_value stack c)"
| "json_step Exp stack c =
     (if c = CHR ''+'' \<or> c = CHR ''-'' then Keep ExpSign stack else json_exp_sign stack c)"
| "json_step ExpSign stack c = json_exp_sign stack c"
| "json_step Exp0 stack c =
     (if is_digit c then Keep Exp0 stack else json_end_value stack c)"
| "json_step (Literal rest) stack c =
     (case rest of [] \<Rightarrow> Bad
      | r # rs \<Rightarrow> if c = r then Keep (if rs = [] then EndValue else Literal rs) stack else Bad)"

text \<open>\<open>eof\<close>: the value is complete, or one more space would complete it.\<close>

definition json_eof :: "json_state \<Rightarrow> json_parse list \<Rightarrow> bool" where
  "json_eof st stack =
     (st = EndTop \<or>
      (case json_step st stack (CHR '' '') of Keep st' _ \<Rightarrow> st' = EndTop
       | Skip st' _ \<Rightarrow> st' = EndTop | Bad \<Rightarrow> False))"

fun json_run :: "json_state \<Rightarrow> json_parse list \<Rightarrow> string \<Rightarrow> string option" where
  "json_run st stack [] = (if json_eof st stack then Some [] else None)"
| "json_run st stack (c # cs) =
     (case json_step st stack c of
        Bad \<Rightarrow> None
      | Skip st' stack' \<Rightarrow> json_run st' stack' cs
      | Keep st' stack' \<Rightarrow> map_option (Cons c) (json_run st' stack' cs))"

definition compactJSON :: "string \<Rightarrow> string option" where
  "compactJSON input = json_run BeginValue [] input"

section \<open>The generated configuration\<close>

definition BackendS3 :: string where "BackendS3 = ''s3''"
definition BackendAzure :: string where "BackendAzure = ''azure''"
definition BackendGCS :: string where "BackendGCS = ''gcs''"
definition DefaultS3Provider :: string where "DefaultS3Provider = ''Other''"

record ConfigOptions =
  co_Backend :: string
  co_Provider :: string
  co_Endpoint :: string
  co_Region :: string
  co_AccessKey :: string
  co_SecretKey :: string
  co_StorageAccount :: string
  co_StorageKey :: string
  co_GCSServiceAccountJSON :: string
  co_GCSBucketPolicyOnly :: "bool option"

definition writtenFields :: "ConfigOptions \<Rightarrow> (string \<times> string) list" where
  "writtenFields opts =
     (if co_Backend opts = BackendS3
      then [(''s3-provider'', co_Provider opts), (''endpoint'', co_Endpoint opts),
            (''region'', co_Region opts), (''access-key'', co_AccessKey opts),
            (''secret-key'', co_SecretKey opts)]
      else if co_Backend opts = BackendAzure
      then [(''storage-account'', co_StorageAccount opts), (''storage-key'', co_StorageKey opts)]
      else [])"

definition validateConfigValue :: "string \<Rightarrow> string \<Rightarrow> rclone_error option" where
  "validateConfigValue name value =
     (if value = [] then None
      else if ContainsAny value [return_byte, newline_byte, nul_byte]
      then Some (ConfigLineBreak name)
      else if TrimSpace value \<noteq> value then Some (ConfigOuterSpace name)
      else None)"

fun validate_fields :: "(string \<times> string) list \<Rightarrow> rclone_error option" where
  "validate_fields [] = None"
| "validate_fields ((name, value) # fs) =
     (case validateConfigValue name value of Some e \<Rightarrow> Some e | None \<Rightarrow> validate_fields fs)"

definition validate_options :: "ConfigOptions \<Rightarrow> rclone_error option" where
  "validate_options opts = validate_fields (writtenFields opts)"

text \<open>\<open>fmt.Fprintf(&builder, "key = %s\n", value)\<close>\<close>

definition entry :: "string \<Rightarrow> string \<Rightarrow> string" where
  "entry key value = key @ '' = '' @ value @ [newline_byte]"

definition header_line :: string where
  "header_line = ''['' @ remoteName @ '']'' @ [newline_byte]"

definition generateS3Config :: "ConfigOptions \<Rightarrow> (rclone_error, string) result" where
  "generateS3Config opts =
     (let provider = (if co_Provider opts = [] then DefaultS3Provider else co_Provider opts);
          start = header_line @ entry ''type'' ''s3'' @ entry ''provider'' provider
                  @ (if co_Endpoint opts \<noteq> [] then entry ''endpoint'' (co_Endpoint opts) else [])
                  @ (if co_Region opts \<noteq> [] then entry ''region'' (co_Region opts) else [])
      in if co_AccessKey opts \<noteq> [] \<and> co_SecretKey opts \<noteq> []
         then Inr (start @ entry ''access_key_id'' (co_AccessKey opts)
                   @ entry ''secret_access_key'' (co_SecretKey opts)
                   @ entry ''no_check_bucket'' ''true'')
         else if co_AccessKey opts \<noteq> [] \<or> co_SecretKey opts \<noteq> [] then Inl HalfCredentials
         else Inr (start @ entry ''env_auth'' ''true'' @ entry ''no_check_bucket'' ''true''))"

definition generateAzureConfig :: "ConfigOptions \<Rightarrow> string" where
  "generateAzureConfig opts =
     header_line @ entry ''type'' ''azureblob''
     @ (if co_StorageAccount opts \<noteq> [] then entry ''account'' (co_StorageAccount opts) else [])
     @ (if co_StorageKey opts \<noteq> [] then entry ''key'' (co_StorageKey opts)
        else entry ''env_auth'' ''true'')"

definition generateGCSConfig :: "ConfigOptions \<Rightarrow> (rclone_error, string) result" where
  "generateGCSConfig opts =
     (let start = header_line @ entry ''type'' ''google cloud storage''
                  @ (case co_GCSBucketPolicyOnly opts of
                       Some False \<Rightarrow> [] | _ \<Rightarrow> entry ''bucket_policy_only'' ''true'')
      in if co_GCSServiceAccountJSON opts \<noteq> []
         then (case compactJSON (co_GCSServiceAccountJSON opts) of
                 None \<Rightarrow> Inl BadServiceAccountJSON
               | Some compacted \<Rightarrow> Inr (start @ entry ''service_account_credentials'' compacted))
         else Inr (start @ entry ''env_auth'' ''true''))"

definition GenerateConfig :: "ConfigOptions \<Rightarrow> (rclone_error, string) result" where
  "GenerateConfig opts =
     (case validate_options opts of Some e \<Rightarrow> Inl e
      | None \<Rightarrow>
          if co_Backend opts = BackendS3 then generateS3Config opts
          else if co_Backend opts = BackendAzure then Inr (generateAzureConfig opts)
          else if co_Backend opts = BackendGCS then generateGCSConfig opts
          else if co_Backend opts = [] then Inl BackendEmpty
          else Inl (UnsupportedBackend (co_Backend opts)))"

section \<open>What the shell hands to rclone\<close>

definition rclone_words :: "rclone_Cmd \<Rightarrow> string list" where
  "rclone_words c =
     [''rclone'', if rc_Direction c = DirectionRestore \<and> \<not> rc_Delete c then ''copy'' else ''sync'']
     @ (if rc_ConfigPath c \<noteq> [] then [''--config'', rc_ConfigPath c] else [])
     @ [''--stats'', ''1s'', ''--stats-log-level'', ''NOTICE'', ''--use-json-log'', ''--stats-one-line'']
     @ (if rc_Direction c = DirectionBackup then [rc_LocalPath c, rc_RemotePath c]
        else [rc_RemotePath c, rc_LocalPath c])"

definition rclone_pieces :: "rclone_Cmd \<Rightarrow> string list" where
  "rclone_pieces c =
     [''rclone'', if rc_Direction c = DirectionRestore \<and> \<not> rc_Delete c then ''copy'' else ''sync'']
     @ (if rc_ConfigPath c \<noteq> [] then [''--config'', Quote (rc_ConfigPath c)] else [])
     @ [''--stats'', ''1s'', ''--stats-log-level'', ''NOTICE'', ''--use-json-log'', ''--stats-one-line'']
     @ (if rc_Direction c = DirectionBackup then [Quote (rc_LocalPath c), Quote (rc_RemotePath c)]
        else [Quote (rc_RemotePath c), Quote (rc_LocalPath c)])"

lemma rclone_pieces_render: "list_all2 renders (rclone_pieces c) (rclone_words c)"
  unfolding rclone_pieces_def rclone_words_def
  by (intro list_all2_appendI) (simp_all add: renders_eval)

lemma rclone_Build_pieces:
  assumes "rclone_Build c = Inr s"
  shows "s = Join (rclone_pieces c @ (if rc_ExtraArgs c \<noteq> [] then [rc_ExtraArgs c] else [])) '' ''"
proof -
  have "Join (rclone_pieces c) '' '' @ (if rc_ExtraArgs c \<noteq> [] then '' '' @ rc_ExtraArgs c else []) = s"
    using assms
    by (auto simp: rclone_Build_def rclone_pieces_def defaultProgressFlags_def DirectionBackup_def
        DirectionRestore_def Let_def split: option.splits if_splits)
  moreover have "rclone_pieces c \<noteq> []" by (simp add: rclone_pieces_def)
  ultimately show ?thesis by (cases "rc_ExtraArgs c = []") (simp_all add: Join_append)
qed

text \<open>
  C14: the shell hands rclone exactly the vector the command asks for: \<open>sync\<close> or \<open>copy\<close>, the
  configuration file and the two paths as one word each in the direction's order, then the extra
  arguments; and only a restore that was not asked to delete is a \<open>copy\<close>.
\<close>

theorem rclone_Build_argv:
  assumes "rclone_Build c = Inr s" and "rc_ExtraArgs c = Join pieces '' ''"
    and "list_all2 renders pieces extra"
  shows "sh_tokens s = Some (map Word (rclone_words c @ extra))"
proof -
  have "list_all (\<lambda>p. p \<noteq> []) pieces"
    using assms(3) by (induction pieces extra rule: list_all2_induct) (auto dest: renders_not_Nil)
  then have "s = Join (rclone_pieces c @ pieces) '' ''"
    using rclone_Build_pieces [OF assms(1)] assms(2) Join_flat [of pieces "rclone_pieces c" "'' ''" "[]"]
    by (auto simp: Join_eq_Nil)
  moreover have "list_all2 renders (rclone_pieces c @ pieces) (rclone_words c @ extra)"
    by (intro list_all2_appendI rclone_pieces_render assms)
  moreover have "rclone_pieces c @ pieces \<noteq> []" by (simp add: rclone_pieces_def)
  ultimately show ?thesis using sh_tokens_Join by blast
qed

lemma rclone_Build_argv_witness:
  "sh_tokens (''rclone copy --stats 1s --stats-log-level NOTICE --use-json-log --stats-one-line '' @
              Quote ''remote:b/it's/'' @ '' '' @ Quote ''/data'' @ '' -v'') =
   Some (map Word ([''rclone'', ''copy'', ''--stats'', ''1s'', ''--stats-log-level'', ''NOTICE'',
     ''--use-json-log'', ''--stats-one-line'', ''remote:b/it's/'', ''/data'', ''-v'']))"
  using rclone_Build_argv [of "\<lparr>rc_Direction = DirectionRestore, rc_RemotePath = ''remote:b/it's/'',
          rc_LocalPath = ''/data'', rc_ConfigPath = [], rc_ExtraArgs = ''-v'', rc_Delete = False\<rparr>"
        _ "[''-v'']" "[''-v'']"]
  by (simp add: rclone_Build_def CheckSingleLine_eval renders_eval rclone_words_def
      DirectionBackup_def DirectionRestore_def defaultProgressFlags_def)

section \<open>Reading the configuration back\<close>

text \<open>
  The format, as the comment of \<open>validate\<close> states it: an entry is one line, \<open>key = value\<close>, and
  white space around the value is stripped on read. A bracketed line opens a section.
\<close>

datatype conf_item = Section string | Entry string string

definition conf_line :: "string \<Rightarrow> conf_item" where
  "conf_line line =
     (if HasPrefix line ''['' \<and> HasSuffix line '']''
      then Section (take (length line - 2) (drop 1 line))
      else case Cut line ''='' of
        None \<Rightarrow> Entry (TrimSpace line) []
      | Some (k, v) \<Rightarrow> Entry (TrimSpace k) (TrimSpace v))"

definition read_conf :: "string \<Rightarrow> conf_item list" where
  "read_conf s = map conf_line (filter (\<lambda>l. l \<noteq> []) (Split s newline_byte))"

text \<open>The entries each backend asks for.\<close>

definition wanted_entries :: "ConfigOptions \<Rightarrow> (string \<times> string) list" where
  "wanted_entries opts =
     (if co_Backend opts = BackendS3
      then [(''type'', ''s3''),
            (''provider'', if co_Provider opts = [] then DefaultS3Provider else co_Provider opts)]
           @ (if co_Endpoint opts \<noteq> [] then [(''endpoint'', co_Endpoint opts)] else [])
           @ (if co_Region opts \<noteq> [] then [(''region'', co_Region opts)] else [])
           @ (if co_AccessKey opts \<noteq> []
              then [(''access_key_id'', co_AccessKey opts), (''secret_access_key'', co_SecretKey opts)]
              else [(''env_auth'', ''true'')])
           @ [(''no_check_bucket'', ''true'')]
      else if co_Backend opts = BackendAzure
      then [(''type'', ''azureblob'')]
           @ (if co_StorageAccount opts \<noteq> [] then [(''account'', co_StorageAccount opts)] else [])
           @ (if co_StorageKey opts \<noteq> [] then [(''key'', co_StorageKey opts)]
              else [(''env_auth'', ''true'')])
      else [(''type'', ''google cloud storage'')]
           @ (if co_GCSBucketPolicyOnly opts \<noteq> Some False then [(''bucket_policy_only'', ''true'')] else [])
           @ (if co_GCSServiceAccountJSON opts \<noteq> []
              then [(''service_account_credentials'', the (compactJSON (co_GCSServiceAccountJSON opts)))]
              else [(''env_auth'', ''true'')]))"

definition good_value :: "string \<Rightarrow> bool" where
  "good_value v \<longleftrightarrow> newline_byte \<notin> set v \<and> TrimSpace v = v"

definition good_key :: "string \<Rightarrow> bool" where
  "good_key k \<longleftrightarrow> k \<noteq> [] \<and> list_all (\<lambda>c. is_lower c \<or> c = CHR ''_'') k"

lemma good_key_chars:
  assumes "good_key k"
  shows "newline_byte \<notin> set k" "CHR ''='' \<notin> set k" "CHR ''['' \<notin> set k" "TrimSpace (k @ '' '') = k"
proof -
  have *: "\<forall>c \<in> set k. is_lower c \<or> c = CHR ''_''" using assms by (simp add: good_key_def list_all_iff)
  then show "newline_byte \<notin> set k" "CHR ''='' \<notin> set k" "CHR ''['' \<notin> set k"
    by (auto simp: is_lower_def byte_def)
  from * have solid: "\<forall>c \<in> set k. solid c" by (auto simp: is_lower_def solid_def byte_def)
  from assms obtain c s where "k = c # s" by (cases k) (auto simp: good_key_def)
  with solid show "TrimSpace (k @ '' '') = k"
    using TrimSpace_solid(2) by (metis last_in_set list.distinct(1) list.set_intros(1))
qed

lemma conf_line_entry:
  assumes "good_key k" and "good_value v"
  shows "conf_line (k @ '' = '' @ v) = Entry k v"
proof -
  have "Cut (k @ '' = '' @ v) ''='' = Some (k @ '' '', '' '' @ v)"
    using good_key_chars [OF assms(1)] by (simp add: Cut_byte_Some)
  moreover have "\<not> HasPrefix (k @ '' = '' @ v) ''[''"
    using assms(1) good_key_chars(3) [OF assms(1)] by (cases k) (auto simp: good_key_def)
  ultimately show ?thesis
    using good_key_chars(4) [OF assms(1)] assms(2) by (simp add: conf_line_def good_value_def TrimSpace_blank_left)
qed

lemma read_conf_line:
  assumes "newline_byte \<notin> set line" and "line \<noteq> []"
  shows "read_conf (line @ newline_byte # rest) = conf_line line # read_conf rest"
  using assms by (simp add: read_conf_def Split_append_sep Split_single)

lemma read_conf_entry:
  assumes "good_key k" and "good_value v"
  shows "read_conf (entry k v @ rest) = Entry k v # read_conf rest"
proof -
  have "entry k v @ rest = (k @ '' = '' @ v) @ newline_byte # rest" by (simp add: entry_def)
  moreover have "newline_byte \<notin> set (k @ '' = '' @ v)"
    using good_key_chars(1) [OF assms(1)] assms(2) by (simp add: good_value_def)
  ultimately show ?thesis
    using read_conf_line [of "k @ '' = '' @ v" rest] conf_line_entry [OF assms] by simp
qed

lemma read_conf_entries:
  "\<forall>(k, v) \<in> set kvs. good_key k \<and> good_value v \<Longrightarrow>
     read_conf (concat (map (\<lambda>(k, v). entry k v) kvs)) = map (\<lambda>(k, v). Entry k v) kvs"
proof (induction kvs)
  case Nil
  show ?case by (simp add: read_conf_def)
qed (auto simp: read_conf_entry)

lemma read_conf_header: "read_conf (header_line @ rest) = Section remoteName # read_conf rest"
proof -
  have "conf_line (''['' @ remoteName @ '']'') = Section remoteName"
    by (simp add: conf_line_def remoteName_def suffix_def)
  then show ?thesis
    using read_conf_line [of "''['' @ remoteName @ '']''" rest]
    by (simp add: header_line_def remoteName_def)
qed

abbreviation entries_text :: "(string \<times> string) list \<Rightarrow> string" where
  "entries_text kvs \<equiv> concat (map (\<lambda>(k, v). entry k v) kvs)"

lemma entries_if:
  "entries_text (if b then kvs else kvs') = (if b then entries_text kvs else entries_text kvs')"
  by simp

lemma backends_differ [simp]:
  "BackendAzure \<noteq> BackendS3" "BackendGCS \<noteq> BackendS3" "BackendGCS \<noteq> BackendAzure"
  "BackendS3 \<noteq> BackendAzure"
  by (simp_all add: BackendS3_def BackendAzure_def BackendGCS_def)

lemma generateS3Config_shape:
  "generateS3Config opts = Inr s \<Longrightarrow> co_Backend opts = BackendS3 \<Longrightarrow>
     s = header_line @ entries_text (wanted_entries opts)"
  by (cases "co_AccessKey opts = []"; cases "co_SecretKey opts = []"; cases "co_Endpoint opts = []";
      cases "co_Region opts = []")
    (auto simp: generateS3Config_def wanted_entries_def entries_if Let_def split del: if_split)

lemma generateAzureConfig_shape:
  "co_Backend opts = BackendAzure \<Longrightarrow>
     generateAzureConfig opts = header_line @ entries_text (wanted_entries opts)"
  by (simp add: generateAzureConfig_def wanted_entries_def entries_if)

lemma generateGCSConfig_shape:
  "generateGCSConfig opts = Inr s \<Longrightarrow> co_Backend opts = BackendGCS \<Longrightarrow>
     s = header_line @ entries_text (wanted_entries opts)"
  by (cases "co_GCSServiceAccountJSON opts = []"; cases "compactJSON (co_GCSServiceAccountJSON opts)";
      cases "co_GCSBucketPolicyOnly opts = Some False")
    (auto simp: generateGCSConfig_def wanted_entries_def entries_if Let_def
      split: option.splits bool.splits)

lemma GenerateConfig_shape:
  assumes "GenerateConfig opts = Inr s"
  shows "s = header_line @ entries_text (wanted_entries opts)"
  using assms generateS3Config_shape [of opts s] generateAzureConfig_shape [of opts]
    generateGCSConfig_shape [of opts s]
  by (simp add: GenerateConfig_def split: option.splits if_split_asm)

text \<open>
  \<open>json.Compact\<close> keeps no byte below the space, and what it returns begins and ends with a visible
  byte: white space is kept only inside a string, and a string has to be closed.
\<close>

fun json_in_string :: "json_state \<Rightarrow> bool" where
  "json_in_string InString = True"
| "json_in_string InStringEsc = True"
| "json_in_string (InStringEscU _) = True"
| "json_in_string _ = False"

lemma json_step_Keep_solid:
  "json_step st stack c = Keep st' stack' \<Longrightarrow> \<not> json_in_string st \<or> \<not> json_in_string st' \<Longrightarrow> 
     (\<forall>r. st = Literal r \<longrightarrow> list_all solid r) \<Longrightarrow> solid c"
  by (cases st)
    (auto simp: json_begin_value_def json_begin_string_def json_end_value_def json_end_top_def
      json_digits0_def json_exp_sign_def json_push_def json_pop_def json_space_def solid_def
      is_digit_def byte_def is_hex_def
      split: if_splits list.splits json_parse.splits)

lemma json_step_Keep_byte:
  "json_step st stack c = Keep st' stack' \<Longrightarrow> (\<forall>r. st = Literal r \<longrightarrow> list_all solid r) \<Longrightarrow> 0x20 \<le> byte c"
  using json_step_Keep_solid [of st stack c st' stack']
  by (cases "json_in_string st"; cases st)
    (auto simp: solid_def is_hex_def is_digit_def byte_def split: if_splits)

definition literal_ok :: "json_state \<Rightarrow> bool" where
  "literal_ok st \<longleftrightarrow> (\<forall>r. st = Literal r \<longrightarrow> list_all solid r)"

lemma json_step_literal_ok:
  "literal_ok st \<Longrightarrow>
     (json_step st stack c = Keep st' stack' \<longrightarrow> literal_ok st') \<and>
     (json_step st stack c = Skip st' stack' \<longrightarrow> literal_ok st')"
  by (cases st)
    (auto simp: json_begin_value_def json_begin_string_def json_end_value_def json_end_top_def
      json_digits0_def json_exp_sign_def json_push_def json_pop_def literal_ok_def solid_def byte_def
      split: if_splits list.splits json_parse.splits)

lemma json_step_Skip_state:
  "json_step st stack c = Skip st' stack' \<Longrightarrow> \<not> json_in_string st \<and> \<not> json_in_string st'"
  by (cases st)
    (auto simp: json_begin_value_def json_begin_string_def json_end_value_def json_end_top_def
      json_digits0_def json_exp_sign_def json_push_def json_pop_def
      split: if_splits list.splits json_parse.splits)

lemma json_eof_not_in_string: "json_eof st stack \<Longrightarrow> \<not> json_in_string st"
  by (cases st) (auto simp: json_eof_def is_hex_def is_digit_def byte_def split: if_splits)

lemma json_run_ends:
  "json_run st stack cs = Some out \<Longrightarrow> literal_ok st \<Longrightarrow>
     (json_in_string st \<longrightarrow> out \<noteq> []) \<and> (out \<noteq> [] \<longrightarrow> solid (last out)) \<and>
     (\<not> json_in_string st \<longrightarrow> out \<noteq> [] \<longrightarrow> solid (hd out)) \<and> (\<forall>c \<in> set out. 0x20 \<le> byte c)"
proof (induction st stack cs arbitrary: out rule: json_run.induct)
  case (1 st stack)
  then show ?case using json_eof_not_in_string by (auto split: if_splits)
next
  case (2 st stack c cs)
  show ?case
  proof (cases "json_step st stack c")
    case (Keep st' stack')
    with "2.prems" obtain out' where o: "out = c # out'" "json_run st' stack' cs = Some out'" by auto
    note ih = "2.IH"(1) [OF Keep o(2)]
    have ok: "literal_ok st'" using json_step_literal_ok "2.prems"(2) Keep by blast
    note facts = json_step_Keep_solid [OF Keep] json_step_Keep_byte [OF Keep]
    show ?thesis
      using ih ok facts "2.prems"(2) unfolding o(1) literal_ok_def by (cases "out' = []") auto
  next
    case (Skip st' stack')
    with "2.prems" have "json_run st' stack' cs = Some out" by simp
    with "2.IH"(2) [OF Skip this] show ?thesis
      using json_step_literal_ok "2.prems"(2) Skip json_step_Skip_state [OF Skip] by blast
  next
    case Bad
    with "2.prems" show ?thesis by simp
  qed
qed

lemma json_begin_not_eof: "\<not> json_eof BeginValue []"
  by (simp add: json_eof_def json_begin_value_def json_space_def)

lemma json_run_begin_not_Nil: "json_run BeginValue [] cs = Some out \<Longrightarrow> out \<noteq> []"
  by (induction cs) (auto simp: json_begin_not_eof json_begin_value_def json_push_def split: if_splits)

lemma compactJSON_good:
  assumes "compactJSON input = Some out"
  shows "good_value out"
proof -
  have out: "out \<noteq> []" using assms json_run_begin_not_Nil by (simp add: compactJSON_def)
  with json_run_ends [OF assms [unfolded compactJSON_def]]
  have "solid (hd out)" "solid (last out)" "\<forall>c \<in> set out. 0x20 \<le> byte c"
    by (auto simp: literal_ok_def)
  with out show ?thesis
    using TrimSpace_solid(1) by (cases out) (auto simp: good_value_def byte_def)
qed

lemma validate_fields_None:
  "validate_fields fs = None \<longleftrightarrow> (\<forall>(n, v) \<in> set fs. validateConfigValue n v = None)"
  by (induction fs rule: validate_fields.induct) (auto split: option.splits)

lemma validateConfigValue_good: "validateConfigValue n v = None \<Longrightarrow> v \<noteq> [] \<Longrightarrow> good_value v"
  by (auto simp: validateConfigValue_def good_value_def ContainsAny_iff split: if_splits)

lemma good_value_literals [simp]:
  "good_value ''s3''" "good_value ''true''" "good_value ''azureblob''"
  "good_value ''google cloud storage''" "good_value ''Other''"
  by (auto simp: good_value_def solid_def byte_def intro!: TrimSpace_solid(1))

lemma good_keys:
  "good_key ''type''" "good_key ''provider''" "good_key ''endpoint''" "good_key ''region''"
  "good_key ''access_key_id''" "good_key ''secret_access_key''" "good_key ''env_auth''"
  "good_key ''no_check_bucket''" "good_key ''account''" "good_key ''key''"
  "good_key ''bucket_policy_only''" "good_key ''service_account_credentials''"
  by (simp_all add: good_key_def is_lower_def byte_def)

lemma wanted_entries_good:
  assumes "GenerateConfig opts = Inr s"
  shows "\<forall>(k, v) \<in> set (wanted_entries opts). good_key k \<and> good_value v"
proof -
  have v: "\<forall>(n, v) \<in> set (writtenFields opts). v \<noteq> [] \<longrightarrow> good_value v"
    using assms validateConfigValue_good
    by (fastforce simp: GenerateConfig_def validate_options_def validate_fields_None split: option.splits)
  consider "co_Backend opts = BackendS3" | "co_Backend opts = BackendAzure"
    | "co_Backend opts = BackendGCS"
    using assms by (auto simp: GenerateConfig_def split: option.splits if_splits)
  then show ?thesis
  proof cases
    case 1
    moreover from this have "co_AccessKey opts \<noteq> [] \<longrightarrow> co_SecretKey opts \<noteq> []"
      using assms by (auto simp: GenerateConfig_def generateS3Config_def Let_def split: option.splits if_splits)
    ultimately show ?thesis
      using v by (auto simp: wanted_entries_def writtenFields_def good_keys DefaultS3Provider_def)
  next
    case 2
    then show ?thesis using v by (auto simp: wanted_entries_def writtenFields_def good_keys)
  next
    case 3
    then have "co_GCSServiceAccountJSON opts \<noteq> [] \<longrightarrow>
        good_value (the (compactJSON (co_GCSServiceAccountJSON opts)))"
      using assms compactJSON_good
      by (auto simp: GenerateConfig_def generateGCSConfig_def Let_def split: option.splits if_splits)
    then show ?thesis using 3 by (auto simp: wanted_entries_def good_keys)
  qed
qed

text \<open>
  C23: every configuration \<open>GenerateConfig\<close> produces reads back as one section \<open>remote\<close> with exactly
  the entries the backend asks for, each with the value that was given: no option value, and no
  service account JSON, can add a key or change another one.
\<close>

theorem GenerateConfig_reads_back:
  assumes "GenerateConfig opts = Inr s"
  shows "read_conf s = Section ''remote'' # map (\<lambda>(k, v). Entry k v) (wanted_entries opts)"
  using read_conf_entries [OF wanted_entries_good [OF assms]]
  by (simp add: GenerateConfig_shape [OF assms] read_conf_header remoteName_def)

definition config_example :: ConfigOptions where
  "config_example =
     \<lparr>co_Backend = ''azure'', co_Provider = [newline_byte], co_Endpoint = [], co_Region = [],
      co_AccessKey = [], co_SecretKey = [], co_StorageAccount = ''acct'', co_StorageKey = ''a=b'',
      co_GCSServiceAccountJSON = [], co_GCSBucketPolicyOnly = None\<rparr>"

lemma GenerateConfig_reads_back_witness:
  "\<exists>s. GenerateConfig config_example = Inr s \<and>
       read_conf s = [Section ''remote'', Entry ''type'' ''azureblob'', Entry ''account'' ''acct'',
                      Entry ''key'' ''a=b'']"
proof -
  have trim: "TrimSpace ''acct'' = ''acct''" "TrimSpace ''a=b'' = ''a=b''"
    by (auto simp: solid_def byte_def intro!: TrimSpace_solid(1))
  have "validate_options config_example = None"
    by (simp add: validate_options_def writtenFields_def config_example_def BackendS3_def
        BackendAzure_def validateConfigValue_def ContainsAny_def trim)
  then have "\<exists>s. GenerateConfig config_example = Inr s"
    by (simp add: GenerateConfig_def config_example_def BackendS3_def BackendAzure_def)
  moreover have "wanted_entries config_example =
      [(''type'', ''azureblob''), (''account'', ''acct''), (''key'', ''a=b'')]"
    by (simp add: wanted_entries_def config_example_def BackendS3_def BackendAzure_def)
  ultimately show ?thesis using GenerateConfig_reads_back [of config_example] by auto
qed

end
