(* ===== verification/Archive.thy ===== *)
theory Archive
  imports Shell GoPath
begin

text \<open>
  Package \<open>internal/archive\<close> without its progress parser: the tar command lines of the stored, the
  streamed and the transported archive (\<open>cmd.go\<close>, \<open>transfer.go\<close>), the \<open>--archive-file\<close> value
  (\<open>target.go\<close>) and tar's exit status (\<open>exitcode.go\<close>). The lemmas show what the shell runs for a
  built line, that the file name carries the compression, and that locations and time tokens
  round-trip.
\<close>

section \<open>Compression\<close>

definition CompressionNone :: string where "CompressionNone = ''none''"
definition CompressionZstd :: string where "CompressionZstd = ''zstd''"
definition CompressionGzip :: string where "CompressionGzip = ''gzip''"

definition DefaultZstdLevel :: int where "DefaultZstdLevel = 3"
definition DefaultGzipLevel :: int where "DefaultGzipLevel = 6"
definition minLevel :: int where "minLevel = 1"
definition maxZstdLevel :: int where "maxZstdLevel = 19"
definition maxGzipLevel :: int where "maxGzipLevel = 9"
definition compressThreads :: int where "compressThreads = 4"

definition ar_DirectionBackup :: string where "ar_DirectionBackup = ''backup''"
definition ar_DirectionRestore :: string where "ar_DirectionRestore = ''restore''"

datatype archive_error =
    UnsupportedCompression string
  | LevelNotApplicable
  | LevelOutOfRange string int int
  | EmptyField string
  | ArchiveField shell_error
  | ArchiveDirection string
  | ArchiveFileEmpty
  | NoPath
  | NoKnownExtension string
  | LonePercent
  | UnknownToken char
  | BadBucketForm
  | EmptyClaim

definition Compressions :: "string list" where
  "Compressions = [CompressionNone, CompressionZstd, CompressionGzip]"

definition Extension :: "string \<Rightarrow> (archive_error, string) result" where
  "Extension compression =
     (if compression = CompressionNone then Inr ''.tar''
      else if compression = CompressionZstd then Inr ''.tar.zst''
      else if compression = CompressionGzip then Inr ''.tar.gz''
      else Inl (UnsupportedCompression compression))"

definition DefaultLevel :: "string \<Rightarrow> int" where
  "DefaultLevel compression =
     (if compression = CompressionZstd then DefaultZstdLevel
      else if compression = CompressionGzip then DefaultGzipLevel
      else 0)"

definition checkLevel :: "string \<Rightarrow> int \<Rightarrow> int \<Rightarrow> archive_error option" where
  "checkLevel compression level maximum =
     (if level < minLevel \<or> level > maximum then Some (LevelOutOfRange compression level maximum)
      else None)"

definition compressProgram :: "string \<Rightarrow> int \<Rightarrow> (archive_error, string) result" where
  "compressProgram compression level =
     (if compression = CompressionNone then
        (if level \<noteq> 0 then Inl LevelNotApplicable else Inr [])
      else if compression = CompressionZstd then
        (let level = (if level = 0 then DefaultZstdLevel else level)
         in case checkLevel CompressionZstd level maxZstdLevel of Some e \<Rightarrow> Inl e
            | None \<Rightarrow> Inr (''zstd -T'' @ Itoa compressThreads @ '' -'' @ Itoa level))
      else if compression = CompressionGzip then
        (let level = (if level = 0 then DefaultGzipLevel else level)
         in case checkLevel CompressionGzip level maxGzipLevel of Some e \<Rightarrow> Inl e
            | None \<Rightarrow> Inr (''pigz -p '' @ Itoa compressThreads @ '' -'' @ Itoa level))
      else Inl (UnsupportedCompression compression))"

definition CheckLevel :: "string \<Rightarrow> int \<Rightarrow> archive_error option" where
  "CheckLevel compression level =
     (case compressProgram compression level of Inl e \<Rightarrow> Some e | Inr _ \<Rightarrow> None)"

definition decompressProgram :: "string \<Rightarrow> string" where
  "decompressProgram compression =
     (if compression = CompressionZstd then ''zstd''
      else if compression = CompressionGzip then ''pigz -p '' @ Itoa compressThreads
      else [])"

section \<open>The command lines\<close>

definition lostFoundExclude :: string where
  "lostFoundExclude = ''--exclude=./lost+found''"

definition cleanCmd :: "string \<Rightarrow> string" where
  "cleanCmd dataPath =
     ''find '' @ Quote dataPath @ '' -mindepth 1 -not -path ''
     @ Quote (path_Join [dataPath, ''lost+found'']) @ '' -not -path ''
     @ Quote (path_Join [dataPath, ''lost+found''] @ ''/*'') @ '' -delete''"

text \<open>The loop over named fields that must be present and fit one line.\<close>

fun check_present :: "(string \<times> string) list \<Rightarrow> archive_error option" where
  "check_present [] = None"
| "check_present ((name, value) # fs) =
     (if value = [] then Some (EmptyField name)
      else case CheckSingleLine name value of Some e \<Rightarrow> Some (ArchiveField e)
      | None \<Rightarrow> check_present fs)"

record archive_Cmd =
  ac_Direction :: string
  ac_ArchivePath :: string
  ac_DataPath :: string
  ac_Compression :: string
  ac_Level :: int
  ac_Clean :: bool

definition archive_checkPaths :: "archive_Cmd \<Rightarrow> archive_error option" where
  "archive_checkPaths c =
     check_present [(''--name'', ac_ArchivePath c), (''--path'', ac_DataPath c)]"

definition archive_Build :: "archive_Cmd \<Rightarrow> (archive_error, string) result" where
  "archive_Build c =
     (case archive_checkPaths c of Some e \<Rightarrow> Inl e
      | None \<Rightarrow>
      case compressProgram (ac_Compression c) (ac_Level c) of Inl e \<Rightarrow> Inl e
      | Inr program \<Rightarrow>
          let backup = (ac_Direction c = ar_DirectionBackup);
              rest = (if program \<noteq> [] \<and> backup then '' -I '' @ Quote program else [])
                     @ '' -f '' @ Quote (ac_ArchivePath c) @ '' -C '' @ Quote (ac_DataPath c)
                     @ (if backup then '' .'' else [])
          in if backup
             then Inr (''mkdir -p '' @ Quote (path_Dir (ac_ArchivePath c)) @ '' && ''
                       @ ''tar -c --numeric-owner --xattrs --sparse '' @ lostFoundExclude @ rest)
             else if ac_Direction c = ar_DirectionRestore
             then Inr (''mkdir -p '' @ Quote (ac_DataPath c) @ '' && ''
                       @ (if ac_Clean c then cleanCmd (ac_DataPath c) @ '' && '' else [])
                       @ ''tar -x --numeric-owner --xattrs '' @ lostFoundExclude @ rest)
             else Inl (ArchiveDirection (ac_Direction c)))"

record StreamCmd =
  st_Direction :: string
  st_RemotePath :: string
  st_DataPath :: string
  st_ConfigPath :: string
  st_Compression :: string
  st_Level :: int
  st_ExtraArgs :: string
  st_Clean :: bool

definition rcloneProgressFlags :: string where
  "rcloneProgressFlags =
     ''--stats 1s --stats-log-level NOTICE --use-json-log --stats-one-line''"

definition streamPartBudget :: int where "streamPartBudget = 9000"
definition streamHeadroomNum :: int where "streamHeadroomNum = 5"
definition streamHeadroomDen :: int where "streamHeadroomDen = 4"
definition streamMinChunkMiB :: int where "streamMinChunkMiB = 5"

definition chunkSizing :: "string \<Rightarrow> string" where
  "chunkSizing dataPath =
     ''used=$(df -B1 '' @ Quote dataPath @ '' | awk '' @ [squote] @ ''NR==2{print $3}'' @ [squote] @ ''); ''
     @ ''chunk=$(( (used * '' @ Itoa streamHeadroomNum @ '' / '' @ Itoa streamHeadroomDen @ '' / ''
     @ Itoa streamPartBudget @ '' / 1048576) + 1 )); ''
     @ ''[ '' @ [dquote] @ ''$chunk'' @ [dquote] @ '' -lt '' @ Itoa streamMinChunkMiB
     @ '' ] && chunk='' @ Itoa streamMinChunkMiB @ ''; ''"

definition stream_buildBackup :: "StreamCmd \<Rightarrow> string \<Rightarrow> string \<Rightarrow> string" where
  "stream_buildBackup c program rclone =
     ''set -o pipefail; '' @ chunkSizing (st_DataPath c)
     @ ''tar -c --numeric-owner --xattrs --sparse '' @ lostFoundExclude
     @ (if program \<noteq> [] then '' -I '' @ Quote program else [])
     @ '' -f - -C '' @ Quote (st_DataPath c) @ '' . | '' @ rclone @ '' rcat '' @ Quote (st_RemotePath c)
     @ '' --s3-chunk-size '' @ [dquote] @ ''${chunk}M'' @ [dquote]
     @ (if st_ExtraArgs c \<noteq> [] then '' '' @ st_ExtraArgs c else [])"

definition stream_buildRestore :: "StreamCmd \<Rightarrow> string \<Rightarrow> string" where
  "stream_buildRestore c rclone =
     ''set -o pipefail; mkdir -p '' @ Quote (st_DataPath c) @ '' && ''
     @ (if st_Clean c then cleanCmd (st_DataPath c) @ '' && '' else [])
     @ rclone @ '' cat '' @ Quote (st_RemotePath c)
     @ (if st_ExtraArgs c \<noteq> [] then '' '' @ st_ExtraArgs c else [])
     @ '' | tar -x --numeric-owner --xattrs '' @ lostFoundExclude
     @ (if decompressProgram (st_Compression c) \<noteq> []
        then '' -I '' @ Quote (decompressProgram (st_Compression c)) else [])
     @ '' -f - -C '' @ Quote (st_DataPath c)"

definition stream_Build :: "StreamCmd \<Rightarrow> (archive_error, string) result" where
  "stream_Build c =
     (case check_present
        [(''--archive-file'', st_RemotePath c), (''--path'', st_DataPath c),
         (''rclone config path'', st_ConfigPath c)] of
        Some e \<Rightarrow> Inl e
      | None \<Rightarrow>
      case compressProgram (st_Compression c) (st_Level c) of Inl e \<Rightarrow> Inl e
      | Inr program \<Rightarrow>
          let rclone = ''rclone --config '' @ Quote (st_ConfigPath c) @ '' '' @ rcloneProgressFlags
          in if st_Direction c = ar_DirectionBackup then Inr (stream_buildBackup c program rclone)
             else if st_Direction c = ar_DirectionRestore then Inr (stream_buildRestore c rclone)
             else Inl (ArchiveDirection (st_Direction c)))"

section \<open>tar between two volumes\<close>

definition TransportLevel :: int where "TransportLevel = 1"

definition sshOptions :: "string list" where
  "sshOptions =
     [''-o'', ''StrictHostKeyChecking=no'', ''-o'', ''UserKnownHostsFile=/dev/null'',
      ''-o'', ''ConnectTimeout=5'', ''-o'', ''ServerAliveInterval=10'',
      ''-o'', ''ServerAliveCountMax=3'']"

record TransferCmd =
  tc_Push :: bool
  tc_SSHUser :: string
  tc_SSHHost :: string
  tc_Port :: int
  tc_SrcPath :: string
  tc_DestPath :: string
  tc_Compression :: string
  tc_Level :: int
  tc_Clean :: bool
  tc_Local :: bool

definition transfer_check :: "TransferCmd \<Rightarrow> archive_error option" where
  "transfer_check c =
     check_present
       ([(''--source-path'', tc_SrcPath c), (''--dest-path'', tc_DestPath c)]
        @ (if \<not> tc_Local c then [(''ssh user'', tc_SSHUser c), (''ssh host'', tc_SSHHost c)] else []))"

definition sshPrefix :: "TransferCmd \<Rightarrow> string" where
  "sshPrefix c =
     Join ([''ssh''] @ sshOptions @ (if tc_Port c \<noteq> 0 then [''-p'', Itoa (tc_Port c)] else [])) '' ''
     @ '' '' @ Quote (tc_SSHUser c @ ''@'' @ tc_SSHHost c)"

definition preparePath :: "string \<Rightarrow> bool \<Rightarrow> string" where
  "preparePath path clean =
     ''mkdir -p '' @ Quote path @ '' && '' @ (if clean then cleanCmd path @ '' && '' else [])"

definition tarSource :: "string \<Rightarrow> string \<times> string" where
  "tarSource srcPath =
     (if HasSuffix srcPath ''/'' then (srcPath, ''.'') else (path_Dir srcPath, path_Base srcPath))"

text \<open>\<open>progress.TotalMarker\<close>, which the announcement of the total starts with.\<close>

definition TotalMarker :: string where "TotalMarker = ''pv-migrate-bytes-total:''"

definition tarCreate :: "string \<Rightarrow> string \<Rightarrow> string" where
  "tarCreate program srcPath =
     ''printf '' @ [squote] @ TotalMarker @ '' %s'' @ [backslash] @ ''n'' @ [squote] @ '' '' @ [dquote]
     @ ''$(df -B1 '' @ Quote srcPath @ '' | awk '' @ [squote] @ ''NR==2{print $3}'' @ [squote] @ '')''
     @ [dquote] @ '' >&2; ''
     @ ''tar -c --numeric-owner --xattrs --sparse '' @ lostFoundExclude
     @ (if program \<noteq> [] then '' -I '' @ Quote program else [])
     @ (case tarSource srcPath of (dir, member) \<Rightarrow>
          '' -f - -C '' @ Quote dir @ '' '' @ Quote member)"

definition tarExtract :: "string \<Rightarrow> string \<Rightarrow> string" where
  "tarExtract decompressor path =
     ''tar -x --numeric-owner --xattrs '' @ lostFoundExclude
     @ (if decompressor \<noteq> [] then '' -I '' @ Quote decompressor else [])
     @ '' -f - -C '' @ Quote path"

definition transfer_compression :: "TransferCmd \<Rightarrow> string" where
  "transfer_compression c =
     (if tc_Local c then CompressionNone
      else if tc_Compression c = [] then CompressionZstd else tc_Compression c)"

definition transfer_level :: "TransferCmd \<Rightarrow> int" where
  "transfer_level c =
     (if transfer_compression c = CompressionNone then 0
      else if tc_Level c = 0 then TransportLevel else tc_Level c)"

definition transfer_Build :: "TransferCmd \<Rightarrow> (archive_error, string) result" where
  "transfer_Build c =
     (case transfer_check c of Some e \<Rightarrow> Inl e
      | None \<Rightarrow>
      case compressProgram (transfer_compression c) (transfer_level c) of Inl e \<Rightarrow> Inl e
      | Inr p \<Rightarrow>
          let program = (if transfer_compression c = CompressionZstd then p @ '' --progress'' else p);
              create = tarCreate program (tc_SrcPath c);
              prepare = preparePath (tc_DestPath c) (tc_Clean c);
              extract = tarExtract (decompressProgram (transfer_compression c)) (tc_DestPath c)
          in if tc_Local c
             then Inr (''set -o pipefail; '' @ prepare @ create @ '' | '' @ extract)
             else if tc_Push c
             then Inr (''set -o pipefail; '' @ create @ '' | '' @ sshPrefix c @ '' ''
                       @ Quote (prepare @ extract))
             else Inr (''set -o pipefail; '' @ prepare @ sshPrefix c @ '' '' @ Quote create @ '' | ''
                       @ extract))"

section \<open>The archive file value\<close>

record Target =
  tg_Claim :: string
  tg_Bucket :: string
  tg_Path :: string
  tg_Compression :: string

definition Target_zero :: Target where
  "Target_zero = \<lparr>tg_Claim = [], tg_Bucket = [], tg_Path = [], tg_Compression = []\<rparr>"

definition InCluster :: "Target \<Rightarrow> bool" where "InCluster t \<longleftrightarrow> tg_Claim t \<noteq> []"
definition InBucket :: "Target \<Rightarrow> bool" where "InBucket t \<longleftrightarrow> tg_Bucket t \<noteq> []"

definition s3Scheme :: string where "s3Scheme = ''s3://''"

definition suffixes :: "(string \<times> string) list" where
  "suffixes =
     [(''.tar.zst'', CompressionZstd), (''.tzst'', CompressionZstd),
      (''.tar.gz'', CompressionGzip), (''.tgz'', CompressionGzip), (''.tar'', CompressionNone)]"

definition Extensions :: "string list" where
  "Extensions = map fst suffixes"

definition compressionFromPath :: "string \<Rightarrow> (archive_error, string) result" where
  "compressionFromPath path =
     (case find (\<lambda>(ext, _). HasSuffix path ext) suffixes of
        Some (_, compression) \<Rightarrow> Inr compression
      | None \<Rightarrow> Inl (NoKnownExtension path))"

text \<open>
  \<open>time.Time\<close> as far as the token layouts read it. \<open>Format\<close> pads the year to four digits and the
  other fields to two, with the sign of a negative year in front.
\<close>

record go_time =
  gt_year :: int
  gt_month :: nat
  gt_day :: nat
  gt_hour :: nat
  gt_minute :: nat
  gt_second :: nat

definition zero_pad :: "nat \<Rightarrow> nat \<Rightarrow> string" where
  "zero_pad width n = replicate (width - length (show_nat n)) (CHR ''0'') @ show_nat n"

definition timeToken :: "go_time \<Rightarrow> char \<Rightarrow> string option" where
  "timeToken now c =
     (if c = CHR ''Y'' then Some ((if gt_year now < 0 then ''-'' else []) @ zero_pad 4 (nat \<bar>gt_year now\<bar>))
      else if c = CHR ''m'' then Some (zero_pad 2 (gt_month now))
      else if c = CHR ''d'' then Some (zero_pad 2 (gt_day now))
      else if c = CHR ''H'' then Some (zero_pad 2 (gt_hour now))
      else if c = CHR ''M'' then Some (zero_pad 2 (gt_minute now))
      else if c = CHR ''S'' then Some (zero_pad 2 (gt_second now))
      else None)"

fun expandTime :: "string \<Rightarrow> go_time \<Rightarrow> (archive_error, string) result" where
  "expandTime [] now = Inr []"
| "expandTime (c # cs) now =
     (if c \<noteq> CHR ''%'' then map_sum id (Cons c) (expandTime cs now)
      else case cs of [] \<Rightarrow> Inl LonePercent
      | d # ds \<Rightarrow>
          if d = CHR ''%'' then map_sum id (Cons (CHR ''%'')) (expandTime ds now)
          else case timeToken now d of None \<Rightarrow> Inl (UnknownToken d)
          | Some text \<Rightarrow> map_sum id (append text) (expandTime ds now))"

definition splitLocation :: "string \<Rightarrow> (archive_error, Target) result" where
  "splitLocation value =
     (case CutPrefix value s3Scheme of
        Some rest \<Rightarrow>
          (case Cut rest ''/'' of None \<Rightarrow> Inl BadBucketForm
           | Some (bucket, key) \<Rightarrow>
               if bucket = [] \<or> key = [] then Inl BadBucketForm
               else Inr (Target_zero\<lparr>tg_Bucket := bucket, tg_Path := key\<rparr>))
      | None \<Rightarrow>
          (case Cut value '':'' of
             Some (claim, path) \<Rightarrow>
               if \<not> Contains claim ''/'' then
                 (if claim = [] then Inl EmptyClaim
                  else Inr (Target_zero\<lparr>tg_Claim := claim, tg_Path := path\<rparr>))
               else Inr (Target_zero\<lparr>tg_Path := value\<rparr>)
           | None \<Rightarrow> Inr (Target_zero\<lparr>tg_Path := value\<rparr>)))"

definition ParseTarget :: "string \<Rightarrow> go_time \<Rightarrow> (archive_error, Target) result" where
  "ParseTarget value now =
     (if value = [] then Inl ArchiveFileEmpty
      else case expandTime value now of Inl e \<Rightarrow> Inl e
      | Inr expanded \<Rightarrow>
      case splitLocation expanded of Inl e \<Rightarrow> Inl e
      | Inr target \<Rightarrow>
          if tg_Path target = [] then Inl NoPath
          else case compressionFromPath (tg_Path target) of Inl e \<Rightarrow> Inl e
          | Inr compression \<Rightarrow> Inr (target\<lparr>tg_Compression := compression\<rparr>))"

section \<open>Exit status\<close>

definition ChangedFilesExitCode :: int where "ChangedFilesExitCode = 1"

definition ToleratedMarker :: string where
  "ToleratedMarker = ''pv-migrate: some files changed while tar was reading them''"

definition archive_ToleratedExitCodes :: "int list" where
  "archive_ToleratedExitCodes = [ChangedFilesExitCode]"

definition archive_NoRetryExitCodes :: "int list" where
  "archive_NoRetryExitCodes = []"

definition archive_Interpret :: "int \<Rightarrow> string" where
  "archive_Interpret code =
     (if code = 0 then []
      else if code = ChangedFilesExitCode
      then ''some files changed while tar was reading them, or differ from the archive''
      else if code = 2
      then ''tar hit a fatal error, such as a path it could not open or a truncated stream''
      else [])"

section \<open>What the shell runs\<close>

text \<open>The commands a line is made of, as words.\<close>

definition find_words :: "string \<Rightarrow> string list" where
  "find_words d =
     [''find'', d, ''-mindepth'', ''1'', ''-not'', ''-path'', path_Join [d, ''lost+found''],
      ''-not'', ''-path'', path_Join [d, ''lost+found''] @ ''/*'', ''-delete'']"

definition tar_create_words :: "string \<Rightarrow> string \<Rightarrow> string \<Rightarrow> string \<Rightarrow> string list" where
  "tar_create_words program file dir member =
     [''tar'', ''-c'', ''--numeric-owner'', ''--xattrs'', ''--sparse'', ''--exclude=./lost+found'']
     @ (if program \<noteq> [] then [''-I'', program] else []) @ [''-f'', file, ''-C'', dir, member]"

definition tar_extract_words :: "string \<Rightarrow> string \<Rightarrow> string \<Rightarrow> string list" where
  "tar_extract_words program file dir =
     [''tar'', ''-x'', ''--numeric-owner'', ''--xattrs'', ''--exclude=./lost+found'']
     @ (if program \<noteq> [] then [''-I'', program] else []) @ [''-f'', file, ''-C'', dir]"

definition prepare_tokens :: "string \<Rightarrow> bool \<Rightarrow> sh_token list" where
  "prepare_tokens d clean =
     map Word [''mkdir'', ''-p'', d] @ [Op ''&&'']
     @ (if clean then map Word (find_words d) @ [Op ''&&''] else [])"

lemma seg_mkdir: "seg (''mkdir -p '' @ Quote d @ '' && '') (map Word [''mkdir'', ''-p'', d] @ [Op ''&&''])"
proof -
  have "seg ((Join [''mkdir'', ''-p'', Quote d] '' '' @ '' '') @ ''&& '')
          (map Word [''mkdir'', ''-p'', d] @ [Op ''&&''])"
    by (intro seg_append seg_Join_blank seg_ops) (simp_all add: renders_eval)
  then show ?thesis by simp
qed

lemma seg_cleanCmd: "seg (cleanCmd d @ '' && '') (map Word (find_words d) @ [Op ''&&''])"
proof -
  have "seg ((Join [''find'', Quote d, ''-mindepth'', ''1'', ''-not'', ''-path'',
                    Quote (path_Join [d, ''lost+found'']), ''-not'', ''-path'',
                    Quote (path_Join [d, ''lost+found''] @ ''/*''), ''-delete''] '' '' @ '' '') @ ''&& '')
          (map Word (find_words d) @ [Op ''&&''])"
    unfolding find_words_def
    by (intro seg_append seg_Join_blank seg_ops) (simp_all add: renders_eval)
  then show ?thesis by (simp add: cleanCmd_def)
qed

lemma seg_preparePath: "seg (preparePath d clean) (prepare_tokens d clean)"
  using seg_append [OF seg_mkdir seg_if [OF seg_cleanCmd], of d clean d]
  by (simp add: preparePath_def prepare_tokens_def)

definition tar_flags :: "string \<Rightarrow> string list \<Rightarrow> string list" where
  "tar_flags program rest = (if program \<noteq> [] then [''-I'', Quote program] else []) @ rest"

lemma tar_flags_render:
  "list_all2 renders ps ws \<Longrightarrow>
     list_all2 renders (tar_flags program ps) ((if program \<noteq> [] then [''-I'', program] else []) @ ws)"
  unfolding tar_flags_def by (intro list_all2_appendI) (simp_all add: renders_eval)

lemma tar_extract_pieces:
  assumes "renders f file"
  shows "list_all2 renders
     ([''tar'', ''-x'', ''--numeric-owner'', ''--xattrs'', ''--exclude=./lost+found'']
      @ tar_flags program [''-f'', f, ''-C'', Quote dir])
     (tar_extract_words program file dir)"
  unfolding tar_extract_words_def
  by (intro list_all2_appendI tar_flags_render) (simp_all add: renders_eval assms)

lemma tar_create_pieces:
  assumes "renders f file" and "renders m member"
  shows "list_all2 renders
     ([''tar'', ''-c'', ''--numeric-owner'', ''--xattrs'', ''--sparse'', ''--exclude=./lost+found'']
      @ tar_flags program [''-f'', f, ''-C'', Quote dir, m])
     (tar_create_words program file dir member)"
  unfolding tar_create_words_def
  by (intro list_all2_appendI tar_flags_render) (simp_all add: renders_eval assms)

text \<open>
  The tokens of the stored archive's line. The destination directory is made and, for a clean
  restore, emptied before tar runs; every step is chained with \<open>&&\<close>, so tar does not run after one
  that failed.
\<close>

definition archive_tokens :: "archive_Cmd \<Rightarrow> string \<Rightarrow> sh_token list" where
  "archive_tokens c program =
     (if ac_Direction c = ar_DirectionBackup
      then map Word [''mkdir'', ''-p'', path_Dir (ac_ArchivePath c)] @ [Op ''&&'']
           @ map Word (tar_create_words program (ac_ArchivePath c) (ac_DataPath c) ''.'')
      else prepare_tokens (ac_DataPath c) (ac_Clean c)
           @ map Word (tar_extract_words [] (ac_ArchivePath c) (ac_DataPath c)))"

lemma archive_Build_backup:
  assumes "archive_Build c = Inr s" and "compressProgram (ac_Compression c) (ac_Level c) = Inr program"
    and "ac_Direction c = ar_DirectionBackup"
  shows "s = (''mkdir -p '' @ Quote (path_Dir (ac_ArchivePath c)) @ '' && '')
     @ Join ([''tar'', ''-c'', ''--numeric-owner'', ''--xattrs'', ''--sparse'', ''--exclude=./lost+found'']
             @ tar_flags program [''-f'', Quote (ac_ArchivePath c), ''-C'', Quote (ac_DataPath c), ''.'']) '' ''"
  using assms by (cases "program = []")
    (auto simp: archive_Build_def tar_flags_def lostFoundExclude_def Let_def split: option.splits)

lemma archive_Build_restore:
  assumes "archive_Build c = Inr s" and "compressProgram (ac_Compression c) (ac_Level c) = Inr program"
    and "ac_Direction c \<noteq> ar_DirectionBackup"
  shows "s = preparePath (ac_DataPath c) (ac_Clean c)
     @ Join ([''tar'', ''-x'', ''--numeric-owner'', ''--xattrs'', ''--exclude=./lost+found'']
             @ tar_flags [] [''-f'', Quote (ac_ArchivePath c), ''-C'', Quote (ac_DataPath c)]) '' ''"
  using assms by (cases "ac_Clean c")
    (auto simp: archive_Build_def tar_flags_def lostFoundExclude_def preparePath_def Let_def
      split: option.splits if_splits)

text \<open>
  C13: the stored archive's line, in both directions: the shell makes the directory, empties the
  volume when a clean restore asks for it (keeping the filesystem's own \<open>lost+found\<close>), and runs
  tar on exactly the archive and the volume that were named, with the compressor of a backup as
  one argument.
\<close>

theorem archive_Build_tokens:
  assumes "archive_Build c = Inr s" and "compressProgram (ac_Compression c) (ac_Level c) = Inr program"
  shows "sh_tokens s = Some (archive_tokens c program)"
proof -
  show ?thesis
  proof (cases "ac_Direction c = ar_DirectionBackup")
    case True
    have "renders ''.'' ''.''" by (simp add: renders_eval)
    from seg_tokens [OF seg_mkdir tar_create_pieces [OF renders_Quote this]]
    show ?thesis unfolding archive_Build_backup [OF assms True] archive_tokens_def using True by simp
  next
    case False
    from seg_tokens [OF seg_preparePath tar_extract_pieces [OF renders_Quote]]
    show ?thesis unfolding archive_Build_restore [OF assms False] archive_tokens_def using False by simp
  qed
qed

definition archive_example :: archive_Cmd where
  "archive_example =
     \<lparr>ac_Direction = ''restore'', ac_ArchivePath = ''/archive/x y.tar.zst'', ac_DataPath = ''/data'',
      ac_Compression = ''zstd'', ac_Level = 0, ac_Clean = False\<rparr>"

lemma archive_Build_tokens_witness:
  "\<exists>s program. archive_Build archive_example = Inr s \<and>
     sh_tokens s = Some (map Word [''mkdir'', ''-p'', ''/data''] @ [Op ''&&'']
       @ map Word [''tar'', ''-x'', ''--numeric-owner'', ''--xattrs'', ''--exclude=./lost+found'',
                   ''-f'', ''/archive/x y.tar.zst'', ''-C'', ''/data''])"
proof -
  have "archive_checkPaths archive_example = None"
    by (simp add: archive_checkPaths_def archive_example_def CheckSingleLine_eval)
  moreover obtain program where p: "compressProgram (ac_Compression archive_example) (ac_Level archive_example) = Inr program"
    by (simp add: archive_example_def compressProgram_def CompressionNone_def CompressionZstd_def
        checkLevel_def minLevel_def maxZstdLevel_def DefaultZstdLevel_def)
  ultimately obtain s where s: "archive_Build archive_example = Inr s"
    by (simp add: archive_Build_def archive_example_def ar_DirectionBackup_def ar_DirectionRestore_def Let_def)
  from archive_Build_tokens [OF s p] s show ?thesis
    by (simp add: archive_tokens_def archive_example_def ar_DirectionBackup_def prepare_tokens_def
        tar_extract_words_def)
qed

section \<open>The transported archive\<close>

definition ssh_words :: "TransferCmd \<Rightarrow> string list" where
  "ssh_words c =
     [''ssh''] @ sshOptions @ (if tc_Port c \<noteq> 0 then [''-p'', Itoa (tc_Port c)] else [])
     @ [tc_SSHUser c @ ''@'' @ tc_SSHHost c]"

definition ssh_pieces :: "TransferCmd \<Rightarrow> string list" where
  "ssh_pieces c =
     [''ssh''] @ sshOptions @ (if tc_Port c \<noteq> 0 then [''-p'', Itoa (tc_Port c)] else [])
     @ [Quote (tc_SSHUser c @ ''@'' @ tc_SSHHost c)]"

lemma ssh_pieces_render: "list_all2 renders (ssh_pieces c) (ssh_words c)"
  unfolding ssh_pieces_def ssh_words_def
  by (intro list_all2_appendI) (simp_all add: sshOptions_def renders_eval)

lemma sshPrefix_pieces: "sshPrefix c = Join (ssh_pieces c) '' ''"
  by (simp add: sshPrefix_def ssh_pieces_def sshOptions_def)

lemma ssh_pieces_not_Nil [simp]: "ssh_pieces c \<noteq> []"
  by (simp add: ssh_pieces_def)

lemma seg_pipefail: "seg ''set -o pipefail; '' (map Word [''set'', ''-o'', ''pipefail''] @ [Op '';''])"
  using seg_Join_semi [of "[''set'', ''-o'', ''pipefail'']" "[''set'', ''-o'', ''pipefail'']"]
  by (simp add: renders_eval)

lemma tarExtract_pieces:
  "tarExtract decompressor d =
     Join ([''tar'', ''-x'', ''--numeric-owner'', ''--xattrs'', ''--exclude=./lost+found'']
           @ tar_flags decompressor [''-f'', ''-'', ''-C'', Quote d]) '' ''"
  by (cases "decompressor = []") (simp_all add: tarExtract_def tar_flags_def lostFoundExclude_def)

lemma renders_dash: "renders ''-'' ''-''"
  by (simp add: renders_eval)

text \<open>The preparation and the extraction, on whichever side runs them.\<close>

lemma prepare_extract_tokens:
  "sh_tokens (preparePath d clean @ tarExtract decompressor d) =
     Some (prepare_tokens d clean @ map Word (tar_extract_words decompressor ''-'' d))"
  unfolding tarExtract_pieces
  using seg_tokens [OF seg_preparePath tar_extract_pieces [OF renders_dash]] by simp

definition transfer_program :: "TransferCmd \<Rightarrow> string" where
  "transfer_program c =
     (case compressProgram (transfer_compression c) (transfer_level c) of Inl _ \<Rightarrow> []
      | Inr p \<Rightarrow> if transfer_compression c = CompressionZstd then p @ '' --progress'' else p)"

text \<open>
  C12: a pulled transfer runs, in this order and each only if the one before it succeeded: making
  (and, when asked, emptying) the destination, then ssh to the source with the whole tar command of
  the source side as one argument, piped into a tar that extracts into the destination. The line
  starts by enabling \<open>pipefail\<close>, so a source that fails fails the line.
\<close>

theorem transfer_pull_tokens:
  assumes "transfer_Build c = Inr s" and "\<not> tc_Local c" and "\<not> tc_Push c"
  shows "sh_tokens s =
    Some (map Word [''set'', ''-o'', ''pipefail''] @ [Op '';'']
      @ prepare_tokens (tc_DestPath c) (tc_Clean c)
      @ map Word (ssh_words c @ [tarCreate (transfer_program c) (tc_SrcPath c)]) @ [Op ''|'']
      @ map Word (tar_extract_words (decompressProgram (transfer_compression c)) ''-'' (tc_DestPath c)))"
proof -
  let ?create = "tarCreate (transfer_program c) (tc_SrcPath c)"
  have s: "s = (''set -o pipefail; '' @ preparePath (tc_DestPath c) (tc_Clean c)
          @ (Join (ssh_pieces c @ [Quote ?create]) '' '' @ '' '') @ ''| '')
          @ tarExtract (decompressProgram (transfer_compression c)) (tc_DestPath c)"
    using assms by (auto simp: transfer_Build_def transfer_program_def sshPrefix_pieces Join_append Let_def
        split: option.splits sum.splits)
  have "seg (''set -o pipefail; '' @ preparePath (tc_DestPath c) (tc_Clean c)
          @ (Join (ssh_pieces c @ [Quote ?create]) '' '' @ '' '') @ ''| '')
        ((map Word [''set'', ''-o'', ''pipefail''] @ [Op '';''])
          @ prepare_tokens (tc_DestPath c) (tc_Clean c)
          @ map Word (ssh_words c @ [?create]) @ [Op ''|''])"
    by (intro seg_append seg_pipefail seg_preparePath seg_Join_blank seg_ops list_all2_appendI
        ssh_pieces_render) simp_all
  from seg_tokens [OF this tar_extract_pieces [OF renders_dash]]
  show ?thesis unfolding s tarExtract_pieces by simp
qed

definition transfer_example :: TransferCmd where
  "transfer_example =
     \<lparr>tc_Push = False, tc_SSHUser = ''root'', tc_SSHHost = ''host'', tc_Port = 0, tc_SrcPath = ''/source/'',
      tc_DestPath = ''/dest/it is'', tc_Compression = [], tc_Level = 0, tc_Clean = False, tc_Local = False\<rparr>"

lemma transfer_pull_tokens_witness:
  "\<exists>s create. transfer_Build transfer_example = Inr s \<and>
    sh_tokens s =
    Some (map Word [''set'', ''-o'', ''pipefail''] @ [Op '';'']
      @ map Word [''mkdir'', ''-p'', ''/dest/it is''] @ [Op ''&&'']
      @ map Word ([''ssh''] @ sshOptions @ [''root@host'', create]) @ [Op ''|'']
      @ map Word (tar_extract_words ''zstd'' ''-'' ''/dest/it is''))"
proof -
  have "transfer_check transfer_example = None"
    by (simp add: transfer_check_def transfer_example_def CheckSingleLine_eval)
  moreover have comp: "transfer_compression transfer_example = CompressionZstd"
    by (simp add: transfer_compression_def transfer_example_def)
  moreover obtain p where "compressProgram CompressionZstd (transfer_level transfer_example) = Inr p"
    by (simp add: transfer_level_def transfer_example_def comp [unfolded transfer_example_def]
        compressProgram_def CompressionNone_def CompressionZstd_def
        checkLevel_def minLevel_def maxZstdLevel_def TransportLevel_def)
  ultimately obtain s where s: "transfer_Build transfer_example = Inr s"
    by (simp add: transfer_Build_def transfer_example_def Let_def)
  from transfer_pull_tokens [OF s] s show ?thesis
    unfolding comp by (auto simp: transfer_example_def prepare_tokens_def ssh_words_def decompressProgram_def)
qed

section \<open>The archive file value round-trips\<close>

lemma expandTime_plain: "CHR ''%'' \<notin> set v \<Longrightarrow> expandTime v now = Inr v"
  by (induction v) auto

lemma expandTime_escaped: "expandTime (ReplaceByte v (CHR ''%'') ''%%'') now = Inr v"
  by (induction v) auto

text \<open>A token is replaced where it stands, and the rest of the value is read on its own.\<close>

lemma expandTime_token:
  assumes "timeToken now d = Some text" and "expandTime v now = Inr w"
  shows "expandTime (CHR ''%'' # d # v) now = Inr (text @ w)"
proof -
  have "d \<noteq> CHR ''%''" using assms(1) by (auto simp: timeToken_def)
  with assms show ?thesis by simp
qed

text \<open>How a location is written.\<close>

definition print_target :: "Target \<Rightarrow> string" where
  "print_target t =
     (if InBucket t then s3Scheme @ tg_Bucket t @ ''/'' @ tg_Path t
      else if InCluster t then tg_Claim t @ '':'' @ tg_Path t
      else tg_Path t)"

definition target_ok :: "Target \<Rightarrow> bool" where
  "target_ok t \<longleftrightarrow>
     tg_Path t \<noteq> [] \<and> compressionFromPath (tg_Path t) = Inr (tg_Compression t) \<and>
     (if InBucket t then \<not> InCluster t \<and> slash \<notin> set (tg_Bucket t)
      else \<not> HasPrefix (print_target t) s3Scheme \<and>
           (if InCluster t then slash \<notin> set (tg_Claim t) \<and> CHR '':'' \<notin> set (tg_Claim t)
            else case Cut (tg_Path t) '':'' of None \<Rightarrow> True | Some (before, _) \<Rightarrow> slash \<in> set before))"

lemma splitLocation_lossless:
  assumes "splitLocation v = Inr t"
  shows "print_target t = v" and "tg_Compression t = []"
    and "InBucket t \<longleftrightarrow> HasPrefix v s3Scheme"
    and "InCluster t \<Longrightarrow> \<not> InBucket t \<and> slash \<notin> set (tg_Claim t) \<and> CHR '':'' \<notin> set (tg_Claim t)"
proof -
  show "print_target t = v" "tg_Compression t = []" "InBucket t \<longleftrightarrow> HasPrefix v s3Scheme"
    "InCluster t \<Longrightarrow> \<not> InBucket t \<and> slash \<notin> set (tg_Claim t) \<and> CHR '':'' \<notin> set (tg_Claim t)"
    using assms
    by (auto simp: splitLocation_def print_target_def InBucket_def InCluster_def Target_zero_def
        Cut_byte_Some CutPrefix_def prefix_def
        split: option.splits if_splits prod.splits)
qed

lemma splitLocation_print:
  assumes "target_ok t"
  shows "splitLocation (print_target t) = Inr (t\<lparr>tg_Compression := []\<rparr>)"
proof (cases "InBucket t")
  case True
  then have "Cut (tg_Bucket t @ ''/'' @ tg_Path t) ''/'' = Some (tg_Bucket t, tg_Path t)"
    using assms by (simp add: Cut_byte_Some target_ok_def)
  with True assms show ?thesis
    by (simp add: splitLocation_def print_target_def target_ok_def InBucket_def InCluster_def
        Target_zero_def del: append_Cons)
next
  case False
  then have no: "CutPrefix (print_target t) s3Scheme = None"
    using assms by (simp add: CutPrefix_def target_ok_def)
  show ?thesis
  proof (cases "InCluster t")
    case True
    then have "Cut (tg_Claim t @ '':'' @ tg_Path t) '':'' = Some (tg_Claim t, tg_Path t)"
      using assms False by (simp add: Cut_byte_Some target_ok_def)
    with True False no assms show ?thesis
      by (simp add: splitLocation_def print_target_def target_ok_def InBucket_def InCluster_def Target_zero_def)
  next
    case bare: False
    with False no assms show ?thesis
      by (auto simp: splitLocation_def print_target_def target_ok_def InBucket_def InCluster_def
          Target_zero_def split: option.splits)
  qed
qed

text \<open>
  Reading an \<open>--archive-file\<close> value recovers the location it was written for, on a claim, in a
  bucket or in the pod, at any time of day, when the percent signs of the value are doubled.
\<close>

theorem ParseTarget_roundtrip:
  assumes "target_ok t"
  shows "ParseTarget (ReplaceByte (print_target t) (CHR ''%'') ''%%'') now = Inr t"
proof -
  have "print_target t \<noteq> []"
    using assms by (auto simp: print_target_def target_ok_def s3Scheme_def)
  then have "ReplaceByte (print_target t) (CHR ''%'') ''%%'' \<noteq> []"
    by (cases "print_target t") auto
  with assms show ?thesis
    by (simp add: ParseTarget_def expandTime_escaped splitLocation_print target_ok_def)
qed

lemma ParseTarget_roundtrip_witness:
  "ParseTarget ''backups:db/100%%.tar.gz''
     \<lparr>gt_year = 2024, gt_month = 1, gt_day = 2, gt_hour = 3, gt_minute = 4, gt_second = 5\<rparr> =
   Inr \<lparr>tg_Claim = ''backups'', tg_Bucket = [], tg_Path = ''db/100%.tar.gz'', tg_Compression = ''gzip''\<rparr>"
proof -
  let ?t = "\<lparr>tg_Claim = ''backups'', tg_Bucket = [], tg_Path = ''db/100%.tar.gz'', tg_Compression = ''gzip''\<rparr>"
  have "target_ok ?t"
    by (simp add: target_ok_def InBucket_def InCluster_def print_target_def s3Scheme_def
        compressionFromPath_def suffixes_def CompressionGzip_def suffix_def)
  from ParseTarget_roundtrip [OF this] show ?thesis
    by (simp add: print_target_def InBucket_def InCluster_def)
qed

lemma compressions_differ [simp]:
  "CompressionZstd \<noteq> CompressionNone" "CompressionGzip \<noteq> CompressionNone"
  "CompressionGzip \<noteq> CompressionZstd" "CompressionNone \<noteq> CompressionZstd"
  by (simp_all add: CompressionNone_def CompressionZstd_def CompressionGzip_def)

text \<open>
  The extension given to an archive written with a compression is read back as that
  compression, whatever the name before it, so a restore needs no other statement of the format.
\<close>

theorem compression_roundtrip:
  assumes "Extension compression = Inr ext"
  shows "compressionFromPath (base @ ext) = Inr compression"
  using assms
  by (auto simp: Extension_def compressionFromPath_def suffixes_def suffix_to_prefix split: if_splits)

lemma compression_roundtrip_witness:
  "compressionFromPath (''db.tar'' @ ''.tar.gz'') = Inr CompressionGzip"
  using compression_roundtrip [of CompressionGzip "''.tar.gz''" "''db.tar''"] by (simp add: Extension_def)

section \<open>What is read\<close>

lemma tarSource_facts:
  assumes "IsAbs src" and "tarSource src = (dir, member)"
  shows "location (dir @ ''/'' @ member) = location src"
    and "HasSuffix src ''/'' \<Longrightarrow> member = ''.'' \<and> dir = src"
    and "\<not> HasSuffix src ''/'' \<Longrightarrow> slash \<notin> set member \<and> HasSuffix src (''/'' @ member)"
proof -
  have "location (src @ ''/'' @ ''.'') = location src"
    using location_append [of src "''.''"] by simp
  with assms show "location (dir @ ''/'' @ member) = location src"
    using location_Dir_Base [OF assms(1)] by (auto simp: tarSource_def split: if_splits)
  have base: "slash \<notin> set (path_Base src) \<and> HasSuffix src (''/'' @ path_Base src)"
    if contents: "\<not> HasSuffix src ''/''"
  proof -
    obtain a b where ab: "src = a @ slash # b" "slash \<notin> set b" "b \<noteq> []" "a = [] \<or> IsAbs a"
      by (rule last_slash [OF assms(1) contents])
    then show ?thesis using path_Dir_Base(2) [OF ab(1-3)] by (simp add: suffix_def)
  qed
  then show "\<not> HasSuffix src ''/'' \<Longrightarrow> slash \<notin> set member \<and> HasSuffix src (''/'' @ member)"
    using assms(2) by (simp add: tarSource_def)
  show "HasSuffix src ''/'' \<Longrightarrow> member = ''.'' \<and> dir = src"
    using assms(2) by (simp add: tarSource_def)
qed

text \<open>
  The directory tar changes to and the member it archives together name exactly the source
  path. A trailing slash archives the contents, so the member is \<open>.\<close>; without one the member is
  the last name of the path, so no directory level is dropped.
\<close>

theorem tarSource_location:
  assumes "IsAbs src" and "tarSource src = (dir, member)"
  shows "location (dir @ ''/'' @ member) = location src \<and>
    (if HasSuffix src ''/'' then member = ''.'' \<and> dir = src
     else slash \<notin> set member \<and> HasSuffix src (''/'' @ member))"
  using tarSource_facts [OF assms] by simp

lemma tarSource_location_witness:
  "location (path_Dir ''/source/a/b'' @ ''/'' @ ''b'') = [''source'', ''a'', ''b'']"
proof -
  have "path_Base ''/source/a/b'' = ''b''" by (simp add: path_Base_def)
  then have "tarSource ''/source/a/b'' = (path_Dir ''/source/a/b'', ''b'')"
    by (simp add: tarSource_def suffix_def)
  from tarSource_location [OF _ this] show ?thesis by (simp add: IsAbs_def location_def)
qed

section \<open>Levels\<close>

text \<open>
  Which levels a compression accepts: none for an uncompressed archive, 1 to 19 for zstd and
  1 to 9 for gzip, with zero standing for the default; every other name is refused.
\<close>

theorem CheckLevel_iff:
  "CheckLevel compression level = None \<longleftrightarrow>
     compression = CompressionNone \<and> level = 0 \<or>
     compression = CompressionZstd \<and> 0 \<le> level \<and> level \<le> 19 \<or>
     compression = CompressionGzip \<and> 0 \<le> level \<and> level \<le> 9"
  by (auto simp: CheckLevel_def compressProgram_def checkLevel_def minLevel_def maxZstdLevel_def
      maxGzipLevel_def DefaultZstdLevel_def DefaultGzipLevel_def Let_def
      split: if_splits option.splits)

end
