(* ===== verification/LineTail.thy ===== *)
theory LineTail
  imports GoPrelude
begin

text \<open>
  The writer that keeps the last raw lines of a local session
  (\<open>src/internal/strategy/linetail.go\<close>). The lock serialises \<open>Write\<close> and \<open>Lines\<close>, so a run is a
  sequence of them. The theorem gives the kept lines as a function of the bytes written, however
  they were cut into writes.
\<close>

definition sessionTailLines :: nat where "sessionTailLines = 20"

record lineTail =
  lt_limit :: nat
  lt_partial :: string
  lt_lines :: "string list"

definition line_end :: "char \<Rightarrow> bool" where
  "line_end c \<longleftrightarrow> c = return_byte \<or> c = newline_byte"

text \<open>
  \<open>record\<close>: \<open>copy(t.lines, t.lines[1:])\<close> moves every line one place down and leaves the last where
  it was; the slice expression then cuts that one off.
\<close>

definition lt_record :: "string \<Rightarrow> lineTail \<Rightarrow> lineTail" where
  "lt_record line t =
     (let kept = (if length (lt_lines t) = lt_limit t
                  then take (lt_limit t - 1) (tl (lt_lines t) @ [last (lt_lines t)])
                  else lt_lines t)
      in t\<lparr>lt_lines := kept @ [line]\<rparr>)"

text \<open>\<open>bytes.IndexAny(t.partial, "\r\n")\<close>: what stands before the first line end, and after it.\<close>

fun cut_line :: "string \<Rightarrow> (string \<times> string) option" where
  "cut_line [] = None"
| "cut_line (c # cs) =
     (if line_end c then Some ([], cs) else map_option (\<lambda>(a, b). (c # a, b)) (cut_line cs))"

lemma cut_line_shorter: "cut_line s = Some (a, b) \<Longrightarrow> length b < length s"
  by (induction s arbitrary: a) (auto split: if_splits simp: less_SucI)

function lt_drain :: "lineTail \<Rightarrow> lineTail" where
  "lt_drain t =
     (case cut_line (lt_partial t) of None \<Rightarrow> t
      | Some (before, after) \<Rightarrow>
          let line = TrimSpace before;
              t' = t\<lparr>lt_partial := after\<rparr>
          in lt_drain (if line \<noteq> [] then lt_record line t' else t'))"
  by pat_completeness auto
termination
proof (relation "measure (\<lambda>t. length (lt_partial t))", simp)
  fix t :: lineTail and p before after line t'
  assume "cut_line (lt_partial t) = Some p" "(before, after) = p" "line = TrimSpace before"
    "t' = t\<lparr>lt_partial := after\<rparr>"
  then show "(if line \<noteq> [] then lt_record line t' else t', t) \<in> measure (\<lambda>t. length (lt_partial t))"
    using cut_line_shorter [of "lt_partial t" before after] by (simp add: lt_record_def Let_def)
qed

declare lt_drain.simps [simp del]

definition lt_Write :: "string \<Rightarrow> lineTail \<Rightarrow> lineTail \<times> nat" where
  "lt_Write data t = (lt_drain (t\<lparr>lt_partial := lt_partial t @ data\<rparr>), length data)"

definition lt_Lines :: "lineTail \<Rightarrow> string list" where
  "lt_Lines t =
     (let rest = TrimSpace (lt_partial t)
      in if rest \<noteq> [] then lt_lines t @ [rest] else lt_lines t)"

section \<open>The lines of a byte sequence\<close>

fun segments :: "string \<Rightarrow> string list \<times> string" where
  "segments [] = ([], [])"
| "segments (c # cs) =
     (case segments cs of (ls, rest) \<Rightarrow>
        if line_end c then ([] # ls, rest)
        else case ls of [] \<Rightarrow> ([], c # rest) | l # ls' \<Rightarrow> ((c # l) # ls', rest))"

definition full_lines :: "string \<Rightarrow> string list" where
  "full_lines s = filter (\<lambda>l. l \<noteq> []) (map TrimSpace (fst (segments s)))"

definition takelast :: "nat \<Rightarrow> 'a list \<Rightarrow> 'a list" where
  "takelast n xs = drop (length xs - n) xs"

lemma segments_append:
  "segments (a @ b) =
     (fst (segments a) @ fst (segments (snd (segments a) @ b)), snd (segments (snd (segments a) @ b)))"
  by (induction a) (auto split: prod.splits list.splits)

lemma segments_cut_line_None: "cut_line s = None \<Longrightarrow> segments s = ([], s)"
  by (induction s) (auto split: if_splits prod.splits)

lemma segments_cut_line_Some:
  "cut_line s = Some (a, b) \<Longrightarrow> segments s = (a # fst (segments b), snd (segments b))"
  by (induction s arbitrary: a) (auto split: if_splits prod.splits)

lemma segments_rest: "segments (snd (segments s)) = ([], snd (segments s))"
  by (induction s) (auto split: prod.splits list.splits)

lemma full_lines_append: "full_lines (a @ b) = full_lines a @ full_lines (snd (segments a) @ b)"
  by (simp add: full_lines_def segments_append [of a b])

lemma lt_record_takelast:
  assumes "0 < lt_limit t" and "lt_lines t = takelast (lt_limit t) ls"
  shows "lt_lines (lt_record line t) = takelast (lt_limit t) (ls @ [line])"
proof (cases "length ls < lt_limit t")
  case True
  with assms show ?thesis by (simp add: lt_record_def takelast_def)
next
  case False
  with assms have len: "length (lt_lines t) = lt_limit t" by (simp add: takelast_def)
  have "take (lt_limit t - 1) (tl (lt_lines t) @ [last (lt_lines t)]) = tl (lt_lines t)"
    using len by simp
  moreover have "tl (lt_lines t) = drop (Suc (length ls - lt_limit t)) ls"
    using assms(2) by (simp add: takelast_def drop_Suc tl_drop)
  ultimately show ?thesis
    using False assms(1) len by (simp add: lt_record_def takelast_def Suc_diff_le)
qed

lemma lt_drain_spec:
  assumes "0 < lt_limit t" and "lt_lines t = takelast (lt_limit t) ls"
  shows "lt_limit (lt_drain t) = lt_limit t \<and> lt_partial (lt_drain t) = snd (segments (lt_partial t)) \<and>
    lt_lines (lt_drain t) = takelast (lt_limit t) (ls @ full_lines (lt_partial t))"
  using assms
proof (induction t arbitrary: ls rule: lt_drain.induct)
  case (1 t)
  show ?case
  proof (cases "cut_line (lt_partial t)")
    case None
    with 1 show ?thesis
      by (simp add: lt_drain.simps [of t] segments_cut_line_None full_lines_def)
  next
    case (Some p)
    obtain before after where p: "p = (before, after)" by (cases p)
    let ?t' = "if TrimSpace before \<noteq> [] then lt_record (TrimSpace before) (t\<lparr>lt_partial := after\<rparr>)
               else t\<lparr>lt_partial := after\<rparr>"
    let ?new = "if TrimSpace before \<noteq> [] then [TrimSpace before] else []"
    have step: "lt_drain t = lt_drain ?t'"
      using Some p by (simp add: lt_drain.simps [of t] Let_def)
    have "lt_limit ?t' = lt_limit t" "lt_partial ?t' = after"
      by (simp_all add: lt_record_def Let_def)
    moreover have "lt_lines ?t' = takelast (lt_limit t) (ls @ ?new)"
      using "1.prems" lt_record_takelast [of "t\<lparr>lt_partial := after\<rparr>" ls "TrimSpace before"] by simp
    ultimately have "lt_limit (lt_drain ?t') = lt_limit t \<and> lt_partial (lt_drain ?t') = snd (segments after) \<and>
        lt_lines (lt_drain ?t') = takelast (lt_limit t) ((ls @ ?new) @ full_lines after)"
      using "1.IH" [OF Some p [symmetric] refl refl, of "ls @ ?new"] "1.prems"(1) by simp
    then show ?thesis
      unfolding step using segments_cut_line_Some [of "lt_partial t" before after] Some p
      by (simp add: full_lines_def)
  qed
qed

text \<open>The state after a sequence of writes.\<close>

definition lt_writes :: "string list \<Rightarrow> lineTail \<Rightarrow> lineTail" where
  "lt_writes chunks t = fold (\<lambda>d t. fst (lt_Write d t)) chunks t"

definition lt_new :: "nat \<Rightarrow> lineTail" where
  "lt_new limit = \<lparr>lt_limit = limit, lt_partial = [], lt_lines = []\<rparr>"

definition lt_holds :: "nat \<Rightarrow> string \<Rightarrow> lineTail \<Rightarrow> bool" where
  "lt_holds limit s t \<longleftrightarrow>
     lt_limit t = limit \<and> lt_partial t = snd (segments s) \<and> lt_lines t = takelast limit (full_lines s)"

lemma lt_Write_holds:
  assumes "0 < limit" and "lt_holds limit s t"
  shows "lt_holds limit (s @ data) (fst (lt_Write data t))"
  using assms lt_drain_spec [of "t\<lparr>lt_partial := lt_partial t @ data\<rparr>" "full_lines s"]
  by (simp add: lt_holds_def lt_Write_def full_lines_append [of s data] segments_append [of s data])

lemma lt_writes_holds:
  "0 < limit \<Longrightarrow> lt_holds limit s t \<Longrightarrow> lt_holds limit (s @ concat chunks) (lt_writes chunks t)"
proof (induction chunks arbitrary: s t)
  case (Cons c cs)
  from Cons.IH [OF Cons.prems(1) lt_Write_holds [OF Cons.prems, of c]] show ?case
    by (simp add: lt_writes_def)
qed (simp add: lt_writes_def)

text \<open>
  After any writes, \<open>Lines\<close> returns the last \<open>limit\<close> non-blank lines of the bytes written, a
  line ending at a line feed or a carriage return, followed by the unterminated rest when it is not
  blank. Only the concatenation of the writes matters, not where they were cut.
\<close>

theorem lineTail_Lines:
  assumes "0 < limit"
  shows "lt_Lines (lt_writes chunks (lt_new limit)) =
    (let s = concat chunks; rest = TrimSpace (snd (segments s))
     in takelast limit (full_lines s) @ (if rest \<noteq> [] then [rest] else []))"
proof -
  have "lt_holds limit [] (lt_new limit)"
    by (simp add: lt_holds_def lt_new_def full_lines_def takelast_def)
  from lt_writes_holds [OF assms this, of chunks] show ?thesis
    by (simp add: lt_Lines_def lt_holds_def Let_def)
qed

lemma lineTail_Lines_witness:
  "lt_Lines (lt_writes [''ab'' @ [return_byte] @ ''c'', ''d'' @ [newline_byte, newline_byte] @ ''e''] (lt_new 1)) =
   [''cd'', ''e'']"
proof -
  have trim: "TrimSpace [] = []" "TrimSpace ''ab'' = ''ab''" "TrimSpace ''cd'' = ''cd''" "TrimSpace ''e'' = ''e''"
    by (simp add: TrimSpace_def trim_leading.simps)
       (auto simp: solid_def byte_def intro!: TrimSpace_solid(1))
  show ?thesis
    using lineTail_Lines [of 1 "[''ab'' @ [return_byte] @ ''c'', ''d'' @ [newline_byte, newline_byte] @ ''e'']"]
    by (simp add: full_lines_def line_end_def trim takelast_def)
qed

end
