(* ===== verification/HelmValues.thy ===== *)
theory HelmValues
  imports GoPrelude "HOL-Library.AList" "HOL-Library.Char_ord" "HOL-Library.List_Lexorder"
begin

text \<open>
  Package \<open>internal/helm\<close>'s reading and adjusting of chart values (\<open>src/internal/helm/values.go\<close>),
  and the two adjustments the strategies make to them (\<open>applyNonRootValues\<close> and
  \<open>installsLoadBalancer\<close> of \<open>src/internal/strategy/strategy.go\<close>). A \<open>map[string]any\<close> is an
  association list read by \<^const>\<open>map_of\<close> and written by \<^const>\<open>AList.update\<close>; the dynamic
  type of a value is the constructor of \<open>hval\<close>.
\<close>

datatype hval =
    HNull
  | HBool bool
  | HStr string
  | HInt int
  | HStrs "string list"
  | HList "hval list"
  | HMaps "(string \<times> hval) list list"
  | HMap "(string \<times> hval) list"

type_synonym hmap = "(string \<times> hval) list"

definition keyEnabled :: string where "keyEnabled = ''enabled''"
definition keyNamespace :: string where "keyNamespace = ''namespace''"
definition keyNetworkPolicy :: string where "keyNetworkPolicy = ''networkPolicy''"

text \<open>The type assertion \<open>value.(map[string]any)\<close> of a map lookup.\<close>

definition as_section :: "hval option \<Rightarrow> hmap option" where
  "as_section v = (case v of Some (HMap m) \<Rightarrow> Some m | _ \<Rightarrow> None)"

definition EnabledComponent :: "hmap \<Rightarrow> string \<Rightarrow> hmap option" where
  "EnabledComponent vals component =
     (case as_section (map_of vals component) of None \<Rightarrow> None
      | Some section \<Rightarrow>
          if map_of section keyEnabled \<noteq> Some (HBool True) then None else Some section)"

definition ComponentNamespace :: "hmap \<Rightarrow> string" where
  "ComponentNamespace section =
     (case map_of section keyNamespace of Some (HStr ns) \<Rightarrow> ns | _ \<Rightarrow> [])"

definition mountList :: "hval option \<Rightarrow> hmap list" where
  "mountList value =
     (case value of
        Some (HMaps mounts) \<Rightarrow> mounts
      | Some (HList mounts) \<Rightarrow> List.map_filter (\<lambda>m. as_section (Some m)) mounts
      | _ \<Rightarrow> [])"

text \<open>\<open>%v\<close> of the value under a key, where the values the tool writes there are strings.\<close>

definition show_value :: "hval option \<Rightarrow> string" where
  "show_value v = (case v of Some (HStr s) \<Rightarrow> s | Some (HInt i) \<Rightarrow> Itoa i
     | Some (HBool b) \<Rightarrow> (if b then ''true'' else ''false'') | _ \<Rightarrow> ''<nil>'')"

definition DescribeMounts :: "hmap \<Rightarrow> string" where
  "DescribeMounts section =
     Join (map (\<lambda>mount.
        ''mounts '' @ show_value (map_of mount ''name'') @ '' at '' @ show_value (map_of mount ''mountPath'')
        @ (if map_of mount ''readOnly'' = Some (HBool True) then '' read-only'' else []))
       (mountList (map_of section ''pvcMounts''))) '', ''"

definition NetworkPolicyOn :: "hmap \<Rightarrow> bool" where
  "NetworkPolicyOn section =
     (case as_section (map_of section keyNetworkPolicy) of None \<Rightarrow> True
      | Some policy \<Rightarrow> map_of policy keyEnabled \<noteq> Some (HBool False))"

definition namespaceToCheck :: "hmap \<Rightarrow> string" where
  "namespaceToCheck section =
     (if map_of section keyEnabled \<noteq> Some (HBool True) then []
      else if \<not> NetworkPolicyOn section then []
      else ComponentNamespace section)"

text \<open>
  \<open>canCreate\<close> asks the cluster whether the account may create the object; a check that fails
  counts as a refusal. The loop goes over the component names in order, with the answers of the
  namespaces asked so far.
\<close>

definition networkPoliciesAllowed :: "(string \<Rightarrow> (string, bool) result) \<Rightarrow> string \<Rightarrow> bool" where
  "networkPoliciesAllowed canCreate ns = (case canCreate ns of Inl _ \<Rightarrow> False | Inr allowed \<Rightarrow> allowed)"

definition disable_policy :: "hmap \<Rightarrow> hmap" where
  "disable_policy section =
     AList.update keyNetworkPolicy
       (HMap (AList.update keyEnabled (HBool False)
          (case as_section (map_of section keyNetworkPolicy) of None \<Rightarrow> [] | Some p \<Rightarrow> p)))
       section"

definition disable_step ::
  "(string \<Rightarrow> (string, bool) result) \<Rightarrow> string \<Rightarrow> hmap \<times> (string \<times> bool) list \<Rightarrow>
     hmap \<times> (string \<times> bool) list" where
  "disable_step canCreate component st =
     (case st of (vals, asked) \<Rightarrow>
      case as_section (map_of vals component) of None \<Rightarrow> (vals, asked)
      | Some section \<Rightarrow>
          let ns = namespaceToCheck section in
          if ns = [] then (vals, asked)
          else
            let asked' = (case map_of asked ns of
                            Some _ \<Rightarrow> asked
                          | None \<Rightarrow> (ns, networkPoliciesAllowed canCreate ns) # asked)
            in if map_of asked' ns = Some True then (vals, asked')
               else (AList.update component (HMap (disable_policy section)) vals, asked'))"

definition disable_run ::
  "(string \<Rightarrow> (string, bool) result) \<Rightarrow> hmap \<Rightarrow> hmap \<times> (string \<times> bool) list" where
  "disable_run canCreate vals =
     fold (disable_step canCreate) (sort (remdups (map fst vals))) (vals, [])"

definition DisableNetworkPoliciesWhereForbidden ::
  "(string \<Rightarrow> (string, bool) result) \<Rightarrow> hmap \<Rightarrow> hmap" where
  "DisableNetworkPoliciesWhereForbidden canCreate vals = fst (disable_run canCreate vals)"

section \<open>The strategies' adjustments\<close>

definition rsyncComponent :: string where "rsyncComponent = ''rsync''"
definition sshdComponent :: string where "sshdComponent = ''sshd''"
definition nonRootSSHPort :: int where "nonRootSSHPort = 2222"
definition nonRootUID :: int where "nonRootUID = 10000"

definition set_non_root :: "string \<Rightarrow> hmap \<Rightarrow> hmap" where
  "set_non_root component vals =
     (case as_section (map_of vals component) of None \<Rightarrow> vals
      | Some section \<Rightarrow>
          AList.update component
            (HMap (AList.update ''podSecurityContext'' (HMap [(''fsGroup'', HInt nonRootUID)])
                (AList.update ''securityContext''
                   (HMap [(''runAsNonRoot'', HBool True), (''runAsUser'', HInt nonRootUID),
                          (''runAsGroup'', HInt nonRootUID), (''allowPrivilegeEscalation'', HBool False)])
                   section))) vals)"

definition applyNonRootValues :: "hmap \<Rightarrow> bool \<Rightarrow> hmap" where
  "applyNonRootValues vals nonRoot =
     (if \<not> nonRoot then vals
      else let vals' = set_non_root rsyncComponent (set_non_root sshdComponent vals)
           in case as_section (map_of vals' ''sshd'') of None \<Rightarrow> vals'
              | Some sshd \<Rightarrow>
                  AList.update ''sshd''
                    (HMap (AList.update ''publicKeyMountPath'' (HStr ''/home/pvmigrate/.ssh/authorized_keys'')
                       (AList.update ''containerPort'' (HInt nonRootSSHPort) sshd))) vals')"

definition installsLoadBalancer :: "hmap \<Rightarrow> bool" where
  "installsLoadBalancer vals =
     (case as_section (map_of vals sshdComponent) of None \<Rightarrow> False
      | Some sshd \<Rightarrow>
          if map_of sshd keyEnabled \<noteq> Some (HBool True) then False
          else case as_section (map_of sshd ''service'') of None \<Rightarrow> False
          | Some service \<Rightarrow> map_of service ''type'' = Some (HStr ''LoadBalancer''))"

section \<open>What the adjustments do\<close>

lemma as_section_Some [simp]: "as_section v = Some m \<longleftrightarrow> v = Some (HMap m)"
  by (auto simp: as_section_def split: option.splits hval.splits)

lemma as_section_HMap [simp]: "as_section (Some (HMap m)) = Some m"
  by (simp add: as_section_def)

lemma update_get [simp]:
  "map_of (AList.update k v m) k' = (if k' = k then Some v else map_of m k')"
  by (simp add: update_conv')

lemma disable_policy_off: "\<not> NetworkPolicyOn (disable_policy section)"
  by (simp add: disable_policy_def NetworkPolicyOn_def as_section_def)

lemma disable_policy_keeps:
  "k \<noteq> keyNetworkPolicy \<Longrightarrow> map_of (disable_policy section) k = map_of section k"
  by (simp add: disable_policy_def)

text \<open>What one component's section becomes.\<close>

definition expected_section :: "(string \<Rightarrow> (string, bool) result) \<Rightarrow> hmap \<Rightarrow> hmap" where
  "expected_section canCreate section =
     (let ns = namespaceToCheck section
      in if ns = [] \<or> networkPoliciesAllowed canCreate ns then section else disable_policy section)"

definition answers_ok :: "(string \<Rightarrow> (string, bool) result) \<Rightarrow> (string \<times> bool) list \<Rightarrow> bool" where
  "answers_ok canCreate asked \<longleftrightarrow>
     distinct (map fst asked) \<and> (\<forall>(ns, a) \<in> set asked. a = networkPoliciesAllowed canCreate ns)"

lemma answers_ok_get:
  "answers_ok canCreate asked \<Longrightarrow> map_of asked ns = Some a \<Longrightarrow> a = networkPoliciesAllowed canCreate ns"
  by (auto simp: answers_ok_def dest: map_of_SomeD)

lemma disable_step_spec:
  assumes "answers_ok canCreate asked" and "disable_step canCreate c (vals, asked) = (vals', asked')"
  shows "answers_ok canCreate asked'"
    and "map_of vals' k =
      (if k = c then map_option (\<lambda>v. case v of HMap s \<Rightarrow> HMap (expected_section canCreate s) | _ \<Rightarrow> v) (map_of vals k)
       else map_of vals k)"
proof -
  have "answers_ok canCreate asked' \<and> map_of vals' k =
      (if k = c then map_option (\<lambda>v. case v of HMap s \<Rightarrow> HMap (expected_section canCreate s) | _ \<Rightarrow> v) (map_of vals k)
       else map_of vals k)"
  proof (cases "as_section (map_of vals c)")
    case None
    with assms show ?thesis
      by (auto simp: disable_step_def as_section_def split: option.splits hval.splits)
  next
    case (Some sec)
    let ?ns = "namespaceToCheck sec"
    show ?thesis
    proof (cases "?ns = []")
      case True
      with Some assms show ?thesis by (auto simp: disable_step_def expected_section_def)
    next
      case False
      let ?asked = "case map_of asked ?ns of Some _ \<Rightarrow> asked
                    | None \<Rightarrow> (?ns, networkPoliciesAllowed canCreate ?ns) # asked"
      have ok: "answers_ok canCreate ?asked"
        using assms(1) by (auto simp: answers_ok_def map_of_eq_None_iff split: option.splits)
      moreover have "map_of ?asked ?ns = Some (networkPoliciesAllowed canCreate ?ns)"
        using answers_ok_get [OF assms(1)] by (auto split: option.splits)
      ultimately show ?thesis
        using Some False assms(2) by (auto simp: disable_step_def expected_section_def Let_def split: if_splits)
    qed
  qed
  then show "answers_ok canCreate asked'" and "map_of vals' k =
      (if k = c then map_option (\<lambda>v. case v of HMap s \<Rightarrow> HMap (expected_section canCreate s) | _ \<Rightarrow> v) (map_of vals k)
       else map_of vals k)" by blast+
qed

lemma disable_fold:
  assumes "distinct cs" and "answers_ok canCreate asked"
    and "fold (disable_step canCreate) cs (vals, asked) = (vals', asked')"
  shows "answers_ok canCreate asked' \<and> map_of vals' k =
      (if k \<in> set cs then map_option (\<lambda>v. case v of HMap s \<Rightarrow> HMap (expected_section canCreate s) | _ \<Rightarrow> v) (map_of vals k)
       else map_of vals k)"
  using assms
proof (induction cs arbitrary: vals asked)
  case (Cons c cs)
  obtain vals1 asked1 where step: "disable_step canCreate c (vals, asked) = (vals1, asked1)"
    by (cases "disable_step canCreate c (vals, asked)")
  note one = disable_step_spec [OF Cons.prems(2) step]
  have "answers_ok canCreate asked' \<and> map_of vals' k =
      (if k \<in> set cs then map_option (\<lambda>v. case v of HMap s \<Rightarrow> HMap (expected_section canCreate s) | _ \<Rightarrow> v) (map_of vals1 k)
       else map_of vals1 k)"
    using Cons.IH [OF _ one(1)] Cons.prems step by simp
  with one(2) [of k] Cons.prems(1) show ?case by auto
qed simp

text \<open>
  \<open>DisableNetworkPoliciesWhereForbidden\<close> turns the policy off for exactly the enabled components
  whose namespace refuses it (a check that fails counts as a refusal), touches nothing else, and
  asks the cluster at most once per namespace.
\<close>

theorem DisableNetworkPolicies_exact:
  "distinct (map fst (snd (disable_run canCreate vals))) \<and>
   map_of (DisableNetworkPoliciesWhereForbidden canCreate vals) component =
     (case map_of vals component of
        Some (HMap section) \<Rightarrow>
          Some (HMap (let ns = namespaceToCheck section
                      in if ns = [] \<or> canCreate ns = Inr True then section else disable_policy section))
      | v \<Rightarrow> v)"
proof -
  obtain vals' asked' where run: "disable_run canCreate vals = (vals', asked')"
    by (cases "disable_run canCreate vals")
  have "answers_ok canCreate []" by (simp add: answers_ok_def)
  with disable_fold [of "sort (remdups (map fst vals))" canCreate "[]" vals vals' asked' component] run
  have "answers_ok canCreate asked' \<and> map_of vals' component =
      map_option (\<lambda>v. case v of HMap s \<Rightarrow> HMap (expected_section canCreate s) | _ \<Rightarrow> v) (map_of vals component)"
    unfolding disable_run_def
    by (auto simp: map_of_eq_None_iff [symmetric] dest: weak_map_of_SomeI split: if_splits)
  moreover have "networkPoliciesAllowed canCreate ns \<longleftrightarrow> canCreate ns = Inr True" for ns
    by (auto simp: networkPoliciesAllowed_def split: sum.splits)
  ultimately show ?thesis
    using run by (auto simp: DisableNetworkPoliciesWhereForbidden_def answers_ok_def expected_section_def Let_def
        split: option.splits hval.splits)
qed

end
