(* ===== verification/Pvc.thy ===== *)
theory Pvc
  imports HelmValues
begin

text \<open>
  Package \<open>internal/pvc\<close>: what is known of a claim before a migration
  (\<open>src/internal/pvc/info.go\<close>). The Kubernetes API is a record of functions, one per request the
  code makes; a node selector is whatever \<open>NewNodeSelector\<close> of the scheduling library makes of the
  volume's affinity. The lemmas show that the node constraint is the one the volume and its
  attachment give, and that the affinity values say the same thing.
\<close>

section \<open>What is read from the cluster\<close>

text \<open>
  A resource quantity is an exact decimal with at most nine fractional digits; it is modelled by its
  value in nano units, which is what \<open>Cmp\<close> and \<open>IsZero\<close> look at.
\<close>

type_synonym quantity = int

record Claim =
  cl_Namespace :: string
  cl_Name :: string
  cl_AccessModes :: "string list"
  cl_VolumeName :: string
  cl_StorageClassName :: "string option"
  cl_Annotations :: "(string \<times> string) list"
  cl_Capacity :: "quantity option"
  cl_Requests :: "quantity option"

record Pod =
  pod_Name :: string
  pod_NodeName :: string
  pod_Phase :: string
  pod_Claims :: "string option list"

datatype api_error = NotFound | Forbidden | OtherError string

record 'sel kube_api =
  api_GetClaim :: "string \<Rightarrow> string \<Rightarrow> (api_error, Claim) result"
  api_ListPods :: "string \<Rightarrow> (api_error, Pod list) result"
  api_GetVolume :: "string \<Rightarrow> (api_error, 'sel option) result"
  api_ListNodes :: "(api_error, string list) result"
  api_NewNodeSelector :: "'sel \<Rightarrow> (string, string \<Rightarrow> bool) result"
  api_GetStorageClass :: "string \<Rightarrow> (api_error, string) result"

record ClusterClient =
  cc_Host :: string
  cc_NsInContext :: string

record Info =
  in_Client :: ClusterClient
  in_Claim :: Claim
  in_MountedNode :: string
  in_AllowedNodes :: "string list option"
  in_PinnedNodes :: "string list option"
  in_MountedPod :: string
  in_Affinity :: "hmap option"
  in_SupportsRWO :: bool
  in_SupportsROX :: bool
  in_SupportsRWX :: bool

datatype pvc_error =
    GetClaimFailed string string api_error
  | ListPodsFailed api_error
  | MountedOncePod string string
  | GetVolumeFailed string string string api_error
  | BadAffinity string string
  | ListNodesFailed api_error
  | NodesGone string string
  | StorageClassFailed string api_error

section \<open>Node constraints\<close>

text \<open>A nil slice is no constraint; a non-nil empty one is a constraint nothing satisfies.\<close>

definition IntersectNodes :: "string list option \<Rightarrow> string list option \<Rightarrow> string list option" where
  "IntersectNodes first second =
     (case first of None \<Rightarrow> second
      | Some fs \<Rightarrow>
          (case second of None \<Rightarrow> first
           | Some ss \<Rightarrow> Some (filter (\<lambda>name. name \<in> set fs) ss)))"

definition node_term :: "string \<Rightarrow> hmap" where
  "node_term node =
     [(''matchFields'', HMaps [[(''key'', HStr ''metadata.name''), (''operator'', HStr ''In''),
                               (''values'', HStrs [node])]])]"

definition RequireNodes :: "string list option \<Rightarrow> hmap option" where
  "RequireNodes nodes =
     (case nodes of None \<Rightarrow> None
      | Some ns \<Rightarrow>
          Some [(''nodeAffinity'',
             HMap [(''requiredDuringSchedulingIgnoredDuringExecution'',
                HMap [(''nodeSelectorTerms'', HMaps (map node_term ns))])])])"

definition buildAffinityHelmValues :: "string \<Rightarrow> string list option \<Rightarrow> hmap option" where
  "buildAffinityHelmValues mountedNode pinned =
     (if pinned \<noteq> None then RequireNodes pinned
      else if mountedNode = [] then None
      else Some [(''nodeAffinity'',
             HMap [(''preferredDuringSchedulingIgnoredDuringExecution'',
               HMaps [[(''weight'', HInt 100), (''preference'', HMap (node_term mountedNode))]])])])"

definition volumeNodeSelector ::
  "'sel kube_api \<Rightarrow> Claim \<Rightarrow> (pvc_error, (string \<Rightarrow> bool) option) result" where
  "volumeNodeSelector api claim =
     (case api_GetVolume api (cl_VolumeName claim) of
        Inl e \<Rightarrow>
          if e = NotFound \<or> e = Forbidden then Inr None
          else Inl (GetVolumeFailed (cl_VolumeName claim) (cl_Namespace claim) (cl_Name claim) e)
      | Inr None \<Rightarrow> Inr None
      | Inr (Some required) \<Rightarrow>
          (case api_NewNodeSelector api required of
             Inl e \<Rightarrow> Inl (BadAffinity (cl_VolumeName claim) e)
           | Inr selector \<Rightarrow> Inr (Some selector)))"

definition AllowedNodesFor ::
  "'sel kube_api \<Rightarrow> Claim \<Rightarrow> (pvc_error, string list option) result" where
  "AllowedNodesFor api claim =
     (if cl_VolumeName claim = [] then Inr None
      else case volumeNodeSelector api claim of
        Inl e \<Rightarrow> Inl e
      | Inr None \<Rightarrow> Inr None
      | Inr (Some selector) \<Rightarrow>
          (case api_ListNodes api of
             Inl e \<Rightarrow> if e = Forbidden then Inr None else Inl (ListNodesFailed e)
           | Inr nodes \<Rightarrow> Inr (Some (filter selector nodes))))"

definition pvc_resolveTopology ::
  "'sel kube_api \<Rightarrow> Claim \<Rightarrow> string \<Rightarrow> bool \<Rightarrow>
     (pvc_error, string list option \<times> string list option) result" where
  "pvc_resolveTopology api claim mountedNode attachedToOneNode =
     (case AllowedNodesFor api claim of Inl e \<Rightarrow> Inl e
      | Inr allowed \<Rightarrow>
          if allowed = Some [] then Inl (NodesGone (cl_Namespace claim) (cl_Name claim))
          else Inr (allowed,
                    if mountedNode \<noteq> [] \<and> attachedToOneNode
                    then IntersectNodes allowed (Some [mountedNode]) else allowed))"

section \<open>The claim's info\<close>

definition ReadWriteOnce :: string where "ReadWriteOnce = ''ReadWriteOnce''"
definition ReadOnlyMany :: string where "ReadOnlyMany = ''ReadOnlyMany''"
definition ReadWriteMany :: string where "ReadWriteMany = ''ReadWriteMany''"
definition ReadWriteOncePod :: string where "ReadWriteOncePod = ''ReadWriteOncePod''"

text \<open>The loop of \<open>readAccessModes\<close>, over the four named results.\<close>

definition access_step :: "string \<Rightarrow> bool \<times> bool \<times> bool \<times> bool \<Rightarrow> bool \<times> bool \<times> bool \<times> bool" where
  "access_step mode st =
     (case st of (rwo, rox, rwx, rwop) \<Rightarrow>
        if mode = ReadWriteOncePod then (True, rox, rwx, True)
        else if mode = ReadWriteOnce then (True, rox, rwx, rwop)
        else if mode = ReadOnlyMany then (rwo, True, rwx, rwop)
        else if mode = ReadWriteMany then (rwo, rox, True, rwop)
        else st)"

definition readAccessModes :: "Claim \<Rightarrow> bool \<times> bool \<times> bool \<times> bool" where
  "readAccessModes claim = fold access_step (cl_AccessModes claim) (False, False, False, False)"

fun find_pod :: "string \<Rightarrow> Pod list \<Rightarrow> string \<times> string" where
  "find_pod claim [] = ([], [])"
| "find_pod claim (p # ps) =
     (if pod_Phase p = ''Succeeded'' \<or> pod_Phase p = ''Failed'' then find_pod claim ps
      else if Some claim \<in> set (pod_Claims p) then (pod_Name p, pod_NodeName p)
      else find_pod claim ps)"

definition findMountedPod :: "'sel kube_api \<Rightarrow> Claim \<Rightarrow> (pvc_error, string \<times> string) result" where
  "findMountedPod api claim =
     (case api_ListPods api (cl_Namespace claim) of Inl e \<Rightarrow> Inl (ListPodsFailed e)
      | Inr pods \<Rightarrow> Inr (find_pod (cl_Name claim) pods))"

definition newInfo ::
  "'sel kube_api \<Rightarrow> ClusterClient \<Rightarrow> string \<Rightarrow> string \<Rightarrow> bool \<Rightarrow> (pvc_error, Info) result" where
  "newInfo api client ns name rejectMountedRWOP =
     (case api_GetClaim api ns name of Inl e \<Rightarrow> Inl (GetClaimFailed ns name e)
      | Inr claim \<Rightarrow>
      case readAccessModes claim of (supportsRWO, supportsROX, supportsRWX, readWriteOncePod) \<Rightarrow>
      case findMountedPod api claim of Inl e \<Rightarrow> Inl e
      | Inr (mountedPod, mountedNode) \<Rightarrow>
          if rejectMountedRWOP \<and> readWriteOncePod \<and> mountedNode \<noteq> []
          then Inl (MountedOncePod ns name)
          else case pvc_resolveTopology api claim mountedNode (\<not> supportsRWX \<and> \<not> supportsROX) of
            Inl e \<Rightarrow> Inl e
          | Inr (allowed, pinned) \<Rightarrow>
              Inr \<lparr>in_Client = client, in_Claim = claim, in_MountedNode = mountedNode,
                   in_AllowedNodes = allowed, in_PinnedNodes = pinned, in_MountedPod = mountedPod,
                   in_Affinity = buildAffinityHelmValues mountedNode pinned,
                   in_SupportsRWO = supportsRWO, in_SupportsROX = supportsROX,
                   in_SupportsRWX = supportsRWX\<rparr>)"

definition pvc_New ::
  "'sel kube_api \<Rightarrow> ClusterClient \<Rightarrow> string \<Rightarrow> string \<Rightarrow> (pvc_error, Info) result" where
  "pvc_New api client ns name = newInfo api client ns name True"

definition pvc_NewSource ::
  "'sel kube_api \<Rightarrow> ClusterClient \<Rightarrow> string \<Rightarrow> string \<Rightarrow> (pvc_error, Info) result" where
  "pvc_NewSource api client ns name = newInfo api client ns name False"

text \<open>\<open>qstr\<close> is \<open>Quantity.String\<close> of the Kubernetes API library.\<close>

definition Size :: "Info \<Rightarrow> quantity" where
  "Size i =
     (case cl_Capacity (in_Claim i) of
        Some capacity \<Rightarrow>
          if capacity \<noteq> 0 then capacity
          else (case cl_Requests (in_Claim i) of None \<Rightarrow> 0 | Some q \<Rightarrow> q)
      | None \<Rightarrow> (case cl_Requests (in_Claim i) of None \<Rightarrow> 0 | Some q \<Rightarrow> q))"

definition Describe_claim :: "(quantity \<Rightarrow> string) \<Rightarrow> Info \<Rightarrow> string" where
  "Describe_claim qstr i =
     (let claim = in_Claim i;
          line = cl_Namespace claim @ ''/'' @ cl_Name claim
                 @ (if Size i \<noteq> 0 then '', '' @ qstr (Size i) else [])
                 @ (if cl_AccessModes claim \<noteq> [] then '', '' @ Join (cl_AccessModes claim) ''+'' else [])
      in if in_MountedNode i \<noteq> [] then line @ '', mounted on node '' @ in_MountedNode i
         else line @ '', not mounted'')"

definition storageProvisionerAnnotation :: string where
  "storageProvisionerAnnotation = ''volume.kubernetes.io/storage-provisioner''"

definition betaStorageProvisionerAnnotation :: string where
  "betaStorageProvisionerAnnotation = ''volume.beta.kubernetes.io/storage-provisioner''"

text \<open>Reading a missing key of a Go map gives the empty string.\<close>

definition annotation :: "Claim \<Rightarrow> string \<Rightarrow> string" where
  "annotation claim key = (case map_of (cl_Annotations claim) key of None \<Rightarrow> [] | Some v \<Rightarrow> v)"

definition Provisioner :: "'sel kube_api \<Rightarrow> Info \<Rightarrow> (pvc_error, string) result" where
  "Provisioner api i =
     (let claim = in_Claim i in
      if annotation claim storageProvisionerAnnotation \<noteq> []
      then Inr (annotation claim storageProvisionerAnnotation)
      else if annotation claim betaStorageProvisionerAnnotation \<noteq> []
      then Inr (annotation claim betaStorageProvisionerAnnotation)
      else case cl_StorageClassName claim of None \<Rightarrow> Inr []
      | Some class_name \<Rightarrow>
          if class_name = [] then Inr []
          else case api_GetStorageClass api class_name of
            Inl e \<Rightarrow> Inl (StorageClassFailed class_name e)
          | Inr provisioner \<Rightarrow> Inr provisioner)"

section \<open>Constraints as sets of nodes\<close>

definition allows :: "string list option \<Rightarrow> string \<Rightarrow> bool" where
  "allows c node \<longleftrightarrow> (case c of None \<Rightarrow> True | Some ns \<Rightarrow> node \<in> set ns)"

lemma allows_simps [simp]: "allows None node" "allows (Some ns) node \<longleftrightarrow> node \<in> set ns"
  by (simp_all add: allows_def)

lemma allows_Intersect: "allows (IntersectNodes a b) node \<longleftrightarrow> allows a node \<and> allows b node"
  by (auto simp: IntersectNodes_def split: option.splits)

text \<open>
  The scheduler's reading of required node affinity: the terms are alternatives, and a term with
  the field selector \<open>metadata.name In [n]\<close> admits the node \<open>n\<close>. No affinity admits every node.
\<close>

definition term_admits :: "hmap \<Rightarrow> string \<Rightarrow> bool" where
  "term_admits t node \<longleftrightarrow>
     (case map_of t ''matchFields'' of
        Some (HMaps fs) \<Rightarrow>
          list_all (\<lambda>f. map_of f ''key'' = Some (HStr ''metadata.name'') \<and>
                        map_of f ''operator'' = Some (HStr ''In'') \<and>
                        (case map_of f ''values'' of Some (HStrs vs) \<Rightarrow> node \<in> set vs | _ \<Rightarrow> False)) fs
      | _ \<Rightarrow> False)"

definition affinity_admits :: "hmap option \<Rightarrow> string \<Rightarrow> bool" where
  "affinity_admits a node \<longleftrightarrow>
     (case a of None \<Rightarrow> True
      | Some m \<Rightarrow>
          (case map_of m ''nodeAffinity'' of
             Some (HMap na) \<Rightarrow>
               (case map_of na ''requiredDuringSchedulingIgnoredDuringExecution'' of
                  Some (HMap req) \<Rightarrow>
                    (case map_of req ''nodeSelectorTerms'' of
                       Some (HMaps ts) \<Rightarrow> list_ex (\<lambda>t. term_admits t node) ts
                     | _ \<Rightarrow> True)
                | _ \<Rightarrow> True)
           | _ \<Rightarrow> True))"

lemma term_admits_node: "term_admits (node_term n) node \<longleftrightarrow> node = n"
  by (simp add: term_admits_def node_term_def)

lemma affinity_admits_RequireNodes: "affinity_admits (RequireNodes ns) node \<longleftrightarrow> allows ns node"
  by (auto simp: affinity_admits_def RequireNodes_def list_ex_iff term_admits_node split: option.splits)

lemma affinity_admits_build: "affinity_admits (buildAffinityHelmValues mounted pinned) node \<longleftrightarrow> allows pinned node"
proof (cases pinned)
  case None
  then show ?thesis by (simp add: buildAffinityHelmValues_def affinity_admits_def)
next
  case (Some ns)
  then show ?thesis by (simp add: buildAffinityHelmValues_def affinity_admits_RequireNodes)
qed

lemma access_modes:
  "fold access_step ms (a, b, c, d) =
     (a \<or> ReadWriteOncePod \<in> set ms \<or> ReadWriteOnce \<in> set ms, b \<or> ReadOnlyMany \<in> set ms,
      c \<or> ReadWriteMany \<in> set ms, d \<or> ReadWriteOncePod \<in> set ms)"
proof (induction ms arbitrary: a b c d)
  case (Cons m ms)
  have "ReadWriteOncePod \<noteq> ReadWriteOnce" "ReadWriteOncePod \<noteq> ReadOnlyMany" "ReadWriteOncePod \<noteq> ReadWriteMany"
    "ReadWriteOnce \<noteq> ReadOnlyMany" "ReadWriteOnce \<noteq> ReadWriteMany" "ReadOnlyMany \<noteq> ReadWriteMany"
    by (simp_all add: ReadWriteOnce_def ReadOnlyMany_def ReadWriteMany_def ReadWriteOncePod_def)
  with Cons.IH show ?case by (auto simp: access_step_def)
qed simp

lemma readAccessModes_eq:
  "readAccessModes claim =
     (ReadWriteOncePod \<in> set (cl_AccessModes claim) \<or> ReadWriteOnce \<in> set (cl_AccessModes claim),
      ReadOnlyMany \<in> set (cl_AccessModes claim), ReadWriteMany \<in> set (cl_AccessModes claim),
      ReadWriteOncePod \<in> set (cl_AccessModes claim))"
  by (simp add: readAccessModes_def access_modes)

text \<open>
  C29: the affinity a pod using the claim is installed with admits exactly the nodes the claim can
  be used on: those the volume's own affinity permits and, when only one node may attach the volume
  and something has it mounted, only that node. Without either constraint it admits every node.
\<close>

theorem newInfo_affinity_exact:
  assumes "newInfo api client ns name reject = Inr i"
  shows "affinity_admits (in_Affinity i) node \<longleftrightarrow>
     allows (in_AllowedNodes i) node \<and>
     (in_MountedNode i \<noteq> [] \<and> \<not> in_SupportsROX i \<and> \<not> in_SupportsRWX i \<longrightarrow> node = in_MountedNode i)"
  using assms
  by (auto simp: newInfo_def pvc_resolveTopology_def affinity_admits_build allows_Intersect
      split: sum.splits prod.splits if_splits)

definition pvc_api_example :: "unit kube_api" where
  "pvc_api_example =
     \<lparr>api_GetClaim = (\<lambda>ns name. Inr \<lparr>cl_Namespace = ns, cl_Name = name, cl_AccessModes = [''ReadWriteOnce''],
        cl_VolumeName = ''pv1'', cl_StorageClassName = None, cl_Annotations = [], cl_Capacity = Some 5,
        cl_Requests = None\<rparr>),
      api_ListPods = (\<lambda>ns. Inr [\<lparr>pod_Name = ''db-0'', pod_NodeName = ''n2'', pod_Phase = ''Running'',
        pod_Claims = [None, Some ''data'']\<rparr>]),
      api_GetVolume = (\<lambda>v. Inr (Some ())), api_ListNodes = Inr [''n1'', ''n2'', ''n3''],
      api_NewNodeSelector = (\<lambda>s. Inr (\<lambda>n. n \<noteq> ''n3'')),
      api_GetStorageClass = (\<lambda>c. Inl NotFound)\<rparr>"

lemma newInfo_affinity_exact_witness:
  "\<exists>i. newInfo pvc_api_example \<lparr>cc_Host = ''h'', cc_NsInContext = ''d''\<rparr> ''ns'' ''data'' True = Inr i \<and>
     affinity_admits (in_Affinity i) ''n2'' \<and> \<not> affinity_admits (in_Affinity i) ''n1''"
proof -
  obtain i where i: "newInfo pvc_api_example \<lparr>cc_Host = ''h'', cc_NsInContext = ''d''\<rparr> ''ns'' ''data'' True = Inr i"
    and f: "in_MountedNode i = ''n2''" "\<not> in_SupportsROX i" "\<not> in_SupportsRWX i" "in_AllowedNodes i = Some [''n1'', ''n2'']"
    by (simp add: newInfo_def pvc_api_example_def readAccessModes_eq findMountedPod_def
        pvc_resolveTopology_def AllowedNodesFor_def volumeNodeSelector_def ReadWriteOnce_def
        ReadOnlyMany_def ReadWriteMany_def ReadWriteOncePod_def)
  from newInfo_affinity_exact [OF i] f i show ?thesis by auto
qed

text \<open>The refusals: a volume whose nodes are gone, and a mounted single-pod claim.\<close>

lemma newInfo_once_pod:
  assumes "api_GetClaim api ns name = Inr claim" and "ReadWriteOncePod \<in> set (cl_AccessModes claim)"
    and "findMountedPod api claim = Inr (pod, node)" and "node \<noteq> []"
  shows "pvc_New api client ns name = Inl (MountedOncePod ns name)"
  using assms by (simp add: pvc_New_def newInfo_def readAccessModes_eq)

lemma newInfo_allowed_nonempty: "newInfo api client ns name reject = Inr i \<Longrightarrow> in_AllowedNodes i \<noteq> Some []"
  by (auto simp: newInfo_def pvc_resolveTopology_def split: sum.splits prod.splits if_splits)

text \<open>
  A finished pod never counts as the one that has the claim mounted.
\<close>

lemma find_pod_running:
  "find_pod claim pods = (name, node) \<Longrightarrow> name \<noteq> [] \<or> node \<noteq> [] \<Longrightarrow>
     \<exists>p \<in> set pods. pod_Name p = name \<and> pod_NodeName p = node \<and> Some claim \<in> set (pod_Claims p) \<and>
       pod_Phase p \<notin> {''Succeeded'', ''Failed''}"
  by (induction claim pods rule: find_pod.induct) (auto split: if_splits)

end
