(* ===== verification/Mover.thy ===== *)
theory Mover
  imports Rsync Archive Pvc
begin

text \<open>
  The request and its states (\<open>src/internal/migration/types.go\<close>), the resolution of the user's paths
  inside the mounted volumes (\<open>src/internal/strategy/paths.go\<close>) and the choice and construction of
  the program that moves the bytes (\<open>src/internal/strategy/mover.go\<close>, with the rsync commands of
  \<open>topology.go\<close>, \<open>mount.go\<close> and \<open>local.go\<close>). The locale \<open>mount_resolver\<close> is what a mover relies on
  when it is handed a resolved path, and both mount points provide it.
\<close>

section \<open>The request\<close>

record PVCInfo =
  pi_KubeconfigPath :: string
  pi_Context :: string
  pi_Namespace :: string
  pi_Name :: string
  pi_Path :: string

text \<open>Durations are in nanoseconds. The writer of the report is not a field.\<close>

record Request =
  rq_ID :: string
  rq_ImageTag :: string
  rq_ChartVersion :: string
  rq_Source :: PVCInfo
  rq_Dest :: PVCInfo
  rq_DeleteExtraneousFiles :: bool
  rq_IgnoreMounted :: bool
  rq_IgnoreSizes :: bool
  rq_NoChown :: bool
  rq_Detach :: bool
  rq_Push :: bool
  rq_NoCleanup :: bool
  rq_NoCleanupOnFailure :: bool
  rq_ShowProgressBar :: bool
  rq_SourceMountReadWrite :: bool
  rq_KeyAlgorithm :: string
  rq_SSHReverseTunnelPort :: int
  rq_HelmTimeout :: int
  rq_HelmValuesFiles :: "string list"
  rq_HelmValues :: "string list"
  rq_HelmFileValues :: "string list"
  rq_HelmStringValues :: "string list"
  rq_Strategies :: "string list"
  rq_DestHostOverride :: string
  rq_LoadBalancerTimeout :: int
  rq_NoCompress :: bool
  rq_NonRoot :: bool
  rq_RsyncExtraArgs :: string
  rq_Mover :: string
  rq_StructuredLogs :: bool
  rq_ColorOutput :: bool

record Migration =
  mg_Request :: Request
  mg_SourceInfo :: Info
  mg_DestInfo :: Info

definition MoverRsync :: string where "MoverRsync = ''rsync''"
definition MoverTar :: string where "MoverTar = ''tar''"

definition Movers :: "string list" where "Movers = [MoverRsync, MoverTar]"

section \<open>Paths inside the volumes\<close>

definition srcMountPath :: string where "srcMountPath = ''/source''"
definition destMountPath :: string where "destMountPath = ''/dest''"

datatype mover_error =
    EscapesVolume string string
  | InvalidPath string mover_error
  | UnknownMover string
  | RsyncArgsWithTar
  | RsyncBuildFailed rsync_error
  | TarBuildFailed archive_error

definition wantsContents :: "string \<Rightarrow> bool" where
  "wantsContents subPath \<longleftrightarrow> HasSuffix subPath ''/'' \<or> HasSuffix subPath ''/.'' \<or> subPath = ''.''"

definition mountSubPath :: "string \<Rightarrow> string \<Rightarrow> (mover_error, string) result" where
  "mountSubPath mountPath subPath =
     (let resolved = Clean (mountPath @ ''/'' @ subPath) in
      if resolved \<noteq> mountPath \<and> \<not> HasPrefix resolved (mountPath @ ''/'')
      then Inl (EscapesVolume subPath mountPath)
      else if resolved = mountPath \<or> wantsContents subPath then Inr (resolved @ ''/'')
      else Inr resolved)"

definition resolve_paths :: "string \<Rightarrow> string \<Rightarrow> (mover_error, string \<times> string) result" where
  "resolve_paths sourcePath destPath =
     (case mountSubPath srcMountPath sourcePath of Inl e \<Rightarrow> Inl (InvalidPath ''--source-path'' e)
      | Inr srcPath \<Rightarrow>
      case mountSubPath destMountPath destPath of Inl e \<Rightarrow> Inl (InvalidPath ''--dest-path'' e)
      | Inr destPath \<Rightarrow> Inr (srcPath, destPath))"

definition resolveMountPaths :: "Request \<Rightarrow> (mover_error, string \<times> string) result" where
  "resolveMountPaths req = resolve_paths (pi_Path (rq_Source req)) (pi_Path (rq_Dest req))"

definition ValidatePaths :: "string \<Rightarrow> string \<Rightarrow> mover_error option" where
  "ValidatePaths sourcePath destPath =
     (case resolve_paths sourcePath destPath of Inl e \<Rightarrow> Some e | Inr _ \<Rightarrow> None)"

section \<open>Exit-code policies\<close>

record moverPolicy =
  mp_tolerated :: "int list"
  mp_noRetry :: "int list"
  mp_marker :: string
  mp_interpret :: "int \<Rightarrow> string"

record moverCommand =
  mc_command :: string
  mc_policy :: moverPolicy

definition tolerates :: "moverPolicy \<Rightarrow> int \<Rightarrow> bool" where
  "tolerates p code \<longleftrightarrow> code \<in> set (mp_tolerated p)"

definition shellPattern :: "int list \<Rightarrow> string" where
  "shellPattern codes = Join (map Itoa codes) ''|''"

definition mover_values :: "moverCommand \<Rightarrow> hmap" where
  "mover_values m =
     [(''command'', HStr (mc_command m)),
      (''toleratedExitCodes'', HStr (shellPattern (mp_tolerated (mc_policy m)))),
      (''toleratedMarker'', HStr (mp_marker (mc_policy m))),
      (''noRetryExitCodes'', HStr (shellPattern (mp_noRetry (mc_policy m))))]"

definition rsyncPolicy :: moverPolicy where
  "rsyncPolicy =
     \<lparr>mp_tolerated = rsync_ToleratedExitCodes, mp_noRetry = rsync_NoRetryExitCodes,
      mp_marker = VanishedFilesMarker @ ''; treated as success'', mp_interpret = rsync_Interpret\<rparr>"

definition tarPolicy :: moverPolicy where
  "tarPolicy =
     \<lparr>mp_tolerated = archive_ToleratedExitCodes, mp_noRetry = archive_NoRetryExitCodes,
      mp_marker = ToleratedMarker @ ''; treated as success'', mp_interpret = archive_Interpret\<rparr>"

definition rsyncMover :: "string \<Rightarrow> moverCommand" where
  "rsyncMover command = \<lparr>mc_command = command, mc_policy = rsyncPolicy\<rparr>"

definition tarMover :: "string \<Rightarrow> moverCommand" where
  "tarMover command = \<lparr>mc_command = command, mc_policy = tarPolicy\<rparr>"

section \<open>Which mover, and its command\<close>

definition moverKind :: "Request \<Rightarrow> (mover_error, string) result" where
  "moverKind req =
     (if rq_Mover req = [] \<or> rq_Mover req = MoverRsync then Inr MoverRsync
      else if rq_Mover req = MoverTar then Inr MoverTar
      else Inl (UnknownMover (rq_Mover req)))"

definition checkTarFlags :: "Request \<Rightarrow> mover_error option" where
  "checkTarFlags req = (if rq_RsyncExtraArgs req \<noteq> [] then Some RsyncArgsWithTar else None)"

definition CheckMoverFlags :: "Request \<Rightarrow> mover_error option" where
  "CheckMoverFlags req =
     (case moverKind req of Inl e \<Rightarrow> Some e
      | Inr kind \<Rightarrow> if kind \<noteq> MoverTar then None else checkTarFlags req)"

definition tarCompression :: "Request \<Rightarrow> string" where
  "tarCompression req = (if rq_NoCompress req then CompressionNone else CompressionZstd)"

definition rootSSHUser :: string where "rootSSHUser = ''root''"
definition nonRootSSHUser :: string where "nonRootSSHUser = ''pvmigrate''"
definition rootSSHPort :: int where "rootSSHPort = 22"

definition sshUser :: "Request \<Rightarrow> string" where
  "sshUser req = (if rq_NonRoot req then nonRootSSHUser else rootSSHUser)"

definition sshPort :: "Request \<Rightarrow> int" where
  "sshPort req = (if rq_NonRoot req then nonRootSSHPort else rootSSHPort)"

text \<open>\<open>cmd.Build()\<close> with the error wrapped by the caller.\<close>

definition wrap_rsync :: "rsync_Cmd \<Rightarrow> (mover_error, string) result" where
  "wrap_rsync c = map_sum RsyncBuildFailed id (rsync_Build c)"

definition wrap_tar :: "TransferCmd \<Rightarrow> (mover_error, string) result" where
  "wrap_tar c = map_sum TarBuildFailed id (transfer_Build c)"

definition buildRsyncCmdString ::
  "Request \<Rightarrow> bool \<Rightarrow> string \<Rightarrow> int \<Rightarrow> (mover_error, string) result" where
  "buildRsyncCmdString req push sshHost port =
     (case resolveMountPaths req of Inl e \<Rightarrow> Inl e
      | Inr (srcPath, destPath) \<Rightarrow>
          let cmd = rsync_Cmd_zero\<lparr>rs_Port := port, rs_NoChown := rq_NoChown req,
                 rs_NonRoot := rq_NonRoot req, rs_Delete := rq_DeleteExtraneousFiles req,
                 rs_SrcPath := srcPath, rs_DestPath := destPath,
                 rs_Compress := \<not> rq_NoCompress req, rs_ExtraArgs := rq_RsyncExtraArgs req\<rparr>
          in wrap_rsync
               (if push
                then cmd\<lparr>rs_DestUseSSH := True, rs_DestSSHHost := sshHost, rs_DestSSHUser := sshUser req\<rparr>
                else cmd\<lparr>rs_SrcUseSSH := True, rs_SrcSSHHost := sshHost, rs_SrcSSHUser := sshUser req\<rparr>))"

definition buildRsyncCmdMount :: "Request \<Rightarrow> (mover_error, string) result" where
  "buildRsyncCmdMount req =
     (case resolveMountPaths req of Inl e \<Rightarrow> Inl e
      | Inr (srcPath, destPath) \<Rightarrow>
          wrap_rsync (rsync_Cmd_zero\<lparr>rs_NoChown := rq_NoChown req, rs_NonRoot := rq_NonRoot req,
            rs_Delete := rq_DeleteExtraneousFiles req, rs_SrcPath := srcPath, rs_DestPath := destPath,
            rs_Compress := False, rs_ExtraArgs := rq_RsyncExtraArgs req\<rparr>))"

definition buildRsyncCmdLocal :: "Request \<Rightarrow> (mover_error, string) result" where
  "buildRsyncCmdLocal req =
     (case resolveMountPaths req of Inl e \<Rightarrow> Inl e
      | Inr (srcPath, destPath) \<Rightarrow>
          wrap_rsync (rsync_Cmd_zero\<lparr>rs_Port := rq_SSHReverseTunnelPort req,
            rs_NoChown := rq_NoChown req, rs_NonRoot := rq_NonRoot req,
            rs_Delete := rq_DeleteExtraneousFiles req, rs_SrcPath := srcPath, rs_DestPath := destPath,
            rs_DestUseSSH := True, rs_DestSSHHost := ''localhost'', rs_DestSSHUser := sshUser req,
            rs_Compress := \<not> rq_NoCompress req, rs_ExtraArgs := rq_RsyncExtraArgs req\<rparr>))"

definition TransferCmd_zero :: TransferCmd where
  "TransferCmd_zero =
     \<lparr>tc_Push = False, tc_SSHUser = [], tc_SSHHost = [], tc_Port = 0, tc_SrcPath = [], tc_DestPath = [],
      tc_Compression = [], tc_Level = 0, tc_Clean = False, tc_Local = False\<rparr>"

definition buildMoverCmdSSH ::
  "Request \<Rightarrow> bool \<Rightarrow> string \<Rightarrow> int \<Rightarrow> (mover_error, moverCommand) result" where
  "buildMoverCmdSSH req push sshHost port =
     (case moverKind req of Inl e \<Rightarrow> Inl e
      | Inr kind \<Rightarrow>
          if kind \<noteq> MoverTar then map_sum id rsyncMover (buildRsyncCmdString req push sshHost port)
          else case checkTarFlags req of Some e \<Rightarrow> Inl e
          | None \<Rightarrow>
          case resolveMountPaths req of Inl e \<Rightarrow> Inl e
          | Inr (srcPath, destPath) \<Rightarrow>
              map_sum id tarMover (wrap_tar (TransferCmd_zero\<lparr>tc_Push := push, tc_SSHUser := sshUser req,
                tc_SSHHost := sshHost, tc_Port := port, tc_SrcPath := srcPath, tc_DestPath := destPath,
                tc_Compression := tarCompression req, tc_Clean := rq_DeleteExtraneousFiles req\<rparr>)))"

definition buildMoverCmdLocal :: "Request \<Rightarrow> (mover_error, moverCommand) result" where
  "buildMoverCmdLocal req =
     (case moverKind req of Inl e \<Rightarrow> Inl e
      | Inr kind \<Rightarrow>
          if kind \<noteq> MoverTar then map_sum id rsyncMover (buildRsyncCmdMount req)
          else case checkTarFlags req of Some e \<Rightarrow> Inl e
          | None \<Rightarrow>
          case resolveMountPaths req of Inl e \<Rightarrow> Inl e
          | Inr (srcPath, destPath) \<Rightarrow>
              map_sum id tarMover (wrap_tar (TransferCmd_zero\<lparr>tc_Local := True, tc_SrcPath := srcPath,
                tc_DestPath := destPath, tc_Clean := rq_DeleteExtraneousFiles req\<rparr>)))"

definition buildMoverCmdSSHSession :: "Request \<Rightarrow> (mover_error, moverCommand) result" where
  "buildMoverCmdSSHSession req =
     (case moverKind req of Inl e \<Rightarrow> Inl e
      | Inr kind \<Rightarrow>
          if kind \<noteq> MoverTar then map_sum id rsyncMover (buildRsyncCmdLocal req)
          else case checkTarFlags req of Some e \<Rightarrow> Inl e
          | None \<Rightarrow>
          case resolveMountPaths req of Inl e \<Rightarrow> Inl e
          | Inr (srcPath, destPath) \<Rightarrow>
              map_sum id tarMover (wrap_tar (TransferCmd_zero\<lparr>tc_Push := True, tc_SSHUser := sshUser req,
                tc_SSHHost := ''localhost'', tc_Port := rq_SSHReverseTunnelPort req,
                tc_SrcPath := srcPath, tc_DestPath := destPath,
                tc_Compression := tarCompression req, tc_Clean := rq_DeleteExtraneousFiles req\<rparr>)))"

section \<open>A resolved path stays in its volume\<close>

lemma mountSubPath_cases:
  assumes "plain_elements [m]"
  shows "(case mountSubPath (''/'' @ m) sub of
     Inl e \<Rightarrow> e = EscapesVolume sub (''/'' @ m) \<and> (\<nexists>es. walk [m] (Split sub slash) = m # es)
   | Inr p \<Rightarrow> \<exists>es. walk [m] (Split sub slash) = m # es \<and>
       p = (''/'' @ Join (m # es) ''/'') @ (if es = [] \<or> wantsContents sub then ''/'' else []))"
proof -
  let ?p = "(''/'' @ m) @ ''/'' @ sub"
  have abs: "IsAbs ?p" by (simp add: IsAbs_def)
  have loc: "location ?p = walk [m] (Split sub slash)"
    using location_append [of "''/'' @ m" sub] location_single [OF assms] by simp
  have at: "Clean ?p = ''/'' @ m \<longleftrightarrow> location ?p = [m]"
    by (rule Clean_at_iff [OF assms abs])
  have inside: "HasPrefix (Clean ?p) (''/'' @ m @ ''/'') \<longleftrightarrow> (\<exists>es. es \<noteq> [] \<and> location ?p = m # es)"
    by (rule Clean_inside_iff [OF assms abs])
  have test: "mountSubPath (''/'' @ m) sub =
      (if location ?p \<noteq> [m] \<and> (\<nexists>es. es \<noteq> [] \<and> location ?p = m # es)
       then Inl (EscapesVolume sub (''/'' @ m))
       else if location ?p = [m] \<or> wantsContents sub then Inr (Clean ?p @ ''/'') else Inr (Clean ?p))"
    unfolding mountSubPath_def Let_def append_assoc at [unfolded append_assoc] inside [unfolded append_assoc] by (rule refl)
  show ?thesis
  proof (cases "\<exists>es. location ?p = m # es")
    case True
    then obtain es where es: "location ?p = m # es" by blast
    then have "mountSubPath (''/'' @ m) sub =
        Inr (Clean ?p @ (if es = [] \<or> wantsContents sub then ''/'' else []))"
      unfolding test by (cases es) simp_all
    then show ?thesis using es unfolding loc Clean_rooted [OF abs] by simp
  next
    case False
    then have "mountSubPath (''/'' @ m) sub = Inl (EscapesVolume sub (''/'' @ m))"
      unfolding test by simp
    with False show ?thesis unfolding loc by simp
  qed
qed

lemma elements_slash_Join: "plain_elements es \<Longrightarrow> elements ((''/'' @ Join es ''/'') @ (if b then ''/'' else [])) = es"
  using elements_rooted_Join [of es] elements_trailing_slash [of "''/'' @ Join es ''/''"] by simp

lemma mountSubPath_resolver:
  assumes "plain_elements [m]"
  shows "mount_resolver (mountSubPath (''/'' @ m)) (''/'' @ m)"
proof
  fix s p
  assume "mountSubPath (''/'' @ m) s = Inr p"
  with mountSubPath_cases [OF assms, of s] obtain es where es: "walk [m] (Split s slash) = m # es"
    and p: "p = (''/'' @ Join (m # es) ''/'') @ (if es = [] \<or> wantsContents s then ''/'' else [])"
    by auto
  have plain: "plain_elements (m # es)"
    using plain_elements_walk [of "[m]" "Split s slash"] assms Split_slash_free [of s] es by simp
  then have el: "elements p = m # es" unfolding p by (rule elements_slash_Join)
  show "IsAbs p" unfolding p by (simp add: IsAbs_def)
  show "plain_elements (elements p)" using el plain by simp
  have "elements (''/'' @ m) = [m]"
    using elements_rooted_Join [of "[m]"] assms by simp
  with el plain show "under (''/'' @ m) p" by (simp add: under_def)
qed

interpretation source_mount: mount_resolver "mountSubPath srcMountPath" srcMountPath
  using mountSubPath_resolver [of "''source''"] by (simp add: srcMountPath_def)

interpretation dest_mount: mount_resolver "mountSubPath destMountPath" destMountPath
  using mountSubPath_resolver [of "''dest''"] by (simp add: destMountPath_def)

text \<open>
  C8: a path is accepted exactly when following it from the volume's root, one element at a time,
  ends inside the volume, also when it left it on the way; the resolved path then names that place, and ends in a slash exactly when
  it is the root or the caller asked for a directory's contents.
\<close>

theorem mountSubPath_exact:
  assumes "plain_elements [m]"
  shows "(case mountSubPath (''/'' @ m) sub of
     Inl e \<Rightarrow> e = EscapesVolume sub (''/'' @ m) \<and> (\<nexists>es. walk [m] (Split sub slash) = m # es)
   | Inr p \<Rightarrow> \<exists>es. walk [m] (Split sub slash) = m # es \<and>
       p = (''/'' @ Join (m # es) ''/'') @ (if es = [] \<or> wantsContents sub then ''/'' else []))"
  by (rule mountSubPath_cases [OF assms])

lemma mountSubPath_exact_witness:
  "mountSubPath ''/dest'' ''a/../../'' = Inl (EscapesVolume ''a/../../'' ''/dest'')"
  using mountSubPath_exact [of "''dest''" "''a/../../''"] by (auto split: sum.splits)

text \<open>
  No command is built from a path outside its volume: what rsync and tar are handed as the
  source and the destination lie under \<open>/source\<close> and \<open>/dest\<close>, and so do the paths the clean step of
  a tar transfer spares.
\<close>

theorem resolveMountPaths_confined:
  assumes "resolveMountPaths req = Inr (src, dest)"
  shows "under srcMountPath src \<and> under destMountPath dest \<and>
         under destMountPath (path_Join [dest, ''lost+found''])"
proof -
  have s: "mountSubPath srcMountPath (pi_Path (rq_Source req)) = Inr src"
    and d: "mountSubPath destMountPath (pi_Path (rq_Dest req)) = Inr dest"
    using assms by (auto simp: resolveMountPaths_def resolve_paths_def split: sum.splits)
  have "plain_elements [''lost+found'']" by simp
  from dest_mount.joined_under [OF d this] show ?thesis
    using source_mount.resolved_under [OF s] dest_mount.resolved_under [OF d] by simp
qed

definition request_example :: Request where
  "request_example =
     (let side = \<lparr>pi_KubeconfigPath = [], pi_Context = [], pi_Namespace = ''ns'', pi_Name = ''data'', pi_Path = ''/''\<rparr>
      in \<lparr>rq_ID = ''fuzzy-panda'', rq_ImageTag = [], rq_ChartVersion = [], rq_Source = side\<lparr>pi_Path := ''a b/.''\<rparr>,
        rq_Dest = side, rq_DeleteExtraneousFiles = True, rq_IgnoreMounted = False, rq_IgnoreSizes = False,
        rq_NoChown = False, rq_Detach = False, rq_Push = False, rq_NoCleanup = False,
        rq_NoCleanupOnFailure = False, rq_ShowProgressBar = False, rq_SourceMountReadWrite = False, rq_KeyAlgorithm = ''ed25519'',
        rq_SSHReverseTunnelPort = 50000, rq_HelmTimeout = 60, rq_HelmValuesFiles = [], rq_HelmValues = [],
        rq_HelmFileValues = [], rq_HelmStringValues = [], rq_Strategies = [''mount'', ''clusterip''],
        rq_DestHostOverride = [], rq_LoadBalancerTimeout = 60, rq_NoCompress = False, rq_NonRoot = False,
        rq_RsyncExtraArgs = [], rq_Mover = ''tar'', rq_StructuredLogs = False, rq_ColorOutput = False\<rparr>)"

lemma resolve_example: "resolveMountPaths request_example = Inr (''/source/a b/'', ''/dest/'')"
proof -
  have "mountSubPath srcMountPath ''a b/.'' = Inr ''/source/a b/''"
    using mountSubPath_cases [of "''source''" "''a b/.''"]
    by (auto simp: srcMountPath_def wantsContents_def suffix_def split: sum.splits)
  moreover have "mountSubPath destMountPath ''/'' = Inr ''/dest/''"
    using mountSubPath_cases [of "''dest''" "''/''"] by (auto simp: destMountPath_def split: sum.splits)
  ultimately show ?thesis by (simp add: resolveMountPaths_def resolve_paths_def request_example_def Let_def)
qed

lemma resolveMountPaths_confined_witness:
  "under srcMountPath ''/source/a b/'' \<and> under destMountPath ''/dest/'' \<and>
   under destMountPath (path_Join [''/dest/'', ''lost+found''])"
  by (rule resolveMountPaths_confined [OF resolve_example])

section \<open>Policies and flags\<close>

text \<open>
  What the job script and the local session rely on: a code is never both a success with caveats
  and a reason to stop, and success itself is neither. The script matches a code against the
  rendered pattern.
\<close>

locale exit_policy =
  fixes p :: moverPolicy
  assumes disjoint: "set (mp_tolerated p) \<inter> set (mp_noRetry p) = {}"
    and zero_plain: "0 \<notin> set (mp_tolerated p)" "0 \<notin> set (mp_noRetry p)"
begin

definition verdict :: "int \<Rightarrow> string" where
  "verdict code =
     (if code = 0 then ''success''
      else if code \<in> set (mp_noRetry p) then ''stop''
      else if tolerates p code then ''success with caveats''
      else ''retry'')"

lemma tolerated_verdict: "tolerates p code \<Longrightarrow> verdict code = ''success with caveats''"
  using disjoint zero_plain by (auto simp: verdict_def tolerates_def)

end

interpretation rsync_exit: exit_policy rsyncPolicy
  by unfold_locales
    (simp_all add: rsyncPolicy_def rsync_ToleratedExitCodes_def rsync_NoRetryExitCodes_def VanishedFilesExitCode_def)

interpretation tar_exit: exit_policy tarPolicy
  by unfold_locales
    (simp_all add: tarPolicy_def archive_ToleratedExitCodes_def archive_NoRetryExitCodes_def ChangedFilesExitCode_def)

text \<open>
  The case pattern the job script is given matches an exit status exactly when the status is
  one of the codes it was rendered from.
\<close>

theorem shellPattern_matches:
  assumes "codes \<noteq> []"
  shows "Itoa code \<in> set (Split (shellPattern codes) CHR ''|'') \<longleftrightarrow> code \<in> set codes"
proof -
  have "\<forall>x \<in> set (map Itoa codes). CHR ''|'' \<notin> set x"
    by (auto simp: is_digit_def byte_def dest!: Itoa_chars)
  then have "Split (shellPattern codes) CHR ''|'' = map Itoa codes"
    using assms Split_Join [of "map Itoa codes" "CHR ''|''"] by (simp add: shellPattern_def)
  then show ?thesis by auto
qed

lemma shellPattern_matches_witness:
  "Itoa 24 \<in> set (Split (shellPattern (mp_tolerated rsyncPolicy)) CHR ''|'') \<and>
   Itoa 1 \<notin> set (Split (shellPattern (mp_tolerated rsyncPolicy)) CHR ''|'')"
proof -
  have "mp_tolerated rsyncPolicy = [24]"
    by (simp add: rsyncPolicy_def rsync_ToleratedExitCodes_def VanishedFilesExitCode_def)
  then show ?thesis
    using shellPattern_matches [of "mp_tolerated rsyncPolicy" 24]
      shellPattern_matches [of "mp_tolerated rsyncPolicy" 1] by simp
qed

lemma movers_differ [simp]: "MoverRsync \<noteq> MoverTar" "MoverTar \<noteq> MoverRsync"
  by (simp_all add: MoverRsync_def MoverTar_def)

lemma moverKind_cases: "moverKind req = Inr kind \<Longrightarrow> kind = MoverRsync \<or> kind = MoverTar"
  by (auto simp: moverKind_def split: if_splits)

definition only_path_or_value :: "Request \<Rightarrow> (mover_error, moverCommand) result \<Rightarrow> bool" where
  "only_path_or_value req r \<longleftrightarrow>
     (case r of
        Inl e \<Rightarrow> (\<exists>flag e'. e = InvalidPath flag e') \<or> (\<exists>e'. e = RsyncBuildFailed e') \<or>
                (\<exists>e'. e = TarBuildFailed e')
      | Inr m \<Rightarrow> mc_policy m = (if moverKind req = Inr MoverTar then tarPolicy else rsyncPolicy))"

text \<open>
  The preflight check finds every conflict between the mover and the flags. What it refuses,
  every builder refuses with the same error; what it passes can only fail over a path or over a
  value the command line cannot carry, and then the command comes with the policy of the program
  it runs.
\<close>

theorem CheckMoverFlags_complete:
  "(case CheckMoverFlags req of
      Some e \<Rightarrow> buildMoverCmdSSH req push host port = Inl e \<and> buildMoverCmdLocal req = Inl e \<and>
               buildMoverCmdSSHSession req = Inl e
    | None \<Rightarrow> only_path_or_value req (buildMoverCmdSSH req push host port) \<and>
               only_path_or_value req (buildMoverCmdLocal req) \<and>
               only_path_or_value req (buildMoverCmdSSHSession req))"
proof (cases "moverKind req")
  case (Inl e)
  then show ?thesis
    by (simp add: CheckMoverFlags_def buildMoverCmdSSH_def buildMoverCmdLocal_def buildMoverCmdSSHSession_def)
next
  case (Inr kind)
  have paths: "resolveMountPaths req = Inl e \<Longrightarrow> \<exists>flag e'. e = InvalidPath flag e'" for e
    by (auto simp: resolveMountPaths_def resolve_paths_def split: sum.splits)
  have rsync: "(case map_sum id rsyncMover r of Inl e \<Rightarrow> (\<exists>flag e'. e = InvalidPath flag e') \<or>
        (\<exists>e'. e = RsyncBuildFailed e') \<or> (\<exists>e'. e = TarBuildFailed e') | Inr m \<Rightarrow> mc_policy m = rsyncPolicy)"
    if "\<And>e. r = Inl e \<Longrightarrow> (\<exists>flag e'. e = InvalidPath flag e') \<or> (\<exists>e'. e = RsyncBuildFailed e')" for r
    using that by (cases r) (auto simp: rsyncMover_def)
  have wrapped: "wrap_rsync c = Inl e \<Longrightarrow> \<exists>e'. e = RsyncBuildFailed e'" for c e
    by (cases "rsync_Build c") (auto simp: wrap_rsync_def)
  have tar: "(case map_sum id tarMover (wrap_tar c) of Inl e \<Rightarrow> (\<exists>flag e'. e = InvalidPath flag e') \<or>
        (\<exists>e'. e = RsyncBuildFailed e') \<or> (\<exists>e'. e = TarBuildFailed e') | Inr m \<Rightarrow> mc_policy m = tarPolicy)" for c
    by (cases "transfer_Build c") (auto simp: wrap_tar_def tarMover_def)
  note builders = buildMoverCmdSSH_def buildMoverCmdLocal_def buildMoverCmdSSHSession_def
  show ?thesis
  proof (cases "kind = MoverTar")
    case True
    with Inr show ?thesis
      using tar by (cases "checkTarFlags req"; cases "resolveMountPaths req")
        (auto simp: CheckMoverFlags_def builders only_path_or_value_def dest: paths)
  next
    case False
    have "buildRsyncCmdString req push host port = Inl e \<Longrightarrow> (\<exists>flag e'. e = InvalidPath flag e') \<or> (\<exists>e'. e = RsyncBuildFailed e')"
      "buildRsyncCmdMount req = Inl e \<Longrightarrow> (\<exists>flag e'. e = InvalidPath flag e') \<or> (\<exists>e'. e = RsyncBuildFailed e')"
      "buildRsyncCmdLocal req = Inl e \<Longrightarrow> (\<exists>flag e'. e = InvalidPath flag e') \<or> (\<exists>e'. e = RsyncBuildFailed e')" for e
      by (auto simp: buildRsyncCmdString_def buildRsyncCmdMount_def buildRsyncCmdLocal_def Let_def
          dest: paths wrapped split: sum.splits)
    with Inr False show ?thesis
      using rsync moverKind_cases [OF Inr] by (auto simp: CheckMoverFlags_def builders only_path_or_value_def)
  qed
qed

end
