(* ===== verification/SshHost.thy ===== *)
theory SshHost
  imports Shell
begin

text \<open>
  \<open>util.IsIPv6\<close> (\<open>src/internal/util/util.go\<close>) and \<open>formatSSHTargetHost\<close>
  (\<open>src/internal/strategy/loadbalancer.go\<close>), with the part of \<open>netip.ParseAddr\<close> they look at: the
  reader of IPv6 literals, zones and trailing IPv4 fields included.
\<close>

section \<open>netip\<close>

definition hex_digit :: "char \<Rightarrow> bool" where
  "hex_digit c \<longleftrightarrow>
     is_digit c \<or> 97 \<le> byte c \<and> byte c \<le> 102 \<or> 65 \<le> byte c \<and> byte c \<le> 70"

text \<open>A decimal field of an IPv4 address: one to three digits, no leading zero, at most 255.\<close>

definition ipv4_field :: "string \<Rightarrow> bool" where
  "ipv4_field f \<longleftrightarrow>
     f \<noteq> [] \<and> list_all is_digit f \<and> (length f = 1 \<or> hd f \<noteq> CHR ''0'') \<and> length f \<le> 3 \<and>
     (case digits_value 0 f of None \<Rightarrow> False | Some n \<Rightarrow> n \<le> 255)"

definition parseIPv4Fields :: "string \<Rightarrow> bool" where
  "parseIPv4Fields s \<longleftrightarrow>
     (let fs = Split s CHR ''.'' in length fs = 4 \<and> list_all ipv4_field fs)"

text \<open>
  The loop of \<open>parseIPv6\<close>: \<open>i\<close> is the number of bytes filled so far, \<open>ellipsis\<close> tells whether \<open>::\<close>
  was seen. The result is whether the address is accepted.
\<close>

definition ipv6_done :: "nat \<Rightarrow> bool \<Rightarrow> string \<Rightarrow> bool" where
  "ipv6_done i ellipsis s \<longleftrightarrow> s = [] \<and> (if i < 16 then ellipsis else \<not> ellipsis)"

function ipv6_loop :: "nat \<Rightarrow> bool \<Rightarrow> string \<Rightarrow> bool" where
  "ipv6_loop i ellipsis s =
     (if 16 \<le> i then ipv6_done i ellipsis s
      else
        let digits = takeWhile hex_digit s;
            rest = dropWhile hex_digit s
        in if digits = [] \<or> 4 < length digits then False
           else if rest \<noteq> [] \<and> hd rest = CHR ''.'' then
             (if \<not> ellipsis \<and> i \<noteq> 12 then False
              else if 16 < i + 4 then False
              else parseIPv4Fields s \<and> ipv6_done (i + 4) ellipsis [])
           else if rest = [] then ipv6_done (i + 2) ellipsis []
           else if hd rest \<noteq> CHR '':'' then False
           else if tl rest = [] then False
           else if hd (tl rest) = CHR '':'' then
             (if ellipsis then False
              else if tl (tl rest) = [] then ipv6_done (i + 2) True []
              else ipv6_loop (i + 2) True (tl (tl rest)))
           else ipv6_loop (i + 2) ellipsis (tl rest))"
  by pat_completeness auto
termination
  by (relation "measure (\<lambda>(i, ellipsis, s). 16 - i)") auto

declare ipv6_loop.simps [simp del]

definition parseIPv6 :: "string \<Rightarrow> bool" where
  "parseIPv6 inp =
     (case (case Cut inp ''%'' of None \<Rightarrow> Some inp
            | Some (s, zone) \<Rightarrow> if zone = [] then None else Some s) of
        None \<Rightarrow> False
      | Some s \<Rightarrow>
          if HasPrefix s ''::'' then
            (if drop 2 s = [] then True else ipv6_loop 0 True (drop 2 s))
          else ipv6_loop 0 False s)"

text \<open>\<open>ParseAddr\<close> decides by the first of the bytes \<open>. : %\<close>; only the colon leads to an IPv6 address.\<close>

definition IsIPv6 :: "string \<Rightarrow> bool" where
  "IsIPv6 host \<longleftrightarrow>
     (case find (\<lambda>c. c \<in> set ''.:%'') host of
        Some c \<Rightarrow> c = CHR '':'' \<and> parseIPv6 host
      | None \<Rightarrow> False)"

definition formatSSHTargetHost :: "string \<Rightarrow> string" where
  "formatSSHTargetHost host = (if IsIPv6 host then ''['' @ host @ '']'' else host)"

section \<open>Formatting is idempotent\<close>

lemma bracket_not_hex: "\<not> hex_digit (CHR ''['')"
  by (simp add: hex_digit_def is_digit_def byte_def)

lemma bracketed_not_IPv6: "\<not> IsIPv6 (CHR ''['' # s)"
proof -
  have loop: "\<not> ipv6_loop 0 e (CHR ''['' # t)" for e t
    by (simp add: ipv6_loop.simps [of 0] bracket_not_hex Let_def)
  have "\<not> parseIPv6 (CHR ''['' # s)"
    by (cases "Cut s ''%''") (auto simp: parseIPv6_def loop split: prod.splits)
  then show ?thesis by (auto simp: IsIPv6_def split: option.splits)
qed

text \<open>
  No formatted host is a bare IPv6 literal, whose colons rsync would take for the end of the
  host; the host is recovered by removing the brackets that were added; and formatting a host twice
  is the same as once, so an override that is bracketed already is left alone.
\<close>

theorem formatSSHTargetHost_safe:
  "\<not> IsIPv6 (formatSSHTargetHost host) \<and>
   formatSSHTargetHost (formatSSHTargetHost host) = formatSSHTargetHost host \<and>
   (if formatSSHTargetHost host = host then host
    else butlast (tl (formatSSHTargetHost host))) = host"
  using bracketed_not_IPv6 by (auto simp: formatSSHTargetHost_def)

lemma formatSSHTargetHost_examples:
  "formatSSHTargetHost ''fd00::1'' = ''[fd00::1]''" "formatSSHTargetHost ''::1'' = ''[::1]''"
  "formatSSHTargetHost ''::ffff:10.0.0.1'' = ''[::ffff:10.0.0.1]''"
  "formatSSHTargetHost ''fe80::1%eth0'' = ''[fe80::1%eth0]''"
  "formatSSHTargetHost ''10.0.0.1'' = ''10.0.0.1''" "formatSSHTargetHost ''a:b'' = ''a:b''"
  "formatSSHTargetHost ''lb.example.com'' = ''lb.example.com''"
  by (simp_all add: formatSSHTargetHost_def IsIPv6_def parseIPv6_def ipv6_loop.simps ipv6_done_def
      hex_digit_def is_digit_def byte_def Let_def parseIPv4Fields_def ipv4_field_def)

end
