(* ===== verification/Strategies.thy ===== *)
theory Strategies
  imports Mover SshHost
begin

text \<open>
  Package \<open>internal/strategy\<close>: the five strategies, the installation of a release and its removal
  (\<open>strategy.go\<close>, \<open>topology.go\<close>, \<open>mount.go\<close>, \<open>clusterip.go\<close>, \<open>loadbalancer.go\<close>, \<open>nodeport.go\<close>,
  \<open>local.go\<close>). A run is a state transformer over the attempt and the trace of the requests made to
  the clusters. The clusters, Helm and the waiting of package \<open>k8s\<close> are the environment: functions
  of the trace so far that answer each request, so a result proved for every environment holds
  whatever the clusters do. Narration is left out.
\<close>

section \<open>Attempts, traces and environments\<close>

text \<open>Which of the migration's two infos a pointer is; it also names the cluster and namespace.\<close>

datatype side = SourceSide | DestSide

record Attempt =
  at_ID :: string
  at_Prefix :: string
  at_Migration :: Migration
  at_Detached :: bool
  at_ReleaseNames :: "string list"
  at_DiagnosticTargets :: "(string \<times> side) list"
  at_Diagnostics :: string

datatype event =
    MakeKeys string
  | InitHelm side
  | CheckPolicy side string
  | Install side string hmap bool
  | AwaitSshdReady side string string
  | GetService side string
  | AwaitAddress side string
  | AwaitNodePort side string
  | AwaitSshdPod side string
  | NodeAddress side string
  | AnyNodeAddress side
  | AwaitJobStart side string
  | AwaitJob side string
  | LocalSession string
  | Uninstall side string
  | Diagnose side string

datatype install_answer = Installed | InstallTimedOut | InstallFailed string
datatype uninstall_answer = Removed | ReleaseNotFound | UninstallFailed string

record env =
  ev_Keys :: "event list \<Rightarrow> string \<Rightarrow> (string, string \<times> string) result"
  ev_InitHelm :: "event list \<Rightarrow> side \<Rightarrow> string option"
  ev_CanCreate :: "event list \<Rightarrow> side \<Rightarrow> string \<Rightarrow> (string, bool) result"
  ev_MergeValues :: "event list \<Rightarrow> string list \<Rightarrow> Request \<Rightarrow> hmap \<Rightarrow> (string, hmap) result"
  ev_Install :: "event list \<Rightarrow> side \<Rightarrow> string \<Rightarrow> hmap \<Rightarrow> install_answer"
  ev_SshdReady :: "event list \<Rightarrow> side \<Rightarrow> string \<Rightarrow> string option"
  ev_GetService :: "event list \<Rightarrow> side \<Rightarrow> string \<Rightarrow> string option"
  ev_Address :: "event list \<Rightarrow> side \<Rightarrow> string \<Rightarrow> (string, string) result"
  ev_NodePort :: "event list \<Rightarrow> side \<Rightarrow> string \<Rightarrow> (string, int) result"
  ev_SshdPod :: "event list \<Rightarrow> side \<Rightarrow> string \<Rightarrow> (string, string) result"
  ev_NodeIP :: "event list \<Rightarrow> side \<Rightarrow> string \<Rightarrow> (string, string) result"
  ev_AnyNodeIP :: "event list \<Rightarrow> side \<Rightarrow> (string, string) result"
  ev_JobStart :: "event list \<Rightarrow> side \<Rightarrow> string \<Rightarrow> string option"
  ev_Job :: "event list \<Rightarrow> side \<Rightarrow> string \<Rightarrow> string option"
  ev_LocalSession :: "event list \<Rightarrow> string option"
  ev_Uninstall :: "event list \<Rightarrow> side \<Rightarrow> string \<Rightarrow> uninstall_answer"
  ev_Diagnose :: "event list \<Rightarrow> side \<Rightarrow> string \<Rightarrow> string"
  ev_Cancelled :: "event list \<Rightarrow> bool"

datatype strategy_error =
    Declined string
  | KeysFailed string
  | BadCommand mover_error
  | HelmInitFailed string
  | MergeFailed string
  | InstallTimeout
  | InstallError string
  | SshdNotReady string
  | ServiceFailed string
  | AddressFailed string
  | NodePortFailed string
  | FallbackFailed string strategy_error
  | PodFailed string
  | NodeIPFailed string
  | JobStartFailed string
  | JobFailed string
  | SessionFailed string
  | UninstallError string string

record rstate =
  st_attempt :: Attempt
  st_trace :: "event list"

type_synonym 'a run = "rstate \<Rightarrow> (strategy_error, 'a) result \<times> rstate"

definition ret :: "'a \<Rightarrow> 'a run" where "ret x st = (Inr x, st)"
definition fail :: "strategy_error \<Rightarrow> 'a run" where "fail e st = (Inl e, st)"

definition bind :: "'a run \<Rightarrow> ('a \<Rightarrow> 'b run) \<Rightarrow> 'b run" where
  "bind m f st = (case m st of (Inl e, st') \<Rightarrow> (Inl e, st') | (Inr x, st') \<Rightarrow> f x st')"

definition lift :: "('a \<Rightarrow> strategy_error) \<Rightarrow> ('a, 'b) result \<Rightarrow> 'b run" where
  "lift wrap r = (case r of Inl e \<Rightarrow> fail (wrap e) | Inr x \<Rightarrow> ret x)"

definition guard :: "(string \<Rightarrow> strategy_error) \<Rightarrow> string option \<Rightarrow> unit run" where
  "guard wrap e = (case e of Some x \<Rightarrow> fail (wrap x) | None \<Rightarrow> ret ())"

text \<open>A request to the environment: it is answered on the trace so far and then recorded.\<close>

definition ask :: "event \<Rightarrow> (event list \<Rightarrow> 'a) \<Rightarrow> 'a run" where
  "ask e f st = (Inr (f (st_trace st)), st\<lparr>st_trace := st_trace st @ [e]\<rparr>)"

definition modify :: "(Attempt \<Rightarrow> Attempt) \<Rightarrow> unit run" where
  "modify f st = (Inr (), st\<lparr>st_attempt := f (st_attempt st)\<rparr>)"

definition gets :: "(Attempt \<Rightarrow> 'a) \<Rightarrow> 'a run" where
  "gets f st = (Inr (f (st_attempt st)), st)"

section \<open>Chart values\<close>

definition info_of :: "Migration \<Rightarrow> side \<Rightarrow> Info" where
  "info_of mig s = (case s of SourceSide \<Rightarrow> mg_SourceInfo mig | DestSide \<Rightarrow> mg_DestInfo mig)"

definition ns_of :: "Migration \<Rightarrow> side \<Rightarrow> string" where
  "ns_of mig s = cl_Namespace (in_Claim (info_of mig s))"

record componentSide =
  cs_side :: side
  cs_mountPath :: string
  cs_readOnly :: bool

record topology =
  tp_sshd :: componentSide
  tp_rsync :: componentSide
  tp_push :: bool

definition resolveTopology :: "Migration \<Rightarrow> topology" where
  "resolveTopology mig =
     (let srcReadOnly = \<not> rq_SourceMountReadWrite (mg_Request mig);
          src = \<lparr>cs_side = SourceSide, cs_mountPath = srcMountPath, cs_readOnly = srcReadOnly\<rparr>;
          dst = \<lparr>cs_side = DestSide, cs_mountPath = destMountPath, cs_readOnly = False\<rparr>
      in if rq_Push (mg_Request mig) then \<lparr>tp_sshd = dst, tp_rsync = src, tp_push = True\<rparr>
         else \<lparr>tp_sshd = src, tp_rsync = dst, tp_push = False\<rparr>)"

definition releaseNames :: "topology \<Rightarrow> string \<Rightarrow> string \<times> string" where
  "releaseNames t pre =
     (if tp_push t then (pre @ ''-dest'', pre @ ''-src'') else (pre @ ''-src'', pre @ ''-dest''))"

definition affinity_value :: "hmap option \<Rightarrow> hval" where
  "affinity_value a = (case a of None \<Rightarrow> HNull | Some m \<Rightarrow> HMap m)"

definition side_mount :: "Migration \<Rightarrow> componentSide \<Rightarrow> hval" where
  "side_mount mig cs =
     HMaps [[(''name'', HStr (cl_Name (in_Claim (info_of mig (cs_side cs))))),
             (''readOnly'', HBool (cs_readOnly cs)), (''mountPath'', HStr (cs_mountPath cs))]]"

definition buildSshdHelmValues :: "Migration \<Rightarrow> componentSide \<Rightarrow> string \<Rightarrow> hmap" where
  "buildSshdHelmValues mig cs publicKey =
     [(keyEnabled, HBool True), (keyNamespace, HStr (ns_of mig (cs_side cs))),
      (''publicKey'', HStr publicKey), (''pvcMounts'', side_mount mig cs),
      (''affinity'', affinity_value (in_Affinity (info_of mig (cs_side cs))))]"

definition buildRsyncHelmValues ::
  "Migration \<Rightarrow> componentSide \<Rightarrow> moverCommand \<Rightarrow> string \<Rightarrow> string \<Rightarrow> hmap" where
  "buildRsyncHelmValues mig cs mover privateKey privateKeyMountPath =
     fold (\<lambda>(k, v). AList.update k v) (mover_values mover)
       [(keyEnabled, HBool True), (keyNamespace, HStr (ns_of mig (cs_side cs))),
        (''privateKeyMount'', HBool True), (''privateKey'', HStr privateKey),
        (''privateKeyMountPath'', HStr privateKeyMountPath), (''pvcMounts'', side_mount mig cs),
        (''affinity'', affinity_value (in_Affinity (info_of mig (cs_side cs))))]"

definition sshdReleaseValues :: "Migration \<Rightarrow> componentSide \<Rightarrow> string \<Rightarrow> string \<Rightarrow> hmap" where
  "sshdReleaseValues mig cs publicKey serviceType =
     [(sshdComponent,
       HMap (AList.update ''service'' (HMap [(''type'', HStr serviceType)])
              (buildSshdHelmValues mig cs publicKey)))]"

definition determineTargetNode :: "Migration \<Rightarrow> string" where
  "determineTargetNode mig =
     (let s = mg_SourceInfo mig; d = mg_DestInfo mig in
      if in_MountedNode s \<noteq> [] \<and> \<not> in_SupportsROX s \<and> \<not> in_SupportsRWX s then in_MountedNode s
      else if in_MountedNode d \<noteq> [] \<and> \<not> in_SupportsROX d \<and> \<not> in_SupportsRWX d then in_MountedNode d
      else if in_MountedNode s \<noteq> [] then in_MountedNode s
      else in_MountedNode d)"

definition buildMountHelmValues :: "Migration \<Rightarrow> moverCommand \<Rightarrow> hmap" where
  "buildMountHelmValues mig mover =
     [(rsyncComponent,
       HMap (fold (\<lambda>(k, v). AList.update k v) (mover_values mover)
         [(keyEnabled, HBool True), (keyNamespace, HStr (ns_of mig SourceSide)),
          (''nodeName'', HStr (determineTargetNode mig)),
          (''pvcMounts'', HMaps
             [[(''name'', HStr (cl_Name (in_Claim (mg_SourceInfo mig)))),
               (''mountPath'', HStr srcMountPath),
               (''readOnly'', HBool (\<not> rq_SourceMountReadWrite (mg_Request mig)))],
              [(''name'', HStr (cl_Name (in_Claim (mg_DestInfo mig)))),
               (''mountPath'', HStr destMountPath)]]),
          (''affinity'', affinity_value (in_Affinity (mg_SourceInfo mig))),
          (keyNetworkPolicy, HMap [(keyEnabled, HBool False)])]))]"

section \<open>Installing a release\<close>

text \<open>
  \<open>getMergedHelmValues\<close>: the image tag goes in front of the user's own \<open>--set\<close> values, then Helm
  merges the user's values over the tool's.
\<close>

definition set_values :: "Request \<Rightarrow> string list" where
  "set_values req =
     (if rq_ImageTag req \<noteq> []
      then [''rsync.image.tag='' @ rq_ImageTag req, ''sshd.image.tag='' @ rq_ImageTag req] @ rq_HelmValues req
      else rq_HelmValues req)"

definition getMergedHelmValues :: "env \<Rightarrow> hmap \<Rightarrow> hmap run" where
  "getMergedHelmValues env vals =
     bind (gets (mg_Request \<circ> at_Migration)) (\<lambda>req st.
       lift MergeFailed (ev_MergeValues env (st_trace st) (set_values req) req vals) st)"

definition disable_policies :: "env \<Rightarrow> side \<Rightarrow> hmap \<Rightarrow> hmap run" where
  "disable_policies env s vals st =
     (let run = disable_run (ev_CanCreate env (st_trace st) s) vals
      in (Inr (fst run), st\<lparr>st_trace := st_trace st @ map (CheckPolicy s) (rev (map fst (snd run)))\<rparr>))"

definition describeRelease :: "env \<Rightarrow> side \<Rightarrow> string \<Rightarrow> hmap \<Rightarrow> unit run" where
  "describeRelease env s release vals =
     (case EnabledComponent vals sshdComponent of None \<Rightarrow> ret ()
      | Some sshd \<Rightarrow>
          bind (ask (AwaitSshdReady s (ComponentNamespace sshd) release)
                  (\<lambda>tr. ev_SshdReady env tr s release)) (guard SshdNotReady))"

definition installHelmChart :: "env \<Rightarrow> side \<Rightarrow> string \<Rightarrow> hmap \<Rightarrow> unit run" where
  "installHelmChart env s name vals =
     bind (modify (\<lambda>a. a\<lparr>at_DiagnosticTargets := at_DiagnosticTargets a @ [(name, s)]\<rparr>)) (\<lambda>_.
     bind (ask (InitHelm s) (\<lambda>tr. ev_InitHelm env tr s)) (\<lambda>init.
     bind (guard HelmInitFailed init) (\<lambda>_.
     bind (gets (mg_Request \<circ> at_Migration)) (\<lambda>req.
     bind (disable_policies env s (applyNonRootValues vals (rq_NonRoot req))) (\<lambda>vals.
     bind (getMergedHelmValues env vals) (\<lambda>vals.
     bind (ask (Install s name vals (installsLoadBalancer vals)) (\<lambda>tr. ev_Install env tr s name vals)) (\<lambda>answer.
     case answer of
       InstallTimedOut \<Rightarrow> fail InstallTimeout
     | InstallFailed e \<Rightarrow> fail (InstallError e)
     | Installed \<Rightarrow> describeRelease env s name vals)))))))"

definition waitForRsyncJob :: "env \<Rightarrow> side \<Rightarrow> string \<Rightarrow> unit run" where
  "waitForRsyncJob env s release =
     bind (gets (mg_Request \<circ> at_Migration)) (\<lambda>req.
     if rq_Detach req then
       bind (ask (AwaitJobStart s (release @ ''-rsync'')) (\<lambda>tr. ev_JobStart env tr s (release @ ''-rsync''))) (\<lambda>e.
       bind (guard JobStartFailed e) (\<lambda>_. modify (\<lambda>a. a\<lparr>at_Detached := True\<rparr>)))
     else bind (ask (AwaitJob s (release @ ''-rsync'')) (\<lambda>tr. ev_Job env tr s (release @ ''-rsync'')))
            (guard JobFailed))"

definition generateSSHKeys :: "env \<Rightarrow> string \<Rightarrow> (string \<times> string \<times> string) run" where
  "generateSSHKeys env keyAlgorithm =
     bind (ask (MakeKeys keyAlgorithm) (\<lambda>tr. ev_Keys env tr keyAlgorithm)) (\<lambda>answer.
     bind (lift KeysFailed answer) (\<lambda>(public, private). ret (public, private, ''/tmp/id_'' @ keyAlgorithm)))"

definition set_releases :: "string list \<Rightarrow> unit run" where
  "set_releases names = modify (\<lambda>a. a\<lparr>at_ReleaseNames := names\<rparr>)"

section \<open>mount\<close>

definition sameCluster :: "Migration \<Rightarrow> bool" where
  "sameCluster mig \<longleftrightarrow> cc_Host (in_Client (mg_SourceInfo mig)) = cc_Host (in_Client (mg_DestInfo mig))"

definition Mount_cannotDoReason :: "Migration \<Rightarrow> string" where
  "Mount_cannotDoReason mig =
     (let s = mg_SourceInfo mig; d = mg_DestInfo mig in
      if \<not> sameCluster mig then ''source and destination are on different clusters''
      else if ns_of mig SourceSide \<noteq> ns_of mig DestSide
      then ''source and destination are in different namespaces''
      else if in_MountedNode s = in_MountedNode d \<or> in_MountedNode s = [] \<or> in_MountedNode d = []
              \<or> in_SupportsROX s \<or> in_SupportsRWX s \<or> in_SupportsRWX d then []
      else ''PVCs are mounted on different nodes and do not support multi-access modes'')"

definition Mount_Run :: "env \<Rightarrow> unit run" where
  "Mount_Run env =
     bind (gets at_Migration) (\<lambda>mig.
     if Mount_cannotDoReason mig \<noteq> [] then fail (Declined (Mount_cannotDoReason mig))
     else bind (lift BadCommand (buildMoverCmdLocal (mg_Request mig))) (\<lambda>mover.
     bind (gets at_Prefix) (\<lambda>releaseName.
     bind (set_releases [releaseName]) (\<lambda>_.
     bind (installHelmChart env SourceSide releaseName (buildMountHelmValues mig mover)) (\<lambda>_.
     waitForRsyncJob env SourceSide releaseName)))))"

section \<open>clusterip\<close>

definition ClusterIP_cannotDoReason :: "Migration \<Rightarrow> string" where
  "ClusterIP_cannotDoReason mig =
     (if \<not> sameCluster mig then ''source and destination are on different clusters'' else [])"

definition buildClusterIPHelmVals :: "env \<Rightarrow> Migration \<Rightarrow> topology \<Rightarrow> string \<Rightarrow> hmap run" where
  "buildClusterIPHelmVals env mig topo helmReleaseName =
     bind (generateSSHKeys env (rq_KeyAlgorithm (mg_Request mig))) (\<lambda>(publicKey, privateKey, keyPath).
     let host = (if rq_DestHostOverride (mg_Request mig) \<noteq> []
                 then formatSSHTargetHost (rq_DestHostOverride (mg_Request mig))
                 else helmReleaseName @ ''-sshd.'' @ ns_of mig (cs_side (tp_sshd topo)))
     in bind (lift BadCommand (buildMoverCmdSSH (mg_Request mig) (tp_push topo) host 0)) (\<lambda>mover.
        ret [(rsyncComponent, HMap (buildRsyncHelmValues mig (tp_rsync topo) mover privateKey keyPath)),
             (sshdComponent, HMap (buildSshdHelmValues mig (tp_sshd topo) publicKey))]))"

definition ClusterIP_Run :: "env \<Rightarrow> unit run" where
  "ClusterIP_Run env =
     bind (gets at_Migration) (\<lambda>mig.
     if ClusterIP_cannotDoReason mig \<noteq> [] then fail (Declined (ClusterIP_cannotDoReason mig))
     else
       let topo = resolveTopology mig in
       bind (gets at_Prefix) (\<lambda>releaseName.
       bind (set_releases [releaseName]) (\<lambda>_.
       bind (buildClusterIPHelmVals env mig topo releaseName) (\<lambda>vals.
       bind (installHelmChart env DestSide releaseName vals) (\<lambda>_.
       bind (if ns_of mig SourceSide \<noteq> ns_of mig DestSide
             then modify (\<lambda>a. a\<lparr>at_DiagnosticTargets := at_DiagnosticTargets a @ [(releaseName, SourceSide)]\<rparr>)
             else ret ()) (\<lambda>_.
       waitForRsyncJob env (cs_side (tp_rsync topo)) releaseName))))))"

section \<open>Two releases: loadbalancer and nodeport\<close>

type_synonym sshTarget = "string \<times> int"

definition resolveNodePortTarget :: "env \<Rightarrow> topology \<Rightarrow> string \<Rightarrow> sshTarget run" where
  "resolveNodePortTarget env topo sshdRelease =
     (let s = cs_side (tp_sshd topo); svcName = sshdRelease @ ''-sshd'' in
      bind (ask (AwaitNodePort s svcName) (\<lambda>tr. ev_NodePort env tr s svcName)) (\<lambda>answer.
      bind (lift NodePortFailed answer) (\<lambda>nodePort.
      bind (gets (mg_Request \<circ> at_Migration)) (\<lambda>req.
      if rq_DestHostOverride req \<noteq> [] then ret ([], nodePort)
      else
        bind (ask (AwaitSshdPod s sshdRelease) (\<lambda>tr. ev_SshdPod env tr s sshdRelease)) (\<lambda>answer.
        bind (lift PodFailed answer) (\<lambda>podNode.
        bind (ask (NodeAddress s podNode) (\<lambda>tr. ev_NodeIP env tr s podNode)) (\<lambda>answer.
        case answer of
          Inr nodeIP \<Rightarrow> ret (formatSSHTargetHost nodeIP, nodePort)
        | Inl _ \<Rightarrow>
            bind (ask (AnyNodeAddress s) (\<lambda>tr. ev_AnyNodeIP env tr s)) (\<lambda>answer.
            bind (lift NodeIPFailed answer) (\<lambda>nodeIP. ret (formatSSHTargetHost nodeIP, nodePort))))))))))"

definition resolveLBTarget :: "env \<Rightarrow> topology \<Rightarrow> string \<Rightarrow> sshTarget run" where
  "resolveLBTarget env topo sshdRelease =
     (let s = cs_side (tp_sshd topo); svcName = sshdRelease @ ''-sshd'' in
      bind (ask (GetService s svcName) (\<lambda>tr. ev_GetService env tr s svcName)) (\<lambda>e.
      bind (guard ServiceFailed e) (\<lambda>_.
      bind (ask (AwaitAddress s svcName) (\<lambda>tr. ev_Address env tr s svcName)) (\<lambda>answer.
      case answer of
        Inr lbAddress \<Rightarrow> ret (formatSSHTargetHost lbAddress, 0)
      | Inl e \<Rightarrow>
          (\<lambda>st. if ev_Cancelled env (st_trace st) then (Inl (AddressFailed e), st)
                else case resolveNodePortTarget env topo sshdRelease st of
                  (Inl fallback, st') \<Rightarrow> (Inl (FallbackFailed e fallback), st')
                | (Inr target, st') \<Rightarrow> (Inr target, st'))))))"

definition installSshd :: "env \<Rightarrow> topology \<Rightarrow> string \<Rightarrow> string \<Rightarrow> string \<Rightarrow> unit run" where
  "installSshd env topo releaseName publicKey serviceType =
     bind (gets at_Migration) (\<lambda>mig.
     installHelmChart env (cs_side (tp_sshd topo)) releaseName
       (sshdReleaseValues mig (tp_sshd topo) publicKey serviceType))"

definition installRsyncJob ::
  "env \<Rightarrow> topology \<Rightarrow> string \<Rightarrow> string \<Rightarrow> string \<Rightarrow> string \<Rightarrow> int \<Rightarrow> unit run" where
  "installRsyncJob env topo releaseName privateKey privateKeyMountPath sshHost port =
     bind (gets at_Migration) (\<lambda>mig.
     bind (lift BadCommand (buildMoverCmdSSH (mg_Request mig) (tp_push topo) sshHost port)) (\<lambda>mover.
     let vals = AList.update ''sshRemoteHost'' (HStr sshHost)
                  (buildRsyncHelmValues mig (tp_rsync topo) mover privateKey privateKeyMountPath);
         vals = (if port \<noteq> 0 then AList.update ''sshRemotePort'' (HInt port) vals else vals)
     in installHelmChart env (cs_side (tp_rsync topo)) releaseName [(rsyncComponent, HMap vals)]))"

definition runTwoReleaseStrategy ::
  "env \<Rightarrow> string \<Rightarrow> (topology \<Rightarrow> string \<Rightarrow> sshTarget run) \<Rightarrow> unit run" where
  "runTwoReleaseStrategy env serviceType resolveTarget =
     bind (gets at_Migration) (\<lambda>mig.
     let topo = resolveTopology mig in
     bind (generateSSHKeys env (rq_KeyAlgorithm (mg_Request mig))) (\<lambda>(publicKey, privateKey, keyPath).
     bind (gets at_Prefix) (\<lambda>pre.
     let sshdRelease = fst (releaseNames topo pre); rsyncRelease = snd (releaseNames topo pre) in
     bind (set_releases [sshdRelease, rsyncRelease]) (\<lambda>_.
     bind (installSshd env topo sshdRelease publicKey serviceType) (\<lambda>_.
     bind (resolveTarget topo sshdRelease) (\<lambda>(host, port).
     let sshTargetHost = (if rq_DestHostOverride (mg_Request mig) \<noteq> []
                          then formatSSHTargetHost (rq_DestHostOverride (mg_Request mig)) else host) in
     bind (installRsyncJob env topo rsyncRelease privateKey keyPath sshTargetHost port) (\<lambda>_.
     waitForRsyncJob env (cs_side (tp_rsync topo)) rsyncRelease)))))))"

definition LoadBalancer_Run :: "env \<Rightarrow> unit run" where
  "LoadBalancer_Run env = runTwoReleaseStrategy env ''LoadBalancer'' (resolveLBTarget env)"

definition NodePort_Run :: "env \<Rightarrow> unit run" where
  "NodePort_Run env = runTwoReleaseStrategy env ''NodePort'' (resolveNodePortTarget env)"

section \<open>local\<close>

definition installLocalOnSource :: "env \<Rightarrow> string \<Rightarrow> string \<Rightarrow> string \<Rightarrow> string \<Rightarrow> unit run" where
  "installLocalOnSource env releaseName publicKey privateKey privateKeyMountPath =
     bind (gets at_Migration) (\<lambda>mig.
     let cs = \<lparr>cs_side = SourceSide, cs_mountPath = srcMountPath,
               cs_readOnly = \<not> rq_SourceMountReadWrite (mg_Request mig)\<rparr>;
         vals = AList.update ''privateKeyMountPath'' (HStr privateKeyMountPath)
                 (AList.update ''privateKey'' (HStr privateKey)
                   (AList.update ''privateKeyMount'' (HBool True) (buildSshdHelmValues mig cs publicKey)))
     in installHelmChart env SourceSide releaseName [(sshdComponent, HMap vals)])"

definition installLocalOnDest :: "env \<Rightarrow> string \<Rightarrow> string \<Rightarrow> unit run" where
  "installLocalOnDest env releaseName publicKey =
     bind (gets at_Migration) (\<lambda>mig.
     installHelmChart env DestSide releaseName
       [(sshdComponent,
         HMap (buildSshdHelmValues mig
                \<lparr>cs_side = DestSide, cs_mountPath = destMountPath, cs_readOnly = False\<rparr> publicKey))])"

definition getSshdPod :: "env \<Rightarrow> side \<Rightarrow> string \<Rightarrow> string run" where
  "getSshdPod env s release =
     bind (ask (AwaitSshdPod s release) (\<lambda>tr. ev_SshdPod env tr s release)) (lift PodFailed)"

definition Local_Run :: "env \<Rightarrow> unit run" where
  "Local_Run env =
     bind (gets (mg_Request \<circ> at_Migration)) (\<lambda>req.
     if rq_Detach req
     then fail (Declined ''local strategy requires a persistent connection through the local machine'')
     else bind (generateSSHKeys env (rq_KeyAlgorithm req)) (\<lambda>(publicKey, privateKey, keyPath).
     bind (gets at_Prefix) (\<lambda>pre.
     bind (set_releases [pre @ ''-src'', pre @ ''-dest'']) (\<lambda>_.
     bind (installLocalOnSource env (pre @ ''-src'') publicKey privateKey keyPath) (\<lambda>_.
     bind (installLocalOnDest env (pre @ ''-dest'') publicKey) (\<lambda>_.
     bind (getSshdPod env SourceSide (pre @ ''-src'')) (\<lambda>_.
     bind (getSshdPod env DestSide (pre @ ''-dest'')) (\<lambda>_.
     bind (ask (LocalSession pre) (ev_LocalSession env)) (guard SessionFailed)))))))))"

section \<open>Cleanup\<close>

definition cleanupForPVC :: "env \<Rightarrow> string \<Rightarrow> side \<Rightarrow> rstate \<Rightarrow> strategy_error option \<times> rstate" where
  "cleanupForPVC env name s st =
     (case bind (ask (InitHelm s) (\<lambda>tr. ev_InitHelm env tr s)) (\<lambda>init.
           bind (guard HelmInitFailed init) (\<lambda>_.
           ask (Uninstall s name) (\<lambda>tr. ev_Uninstall env tr s name))) st of
        (Inl e, st') \<Rightarrow> (Some e, st')
      | (Inr (UninstallFailed e), st') \<Rightarrow> (Some (UninstallError name e), st')
      | (Inr _, st') \<Rightarrow> (None, st'))"

text \<open>Every release is tried on both sides, and a failure does not stop the others.\<close>

fun cleanup_all :: "env \<Rightarrow> (side \<times> string) list \<Rightarrow> rstate \<Rightarrow> strategy_error list \<times> rstate" where
  "cleanup_all env [] st = ([], st)"
| "cleanup_all env ((s, name) # rest) st =
     (case cleanupForPVC env name s st of
        (e, st') \<Rightarrow>
          case cleanup_all env rest st' of
            (es, st'') \<Rightarrow> ((case e of None \<Rightarrow> es | Some x \<Rightarrow> x # es), st''))"

definition strategy_Cleanup :: "env \<Rightarrow> rstate \<Rightarrow> strategy_error list \<times> rstate" where
  "strategy_Cleanup env st =
     cleanup_all env
       [(s, name). s \<leftarrow> [SourceSide, DestSide], name \<leftarrow> at_ReleaseNames (st_attempt st)] st"

section \<open>The strategies by name\<close>

definition mountStrategy :: string where "mountStrategy = ''mount''"
definition clusterIPStrategy :: string where "clusterIPStrategy = ''clusterip''"
definition loadBalancerStrategy :: string where "loadBalancerStrategy = ''loadbalancer''"
definition localStrategy :: string where "localStrategy = ''local''"
definition nodePortStrategy :: string where "nodePortStrategy = ''nodeport''"

definition nameToStrategy :: "string \<Rightarrow> (env \<Rightarrow> unit run) option" where
  "nameToStrategy name =
     (if name = mountStrategy then Some Mount_Run
      else if name = clusterIPStrategy then Some ClusterIP_Run
      else if name = loadBalancerStrategy then Some LoadBalancer_Run
      else if name = localStrategy then Some Local_Run
      else if name = nodePortStrategy then Some NodePort_Run
      else None)"

fun GetStrategiesMapForNames :: "string list \<Rightarrow> (string, (string \<times> (env \<Rightarrow> unit run)) list) result" where
  "GetStrategiesMapForNames [] = Inr []"
| "GetStrategiesMapForNames (name # names) =
     (case nameToStrategy name of None \<Rightarrow> Inl name
      | Some s \<Rightarrow> map_sum id (\<lambda>m. (name, s) # m) (GetStrategiesMapForNames names))"

definition strategy_Describe :: "string \<Rightarrow> bool \<Rightarrow> string" where
  "strategy_Describe name push =
     (let side = (if push then ''sshd next to the destination, rsync next to the source''
                  else ''sshd next to the source, rsync next to the destination'')
      in if name = mountStrategy then ''one pod mounts both claims and copies locally, no network''
         else if name = clusterIPStrategy then side @ '', over a ClusterIP service''
         else if name = loadBalancerStrategy then side @ '', over a LoadBalancer service''
         else if name = nodePortStrategy then side @ '', over a NodePort service''
         else if name = localStrategy then ''sshd on both sides, the copy goes through this machine''
         else [])"

end
