(* ===== verification/StrategyContract.thy ===== *)
theory StrategyContract
  imports Strategies
begin

text \<open>
  What the migrator relies on when it runs a strategy, as the locale \<open>strategy_contract\<close>, and its
  interpretation for each of the five strategies. The run combinators have one composition rule
  each, so a strategy meets the contract by construction.
\<close>

section \<open>Composition rules\<close>

text \<open>
  A phase moves from one state to the next when it only appends to the trace, removes nothing, and
  every release it installs has a name of the given set and is recorded as a diagnostic target.
\<close>

fun quiet_event :: "string set \<Rightarrow> (string \<times> side) set \<Rightarrow> event \<Rightarrow> bool" where
  "quiet_event N T (Install s n _ _) = (n \<in> N \<and> (n, s) \<in> T)"
| "quiet_event N T (Uninstall _ _) = False"
| "quiet_event N T (Diagnose _ _) = False"
| "quiet_event N T _ = True"

lemma quiet_event_mono: "quiet_event N T e \<Longrightarrow> N \<subseteq> N' \<Longrightarrow> T \<subseteq> T' \<Longrightarrow> quiet_event N' T' e"
  by (cases e) auto

definition same_attempt :: "Attempt \<Rightarrow> Attempt \<Rightarrow> bool" where
  "same_attempt a b \<longleftrightarrow>
     at_ID b = at_ID a \<and> at_Prefix b = at_Prefix a \<and> at_Migration b = at_Migration a \<and>
     at_Diagnostics b = at_Diagnostics a \<and>
     set (at_DiagnosticTargets a) \<subseteq> set (at_DiagnosticTargets b) \<and>
     (at_Detached b \<longrightarrow> at_Detached a \<or> rq_Detach (mg_Request (at_Migration a)))"

definition moved :: "string set \<Rightarrow> rstate \<Rightarrow> rstate \<Rightarrow> bool" where
  "moved N st st' \<longleftrightarrow>
     same_attempt (st_attempt st) (st_attempt st') \<and>
     at_ReleaseNames (st_attempt st') = at_ReleaseNames (st_attempt st) \<and>
     (\<exists>evs. st_trace st' = st_trace st @ evs \<and>
        (\<forall>e \<in> set evs. quiet_event N (set (at_DiagnosticTargets (st_attempt st'))) e))"

definition no_decline :: "(strategy_error, 'a) result \<Rightarrow> bool" where
  "no_decline r \<longleftrightarrow> (case r of Inl (Declined _) \<Rightarrow> False | _ \<Rightarrow> True)"

text \<open>\<open>T\<close> are the diagnostic targets known to be recorded when the phase starts.\<close>

definition frame :: "string set \<Rightarrow> (string \<times> side) set \<Rightarrow> 'a run \<Rightarrow> bool" where
  "frame N T m \<longleftrightarrow>
     (\<forall>st r st'. T \<subseteq> set (at_DiagnosticTargets (st_attempt st)) \<longrightarrow> m st = (r, st') \<longrightarrow>
        moved N st st' \<and> no_decline r)"

named_theorems frame_intros \<open>composition rules of frame\<close>

lemma moved_refl [simp]: "moved N st st"
  by (auto simp: moved_def same_attempt_def)

lemma moved_targets: "moved N a b \<Longrightarrow>
    set (at_DiagnosticTargets (st_attempt a)) \<subseteq> set (at_DiagnosticTargets (st_attempt b))"
  by (simp add: moved_def same_attempt_def)

lemma moved_trans:
  assumes "moved N a b" and "moved N b c"
  shows "moved N a c"
proof -
  from assms obtain evs evs' where
    e: "st_trace b = st_trace a @ evs" "\<forall>e \<in> set evs. quiet_event N (set (at_DiagnosticTargets (st_attempt b))) e"
      "st_trace c = st_trace b @ evs'" "\<forall>e \<in> set evs'. quiet_event N (set (at_DiagnosticTargets (st_attempt c))) e"
    by (auto simp: moved_def)
  from e(2) have "\<forall>e \<in> set evs. quiet_event N (set (at_DiagnosticTargets (st_attempt c))) e"
    using quiet_event_mono moved_targets [OF assms(2)] by blast
  with e have "st_trace c = st_trace a @ (evs @ evs') \<and>
      (\<forall>e \<in> set (evs @ evs'). quiet_event N (set (at_DiagnosticTargets (st_attempt c))) e)" by auto
  then have "\<exists>evs. st_trace c = st_trace a @ evs \<and>
      (\<forall>e \<in> set evs. quiet_event N (set (at_DiagnosticTargets (st_attempt c))) e)" by blast
  with assms show ?thesis by (auto simp: moved_def same_attempt_def)
qed

lemma frame_bind [frame_intros]:
  assumes "frame N T m" and "\<And>x. frame N T (f x)"
  shows "frame N T (bind m f)"
  unfolding frame_def
proof (intro allI impI)
  fix st r st'
  assume T: "T \<subseteq> set (at_DiagnosticTargets (st_attempt st))" and run: "bind m f st = (r, st')"
  obtain r1 st1 where m: "m st = (r1, st1)" by (cases "m st")
  with assms(1) T have m1: "moved N st st1" "no_decline r1" by (auto simp: frame_def)
  show "moved N st st' \<and> no_decline r"
  proof (cases r1)
    case (Inl e)
    with run m have "r = Inl e" "st' = st1" by (auto simp: bind_def)
    with m1 Inl show ?thesis by (simp add: no_decline_def split: strategy_error.splits)
  next
    case (Inr x)
    with run m have "f x st1 = (r, st')" by (simp add: bind_def)
    moreover have "T \<subseteq> set (at_DiagnosticTargets (st_attempt st1))" using T moved_targets [OF m1(1)] by blast
    ultimately have "moved N st1 st' \<and> no_decline r" using assms(2) [of x] by (auto simp: frame_def)
    with m1(1) moved_trans show ?thesis by blast
  qed
qed

lemma frame_ret [frame_intros]: "frame N T (ret x)"
  by (simp add: frame_def ret_def no_decline_def)

lemma frame_gets [frame_intros]: "frame N T (gets f)"
  by (simp add: frame_def gets_def no_decline_def)

lemma frame_fail [frame_intros]: "(\<And>w. e \<noteq> Declined w) \<Longrightarrow> frame N T (fail e)"
  by (auto simp: frame_def fail_def no_decline_def split: strategy_error.splits)

lemma frame_lift [frame_intros]: "(\<And>e w. wrap e \<noteq> Declined w) \<Longrightarrow> frame N T (lift wrap r)"
  by (cases r) (auto simp: lift_def intro: frame_fail frame_ret)

lemma frame_guard [frame_intros]: "(\<And>e w. wrap e \<noteq> Declined w) \<Longrightarrow> frame N T (guard wrap r)"
  by (cases r) (auto simp: guard_def intro: frame_fail frame_ret)

lemma frame_ask [frame_intros]: "quiet_event N T e \<Longrightarrow> frame N T (ask e f)"
  by (cases e) (auto simp: frame_def ask_def moved_def same_attempt_def no_decline_def)

lemma frame_add_target [frame_intros]:
  assumes "\<And>x. frame N (insert (n, s) T) (f x)"
  shows "frame N T (bind (modify (\<lambda>a. a\<lparr>at_DiagnosticTargets := at_DiagnosticTargets a @ [(n, s)]\<rparr>)) f)"
  unfolding frame_def
proof (intro allI impI)
  fix st r st'
  assume T: "T \<subseteq> set (at_DiagnosticTargets (st_attempt st))"
    and run: "bind (modify (\<lambda>a. a\<lparr>at_DiagnosticTargets := at_DiagnosticTargets a @ [(n, s)]\<rparr>)) f st = (r, st')"
  let ?st1 = "st\<lparr>st_attempt := (st_attempt st)\<lparr>at_DiagnosticTargets :=
                   at_DiagnosticTargets (st_attempt st) @ [(n, s)]\<rparr>\<rparr>"
  have "f () ?st1 = (r, st')" using run by (simp add: bind_def modify_def)
  moreover have "insert (n, s) T \<subseteq> set (at_DiagnosticTargets (st_attempt ?st1))" using T by auto
  ultimately have "moved N ?st1 st' \<and> no_decline r"
    using assms [of "()"] unfolding frame_def by blast
  moreover have "moved N st ?st1" by (auto simp: moved_def same_attempt_def)
  ultimately show "moved N st st' \<and> no_decline r" using moved_trans by blast
qed

lemma frame_if [frame_intros]: "(b \<Longrightarrow> frame N T m) \<Longrightarrow> (\<not> b \<Longrightarrow> frame N T m') \<Longrightarrow> frame N T (if b then m else m')"
  by simp

lemma frame_Let [frame_intros]: "(\<And>y. frame N T (f y)) \<Longrightarrow> frame N T (let y = x in f y)"
  by simp

lemma frame_prod [frame_intros]: "(\<And>a b. frame N T (f a b)) \<Longrightarrow> frame N T (case p of (a, b) \<Rightarrow> f a b)"
  by (cases p) simp

lemma frame_disable_policies [frame_intros]: "frame N T (disable_policies env s vals)"
  by (auto simp: frame_def disable_policies_def moved_def same_attempt_def no_decline_def Let_def)

lemma frame_getMerged [frame_intros]: "frame N T (getMergedHelmValues env vals)"
  unfolding getMergedHelmValues_def
proof (rule frame_bind)
  show "frame N T (\<lambda>st. lift MergeFailed (ev_MergeValues env (st_trace st) (set_values req) req vals) st)" for req
    using frame_lift [of MergeFailed N T] unfolding frame_def by blast
qed (rule frame_gets)

lemma frame_describeRelease [frame_intros]: "frame N T (describeRelease env s release vals)"
  unfolding describeRelease_def
  by (cases "EnabledComponent vals sshdComponent") (auto intro!: frame_intros)

lemma frame_install_answer [frame_intros]:
  "frame N T (case answer of InstallTimedOut \<Rightarrow> fail InstallTimeout
     | InstallFailed e \<Rightarrow> fail (InstallError e) | Installed \<Rightarrow> describeRelease env s n vals)"
  by (cases answer) (auto intro!: frame_intros)

text \<open>Installing a release records it before the one \<^const>\<open>Install\<close> event of the model.\<close>

lemma frame_install [frame_intros]: "n \<in> N \<Longrightarrow> frame N T (installHelmChart env s n vals)"
  unfolding installHelmChart_def by (rule frame_add_target) (auto intro!: frame_intros)

lemma frame_waitForRsyncJob [frame_intros]: "frame N T (waitForRsyncJob env s release)"
  by (auto simp: frame_def waitForRsyncJob_def bind_def gets_def ask_def guard_def modify_def ret_def
      fail_def moved_def same_attempt_def no_decline_def split: option.splits)

lemma frame_keys [frame_intros]: "frame N T (generateSSHKeys env alg)"
  unfolding generateSSHKeys_def by (auto intro!: frame_intros)

lemma frame_nodeport [frame_intros]: "frame N T (resolveNodePortTarget env topo release)"
  unfolding resolveNodePortTarget_def
  by (auto intro!: frame_intros split: sum.splits)

lemma frame_lb [frame_intros]: "frame N T (resolveLBTarget env topo release)"
proof -
  have tail: "frame N T (\<lambda>st. if ev_Cancelled env (st_trace st) then (Inl (AddressFailed e), st)
      else case resolveNodePortTarget env topo release st of
        (Inl fallback, st') \<Rightarrow> (Inl (FallbackFailed e fallback), st')
      | (Inr target, st') \<Rightarrow> (Inr target, st'))" for e
    using frame_nodeport [of N T env topo release]
    by (auto simp: frame_def no_decline_def split: prod.splits sum.splits if_splits)
  show ?thesis
    unfolding resolveLBTarget_def by (auto intro!: frame_intros tail split: sum.splits)
qed

lemma frame_installSshd [frame_intros]: "n \<in> N \<Longrightarrow> frame N T (installSshd env topo n key ty)"
  unfolding installSshd_def by (auto intro!: frame_intros)

lemma frame_installRsyncJob [frame_intros]:
  "n \<in> N \<Longrightarrow> frame N T (installRsyncJob env topo n key path host port)"
  unfolding installRsyncJob_def by (auto intro!: frame_intros)

lemma frame_clusterip_vals [frame_intros]: "frame N T (buildClusterIPHelmVals env mig topo name)"
  unfolding buildClusterIPHelmVals_def by (auto intro!: frame_intros)

lemma frame_local [frame_intros]:
  "n \<in> N \<Longrightarrow> frame N T (installLocalOnSource env n pub priv path)"
  "n \<in> N \<Longrightarrow> frame N T (installLocalOnDest env n pub)"
  "frame N T (getSshdPod env s release)"
  unfolding installLocalOnSource_def installLocalOnDest_def getSshdPod_def by (auto intro!: frame_intros)

section \<open>The contract\<close>

text \<open>The names an attempt with a given prefix may give its releases.\<close>

definition release_names_of :: "string \<Rightarrow> string set" where
  "release_names_of pre = {pre, pre @ ''-src'', pre @ ''-dest''}"

text \<open>
  What a run leaves behind: whatever it installed bears a recorded name and is a diagnostic target,
  nothing was removed, and a decline did not touch the clusters or the attempt.
\<close>

definition kept_contract :: "rstate \<Rightarrow> (strategy_error, unit) result \<Rightarrow> rstate \<Rightarrow> bool" where
  "kept_contract st r st' \<longleftrightarrow>
     same_attempt (st_attempt st) (st_attempt st') \<and>
     set (at_ReleaseNames (st_attempt st')) \<subseteq> release_names_of (at_Prefix (st_attempt st)) \<and>
     (\<exists>evs. st_trace st' = st_trace st @ evs \<and>
        (\<forall>e \<in> set evs. quiet_event (set (at_ReleaseNames (st_attempt st')))
                        (set (at_DiagnosticTargets (st_attempt st'))) e)) \<and>
     (\<not> no_decline r \<longrightarrow> st' = st)"

locale strategy_contract =
  fixes strat :: "env \<Rightarrow> unit run"
  assumes keeps: "strat env st = (r, st') \<Longrightarrow> at_ReleaseNames (st_attempt st) = [] \<Longrightarrow> kept_contract st r st'"
begin

lemma decline_untouched:
  "strat env st = (Inl (Declined w), st') \<Longrightarrow> at_ReleaseNames (st_attempt st) = [] \<Longrightarrow> st' = st"
  using keeps [of env st "Inl (Declined w)" st'] by (simp add: kept_contract_def no_decline_def)

lemma install_recorded:
  assumes "strat env st = (r, st')" and "at_ReleaseNames (st_attempt st) = []"
    and "Install s n vals b \<in> set (drop (length (st_trace st)) (st_trace st'))"
  shows "n \<in> set (at_ReleaseNames (st_attempt st')) \<and> (n, s) \<in> set (at_DiagnosticTargets (st_attempt st'))"
  using keeps [OF assms(1,2)] assms(3) by (fastforce simp: kept_contract_def)

end

text \<open>A run up to the point where it names its releases, and from there on.\<close>

definition contract :: "string \<Rightarrow> unit run \<Rightarrow> bool" where
  "contract pre m \<longleftrightarrow>
     (\<forall>st r st'. at_Prefix (st_attempt st) = pre \<longrightarrow> at_ReleaseNames (st_attempt st) = [] \<longrightarrow>
        m st = (r, st') \<longrightarrow> kept_contract st r st' \<and> no_decline r)"

lemma contract_names:
  assumes "set names \<subseteq> release_names_of pre" and "\<And>x. frame (set names) {} (f x)"
  shows "contract pre (bind (set_releases names) f)"
  unfolding contract_def
proof (intro allI impI)
  fix st r st'
  assume p: "at_Prefix (st_attempt st) = pre" and run: "bind (set_releases names) f st = (r, st')"
  let ?st1 = "st\<lparr>st_attempt := (st_attempt st)\<lparr>at_ReleaseNames := names\<rparr>\<rparr>"
  have "f () ?st1 = (r, st')" using run by (simp add: bind_def set_releases_def modify_def)
  with assms(2) [of "()"] have "moved (set names) ?st1 st' \<and> no_decline r" by (auto simp: frame_def)
  with assms(1) p show "kept_contract st r st' \<and> no_decline r"
    by (auto simp: moved_def kept_contract_def same_attempt_def)
qed

lemma contract_before:
  assumes "frame {} {} m" and "\<And>x. contract pre (f x)"
  shows "contract pre (bind m f)"
  unfolding contract_def
proof (intro allI impI)
  fix st r st'
  assume p: "at_Prefix (st_attempt st) = pre" and n: "at_ReleaseNames (st_attempt st) = []"
    and run: "bind m f st = (r, st')"
  obtain r1 st1 where m: "m st = (r1, st1)" by (cases "m st")
  with assms(1) have m1: "moved {} st st1" "no_decline r1" by (auto simp: frame_def)
  show "kept_contract st r st' \<and> no_decline r"
  proof (cases r1)
    case (Inl e)
    with run m have "r = Inl e" "st' = st1" by (auto simp: bind_def)
    moreover from this m1(2) Inl have "no_decline r" by (simp add: no_decline_def split: strategy_error.splits)
    ultimately show ?thesis using m1(1) n by (auto simp: moved_def kept_contract_def)
  next
    case (Inr x)
    with run m have "f x st1 = (r, st')" by (simp add: bind_def)
    moreover have "at_Prefix (st_attempt st1) = pre" "at_ReleaseNames (st_attempt st1) = []"
      using m1(1) p n by (auto simp: moved_def same_attempt_def)
    ultimately have kept: "kept_contract st1 r st'" "no_decline r"
      using assms(2) [of x] by (auto simp: contract_def)
    obtain evs where e1: "st_trace st1 = st_trace st @ evs"
      "\<forall>e \<in> set evs. quiet_event {} (set (at_DiagnosticTargets (st_attempt st1))) e"
      using m1(1) by (auto simp: moved_def)
    obtain evs' where e2: "st_trace st' = st_trace st1 @ evs'"
      "\<forall>e \<in> set evs'. quiet_event (set (at_ReleaseNames (st_attempt st')))
                        (set (at_DiagnosticTargets (st_attempt st'))) e"
      using kept(1) by (auto simp: kept_contract_def)
    have "\<forall>e \<in> set evs. quiet_event (set (at_ReleaseNames (st_attempt st')))
                        (set (at_DiagnosticTargets (st_attempt st'))) e"
      using e1(2) kept(1) quiet_event_mono unfolding kept_contract_def same_attempt_def by blast
    with e1(1) e2 have "\<exists>es. st_trace st' = st_trace st @ es \<and>
        (\<forall>e \<in> set es. quiet_event (set (at_ReleaseNames (st_attempt st')))
                        (set (at_DiagnosticTargets (st_attempt st'))) e)"
      by (intro exI [of _ "evs @ evs'"]) auto
    then show ?thesis
      using m1(1) kept by (auto simp: moved_def kept_contract_def same_attempt_def)
  qed
qed

lemma contract_prefix: "contract pre (f pre) \<Longrightarrow> contract pre (bind (gets at_Prefix) f)"
  by (auto simp: contract_def bind_def gets_def)

lemma contract_pair: "(\<And>a b. contract pre (f a b)) \<Longrightarrow> contract pre (case p of (a, b) \<Rightarrow> f a b)"
  by (cases p) simp

text \<open>A strategy may decline, but only before it has done anything.\<close>

definition may :: "string \<Rightarrow> unit run \<Rightarrow> bool" where
  "may pre m \<longleftrightarrow>
     (\<forall>st r st'. at_Prefix (st_attempt st) = pre \<longrightarrow> at_ReleaseNames (st_attempt st) = [] \<longrightarrow>
        m st = (r, st') \<longrightarrow> kept_contract st r st')"

lemma may_contract: "contract pre m \<Longrightarrow> may pre m"
  by (auto simp: contract_def may_def)

lemma may_decline: "may pre (fail (Declined w))"
  by (auto simp: may_def fail_def kept_contract_def same_attempt_def)

lemma may_gets: "(\<And>x. may pre (f x)) \<Longrightarrow> may pre (bind (gets g) f)"
  by (auto simp: may_def bind_def gets_def)

lemma may_if: "(b \<Longrightarrow> may pre m) \<Longrightarrow> (\<not> b \<Longrightarrow> may pre m') \<Longrightarrow> may pre (if b then m else m')"
  by simp

lemma may_interface: "(\<And>pre env. may pre (strat env)) \<Longrightarrow> strategy_contract strat"
  by unfold_locales (auto simp: may_def)

section \<open>The five strategies keep it\<close>

lemma own_names [simp]:
  "pre \<in> release_names_of pre" "pre @ ''-src'' \<in> release_names_of pre" "pre @ ''-dest'' \<in> release_names_of pre"
  by (simp_all add: release_names_of_def)

lemma releaseNames_own: "{fst (releaseNames t pre), snd (releaseNames t pre)} \<subseteq> release_names_of pre"
  by (simp add: releaseNames_def)

lemma may_Mount: "may pre (Mount_Run env)"
  unfolding Mount_Run_def
  by (rule may_gets, rule may_if, rule may_decline, rule may_contract, rule contract_before,
      rule frame_lift, simp, rule contract_prefix, rule contract_names, simp)
    (auto intro!: frame_intros)

lemma may_ClusterIP: "may pre (ClusterIP_Run env)"
  unfolding ClusterIP_Run_def Let_def
  by (rule may_gets, rule may_if, rule may_decline, rule may_contract, rule contract_prefix,
      rule contract_names, simp)
    (auto intro!: frame_intros)

lemma may_two_release:
  assumes "\<And>N topo release. frame N {} (target topo release)"
  shows "may pre (runTwoReleaseStrategy env serviceType target)"
  unfolding runTwoReleaseStrategy_def Let_def
  by (rule may_gets, rule may_contract, rule contract_before, rule frame_keys, rule contract_pair,
      rule contract_pair, rule contract_prefix, rule contract_names)
    (use releaseNames_own in \<open>auto intro!: frame_intros assms\<close>)

lemma may_LoadBalancer: "may pre (LoadBalancer_Run env)"
  unfolding LoadBalancer_Run_def by (rule may_two_release) (rule frame_lb)

lemma may_NodePort: "may pre (NodePort_Run env)"
  unfolding NodePort_Run_def by (rule may_two_release) (rule frame_nodeport)

lemma may_Local: "may pre (Local_Run env)"
  unfolding Local_Run_def
  by (rule may_gets, rule may_if, rule may_decline, rule may_contract, rule contract_before,
      rule frame_keys, rule contract_pair, rule contract_pair, rule contract_prefix, rule contract_names, simp)
    (auto intro!: frame_intros)

interpretation mount: strategy_contract Mount_Run
  by (rule may_interface) (rule may_Mount)

interpretation clusterip: strategy_contract ClusterIP_Run
  by (rule may_interface) (rule may_ClusterIP)

interpretation loadbalancer: strategy_contract LoadBalancer_Run
  by (rule may_interface) (rule may_LoadBalancer)

interpretation nodeport: strategy_contract NodePort_Run
  by (rule may_interface) (rule may_NodePort)

interpretation local_machine: strategy_contract Local_Run
  by (rule may_interface) (rule may_Local)

lemma nameToStrategy_contract: "nameToStrategy name = Some s \<Longrightarrow> strategy_contract s"
  using mount.strategy_contract_axioms clusterip.strategy_contract_axioms
    loadbalancer.strategy_contract_axioms nodeport.strategy_contract_axioms
    local_machine.strategy_contract_axioms
  by (auto simp: nameToStrategy_def split: if_splits)

text \<open>
  C4: whatever the clusters answer, a strategy that declines has not touched them, and any release a
  strategy installs bears the attempt's prefix, is in its list of releases and is recorded with its
  side for diagnostics, so that cleanup and diagnostics can find it.
\<close>

theorem strategies_record_releases:
  assumes "nameToStrategy name = Some s" and "at_ReleaseNames (st_attempt st) = []"
    and "s env st = (r, st')"
  shows "\<exists>evs. st_trace st' = st_trace st @ evs \<and>
    (\<forall>w. r = Inl (Declined w) \<longrightarrow> st' = st) \<and>
    (\<forall>sd n vals b. Install sd n vals b \<in> set evs \<longrightarrow>
       n \<in> set (at_ReleaseNames (st_attempt st')) \<and> n \<in> release_names_of (at_Prefix (st_attempt st)) \<and>
       (n, sd) \<in> set (at_DiagnosticTargets (st_attempt st'))) \<and>
    (\<forall>sd n. Uninstall sd n \<notin> set evs)"
  using strategy_contract.keeps [OF nameToStrategy_contract [OF assms(1)] assms(3,2)]
  by (fastforce simp: kept_contract_def no_decline_def)

definition env_willing :: env where
  "env_willing =
     \<lparr>ev_Keys = (\<lambda>tr alg. Inr (''pub'', ''priv'')), ev_InitHelm = (\<lambda>tr s. None),
      ev_CanCreate = (\<lambda>tr s ns. Inr True), ev_MergeValues = (\<lambda>tr sets req vals. Inr vals),
      ev_Install = (\<lambda>tr s n vals. Installed), ev_SshdReady = (\<lambda>tr s r. None),
      ev_GetService = (\<lambda>tr s n. None), ev_Address = (\<lambda>tr s n. Inr ''10.0.0.1''),
      ev_NodePort = (\<lambda>tr s n. Inr 30022), ev_SshdPod = (\<lambda>tr s n. Inr ''n1''),
      ev_NodeIP = (\<lambda>tr s n. Inr ''10.0.0.2''), ev_AnyNodeIP = (\<lambda>tr s. Inl ''none''),
      ev_JobStart = (\<lambda>tr s n. None), ev_Job = (\<lambda>tr s n. None), ev_LocalSession = (\<lambda>tr. None),
      ev_Uninstall = (\<lambda>tr s n. Removed), ev_Diagnose = (\<lambda>tr s n. []), ev_Cancelled = (\<lambda>tr. False)\<rparr>"

definition mount_claim :: "string \<Rightarrow> string list \<Rightarrow> string \<Rightarrow> Info" where
  "mount_claim name modes node =
     \<lparr>in_Client = \<lparr>cc_Host = ''h'', cc_NsInContext = ''d''\<rparr>,
      in_Claim = \<lparr>cl_Namespace = ''ns'', cl_Name = name, cl_AccessModes = modes, cl_VolumeName = [],
        cl_StorageClassName = None, cl_Annotations = [], cl_Capacity = None, cl_Requests = None\<rparr>,
      in_MountedNode = node, in_AllowedNodes = None, in_PinnedNodes = None, in_MountedPod = ''p'',
      in_Affinity = None, in_SupportsRWO = ''ReadWriteOnce'' \<in> set modes,
      in_SupportsROX = ''ReadOnlyMany'' \<in> set modes, in_SupportsRWX = ''ReadWriteMany'' \<in> set modes\<rparr>"

definition migration_example :: Migration where
  "migration_example =
     \<lparr>mg_Request = request_example, mg_SourceInfo = mount_claim ''a'' [''ReadWriteMany''] ''n1'',
      mg_DestInfo = mount_claim ''b'' [''ReadWriteOnce''] ''n2''\<rparr>"

definition attempt_example :: Attempt where
  "attempt_example =
     \<lparr>at_ID = ''fuzzy-panda'', at_Prefix = ''pv-migrate-fuzzy-panda-nodeport'', at_Migration = migration_example,
      at_Detached = False, at_ReleaseNames = [], at_DiagnosticTargets = [], at_Diagnostics = []\<rparr>"

lemma strategies_record_releases_witness:
  "\<exists>r st' evs. NodePort_Run env_willing \<lparr>st_attempt = attempt_example, st_trace = []\<rparr> = (r, st') \<and>
     st_trace st' = [] @ evs \<and>
     (\<forall>sd n vals b. Install sd n vals b \<in> set evs \<longrightarrow> n \<in> set (at_ReleaseNames (st_attempt st')))"
proof -
  let ?st = "\<lparr>st_attempt = attempt_example, st_trace = []\<rparr>"
  obtain r st' where run: "NodePort_Run env_willing ?st = (r, st')" by (cases "NodePort_Run env_willing ?st")
  have "nameToStrategy ''nodeport'' = Some NodePort_Run" "at_ReleaseNames (st_attempt ?st) = []"
    by (simp_all add: nameToStrategy_def mountStrategy_def clusterIPStrategy_def loadBalancerStrategy_def
        localStrategy_def nodePortStrategy_def attempt_example_def)
  from strategies_record_releases [OF this run] run show ?thesis by fastforce
qed

section \<open>Sides and nodes\<close>

definition mounts_own_side :: "Migration \<Rightarrow> componentSide \<Rightarrow> bool" where
  "mounts_own_side mig c =
     (case cs_side c of
        SourceSide \<Rightarrow> cs_mountPath c = ''/source'' \<and>
          cs_readOnly c = (\<not> rq_SourceMountReadWrite (mg_Request mig))
      | DestSide \<Rightarrow> cs_mountPath c = ''/dest'' \<and> \<not> cs_readOnly c)"

text \<open>
  The two components of a transfer run on opposite sides, each mounts its own side's claim at
  that side's mount point, the destination is never mounted read-only, the source is read-only
  unless asked otherwise, and a release's suffix names the side it goes to.
\<close>

theorem resolveTopology_sides:
  "cs_side (tp_sshd (resolveTopology mig)) \<noteq> cs_side (tp_rsync (resolveTopology mig)) \<and>
   mounts_own_side mig (tp_sshd (resolveTopology mig)) \<and>
   mounts_own_side mig (tp_rsync (resolveTopology mig)) \<and>
   releaseNames (resolveTopology mig) pre =
     (let suffix_of = (\<lambda>s. case s of SourceSide \<Rightarrow> ''-src'' | DestSide \<Rightarrow> ''-dest'')
      in (pre @ suffix_of (cs_side (tp_sshd (resolveTopology mig))),
          pre @ suffix_of (cs_side (tp_rsync (resolveTopology mig)))))"
  by (auto simp: mounts_own_side_def resolveTopology_def releaseNames_def srcMountPath_def destMountPath_def Let_def)

text \<open>
  When the mount strategy applies, the node it pins its pod to is the node of every claim that
  is mounted and can be attached to one node only.
\<close>

theorem determineTargetNode_serves:
  assumes "Mount_cannotDoReason mig = []" and "i = mg_SourceInfo mig \<or> i = mg_DestInfo mig"
    and "in_MountedNode i \<noteq> []" and "\<not> in_SupportsROX i" and "\<not> in_SupportsRWX i"
  shows "determineTargetNode mig = in_MountedNode i"
  using assms
  by (auto simp: Mount_cannotDoReason_def determineTargetNode_def Let_def split: if_splits)

lemma determineTargetNode_none:
  "determineTargetNode mig = [] \<longleftrightarrow> in_MountedNode (mg_SourceInfo mig) = [] \<and> in_MountedNode (mg_DestInfo mig) = []"
  by (auto simp: determineTargetNode_def Let_def)

lemma determineTargetNode_serves_witness:
  "determineTargetNode
     \<lparr>mg_Request = request_example, mg_SourceInfo = mount_claim ''a'' [''ReadWriteMany''] ''n1'',
      mg_DestInfo = mount_claim ''b'' [''ReadWriteOnce''] ''n2''\<rparr> = ''n2''"
  using determineTargetNode_serves [of "\<lparr>mg_Request = request_example,
      mg_SourceInfo = mount_claim ''a'' [''ReadWriteMany''] ''n1'',
      mg_DestInfo = mount_claim ''b'' [''ReadWriteOnce''] ''n2''\<rparr>" "mount_claim ''b'' [''ReadWriteOnce''] ''n2''"]
  by (simp add: Mount_cannotDoReason_def sameCluster_def ns_of_def info_of_def mount_claim_def)

text \<open>
  A destination that can be read from many nodes but written from one is treated like one that can
  be written from many: the strategy applies, and the pod goes to the source's node, where the
  destination, attached for writing elsewhere, cannot be mounted.
\<close>

lemma determineTargetNode_misses_dest:
  "\<exists>mig. Mount_cannotDoReason mig = [] \<and> in_MountedNode (mg_DestInfo mig) \<noteq> [] \<and>
     \<not> in_SupportsRWX (mg_DestInfo mig) \<and> determineTargetNode mig \<noteq> in_MountedNode (mg_DestInfo mig)"
  by (rule exI [of _ "\<lparr>mg_Request = request_example,
      mg_SourceInfo = mount_claim ''a'' [''ReadWriteMany''] ''n1'',
      mg_DestInfo = mount_claim ''b'' [''ReadWriteOnce'', ''ReadOnlyMany''] ''n2''\<rparr>"])
    (simp add: Mount_cannotDoReason_def determineTargetNode_def sameCluster_def ns_of_def info_of_def
      mount_claim_def)

end
