(* ===== verification/Migrator.thy ===== *)
theory Migrator
  imports StrategyContract Opid
begin

text \<open>
  Package \<open>internal/migrator\<close>: the checks before a migration, the ladder of strategies and what is
  reported when it is exhausted (\<open>src/internal/migrator/migrator.go\<close>, \<open>outcome.go\<close>,
  \<open>diagnostics.go\<close>). One attempt runs one strategy on a fresh attempt record; the trace runs through
  all of them. Loading the chart and connecting to the clusters are answers of the caller.
\<close>

section \<open>Checks on the claims\<close>

datatype migrator_error =
    MoverConflict mover_error
  | StrategyNotFound string
  | ClientFailed string
  | ChartFailed string
  | SourceClaim pvc_error
  | DestClaim pvc_error
  | MountedClaim string string
  | DestNotWritable
  | DestTooSmall string string
  | LadderExhausted "(string \<times> strategy_error) list"

text \<open>
  \<open>strings.ToLower\<close>. Of the letters outside ASCII two become ASCII letters, U+0130 and the Kelvin sign
  U+212A; they are written out as their UTF-8 bytes. Any other is left as it is, since its lower case
  is outside ASCII too and the names it is compared with here are ASCII.
\<close>

fun ToLower :: "string \<Rightarrow> string" where
  "ToLower [] = []"
| "ToLower (c # s) =
     (if is_upper c then char_of (byte c + 32) # ToLower s
      else if take 2 (c # s) = [CHR 0xC4, CHR 0xB0] then CHR ''i'' # ToLower (drop 1 s)
      else if take 3 (c # s) = [CHR 0xE2, CHR 0x84, CHR 0xAA] then CHR ''k'' # ToLower (drop 2 s)
      else c # ToLower s)"

definition capacityEnforced :: "string \<Rightarrow> bool" where
  "capacityEnforced provisioner =
     (if provisioner = [] then True
      else let p = ToLower provisioner
           in \<not> (Contains p ''local-path'' \<or> Contains p ''hostpath'' \<or> p = ''openebs.io/local''))"

text \<open>
  The two claims' provisioners are read from their own clusters. A lookup that fails leaves the
  provisioner unknown, which counts as enforcing.
\<close>

definition provisioner_of :: "'sel kube_api \<Rightarrow> Info \<Rightarrow> string" where
  "provisioner_of api i = (case Provisioner api i of Inl _ \<Rightarrow> [] | Inr p \<Rightarrow> p)"

definition handleSizes ::
  "'sel kube_api \<Rightarrow> 'sel kube_api \<Rightarrow> Request \<Rightarrow> Info \<Rightarrow> Info \<Rightarrow> migrator_error option" where
  "handleSizes srcApi destApi req sourceInfo destInfo =
     (if rq_IgnoreSizes req then None
      else if Size sourceInfo = 0 \<or> Size destInfo = 0 then None
      else if Size destInfo \<ge> Size sourceInfo then None
      else if \<not> capacityEnforced (provisioner_of srcApi sourceInfo) then None
      else if \<not> capacityEnforced (provisioner_of destApi destInfo) then None
      else Some (DestTooSmall (cl_Namespace (in_Claim destInfo) @ ''/'' @ cl_Name (in_Claim destInfo))
                              (cl_Namespace (in_Claim sourceInfo) @ ''/'' @ cl_Name (in_Claim sourceInfo))))"

definition validatePVCs ::
  "'sel kube_api \<Rightarrow> 'sel kube_api \<Rightarrow> Request \<Rightarrow> Info \<Rightarrow> Info \<Rightarrow> migrator_error option" where
  "validatePVCs srcApi destApi req sourceInfo destInfo =
     (if \<not> in_SupportsRWO destInfo \<and> \<not> in_SupportsRWX destInfo then Some DestNotWritable
      else handleSizes srcApi destApi req sourceInfo destInfo)"

definition handleMounted :: "Info \<Rightarrow> bool \<Rightarrow> migrator_error option" where
  "handleMounted i ignoreMounted =
     (if in_MountedNode i = [] then None
      else if ignoreMounted then None
      else Some (MountedClaim (in_MountedNode i) (cl_Name (in_Claim i))))"

definition handleMountedPVCs :: "Request \<Rightarrow> Info \<Rightarrow> Info \<Rightarrow> migrator_error option" where
  "handleMountedPVCs req sourceInfo destInfo =
     (case handleMounted sourceInfo (rq_IgnoreMounted req) of Some e \<Rightarrow> Some e
      | None \<Rightarrow> handleMounted destInfo (rq_IgnoreMounted req))"

definition resolvedNamespaces :: "Request \<Rightarrow> ClusterClient \<Rightarrow> ClusterClient \<Rightarrow> string \<times> string" where
  "resolvedNamespaces req sourceClient destClient =
     (if pi_Namespace (rq_Source req) = [] then cc_NsInContext sourceClient else pi_Namespace (rq_Source req),
      if pi_Namespace (rq_Dest req) = [] then cc_NsInContext destClient else pi_Namespace (rq_Dest req))"

text \<open>What the caller supplies: the connection to a cluster and the chart.\<close>

record 'sel world =
  wd_Client :: "string \<Rightarrow> string \<Rightarrow> (string, ClusterClient \<times> 'sel kube_api) result"
  wd_LoadChart :: "string \<Rightarrow> string option"
  wd_GenerateID :: string
  wd_Env :: env

definition getClusterClients ::
  "'sel world \<Rightarrow> Request \<Rightarrow>
     (migrator_error, (ClusterClient \<times> 'sel kube_api) \<times> (ClusterClient \<times> 'sel kube_api)) result" where
  "getClusterClients w req =
     (let source = rq_Source req; dest = rq_Dest req in
      case wd_Client w (pi_KubeconfigPath source) (pi_Context source) of Inl e \<Rightarrow> Inl (ClientFailed e)
      | Inr sourceClient \<Rightarrow>
          if pi_KubeconfigPath source \<noteq> pi_KubeconfigPath dest \<or> pi_Context source \<noteq> pi_Context dest
          then (case wd_Client w (pi_KubeconfigPath dest) (pi_Context dest) of
                  Inl e \<Rightarrow> Inl (ClientFailed e)
                | Inr destClient \<Rightarrow> Inr (sourceClient, destClient))
          else Inr (sourceClient, sourceClient))"

definition buildMigrationWithClients ::
  "'sel world \<Rightarrow> Request \<Rightarrow> ClusterClient \<times> 'sel kube_api \<Rightarrow> ClusterClient \<times> 'sel kube_api \<Rightarrow>
     (migrator_error, Migration) result" where
  "buildMigrationWithClients w req source dest =
     (case wd_LoadChart w (rq_ChartVersion req) of Some e \<Rightarrow> Inl (ChartFailed e)
      | None \<Rightarrow>
      case resolvedNamespaces req (fst source) (fst dest) of (sourceNs, destNs) \<Rightarrow>
      case pvc_New (snd source) (fst source) sourceNs (pi_Name (rq_Source req)) of
        Inl e \<Rightarrow> Inl (SourceClaim e)
      | Inr sourceInfo \<Rightarrow>
      case pvc_New (snd dest) (fst dest) destNs (pi_Name (rq_Dest req)) of
        Inl e \<Rightarrow> Inl (DestClaim e)
      | Inr destInfo \<Rightarrow>
      case handleMountedPVCs req sourceInfo destInfo of Some e \<Rightarrow> Inl e
      | None \<Rightarrow>
      case validatePVCs (snd source) (snd dest) req sourceInfo destInfo of Some e \<Rightarrow> Inl e
      | None \<Rightarrow> Inr \<lparr>mg_Request = req, mg_SourceInfo = sourceInfo, mg_DestInfo = destInfo\<rparr>)"

section \<open>One attempt\<close>

definition sidesDiffer :: "Migration \<Rightarrow> bool" where
  "sidesDiffer mig \<longleftrightarrow>
     ns_of mig SourceSide \<noteq> ns_of mig DestSide \<or>
     cc_Host (in_Client (mg_SourceInfo mig)) \<noteq> cc_Host (in_Client (mg_DestInfo mig))"

definition sideLabel :: "Migration \<Rightarrow> side \<Rightarrow> string" where
  "sideLabel mig s =
     (if \<not> sidesDiffer mig then []
      else case s of SourceSide \<Rightarrow> ''source side, '' | DestSide \<Rightarrow> ''destination side, '')"

fun collect_targets :: "env \<Rightarrow> Migration \<Rightarrow> (string \<times> side) list \<Rightarrow> event list \<Rightarrow> string \<times> event list" where
  "collect_targets env mig [] tr = ([], tr)"
| "collect_targets env mig ((release, s) # ts) tr =
     (let here = ''  '' @ release @ '' ('' @ sideLabel mig s @ ''namespace '' @ ns_of mig s @ ''):'' @ [newline_byte]
                 @ ev_Diagnose env tr s release
      in case collect_targets env mig ts (tr @ [Diagnose s release]) of
           (text, tr') \<Rightarrow> (here @ text, tr'))"

definition collectDiagnostics :: "env \<Rightarrow> rstate \<Rightarrow> rstate" where
  "collectDiagnostics env st =
     (case collect_targets env (at_Migration (st_attempt st)) (at_DiagnosticTargets (st_attempt st)) (st_trace st) of
        (text, tr) \<Rightarrow> \<lparr>st_attempt = (st_attempt st)\<lparr>at_Diagnostics := text\<rparr>, st_trace = tr\<rparr>)"

definition is_error :: "(strategy_error, unit) result \<Rightarrow> bool" where
  "is_error r \<longleftrightarrow> (case r of Inl _ \<Rightarrow> True | Inr _ \<Rightarrow> False)"

definition cleanupAttempt :: "env \<Rightarrow> (strategy_error, unit) result \<Rightarrow> rstate \<Rightarrow> rstate" where
  "cleanupAttempt env r st =
     (let req = mg_Request (at_Migration (st_attempt st)) in
      if at_ReleaseNames (st_attempt st) = [] then st
      else if rq_NoCleanup req \<or> at_Detached (st_attempt st) then st
      else if rq_NoCleanupOnFailure req \<and> is_error r then st
      else snd (strategy_Cleanup env st))"

definition runAttempt ::
  "env \<Rightarrow> (env \<Rightarrow> unit run) \<Rightarrow> rstate \<Rightarrow> (strategy_error, unit) result \<times> rstate" where
  "runAttempt env strat st =
     (case strat env st of (r, st1) \<Rightarrow>
        let st2 = (if is_error r \<and> no_decline r then collectDiagnostics env st1 else st1)
        in (r, cleanupAttempt env r st2))"

section \<open>The ladder\<close>

record attemptOutcome =
  oc_strategy :: string
  oc_declined :: bool
  oc_err :: strategy_error
  oc_diagnostics :: string

definition recordFailedAttempt :: "string \<Rightarrow> Attempt \<Rightarrow> strategy_error \<Rightarrow> attemptOutcome" where
  "recordFailedAttempt name a e =
     (case e of
        Declined _ \<Rightarrow> \<lparr>oc_strategy = name, oc_declined = True, oc_err = e, oc_diagnostics = []\<rparr>
      | _ \<Rightarrow> \<lparr>oc_strategy = name, oc_declined = False, oc_err = e, oc_diagnostics = at_Diagnostics a\<rparr>)"

definition newLadderExhaustedError :: "attemptOutcome list \<Rightarrow> migrator_error" where
  "newLadderExhaustedError outcomes = LadderExhausted (map (\<lambda>oc. (oc_strategy oc, oc_err oc)) outcomes)"

fun dedup_loop :: "string set \<Rightarrow> string list \<Rightarrow> string list" where
  "dedup_loop seen [] = []"
| "dedup_loop seen (x # xs) =
     (if x \<in> seen then dedup_loop seen xs else x # dedup_loop (insert x seen) xs)"

definition dedup :: "string list \<Rightarrow> string list" where
  "dedup s = dedup_loop {} s"

definition new_attempt :: "Migration \<Rightarrow> string \<Rightarrow> string \<Rightarrow> Attempt" where
  "new_attempt mig migrationID name =
     \<lparr>at_ID = migrationID, at_Prefix = ReleasePrefix @ migrationID @ ''-'' @ name, at_Migration = mig,
      at_Detached = False, at_ReleaseNames = [], at_DiagnosticTargets = [], at_Diagnostics = []\<rparr>"

text \<open>
  The loop over the strategies: the outcomes of the failed attempts, the name of the strategy that
  succeeded, if one did, and the trace. An interrupted run does not walk the remaining rungs.
\<close>

fun ladder ::
  "env \<Rightarrow> (string \<Rightarrow> (env \<Rightarrow> unit run) option) \<Rightarrow> Migration \<Rightarrow> string \<Rightarrow> string list \<Rightarrow> event list \<Rightarrow>
     attemptOutcome list \<times> string option \<times> event list" where
  "ladder env strategies mig migrationID [] tr = ([], None, tr)"
| "ladder env strategies mig migrationID (name # names) tr =
     (case strategies name of None \<Rightarrow> ([], None, tr)
      | Some strat \<Rightarrow>
      case runAttempt env strat \<lparr>st_attempt = new_attempt mig migrationID name, st_trace = tr\<rparr> of
        (Inr _, st) \<Rightarrow> ([], Some name, st_trace st)
      | (Inl e, st) \<Rightarrow>
          let oc = recordFailedAttempt name (st_attempt st) e
          in if ev_Cancelled env (st_trace st) then ([oc], None, st_trace st)
             else case ladder env strategies mig migrationID names (st_trace st) of
               (ocs, success, tr') \<Rightarrow> (oc # ocs, success, tr'))"

definition preflight :: "Request \<Rightarrow> (migrator_error, (string \<times> (env \<Rightarrow> unit run)) list) result" where
  "preflight req =
     (case CheckMoverFlags req of Some e \<Rightarrow> Inl (MoverConflict e)
      | None \<Rightarrow>
      case GetStrategiesMapForNames (rq_Strategies req) of Inl name \<Rightarrow> Inl (StrategyNotFound name)
      | Inr m \<Rightarrow> Inr m)"

definition ladder_result ::
  "attemptOutcome list \<times> string option \<times> event list \<Rightarrow> migrator_error option \<times> event list" where
  "ladder_result l =
     (case l of (outcomes, success, tr) \<Rightarrow>
        (if success = None then Some (newLadderExhaustedError outcomes) else None, tr))"

definition migrator_Run :: "'sel world \<Rightarrow> Request \<Rightarrow> migrator_error option \<times> event list" where
  "migrator_Run w req =
     (case preflight req of Inl e \<Rightarrow> (Some e, [])
      | Inr strategies \<Rightarrow>
          let migrationID = (if rq_ID req = [] then wd_GenerateID w else rq_ID req);
              names = dedup (rq_Strategies req)
          in case getClusterClients w req of Inl e \<Rightarrow> (Some e, [])
          | Inr (source, dest) \<Rightarrow>
          case buildMigrationWithClients w req source dest of Inl e \<Rightarrow> (Some e, [])
          | Inr mig \<Rightarrow>
            ladder_result (ladder (wd_Env w) (map_of strategies) mig migrationID names []))"

section \<open>Reporting\<close>

definition oc_status :: "attemptOutcome \<Rightarrow> string" where
  "oc_status oc = (if oc_declined oc then ''declined'' else ''failed'')"

section \<open>Deduplication\<close>

lemma remdups_snoc: "remdups (xs @ [y]) = remdups (filter (\<lambda>x. x \<noteq> y) xs) @ [y]"
  by (induction xs) auto

lemma dedup_loop_spec:
  "dedup_loop seen xs = filter (\<lambda>x. x \<notin> seen) (rev (remdups (rev xs)))"
proof (induction xs arbitrary: seen rule: length_induct)
  case (1 xs)
  show ?case
  proof (cases xs)
    case (Cons y ys)
    have rr: "rev (remdups (rev (y # ys))) = y # filter (\<lambda>x. x \<noteq> y) (rev (remdups (rev ys)))"
      by (simp add: remdups_snoc remdups_filter rev_filter)
    have "dedup_loop s ys = filter (\<lambda>x. x \<notin> s) (rev (remdups (rev ys)))" for s
      using 1 Cons by simp
    then show ?thesis unfolding Cons rr by (auto intro!: filter_cong)
  qed simp
qed

lemma dedup_eq: "dedup xs = rev (remdups (rev xs))"
  by (simp add: dedup_def dedup_loop_spec)

lemma dedup_facts: "distinct (dedup xs)" "set (dedup xs) = set xs"
  by (simp_all add: dedup_eq)

section \<open>What an attempt leaves in the clusters\<close>

text \<open>Every installation is followed by the removal of that release from that side.\<close>

fun cleaned :: "event list \<Rightarrow> bool" where
  "cleaned [] = True"
| "cleaned (Install s n vals b # es) = (Uninstall s n \<in> set es \<and> cleaned es)"
| "cleaned (_ # es) = cleaned es"

fun is_install :: "event \<Rightarrow> bool" where
  "is_install (Install _ _ _ _) = True"
| "is_install _ = False"

lemma cleaned_Cons: "\<not> is_install e \<Longrightarrow> cleaned (e # es) = cleaned es"
  by (cases e) auto

lemma cleaned_append: "cleaned a \<Longrightarrow> cleaned b \<Longrightarrow> cleaned (a @ b)"
  by (induction a rule: cleaned.induct) auto

lemma cleaned_none: "list_all (\<lambda>e. \<not> is_install e) es \<Longrightarrow> cleaned es"
  by (induction es) (auto simp: cleaned_Cons)

lemma cleaned_after:
  assumes "\<And>s n vals b. Install s n vals b \<in> set a \<Longrightarrow> Uninstall s n \<in> set c" and "cleaned c"
  shows "cleaned (a @ c)"
  using assms(1)
proof (induction a)
  case (Cons e a)
  then have "cleaned (a @ c)" by auto
  with Cons.prems [of _ _ _ _] show ?case by (cases e) auto
qed (simp add: assms(2))

lemma collect_targets_trace:
  "\<exists>evs. snd (collect_targets env mig ts tr) = tr @ evs \<and> list_all (\<lambda>e. \<not> is_install e) evs"
proof (induction env mig ts tr rule: collect_targets.induct)
  case (2 env mig release s ts tr)
  then obtain evs where "snd (collect_targets env mig ts (tr @ [Diagnose s release])) = (tr @ [Diagnose s release]) @ evs"
    "list_all (\<lambda>e. \<not> is_install e) evs" by (metis (no_types))
  then show ?case by (auto simp: Let_def split: prod.splits intro!: exI [of _ "Diagnose s release # evs"])
qed simp

text \<open>Cleanup tries every release on both sides, whatever each removal answers.\<close>

definition helm_ready :: "env \<Rightarrow> bool" where
  "helm_ready env \<longleftrightarrow> (\<forall>tr s. ev_InitHelm env tr s = None)"

lemma cleanupForPVC_trace:
  assumes "helm_ready env"
  shows "st_trace (snd (cleanupForPVC env n s st)) = st_trace st @ [InitHelm s, Uninstall s n]"
  using assms by (auto simp: cleanupForPVC_def helm_ready_def bind_def ask_def guard_def ret_def
      split: uninstall_answer.splits)

lemma cleanup_all_trace:
  assumes "helm_ready env"
  shows "st_trace (snd (cleanup_all env todo st)) =
    st_trace st @ concat (map (\<lambda>(s, n). [InitHelm s, Uninstall s n]) todo)"
proof (induction todo arbitrary: st)
  case (Cons p todo)
  obtain s n where p: "p = (s, n)" by (cases p)
  show ?case
    using Cons.IH [of "snd (cleanupForPVC env n s st)"] cleanupForPVC_trace [OF assms, of n s st]
    by (auto simp: p split: prod.splits)
qed simp

lemma strategy_Cleanup_trace:
  assumes "helm_ready env"
  shows "\<exists>evs. st_trace (snd (strategy_Cleanup env st)) = st_trace st @ evs \<and>
    list_all (\<lambda>e. \<not> is_install e) evs \<and>
    (\<forall>s n. n \<in> set (at_ReleaseNames (st_attempt st)) \<longrightarrow> Uninstall s n \<in> set evs)"
proof -
  let ?todo = "[(s, name). s \<leftarrow> [SourceSide, DestSide], name \<leftarrow> at_ReleaseNames (st_attempt st)]"
  have "Uninstall s n \<in> set (concat (map (\<lambda>(s, n). [InitHelm s, Uninstall s n]) ?todo))"
    if "n \<in> set (at_ReleaseNames (st_attempt st))" for s n
    using that by (cases s) auto
  moreover have "list_all (\<lambda>e. \<not> is_install e) (concat (map (\<lambda>(s, n). [InitHelm s, Uninstall s n]) ?todo))"
    by (auto simp: list_all_iff)
  ultimately show ?thesis
    unfolding strategy_Cleanup_def cleanup_all_trace [OF assms] by blast
qed

text \<open>A request that wants its resources removed whatever happens.\<close>

definition wants_cleanup :: "Request \<Rightarrow> bool" where
  "wants_cleanup req \<longleftrightarrow> \<not> rq_NoCleanup req \<and> \<not> rq_NoCleanupOnFailure req \<and> \<not> rq_Detach req"

lemma collectDiagnostics_keeps:
  obtains evs where "st_trace (collectDiagnostics env st) = st_trace st @ evs"
    and "list_all (\<lambda>e. \<not> is_install e) evs"
    and "at_ReleaseNames (st_attempt (collectDiagnostics env st)) = at_ReleaseNames (st_attempt st)"
    and "at_Migration (st_attempt (collectDiagnostics env st)) = at_Migration (st_attempt st)"
    and "at_Detached (st_attempt (collectDiagnostics env st)) = at_Detached (st_attempt st)"
proof -
  obtain evs where e: "snd (collect_targets env (at_Migration (st_attempt st))
        (at_DiagnosticTargets (st_attempt st)) (st_trace st)) = st_trace st @ evs"
    "list_all (\<lambda>e. \<not> is_install e) evs" using collect_targets_trace by blast
  show thesis
    by (rule that [of evs]) (use e in \<open>auto simp: collectDiagnostics_def split: prod.splits\<close>)
qed

lemma runAttempt_cleaned:
  assumes "strategy_contract strat" and "helm_ready env" and "wants_cleanup (mg_Request mig)"
    and "runAttempt env strat \<lparr>st_attempt = new_attempt mig migrationID name, st_trace = tr\<rparr> = (r, st)"
  shows "\<exists>evs. st_trace st = tr @ evs \<and> cleaned evs"
proof -
  let ?st0 = "\<lparr>st_attempt = new_attempt mig migrationID name, st_trace = tr\<rparr>"
  obtain r1 st1 where run: "strat env ?st0 = (r1, st1)" by (cases "strat env ?st0")
  have "kept_contract ?st0 r1 st1"
    using strategy_contract.keeps [OF assms(1) run] by (simp add: new_attempt_def)
  then obtain evs1 where e1: "st_trace st1 = tr @ evs1"
    and installs: "\<forall>e \<in> set evs1. quiet_event (set (at_ReleaseNames (st_attempt st1)))
                      (set (at_DiagnosticTargets (st_attempt st1))) e"
    and mig1: "at_Migration (st_attempt st1) = mig" and det: "\<not> at_Detached (st_attempt st1)"
    using assms(3) by (auto simp: kept_contract_def same_attempt_def new_attempt_def wants_cleanup_def)
  define st2 where "st2 = (if is_error r1 \<and> no_decline r1 then collectDiagnostics env st1 else st1)"
  obtain evs2 where e2: "st_trace st2 = st_trace st1 @ evs2" "list_all (\<lambda>e. \<not> is_install e) evs2"
    and same: "at_ReleaseNames (st_attempt st2) = at_ReleaseNames (st_attempt st1)"
      "at_Migration (st_attempt st2) = mig" "\<not> at_Detached (st_attempt st2)"
  proof (cases "is_error r1 \<and> no_decline r1")
    case True
    then have st2: "st2 = collectDiagnostics env st1" by (simp add: st2_def)
    show thesis
      by (rule collectDiagnostics_keeps [of env st1], rule that) (use st2 mig1 det in auto)
  next
    case False
    with that [of "[]"] mig1 det show thesis unfolding st2_def by auto
  qed
  have st: "st = cleanupAttempt env r1 st2"
    using assms(4) run by (auto simp: runAttempt_def st2_def Let_def split: if_splits)
  obtain evs3 where e3: "st_trace st = st_trace st2 @ evs3" "list_all (\<lambda>e. \<not> is_install e) evs3"
    and un: "\<forall>s n. n \<in> set (at_ReleaseNames (st_attempt st2)) \<longrightarrow> Uninstall s n \<in> set evs3"
  proof (cases "at_ReleaseNames (st_attempt st2) = []")
    case True
    with that [of "[]"] st show thesis by (simp add: cleanupAttempt_def)
  next
    case False
    then have "st = snd (strategy_Cleanup env st2)"
      using st same assms(3) by (simp add: cleanupAttempt_def wants_cleanup_def Let_def)
    with strategy_Cleanup_trace [OF assms(2), of st2] that show thesis by blast
  qed
  have "cleaned (evs1 @ (evs2 @ evs3))"
  proof (rule cleaned_after)
    show "Uninstall s n \<in> set (evs2 @ evs3)" if "Install s n vals b \<in> set evs1" for s n vals b
      using installs that un same(1) by fastforce
    show "cleaned (evs2 @ evs3)" using e2(2) e3(2) by (intro cleaned_none) simp
  qed
  with e1 e2(1) e3(1) show ?thesis by auto
qed

section \<open>The ladder\<close>

lemma ladder_cleaned:
  assumes "\<And>name strat. strategies name = Some strat \<Longrightarrow> strategy_contract strat"
    and "helm_ready env" and "wants_cleanup (mg_Request mig)"
  shows "\<exists>evs. snd (snd (ladder env strategies mig migrationID names tr)) = tr @ evs \<and> cleaned evs"
proof (induction names arbitrary: tr)
  case (Cons name names)
  show ?case
  proof (cases "strategies name")
    case (Some strat)
    let ?st0 = "\<lparr>st_attempt = new_attempt mig migrationID name, st_trace = tr\<rparr>"
    obtain r st where run: "runAttempt env strat ?st0 = (r, st)" by (cases "runAttempt env strat ?st0")
    obtain evs where e: "st_trace st = tr @ evs" "cleaned evs"
      using runAttempt_cleaned [OF assms(1) [OF Some] assms(2,3) run] by blast
    obtain evs' where "snd (snd (ladder env strategies mig migrationID names (st_trace st))) = st_trace st @ evs'"
      "cleaned evs'" using Cons.IH by blast
    with e have e': "snd (snd (ladder env strategies mig migrationID names (st_trace st))) = tr @ (evs @ evs')"
      "cleaned (evs @ evs')" by (auto intro: cleaned_append)
    show ?thesis
    proof (cases r)
      case (Inl x)
      have "snd (snd (ladder env strategies mig migrationID (name # names) tr)) =
          (if ev_Cancelled env (st_trace st) then st_trace st
           else snd (snd (ladder env strategies mig migrationID names (st_trace st))))"
        using Some run Inl by (simp add: Let_def split_beta)
      with e(1) e'(1) have "snd (snd (ladder env strategies mig migrationID (name # names) tr)) =
          tr @ (if ev_Cancelled env (st_trace st) then evs else evs @ evs')" by simp
      moreover have "cleaned (if ev_Cancelled env (st_trace st) then evs else evs @ evs')"
        using e(2) e'(2) by simp
      ultimately show ?thesis by blast
    next
      case (Inr u)
      then have "snd (snd (ladder env strategies mig migrationID (name # names) tr)) = st_trace st"
        using Some run by simp
      with e show ?thesis by metis
    qed
  qed auto
qed simp

lemma GetStrategies_known:
  "GetStrategiesMapForNames names = Inr m \<Longrightarrow> map_of m name = Some s \<Longrightarrow> nameToStrategy name = Some s"
proof (induction names arbitrary: m)
  case (Cons n names)
  then show ?case
    by (cases "GetStrategiesMapForNames names") (auto split: option.splits if_splits)
qed simp

lemma GetStrategies_total:
  "GetStrategiesMapForNames names = Inr m \<Longrightarrow> name \<in> set names \<Longrightarrow> map_of m name = nameToStrategy name"
proof (induction names arbitrary: m)
  case (Cons n names)
  then show ?case
    by (cases "GetStrategiesMapForNames names") (auto split: option.splits)
qed simp

text \<open>
  C1: a run that is to clean up after itself, neither detached nor told to keep its resources, on a
  machine where Helm can be initialised for both sides, leaves nothing behind, whatever strategies it
  walks through and whatever the clusters answer: every release it installs on a side is later asked
  to be removed from that side.
\<close>

theorem migrator_Run_cleans_up:
  assumes "helm_ready (wd_Env w)" and "wants_cleanup req"
  shows "cleaned (snd (migrator_Run w req))"
proof -
  have contract: "strategy_contract strat"
    if "preflight req = Inr m" "map_of m name = Some strat" for m name strat
    using that nameToStrategy_contract [OF GetStrategies_known]
    by (auto simp: preflight_def split: option.splits sum.splits)
  have built: "mg_Request mig = req" if "buildMigrationWithClients w req source dest = Inr mig" for source dest mig
    using that by (auto simp: buildMigrationWithClients_def split: option.splits sum.splits prod.splits)
  show ?thesis
  proof (cases "preflight req")
    case (Inr m)
    have "cleaned (snd (snd (ladder (wd_Env w) (map_of m) mig i names [])))"
      if "mg_Request mig = req" for mig i names
    proof -
      have "\<exists>evs. snd (snd (ladder (wd_Env w) (map_of m) mig i names [])) = [] @ evs \<and> cleaned evs"
        by (rule ladder_cleaned) (use contract Inr assms that in auto)
      then show ?thesis by auto
    qed
    moreover have "snd (ladder_result l) = snd (snd l)" for l
      by (simp add: ladder_result_def split_beta)
    ultimately show ?thesis
      using Inr built by (auto simp: migrator_Run_def Let_def split: sum.splits)
  qed (simp add: migrator_Run_def)
qed

definition world_example :: "unit world" where
  "world_example =
     \<lparr>wd_Client = (\<lambda>path ctx. Inr (\<lparr>cc_Host = ''h'', cc_NsInContext = ''default''\<rparr>, pvc_api_example)),
      wd_LoadChart = (\<lambda>v. None), wd_GenerateID = ''fuzzy-panda'', wd_Env = env_willing\<rparr>"

text \<open>A run that installs: both claims are mounted on one node, which is ignored, so the first strategy is willing.\<close>

abbreviation request_ready :: Request where
  "request_ready \<equiv> request_example\<lparr>rq_IgnoreMounted := True\<rparr>"

definition client_example :: "ClusterClient \<times> unit kube_api" where
  "client_example = (\<lparr>cc_Host = ''h'', cc_NsInContext = ''default''\<rparr>, pvc_api_example)"

lemma example_built:
  "\<exists>mig. buildMigrationWithClients world_example request_ready client_example client_example =
     Inr mig \<and> mg_Request mig = request_ready \<and> Mount_cannotDoReason mig = []"
  by (simp add: buildMigrationWithClients_def world_example_def request_example_def resolvedNamespaces_def
      pvc_New_def newInfo_def pvc_api_example_def readAccessModes_eq findMountedPod_def client_example_def
      pvc_resolveTopology_def AllowedNodesFor_def volumeNodeSelector_def ReadWriteOnce_def
      ReadOnlyMany_def ReadWriteMany_def ReadWriteOncePod_def handleMountedPVCs_def handleMounted_def
      validatePVCs_def handleSizes_def Size_def Mount_cannotDoReason_def sameCluster_def ns_of_def info_of_def Let_def)


lemma example_mover_builds: "\<exists>m. buildMoverCmdLocal request_ready = Inr m"
proof -
  have "resolveMountPaths request_ready = Inr (''/source/a b/'', ''/dest/'')"
    using resolve_example by (simp add: resolveMountPaths_def)
  moreover have "rq_Mover request_ready = MoverTar" "rq_RsyncExtraArgs request_ready = []" "\<not> rq_NoCompress request_ready" "\<not> rq_NonRoot request_ready"
    by (simp_all add: request_example_def MoverTar_def Let_def)
  ultimately show ?thesis
    by (simp add: buildMoverCmdLocal_def moverKind_def checkTarFlags_def wrap_tar_def
        transfer_Build_def transfer_check_def TransferCmd_zero_def transfer_compression_def
        transfer_level_def compressProgram_def checkLevel_def minLevel_def maxZstdLevel_def TransportLevel_def
        CompressionNone_def CompressionZstd_def CheckSingleLine_eval MoverTar_def Let_def)
qed

lemma mount_installs:
  assumes "mg_Request (at_Migration (st_attempt st)) = req" "Mount_cannotDoReason (at_Migration (st_attempt st)) = []"
    and "buildMoverCmdLocal req = Inr m" "\<not> rq_Detach req"
  shows "\<exists>st'. Mount_Run env_willing st = (Inr (), st') \<and> list_ex is_install (st_trace st')"
  using assms
  by (simp add: Mount_Run_def installHelmChart_def waitForRsyncJob_def describeRelease_def getMergedHelmValues_def
      disable_policies_def bind_def ret_def lift_def guard_def ask_def modify_def gets_def set_releases_def
      env_willing_def Let_def split: option.splits)

lemma cleanup_installs: "list_ex is_install (st_trace st) \<Longrightarrow> list_ex is_install (st_trace (cleanupAttempt env_willing r st))"
  using strategy_Cleanup_trace [of env_willing st]
  by (auto simp: cleanupAttempt_def helm_ready_def env_willing_def Let_def)

lemma run_installs:
  assumes "buildMigrationWithClients world_example req client_example client_example = Inr mig"
    and "mg_Request mig = req" "Mount_cannotDoReason mig = []" "buildMoverCmdLocal req = Inr m" "\<not> rq_Detach req"
    and "preflight req = Inr strategies" "map_of strategies ''mount'' = Some Mount_Run" "rq_Strategies req = ''mount'' # rest"
    and "getClusterClients world_example req = Inr (client_example, client_example)"
  shows "list_ex is_install (snd (migrator_Run world_example req))"
proof -
  let ?st = "\<lparr>st_attempt = new_attempt mig (if rq_ID req = [] then wd_GenerateID world_example else rq_ID req) ''mount'', st_trace = []\<rparr>"
  have st: "mg_Request (at_Migration (st_attempt ?st)) = req" "Mount_cannotDoReason (at_Migration (st_attempt ?st)) = []"
    using assms(2,3) by (simp_all add: new_attempt_def)
  obtain st' where run: "Mount_Run env_willing ?st = (Inr (), st')" "list_ex is_install (st_trace st')"
    using mount_installs [OF st assms(4,5)] by blast
  have env: "wd_Env world_example = env_willing" by (simp add: world_example_def)
  have "runAttempt env_willing Mount_Run ?st = (Inr (), cleanupAttempt env_willing (Inr ()) st')"
    using run(1) by (simp add: runAttempt_def is_error_def)
  with cleanup_installs [OF run(2)] show ?thesis
    using assms by (simp add: migrator_Run_def ladder_result_def dedup_def env Let_def)
qed

lemma example_installs: "list_ex is_install (snd (migrator_Run world_example request_ready))"
proof -
  obtain mig where mig: "buildMigrationWithClients world_example request_ready client_example client_example = Inr mig"
    "mg_Request mig = request_ready" "Mount_cannotDoReason mig = []" using example_built by blast
  obtain m where m: "buildMoverCmdLocal request_ready = Inr m" using example_mover_builds by blast
  have flds: "rq_Strategies request_ready = [''mount'', ''clusterip'']" "rq_Mover request_ready = MoverTar"
    "rq_RsyncExtraArgs request_ready = []" "\<not> rq_Detach request_ready"
    by (simp_all add: request_example_def MoverTar_def Let_def)
  have pre: "preflight request_ready = Inr [(''mount'', Mount_Run), (''clusterip'', ClusterIP_Run)]"
    using flds by (simp add: preflight_def CheckMoverFlags_def moverKind_def checkTarFlags_def MoverTar_def
        nameToStrategy_def mountStrategy_def clusterIPStrategy_def)
  have cl: "getClusterClients world_example request_ready = Inr (client_example, client_example)"
    by (simp add: getClusterClients_def world_example_def client_example_def request_example_def Let_def)
  show ?thesis by (rule run_installs [OF mig m flds(4) pre _ flds(1) cl]) simp
qed

lemma migrator_Run_cleans_up_witness:
  "cleaned (snd (migrator_Run world_example request_ready)) \<and>
   list_ex is_install (snd (migrator_Run world_example request_ready))"
proof
  show "cleaned (snd (migrator_Run world_example request_ready))"
    by (rule migrator_Run_cleans_up)
      (simp_all add: helm_ready_def wants_cleanup_def world_example_def env_willing_def request_example_def Let_def)
qed (rule example_installs)

text \<open>
  What a list of failed attempts is: the strategies are run one after the other, each on a fresh
  attempt and on the trace the one before left, and each returns an error. The run is not interrupted
  before the last of them.
\<close>

inductive failures ::
  "env \<Rightarrow> (string \<Rightarrow> (env \<Rightarrow> unit run) option) \<Rightarrow> Migration \<Rightarrow> string \<Rightarrow> attemptOutcome list \<Rightarrow>
     event list \<Rightarrow> event list \<Rightarrow> bool" for env strategies mig migrationID where
  failures_none: "failures env strategies mig migrationID [] tr tr"
| failures_one: "strategies name = Some strat \<Longrightarrow>
    runAttempt env strat \<lparr>st_attempt = new_attempt mig migrationID name, st_trace = tr\<rparr> = (Inl e, st) \<Longrightarrow>
    ocs = [] \<or> \<not> ev_Cancelled env (st_trace st) \<Longrightarrow>
    failures env strategies mig migrationID ocs (st_trace st) tr' \<Longrightarrow>
    oc = \<lparr>oc_strategy = name, oc_declined = (\<exists>why. e = Declined why), oc_err = e,
          oc_diagnostics = (if \<exists>why. e = Declined why then [] else at_Diagnostics (st_attempt st))\<rparr> \<Longrightarrow>
    failures env strategies mig migrationID (oc # ocs) tr tr'"

lemma recordFailedAttempt_eq:
  "recordFailedAttempt name a e =
     \<lparr>oc_strategy = name, oc_declined = (\<exists>why. e = Declined why), oc_err = e,
      oc_diagnostics = (if \<exists>why. e = Declined why then [] else at_Diagnostics a)\<rparr>"
  by (auto simp: recordFailedAttempt_def split: strategy_error.split)

text \<open>
  C26: the ladder tries the strategies in order and stops at the first that succeeds. The outcomes are
  those of the strategies before it, in order: each was run on a fresh attempt and returned the error
  that its outcome carries, which is marked as declined, and has no diagnostics, exactly when the
  strategy declined. The strategy reported as the success was run next and returned none. Without a
  success every strategy failed, or the last one recorded failed while the run was interrupted.
\<close>

theorem ladder_order:
  assumes "\<And>name. name \<in> set names \<Longrightarrow> strategies name \<noteq> None"
    and "ladder env strategies mig migrationID names tr = (outcomes, success, tr')"
  shows "\<exists>mid. failures env strategies mig migrationID outcomes tr mid \<and>
    (case success of
       Some name \<Rightarrow> (outcomes = [] \<or> \<not> ev_Cancelled env mid) \<and>
         (\<exists>rest strat u st. names = map oc_strategy outcomes @ name # rest \<and> strategies name = Some strat \<and>
            runAttempt env strat \<lparr>st_attempt = new_attempt mig migrationID name, st_trace = mid\<rparr> = (Inr u, st) \<and>
            tr' = st_trace st)
     | None \<Rightarrow> tr' = mid \<and>
         (\<exists>rest. names = map oc_strategy outcomes @ rest \<and> (rest \<noteq> [] \<longrightarrow> outcomes \<noteq> [] \<and> ev_Cancelled env tr')))"
  using assms
proof (induction names arbitrary: tr outcomes success tr')
  case Nil
  then show ?case by (auto intro: failures_none)
next
  case (Cons name names)
  obtain strat where strat: "strategies name = Some strat" using Cons.prems(1) [of name] by auto
  let ?st0 = "\<lparr>st_attempt = new_attempt mig migrationID name, st_trace = tr\<rparr>"
  obtain r st where run: "runAttempt env strat ?st0 = (r, st)" by (cases "runAttempt env strat ?st0")
  show ?case
  proof (cases r)
    case (Inr u)
    with Cons.prems(2) strat run show ?thesis by (auto intro: failures_none)
  next
    case (Inl e)
    let ?oc = "recordFailedAttempt name (st_attempt st) e"
    have one: "failures env strategies mig migrationID (?oc # ocs) tr mid"
      if "failures env strategies mig migrationID ocs (st_trace st) mid" "ocs = [] \<or> \<not> ev_Cancelled env (st_trace st)" for ocs mid
      by (rule failures_one [OF strat run [unfolded Inl] that(2,1) recordFailedAttempt_eq])
    show ?thesis
    proof (cases "ev_Cancelled env (st_trace st)")
      case True
      with Cons.prems(2) strat run Inl one [OF failures_none] show ?thesis
        by (auto simp: Let_def recordFailedAttempt_eq)
    next
      case False
      obtain ocs succ tr2 where rec: "ladder env strategies mig migrationID names (st_trace st) = (ocs, succ, tr2)"
        by (cases "ladder env strategies mig migrationID names (st_trace st)") auto
      with Cons.prems(2) strat run Inl False have eq: "outcomes = ?oc # ocs" "success = succ" "tr' = tr2"
        by (auto simp: Let_def)
      obtain mid where mid: "failures env strategies mig migrationID ocs (st_trace st) mid" 
        and rest: "case succ of
           Some name \<Rightarrow> (ocs = [] \<or> \<not> ev_Cancelled env mid) \<and>
             (\<exists>rest strat u st. names = map oc_strategy ocs @ name # rest \<and> strategies name = Some strat \<and>
                runAttempt env strat \<lparr>st_attempt = new_attempt mig migrationID name, st_trace = mid\<rparr> = (Inr u, st) \<and>
                tr2 = st_trace st)
         | None \<Rightarrow> tr2 = mid \<and>
             (\<exists>rest. names = map oc_strategy ocs @ rest \<and> (rest \<noteq> [] \<longrightarrow> ocs \<noteq> [] \<and> ev_Cancelled env tr2))"
        using Cons.IH [OF _ rec] Cons.prems(1) by auto
      have "mid = st_trace st" if "ocs = []" using mid that by (auto elim: failures.cases)
      then show ?thesis
        using one [OF mid] rest False unfolding eq
        by (intro exI [of _ mid]) (auto simp: recordFailedAttempt_eq split: option.splits)
    qed
  qed
qed

lemma ladder_order_witness:
  "\<exists>outcomes success tr' mid.
     ladder env_willing nameToStrategy migration_example ''id'' [''mount'', ''local''] [] = (outcomes, success, tr') \<and>
     failures env_willing nameToStrategy migration_example ''id'' outcomes [] mid"
proof -
  obtain outcomes success tr' where
    l: "ladder env_willing nameToStrategy migration_example ''id'' [''mount'', ''local''] [] = (outcomes, success, tr')"
    by (cases "ladder env_willing nameToStrategy migration_example ''id'' [''mount'', ''local''] []") auto
  have "\<And>name. name \<in> set [''mount'', ''local''] \<Longrightarrow> nameToStrategy name \<noteq> None"
    by (auto simp: nameToStrategy_def mountStrategy_def clusterIPStrategy_def loadBalancerStrategy_def localStrategy_def)
  from ladder_order [OF this l] l show ?thesis by blast
qed

section \<open>What a migration has passed\<close>

text \<open>
  C27: a migration is only built when the destination can be written, no claim is mounted unless that
  is ignored, and the destination is not known to be too small: its size is at least the source's,
  or a size is unknown or ignored, or a provisioner does not enforce sizes.
\<close>

theorem buildMigration_checked:
  assumes "buildMigrationWithClients w req source dest = Inr mig"
  shows "mg_Request mig = req \<and>
    (in_SupportsRWO (mg_DestInfo mig) \<or> in_SupportsRWX (mg_DestInfo mig)) \<and>
    (rq_IgnoreMounted req \<or> in_MountedNode (mg_SourceInfo mig) = [] \<and> in_MountedNode (mg_DestInfo mig) = []) \<and>
    (rq_IgnoreSizes req \<or> Size (mg_SourceInfo mig) = 0 \<or> Size (mg_DestInfo mig) = 0 \<or>
     Size (mg_SourceInfo mig) \<le> Size (mg_DestInfo mig) \<or>
     \<not> capacityEnforced (provisioner_of (snd source) (mg_SourceInfo mig)) \<or>
     \<not> capacityEnforced (provisioner_of (snd dest) (mg_DestInfo mig)))"
  using assms
  by (auto simp: buildMigrationWithClients_def handleMountedPVCs_def handleMounted_def validatePVCs_def
      handleSizes_def split: option.splits sum.splits prod.splits if_splits)

lemma buildMigration_checked_witness:
  "\<exists>mig. buildMigrationWithClients world_example (request_example\<lparr>rq_IgnoreMounted := True\<rparr>)
       (\<lparr>cc_Host = ''h'', cc_NsInContext = ''default''\<rparr>, pvc_api_example)
       (\<lparr>cc_Host = ''h'', cc_NsInContext = ''default''\<rparr>, pvc_api_example) = Inr mig \<and>
     (in_SupportsRWO (mg_DestInfo mig) \<or> in_SupportsRWX (mg_DestInfo mig))"
proof -
  let ?c = "(\<lparr>cc_Host = ''h'', cc_NsInContext = ''default''\<rparr>, pvc_api_example)"
  have "\<exists>mig. buildMigrationWithClients world_example (request_example\<lparr>rq_IgnoreMounted := True\<rparr>) ?c ?c = Inr mig"
    by (simp add: buildMigrationWithClients_def world_example_def request_example_def resolvedNamespaces_def
        pvc_New_def newInfo_def pvc_api_example_def readAccessModes_eq findMountedPod_def
        pvc_resolveTopology_def AllowedNodesFor_def volumeNodeSelector_def ReadWriteOnce_def
        ReadOnlyMany_def ReadWriteMany_def ReadWriteOncePod_def handleMountedPVCs_def handleMounted_def
        validatePVCs_def handleSizes_def Size_def Let_def)
  then show ?thesis using buildMigration_checked by blast
qed

section \<open>Release names\<close>

lemma strategy_name_segment:
  "nameToStrategy name \<noteq> None \<Longrightarrow> id_segment name \<and> length name \<le> 12"
  by (auto simp: nameToStrategy_def mountStrategy_def clusterIPStrategy_def loadBalancerStrategy_def
      localStrategy_def nodePortStrategy_def id_segment_def id_byte_def is_lower_def byte_def split: if_splits)

text \<open>
  With a valid identifier every release any strategy installs has a name Helm accepts: at most 53
  characters, lower-case alphanumeric segments joined by single hyphens. The names the chart derives
  from it by adding a component stay within Kubernetes' 63.
\<close>

theorem release_names_valid:
  assumes "Validate migrationID = None" and "nameToStrategy name \<noteq> None"
    and "n \<in> release_names_of (at_Prefix (new_attempt mig migrationID name))"
  shows "length n \<le> 53 \<and> valid_id n \<and> length (n @ ''-rsync'') \<le> 63 \<and> length (n @ ''-sshd'') \<le> 63"
proof -
  have i: "length migrationID \<le> 24" "valid_id migrationID" using assms(1) by (auto simp: Validate_None)
  note nm = strategy_name_segment [OF assms(2)]
  let ?pre = "''pv'' @ ''-'' @ ''migrate'' @ ''-'' @ migrationID @ ''-'' @ name"
  have pre: "at_Prefix (new_attempt mig migrationID name) = ?pre"
    by (simp add: new_attempt_def ReleasePrefix_def)
  have seg: "valid_id ''pv''" "valid_id ''migrate''" "valid_id ''src''" "valid_id ''dest''"
    by (simp_all add: valid_id_def id_segment_def id_byte_def is_lower_def byte_def)
  have vpre: "valid_id ?pre"
    unfolding valid_id_append using seg i(2) valid_id_segment nm by simp
  have "n = ?pre \<or> n = ?pre @ ''-'' @ ''src'' \<or> n = ?pre @ ''-'' @ ''dest''"
    using assms(3) unfolding pre release_names_of_def by auto
  then have "valid_id n" using vpre seg unfolding valid_id_append by (metis valid_id_append)
  moreover have "length n \<le> 53"
    using assms(3) i(1) nm unfolding pre release_names_of_def by auto
  ultimately show ?thesis by simp
qed

lemma release_names_valid_witness:
  "length ''pv-migrate-fuzzy-panda-loadbalancer-dest'' \<le> 53 \<and> valid_id ''pv-migrate-fuzzy-panda-loadbalancer-dest''"
proof -
  have v: "valid_id ''fuzzy-panda''"
    by (simp add: valid_id_def id_segment_def id_byte_def is_lower_def byte_def)
  have "Validate ''fuzzy-panda'' = None" using v by (simp add: Validate_None)
  moreover have "nameToStrategy ''loadbalancer'' \<noteq> None"
    by (simp add: nameToStrategy_def mountStrategy_def clusterIPStrategy_def loadBalancerStrategy_def)
  moreover have "''pv-migrate-fuzzy-panda-loadbalancer-dest'' \<in>
      release_names_of (at_Prefix (new_attempt migration_example ''fuzzy-panda'' ''loadbalancer''))"
    by (simp add: release_names_of_def new_attempt_def ReleasePrefix_def)
  ultimately show ?thesis using release_names_valid by blast
qed

end
