(* ===== verification/Flush.thy ===== *)
theory Flush
  imports Shell "HOL-Library.Char_ord" "HOL-Library.List_Lexorder"
begin

text \<open>
  Package \<open>internal/flush\<close>, \<open>spec.go\<close>: how each kind of database is quiesced, which lock a server
  of the MySQL family is given, and the credentials a client is sent. The function fields of \<open>Spec\<close>
  are kept as functions; the error texts are constructors.
\<close>

section \<open>Data\<close>

datatype flush_Mode = ModeSession | ModeOneShot | ModePair

record Lock =
  lk_Name :: string
  lk_Statement :: string
  lk_Unlock :: string
  lk_Note :: string

datatype flush_error =
    NoIdentity string
  | IdentityCutShort string
  | NoMajorMinor string
  | NoMajor string
  | NoMinor string
  | CannotTellLock string flush_error
  | UnsupportedFlush string "string list"
  | MultilinePassword
  | MultilineUser

record Spec =
  sp_Mode :: flush_Mode
  sp_ReadsCredentials :: bool
  sp_Identify :: string
  sp_Choose :: "string \<Rightarrow> (flush_error, Lock) result"
  sp_Probe :: string
  sp_Marker :: string
  sp_LockMarker :: string
  sp_ReleaseMarker :: string
  sp_Note :: string
  sp_command :: "string \<Rightarrow> string list"
  sp_release :: "string \<Rightarrow> string list"
  sp_override :: "string list option"

definition flush_Command :: "Spec \<Rightarrow> string \<Rightarrow> string list" where
  "flush_Command s user = (case sp_override s of Some argv \<Rightarrow> argv | None \<Rightarrow> sp_command s user)"

definition flush_Release :: "Spec \<Rightarrow> string \<Rightarrow> string list" where
  "flush_Release s user = sp_release s user"

definition WithCommand :: "Spec \<Rightarrow> string list \<Rightarrow> Spec" where
  "WithCommand s argv = s\<lparr>sp_override := Some argv, sp_ReadsCredentials := False\<rparr>"

section \<open>Credentials\<close>

record Credentials =
  cr_User :: string
  cr_Password :: string

definition credentials_Check :: "Credentials \<Rightarrow> flush_error option" where
  "credentials_Check c =
     (if ContainsAny (cr_Password c) [return_byte, newline_byte] then Some MultilinePassword
      else if ContainsAny (cr_User c) [return_byte, newline_byte] then Some MultilineUser
      else None)"

section \<open>Reading what the server says it is\<close>

definition identityPrefix :: string where "identityPrefix = ''pv-migrate-server=''"
definition IdentityEnd :: string where "IdentityEnd = ''|pv-migrate-end''"
definition flush_marker :: string where "flush_marker = ''pv-migrate-quiesced''"

definition mysqlIdentify :: string where
  \<open>mysqlIdentify = ''SELECT CONCAT('pv-migrate', '-server=', @@version, '|', '' @
     ''@@version_comment, '|pv-migrate', '-end');''\<close>

definition mysqlProbe :: string where
  \<open>mysqlProbe = ''SELECT CONCAT('pv-migrate', '-quiesced');''\<close>

definition ParseIdentity :: "string \<Rightarrow> (flush_error, string) result" where
  "ParseIdentity out =
     (case Cut out identityPrefix of None \<Rightarrow> Inl (NoIdentity out)
      | Some (_, rest) \<Rightarrow>
          (case Cut rest IdentityEnd of None \<Rightarrow> Inl (IdentityCutShort out)
           | Some (answer, _) \<Rightarrow> Inr answer))"

section \<open>The client scripts\<close>

definition mysqlScript :: string where
  \<open>mysqlScript = ''IFS= read -r pw; '' @
     ''export MYSQL_PWD="${pw:-${MYSQL_PWD:-${MARIADB_ROOT_PASSWORD:-$MYSQL_ROOT_PASSWORD}}}"; '' @
     ''client=$(command -v mariadb || command -v mysql) || '' @
     ''{ echo "pv-migrate: this container has neither a mariadb nor a mysql client" >&2; exit 127; }; '' @
     ''exec "$client" --skip-reconnect -u"${1:-root}" --batch --skip-column-names --unbuffered''\<close>

definition postgresScript :: string where
  \<open>postgresScript = ''IFS= read -r pw; '' @
     ''pw="${pw:-${PGPASSWORD:-$POSTGRES_PASSWORD}}"; '' @
     ''if [ -n "$pw" ]; then export PGPASSWORD="$pw"; fi; '' @
     ''exec psql -X -q -w -v ON_ERROR_STOP=1 -d postgres -U "${1:-${POSTGRES_USER:-postgres}}" -c CHECKPOINT''\<close>

definition mongoScript :: string where
  \<open>mongoScript = ''IFS= read -r pw; '' @
     ''user="${1:-$MONGO_INITDB_ROOT_USERNAME}"; pass="${pw:-$MONGO_INITDB_ROOT_PASSWORD}"; js="$2"; '' @
     ''client=$(command -v mongosh || command -v mongo) || '' @
     ''{ echo "pv-migrate: this container has neither mongosh nor mongo" >&2; exit 127; }; '' @
     ''if [ -n "$user" ]; then '' @
     ''exec "$client" --quiet -u "$user" -p "$pass" --authenticationDatabase admin --eval "$js"; fi; '' @
     ''exec "$client" --quiet --eval "$js"''\<close>

definition mongoLockJS :: string where
  \<open>mongoLockJS =
     ''var r = db.fsyncLock(); print("pv-migrate-fsynclock=" + r.ok + " " + (r.errmsg || ""))''\<close>

definition mongoUnlockJS :: string where
  \<open>mongoUnlockJS = ''print("pv-migrate-lockcount=" + db.fsyncUnlock().lockCount)''\<close>

definition shellScript :: "string \<Rightarrow> string list \<Rightarrow> string list" where
  "shellScript script args = [''sh'', ''-c'', script, ''sh''] @ args"

section \<open>The locks of the MySQL family\<close>

definition lockInstance :: Lock where
  "lockInstance =
     \<lparr>lk_Name = ''LOCK INSTANCE FOR BACKUP'', lk_Statement = ''LOCK INSTANCE FOR BACKUP;'',
      lk_Unlock = ''UNLOCK INSTANCE;'',
      lk_Note = ''DDL is blocked, writes continue; InnoDB recovers the rest from its redo log''\<rparr>"

definition lockTablesForBackup :: Lock where
  "lockTablesForBackup =
     \<lparr>lk_Name = ''LOCK TABLES FOR BACKUP'', lk_Statement = ''LOCK TABLES FOR BACKUP;'',
      lk_Unlock = ''UNLOCK TABLES;'',
      lk_Note = ''DDL and writes to non-transactional tables are blocked, InnoDB writes continue; '' @
        ''InnoDB recovers the rest from its redo log''\<rparr>"

definition flushWithReadLock :: Lock where
  "flushWithReadLock =
     \<lparr>lk_Name = ''FLUSH TABLES WITH READ LOCK'', lk_Statement = ''FLUSH TABLES WITH READ LOCK;'',
      lk_Unlock = ''UNLOCK TABLES;'',
      lk_Note = ''all writes are blocked until the snapshot is cut; the lock waits for running '' @
        ''statements to finish first, so a long query delays it and stalls writers meanwhile''\<rparr>"

definition backupStage :: Lock where
  "backupStage =
     \<lparr>lk_Name = ''BACKUP STAGE BLOCK_COMMIT'',
      lk_Statement = ''BACKUP STAGE START; BACKUP STAGE BLOCK_COMMIT;'', lk_Unlock = ''BACKUP STAGE END;'',
      lk_Note = ''non-transactional tables flushed, DDL blocked and commits held; '' @
        ''InnoDB and Aria recover the rest from their logs''\<rparr>"

definition atLeast :: "int \<Rightarrow> int \<Rightarrow> int \<Rightarrow> int \<Rightarrow> bool" where
  "atLeast major minor wantMajor wantMinor \<longleftrightarrow>
     major > wantMajor \<or> major = wantMajor \<and> minor \<ge> wantMinor"

text \<open>A rune outside \<open>0\<close> to \<open>9\<close> starts at a byte outside that range, so \<open>IndexFunc\<close> may look at bytes.\<close>

definition leadingVersion :: "string \<Rightarrow> (flush_error, int \<times> int) result" where
  "leadingVersion v =
     (let trimmed = TrimSpace v;
          version = (case CutPrefix trimmed ''5.5.5-'' of
                       Some rest \<Rightarrow> if Contains rest ''MariaDB'' then rest else trimmed
                     | None \<Rightarrow> trimmed)
      in case Cut version ''.'' of None \<Rightarrow> Inl (NoMajorMinor version)
         | Some (majorPart, rest) \<Rightarrow>
             let minorPart = takeWhile is_digit rest
             in case ParseInt majorPart of None \<Rightarrow> Inl (NoMajor version)
                | Some major \<Rightarrow>
                    (case ParseInt minorPart of None \<Rightarrow> Inl (NoMinor version)
                     | Some minor \<Rightarrow> Inr (major, minor)))"

definition ChooseMySQLLock :: "string \<Rightarrow> (flush_error, Lock) result" where
  "ChooseMySQLLock identity =
     (let (version, comment) =
        (case Cut identity ''|'' of Some (v, c) \<Rightarrow> (v, c) | None \<Rightarrow> (identity, []))
      in case leadingVersion version of Inl e \<Rightarrow> Inl (CannotTellLock identity e)
         | Inr (major, minor) \<Rightarrow>
             if Contains version ''MariaDB'' then
               (if atLeast major minor 10 4 then Inr backupStage else Inr flushWithReadLock)
             else if major \<ge> 8 then Inr lockInstance
             else if Contains comment ''Percona'' \<and> major = 5 \<and> minor \<ge> 7 then Inr lockTablesForBackup
             else Inr flushWithReadLock)"

section \<open>The registry\<close>

text \<open>Fields the source leaves unset have Go's zero value; a nil function is one that is never called.\<close>

definition Spec_zero :: Spec where
  "Spec_zero =
     \<lparr>sp_Mode = ModeSession, sp_ReadsCredentials = False, sp_Identify = [],
      sp_Choose = (\<lambda>s. Inl (NoIdentity s)), sp_Probe = [], sp_Marker = [], sp_LockMarker = [],
      sp_ReleaseMarker = [], sp_Note = [], sp_command = (\<lambda>_. []), sp_release = (\<lambda>_. []),
      sp_override = None\<rparr>"

definition mysqlFamily :: Spec where
  "mysqlFamily = Spec_zero
     \<lparr>sp_Mode := ModeSession, sp_ReadsCredentials := True,
      sp_command := (\<lambda>user. shellScript mysqlScript [user]), sp_Identify := mysqlIdentify,
      sp_Choose := ChooseMySQLLock, sp_Probe := mysqlProbe, sp_Marker := flush_marker\<rparr>"

definition specs :: "(string \<times> Spec) list" where
  "specs =
     [(''mysql'', mysqlFamily),
      (''mariadb'', mysqlFamily),
      (''postgres'', Spec_zero
         \<lparr>sp_Mode := ModeOneShot, sp_ReadsCredentials := True,
          sp_command := (\<lambda>user. shellScript postgresScript [user]),
          sp_Note := ''checkpoint written to shorten recovery; '' @
            ''the snapshot is crash-consistent through the WAL either way''\<rparr>),
      (''mongodb'', Spec_zero
         \<lparr>sp_Mode := ModePair, sp_ReadsCredentials := True,
          sp_command := (\<lambda>user. shellScript mongoScript [user, mongoLockJS]),
          sp_LockMarker := ''pv-migrate-fsynclock=1'',
          sp_release := (\<lambda>user. shellScript mongoScript [user, mongoUnlockJS]),
          sp_ReleaseMarker := ''pv-migrate-lockcount=0'',
          sp_Note := ''writes blocked and a checkpoint written; '' @
            ''on a replica set point this at a hidden secondary, not the primary''\<rparr>),
      (''scylladb'', Spec_zero
         \<lparr>sp_Mode := ModeOneShot, sp_command := (\<lambda>_. [''nodetool'', ''flush'']),
          sp_Note := ''memtables flushed to SSTables; the commitlog replays anything after, '' @
            ''up to 10 s of acknowledged writes under the default periodic sync''\<rparr>)]"

definition Kinds :: "string list" where
  "Kinds = sort (map fst specs)"

definition flush_Lookup :: "string \<Rightarrow> (flush_error, Spec) result" where
  "flush_Lookup kind =
     (case map_of specs kind of None \<Rightarrow> Inl (UnsupportedFlush kind Kinds) | Some spec \<Rightarrow> Inr spec)"

section \<open>Servers\<close>

text \<open>
  A server as it describes itself: its version number and what follows it, and the comment that
  names the distribution.
\<close>

datatype family = MySQL | Percona | MariaDB

record server =
  sv_family :: family
  sv_proxied :: bool
  sv_major :: nat
  sv_minor :: nat
  sv_tail :: string
  sv_comment :: string

definition server_version :: "server \<Rightarrow> string" where
  "server_version s =
     (if sv_proxied s then ''5.5.5-'' else []) @ show_nat (sv_major s) @ ''.'' @ show_nat (sv_minor s) @ sv_tail s"

definition server_ok :: "server \<Rightarrow> bool" where
  "server_ok s \<longleftrightarrow>
     int (sv_major s) \<le> max_int64 \<and> int (sv_minor s) \<le> max_int64 \<and>
     (sv_tail s = [] \<or> \<not> is_digit (hd (sv_tail s))) \<and>
     list_all solid (sv_tail s) \<and> CHR ''|'' \<notin> set (sv_tail s) \<and>
     (Contains (sv_tail s) ''MariaDB'' \<longleftrightarrow> sv_family s = MariaDB) \<and>
     (Contains (sv_comment s) ''Percona'' \<longleftrightarrow> sv_family s = Percona) \<and>
     (if sv_proxied s then sv_family s = MariaDB
      else sv_family s \<noteq> MariaDB \<or> \<not> HasPrefix (server_version s) ''5.5.5-'')"

text \<open>The lock each server is documented to support, the least intrusive one first.\<close>

definition documented_lock :: "server \<Rightarrow> Lock" where
  "documented_lock s =
     (case sv_family s of
        MariaDB \<Rightarrow> if sv_major s > 10 \<or> sv_major s = 10 \<and> sv_minor s \<ge> 4 then backupStage else flushWithReadLock
      | MySQL \<Rightarrow> if sv_major s \<ge> 8 then lockInstance else flushWithReadLock
      | Percona \<Rightarrow> if sv_major s \<ge> 8 then lockInstance
                  else if sv_major s = 5 \<and> sv_minor s \<ge> 7 then lockTablesForBackup
                  else flushWithReadLock)"

definition server_answer :: "server \<Rightarrow> string" where
  "server_answer s = identityPrefix @ server_version s @ ''|'' @ sv_comment s @ IdentityEnd"


lemma not_digits [simp]:
  "\<not> is_digit (CHR ''M'')" "\<not> is_digit (CHR ''|'')" "\<not> is_digit (CHR ''.'')"
  by (simp_all add: is_digit_def byte_def)

lemma leadingVersion_plain:
  assumes "int (sv_major s) \<le> max_int64" "int (sv_minor s) \<le> max_int64"
    and "sv_tail s = [] \<or> \<not> is_digit (hd (sv_tail s))"
    and "v = show_nat (sv_major s) @ ''.'' @ show_nat (sv_minor s) @ sv_tail s"
  shows "Cut v ''.'' = Some (show_nat (sv_major s), show_nat (sv_minor s) @ sv_tail s)"
proof -
  have "\<not> Contains (show_nat (sv_major s)) ''.''"
    by (simp add: show_nat_lacks)
  then show ?thesis unfolding assms(4) by (intro Cut_first) auto
qed

lemma version_solid:
  assumes "server_ok s"
  shows "TrimSpace (server_version s) = server_version s"
proof -
  have all: "list_all solid (server_version s)"
    using assms by (auto simp: server_version_def server_ok_def list_all_iff solid_def byte_def
        is_digit_def dest!: show_nat_digits)
  have ne: "server_version s \<noteq> []" by (simp add: server_version_def)
  then obtain c t where ct: "server_version s = c # t" by (cases "server_version s") auto
  have "solid c" "solid (last (c # t))" using all ct by (auto simp: list_all_iff)
  with ct show ?thesis using TrimSpace_solid(1) by simp
qed

lemma leadingVersion_server:
  assumes "server_ok s"
  shows "leadingVersion (server_version s) = Inr (int (sv_major s), int (sv_minor s))"
proof -
  let ?v = "show_nat (sv_major s) @ ''.'' @ show_nat (sv_minor s) @ sv_tail s"
  have m: "Contains ?v ''MariaDB'' = Contains (sv_tail s) ''MariaDB''"
    using Contains_skip [of "''MariaDB''" "show_nat (sv_major s) @ ''.'' @ show_nat (sv_minor s)" "sv_tail s"]
    by (simp add: show_nat_lacks)
  have version: "(case CutPrefix (server_version s) ''5.5.5-'' of
          Some rest \<Rightarrow> if Contains rest ''MariaDB'' then rest else server_version s
        | None \<Rightarrow> server_version s) = ?v"
  proof (cases "sv_proxied s")
    case True
    then have "CutPrefix (server_version s) ''5.5.5-'' = Some ?v"
      using CutPrefix_append [of "''5.5.5-''" ?v] by (simp add: server_version_def)
    moreover have "Contains (sv_tail s) ''MariaDB''" using True assms by (simp add: server_ok_def)
    ultimately show ?thesis using m by simp
  next
    case False
    then have v: "server_version s = ?v" by (simp add: server_version_def)
    have "\<not> Contains rest ''MariaDB''" if "CutPrefix ?v ''5.5.5-'' = Some rest" for rest
    proof -
      have r: "?v = ''5.5.5-'' @ rest" using CutPrefix_Some [OF that] .
      then have "HasPrefix ?v ''5.5.5-''" by (metis prefixI)
      with assms v False have "\<not> Contains ?v ''MariaDB''" unfolding m by (simp add: server_ok_def)
      then show ?thesis unfolding r using Contains_skip [of "''MariaDB''" "''5.5.5-''" rest] by simp
    qed
    with v show ?thesis by (auto split: option.splits)
  qed
  have ok: "int (sv_major s) \<le> max_int64" "int (sv_minor s) \<le> max_int64"
    "sv_tail s = [] \<or> \<not> is_digit (hd (sv_tail s))" using assms by (auto simp: server_ok_def)
  show ?thesis
    unfolding leadingVersion_def version_solid [OF assms] Let_def version leadingVersion_plain [OF ok refl]
    by (simp add: takeWhile_digits [OF ok(3)] ParseInt_show_nat ok)
qed

text \<open>
  Whatever the client printed before it, a server's answer to the identity query is read back
  whole, and the lock chosen from it is the one documented for that server: the version and the
  distribution are recovered from the answer, a proxy's false version prefix included.
\<close>

theorem server_lock:
  assumes "server_ok s" and "\<not> Contains noise identityPrefix" and "\<not> Contains (''|'' @ sv_comment s) IdentityEnd"
  shows "\<exists>identity. ParseIdentity (noise @ server_answer s @ rest) = Inr identity \<and>
           ChooseMySQLLock identity = Inr (documented_lock s)"
proof -
  let ?id = "server_version s @ ''|'' @ sv_comment s"
  have bar: "CHR ''|'' \<notin> set (server_version s)"
    using assms(1) by (auto simp: server_version_def server_ok_def show_nat_lacks)
  have "Cut (noise @ identityPrefix @ ?id @ IdentityEnd @ rest) identityPrefix = Some (noise, ?id @ IdentityEnd @ rest)"
    using assms(2) by (intro Cut_first) (auto simp: identityPrefix_def)
  moreover have "\<not> Contains ?id IdentityEnd"
    using assms(3) Contains_skip [of IdentityEnd "server_version s" "''|'' @ sv_comment s"] bar
    by (simp add: IdentityEnd_def)
  then have "Cut (?id @ IdentityEnd @ rest) IdentityEnd = Some (?id, rest)"
    by (intro Cut_first) (auto simp: IdentityEnd_def)
  ultimately have parse: "ParseIdentity (noise @ server_answer s @ rest) = Inr ?id"
    by (simp add: ParseIdentity_def server_answer_def)
  have cut: "Cut ?id ''|'' = Some (server_version s, sv_comment s)"
    using bar by (intro Cut_first) auto
  have m: "Contains (server_version s) ''MariaDB'' \<longleftrightarrow> sv_family s = MariaDB"
    using assms(1) Contains_skip [of "''MariaDB''" "(if sv_proxied s then ''5.5.5-'' else []) @
      show_nat (sv_major s) @ ''.'' @ show_nat (sv_minor s)" "sv_tail s"]
    by (simp add: server_version_def server_ok_def show_nat_lacks)
  have p: "Contains (sv_comment s) ''Percona'' \<longleftrightarrow> sv_family s = Percona"
    using assms(1) by (simp add: server_ok_def)
  have "ChooseMySQLLock ?id = Inr (documented_lock s)"
    unfolding ChooseMySQLLock_def cut
    by (cases "sv_family s") (simp_all add: leadingVersion_server [OF assms(1)] m p documented_lock_def atLeast_def)
  with parse show ?thesis by blast
qed


lemma server_lock_witness:
  "\<exists>identity.
     ParseIdentity (''warning'' @ server_answer
       \<lparr>sv_family = MariaDB, sv_proxied = True, sv_major = 10, sv_minor = 11, sv_tail = ''.6-MariaDB'',
        sv_comment = ''mariadb.org''\<rparr> @ []) = Inr identity \<and>
     ChooseMySQLLock identity = Inr backupStage"
  using server_lock [of "\<lparr>sv_family = MariaDB, sv_proxied = True, sv_major = 10, sv_minor = 11,
      sv_tail = ''.6-MariaDB'', sv_comment = ''mariadb.org''\<rparr>" "''warning''" "[]"]
  by (simp add: server_ok_def documented_lock_def go_eval identityPrefix_def IdentityEnd_def
      max_int64_def solid_def byte_def)

section \<open>Markers\<close>

text \<open>
  The text of everything a kind sends to its client, apart from the user name. The markers of the
  kind must not occur there: a client that echoes a failing statement would otherwise confirm it.
\<close>

definition sent_texts :: "Spec \<Rightarrow> string list" where
  "sent_texts s = [sp_Identify s, sp_Probe s] @ sp_command s [] @ sp_release s []"

definition awaited_markers :: "Spec \<Rightarrow> string list" where
  "awaited_markers s =
     filter (\<lambda>m. m \<noteq> []) [sp_Marker s, sp_LockMarker s, sp_ReleaseMarker s]
     @ (if sp_Mode s = ModeSession then [identityPrefix, IdentityEnd] else [])"

lemma session_texts_not_echoed:
  "\<not> Contains mysqlProbe ''pv-migrate-quiesced''" "\<not> Contains mysqlProbe ''pv-migrate-server=''"
  "\<not> Contains mysqlProbe ''|pv-migrate-end''" "\<not> Contains mysqlIdentify ''pv-migrate-quiesced''"
  "\<not> Contains mysqlIdentify ''pv-migrate-server=''" "\<not> Contains mysqlIdentify ''|pv-migrate-end''"
  by (simp_all add: mysqlProbe_def mysqlIdentify_def go_eval)

lemma mysqlScript_not_echoed:
  "\<not> Contains mysqlScript ''pv-migrate-quiesced''" "\<not> Contains mysqlScript ''pv-migrate-server=''"
  "\<not> Contains mysqlScript ''|pv-migrate-end''"
  by (simp_all add: mysqlScript_def go_eval)

lemma mongo_not_echoed:
  "\<not> Contains mongoScript ''pv-migrate-fsynclock=1''" "\<not> Contains mongoScript ''pv-migrate-lockcount=0''"
  "\<not> Contains mongoLockJS ''pv-migrate-fsynclock=1''" "\<not> Contains mongoLockJS ''pv-migrate-lockcount=0''"
  "\<not> Contains mongoUnlockJS ''pv-migrate-fsynclock=1''" "\<not> Contains mongoUnlockJS ''pv-migrate-lockcount=0''"
  by (simp_all add: mongoScript_def mongoLockJS_def mongoUnlockJS_def go_eval)

lemmas texts_not_echoed = session_texts_not_echoed mysqlScript_not_echoed mongo_not_echoed

text \<open>
  No marker a kind waits for occurs in the text the kind itself sends, so what confirms a lock or
  a release was printed by the database and is not an echo.
\<close>

theorem specs_not_echoed:
  "list_all (\<lambda>(kind, s). list_all (\<lambda>m. list_all (\<lambda>t. \<not> Contains t m) (sent_texts s)) (awaited_markers s)) specs"
  by (simp add: specs_def mysqlFamily_def Spec_zero_def sent_texts_def awaited_markers_def shellScript_def
      flush_marker_def identityPrefix_def IdentityEnd_def texts_not_echoed go_eval)

lemma Lookup_modes:
  assumes "flush_Lookup kind = Inr s"
  shows "sp_override s = None \<and>
    (sp_Mode s = ModePair \<longleftrightarrow> kind = ''mongodb'') \<and>
    (sp_Mode s = ModePair \<longrightarrow> sp_LockMarker s \<noteq> [] \<and> sp_ReleaseMarker s \<noteq> [])"
  using assms by (auto simp: flush_Lookup_def specs_def mysqlFamily_def Spec_zero_def split: if_splits)

end
