(* ===== verification/BucketTarget.thy ===== *)
theory BucketTarget
  imports Rclone Archive Pvc Flush
begin

text \<open>
  Package \<open>internal/bucketstorage\<close>, the part that asks no cluster: the request, the checks on it, the
  place a backup is written to or read from, the command of the job, the metadata sidecar and the
  chart values (\<open>bucketstorage.go\<close>, \<open>archive.go\<close>, \<open>metadata.go\<close>). The YAML encoder and the reading of
  a user's rclone configuration file are parameters.
\<close>

section \<open>The request\<close>

definition DefaultPrefix :: string where "DefaultPrefix = ''pv-migrate''"
definition dataMountPath :: string where "dataMountPath = ''/data''"
definition archiveMountPath :: string where "archiveMountPath = ''/archive''"
definition rcloneConfigMountPath :: string where "rcloneConfigMountPath = ''/etc/rclone/rclone.conf''"
definition rcloneNonRootUID :: int where "rcloneNonRootUID = 10000"

record BRequest =
  bq_ID :: string
  bq_ImageTag :: string
  bq_ChartVersion :: string
  bq_Direction :: string
  bq_KubeconfigPath :: string
  bq_Context :: string
  bq_Namespace :: string
  bq_PVCName :: string
  bq_IgnoreMounted :: bool
  bq_NonRoot :: bool
  bq_Detach :: bool
  bq_NoCleanup :: bool
  bq_NoCleanupOnFailure :: bool
  bq_DeleteExtraneousFiles :: bool
  bq_Backend :: string
  bq_Bucket :: string
  bq_S3Provider :: string
  bq_Endpoint :: string
  bq_Region :: string
  bq_AccessKey :: string
  bq_SecretKey :: string
  bq_StorageAccount :: string
  bq_StorageKey :: string
  bq_GCSServiceAccountJSON :: string
  bq_GCSBucketPolicyOnly :: "bool option"
  bq_Name :: string
  bq_Prefix :: string
  bq_Path :: string
  bq_RcloneConfigFile :: string
  bq_Remote :: string
  bq_RcloneExtraArgs :: string
  bq_ArchiveFile :: string
  bq_CompressionLevel :: int
  bq_Snapshot :: bool
  bq_FromSnapshot :: string
  bq_SnapshotClass :: string
  bq_KeepSnapshot :: bool
  bq_Flush :: string
  bq_FlushContainer :: string
  bq_FlushCommand :: "string list"
  bq_FlushUser :: string
  bq_FlushPassword :: string
  bq_FlushPasswordSecret :: string
  bq_HelmTimeout :: int
  bq_HelmValuesFiles :: "string list"
  bq_HelmValues :: "string list"
  bq_HelmFileValues :: "string list"
  bq_HelmStringValues :: "string list"
  bq_StructuredLogs :: bool
  bq_ColorOutput :: bool

datatype bucket_error =
    SnapshotOnRestore
  | FlushWithFromSnapshot
  | BadFlush flush_error
  | TargetError archive_error
  | BackendNotS3 string
  | ArchiveConflict string
  | LevelOnRestore
  | LevelOnUncompressed string
  | ArchiveIsClaim
  | NotInsideClaim string
  | ConfigFileUnread string
  | ConfigFailed rclone_error
  | RemoteRequired
  | BucketRequired
  | NameRequired
  | BadSegment string string
  | PrefixSlashes string
  | PrefixChars string
  | NotRelative
  | EscapesRoot
  | StreamCmdFailed archive_error
  | ArchiveCmdFailed archive_error
  | RcloneCmdFailed rclone_error
  | MetadataFailed string
  | NotSchedulable string "string list option" string "string list option"

section \<open>Path segments\<close>

definition is_alnum :: "char \<Rightarrow> bool" where
  "is_alnum c \<longleftrightarrow> is_digit c \<or> is_lower c \<or> is_upper c"

definition segment_char :: "char \<Rightarrow> bool" where
  "segment_char c \<longleftrightarrow> is_alnum c \<or> c = CHR ''.'' \<or> c = CHR ''_'' \<or> c = CHR ''-''"

definition safeBucketSegment :: "string \<Rightarrow> bool" where
  "safeBucketSegment s = (case s of [] \<Rightarrow> False | c # cs \<Rightarrow> is_alnum c \<and> list_all segment_char cs)"

definition validateBucketSegment :: "string \<Rightarrow> string \<Rightarrow> bucket_error option" where
  "validateBucketSegment value flag = (if safeBucketSegment value then None else Some (BadSegment flag value))"

definition ValidateName :: "string \<Rightarrow> bucket_error option" where
  "ValidateName name = validateBucketSegment name ''name''"

fun check_segments :: "string \<Rightarrow> string list \<Rightarrow> bucket_error option" where
  "check_segments pre [] = None"
| "check_segments pre (s # ss) =
     (if s = [] then Some (PrefixSlashes pre)
      else case validateBucketSegment s ''prefix'' of Some _ \<Rightarrow> Some (PrefixChars pre)
      | None \<Rightarrow> check_segments pre ss)"

definition validatePrefix :: "string \<Rightarrow> bucket_error option" where
  "validatePrefix pre = (if pre = [] then None else check_segments pre (Split pre slash))"

definition ValidatePrefix :: "string \<Rightarrow> bucket_error option" where
  "ValidatePrefix pre = validatePrefix pre"

definition validateSubpath :: "string \<Rightarrow> bucket_error option" where
  "validateSubpath p =
     (if IsAbs p then Some NotRelative
      else if Clean p = ''..'' \<or> HasPrefix (Clean p) ''../'' then Some EscapesRoot
      else None)"

text \<open>The path inside the data volume a job works on, as \<open>Run\<close> computes it from \<open>--path\<close>.\<close>

definition local_path :: "string \<Rightarrow> (bucket_error, string) result" where
  "local_path p =
     (if p = [] then Inr dataMountPath
      else case validateSubpath p of Some e \<Rightarrow> Inl e | None \<Rightarrow> Inr (path_Join [dataMountPath, p]))"

section \<open>Dry runs\<close>

definition shortFlagCluster :: "string \<Rightarrow> bool" where
  "shortFlagCluster s =
     (case s of c # cs \<Rightarrow> c = CHR ''-'' \<and> cs \<noteq> [] \<and> list_all (\<lambda>x. is_lower x \<or> is_upper x) cs
      | [] \<Rightarrow> False)"

definition setFromBool :: "bool \<Rightarrow> string \<Rightarrow> bool" where
  "setFromBool target value = (case ParseBool value of Some enabled \<Rightarrow> enabled | None \<Rightarrow> target)"

text \<open>The loop over the letters of a bundle; the last letter is the one with nothing after it.\<close>

fun apply_letters :: "bool \<Rightarrow> string \<Rightarrow> string \<Rightarrow> bool" where
  "apply_letters dryRun [] value = dryRun"
| "apply_letters dryRun (l # ls) value =
     apply_letters
       (if l \<noteq> CHR ''n'' then dryRun else if ls = [] then setFromBool dryRun value else True) ls value"

definition applyAssignedFlag :: "bool \<Rightarrow> string \<Rightarrow> string \<Rightarrow> bool" where
  "applyAssignedFlag dryRun name value =
     (if name = ''--dry-run'' then setFromBool dryRun value
      else if shortFlagCluster name then apply_letters dryRun (TrimPrefix name ''-'') value
      else dryRun)"

definition dry_run_step :: "string \<Rightarrow> bool \<Rightarrow> bool" where
  "dry_run_step arg dryRun =
     (case Cut arg ''='' of
        Some (name, value) \<Rightarrow> applyAssignedFlag dryRun name value
      | None \<Rightarrow>
          if arg = ''--dry-run'' \<or> shortFlagCluster arg \<and> Contains arg ''n'' then True else dryRun)"

definition hasRcloneDryRun :: "string \<Rightarrow> bool" where
  "hasRcloneDryRun extraArgs = fold dry_run_step (Fields extraArgs) False"

definition shouldUploadMetadata :: "BRequest \<Rightarrow> bool" where
  "shouldUploadMetadata req \<longleftrightarrow>
     bq_Direction req = DirectionBackup \<and> bq_RcloneConfigFile req = [] \<and>
     \<not> hasRcloneDryRun (bq_RcloneExtraArgs req)"

section \<open>Archive targets\<close>

definition archiveFormat :: string where "archiveFormat = ''tar''"

definition archiveSuffixes :: "string list" where
  "archiveSuffixes = [''.tar.zst'', ''.tzst'', ''.tar.gz'', ''.tgz'', ''.tar'']"

definition isArchive :: "BRequest \<Rightarrow> bool" where
  "isArchive req \<longleftrightarrow> bq_ArchiveFile req \<noteq> []"

definition checkArchiveConflicts :: "BRequest \<Rightarrow> Target \<Rightarrow> bucket_error option" where
  "checkArchiveConflicts req target =
     (let conflicts =
        [(''--bucket'', bq_Bucket req \<noteq> []),
         (''--rclone-config'', bq_RcloneConfigFile req \<noteq> []),
         (''--remote'', bq_Remote req \<noteq> []),
         (''--prefix'', bq_Prefix req \<noteq> [] \<and> bq_Prefix req \<noteq> DefaultPrefix),
         (''--name'', bq_Name req \<noteq> [])]
        @ (if InBucket target then []
           else [(''--backend'', bq_Backend req \<noteq> []),
                 (''--rclone-extra-args'', bq_RcloneExtraArgs req \<noteq> [])])
      in if InBucket target \<and> bq_Backend req \<noteq> [] \<and> bq_Backend req \<noteq> BackendS3
         then Some (BackendNotS3 (bq_Backend req))
         else map_option (ArchiveConflict \<circ> fst) (find snd conflicts))"

definition parseArchiveTarget :: "BRequest \<Rightarrow> go_time \<Rightarrow> (bucket_error, Target) result" where
  "parseArchiveTarget req now =
     (case ParseTarget (bq_ArchiveFile req) now of Inl e \<Rightarrow> Inl (TargetError e)
      | Inr target \<Rightarrow>
      case checkArchiveConflicts req target of Some e \<Rightarrow> Inl e
      | None \<Rightarrow>
      case (if bq_CompressionLevel req \<noteq> 0
            then (if bq_Direction req = DirectionRestore then Some LevelOnRestore
                  else if tg_Compression target = CompressionNone
                  then Some (LevelOnUncompressed (tg_Path target))
                  else map_option TargetError (CheckLevel (tg_Compression target) (bq_CompressionLevel req)))
            else None) of Some e \<Rightarrow> Inl e
      | None \<Rightarrow> if tg_Claim target = bq_PVCName req then Inl ArchiveIsClaim else Inr target)"

definition archiveFilePath :: "Target \<Rightarrow> (bucket_error, string) result" where
  "archiveFilePath target =
     (if \<not> InCluster target then Inr (tg_Path target)
      else let cleaned = Clean (TrimPrefix (tg_Path target) ''/'') in
        if cleaned = ''..'' \<or> HasPrefix cleaned ''../'' \<or> cleaned = ''.''
        then Inl (NotInsideClaim (tg_Path target))
        else Inr (path_Join [archiveMountPath, cleaned]))"

definition archiveDirection :: "BRequest \<Rightarrow> string" where
  "archiveDirection req =
     (if bq_Direction req = DirectionRestore then ar_DirectionRestore else ar_DirectionBackup)"

definition buildArchiveCmd :: "BRequest \<Rightarrow> Target \<Rightarrow> string \<Rightarrow> (bucket_error, string) result" where
  "buildArchiveCmd req target dataPath =
     (case archiveFilePath target of Inl e \<Rightarrow> Inl e
      | Inr archivePath \<Rightarrow>
          map_sum ArchiveCmdFailed id
            (archive_Build \<lparr>ac_Direction = archiveDirection req, ac_ArchivePath = archivePath,
               ac_DataPath = dataPath, ac_Compression = tg_Compression target,
               ac_Level = bq_CompressionLevel req, ac_Clean = bq_DeleteExtraneousFiles req\<rparr>))"

section \<open>Placing a job that mounts two claims\<close>

definition placementNodes :: "Info \<Rightarrow> Info \<Rightarrow> string list option" where
  "placementNodes dataInfo archiveInfo = IntersectNodes (in_PinnedNodes dataInfo) (in_PinnedNodes archiveInfo)"

definition checkSchedulable :: "Info \<Rightarrow> Info \<Rightarrow> bucket_error option" where
  "checkSchedulable dataInfo archiveInfo =
     (if placementNodes dataInfo archiveInfo \<noteq> Some [] then None
      else Some (NotSchedulable (cl_Name (in_Claim dataInfo)) (in_PinnedNodes dataInfo)
                   (cl_Name (in_Claim archiveInfo)) (in_PinnedNodes archiveInfo)))"

definition describeNodes :: "string list \<Rightarrow> string" where
  "describeNodes nodes = (if nodes = [] then ''no node'' else Join nodes '', '')"

definition archiveAffinity :: "Info \<Rightarrow> Info \<Rightarrow> hmap option" where
  "archiveAffinity dataInfo archiveInfo =
     (if placementNodes dataInfo archiveInfo \<noteq> None
      then RequireNodes (placementNodes dataInfo archiveInfo)
      else if in_Affinity dataInfo \<noteq> None then in_Affinity dataInfo
      else in_Affinity archiveInfo)"

section \<open>Where the data goes\<close>

text \<open>\<open>readConfig\<close> is \<open>rclone.ReadConfigFile\<close>, a file read.\<close>

definition buildRcloneConfig ::
  "(string \<Rightarrow> (string, string) result) \<Rightarrow> BRequest \<Rightarrow> (bucket_error, string) result" where
  "buildRcloneConfig readConfig req =
     (if bq_RcloneConfigFile req \<noteq> [] then map_sum ConfigFileUnread id (readConfig (bq_RcloneConfigFile req))
      else map_sum ConfigFailed id (GenerateConfig
        \<lparr>co_Backend = bq_Backend req, co_Provider = bq_S3Provider req, co_Endpoint = bq_Endpoint req,
         co_Region = bq_Region req, co_AccessKey = bq_AccessKey req, co_SecretKey = bq_SecretKey req,
         co_StorageAccount = bq_StorageAccount req, co_StorageKey = bq_StorageKey req,
         co_GCSServiceAccountJSON = bq_GCSServiceAccountJSON req,
         co_GCSBucketPolicyOnly = bq_GCSBucketPolicyOnly req\<rparr>))"

definition buildRemotePath :: "BRequest \<Rightarrow> (bucket_error, string) result" where
  "buildRemotePath req =
     (if bq_RcloneConfigFile req \<noteq> []
      then (if bq_Remote req = [] then Inl RemoteRequired else Inr (BuildRemotePathRaw (bq_Remote req)))
      else if bq_Bucket req = [] then Inl BucketRequired
      else if bq_Name req = [] then Inl NameRequired
      else case validateBucketSegment (bq_Bucket req) ''bucket'' of Some e \<Rightarrow> Inl e
      | None \<Rightarrow>
      case ValidateName (bq_Name req) of Some e \<Rightarrow> Inl e
      | None \<Rightarrow>
      case ValidatePrefix (bq_Prefix req) of Some e \<Rightarrow> Inl e
      | None \<Rightarrow> Inr (BuildRemotePath (bq_Bucket req) (bq_Prefix req) (bq_Name req)))"

definition resolveBucketArchive ::
  "(string \<Rightarrow> (string, string) result) \<Rightarrow> BRequest \<Rightarrow> Target \<Rightarrow> (bucket_error, string \<times> string) result" where
  "resolveBucketArchive readConfig req target =
     (case buildRcloneConfig readConfig (req\<lparr>bq_Backend := BackendS3\<rparr>) of Inl e \<Rightarrow> Inl e
      | Inr rcloneConf \<Rightarrow>
      case validateBucketSegment (tg_Bucket target) ''bucket'' of Some e \<Rightarrow> Inl e
      | None \<Rightarrow> Inr (rcloneConf, BuildObjectPath (tg_Bucket target) (tg_Path target)))"

definition resolveTarget ::
  "(string \<Rightarrow> (string, string) result) \<Rightarrow> BRequest \<Rightarrow> Target \<Rightarrow> (bucket_error, string \<times> string) result" where
  "resolveTarget readConfig req target =
     (if isArchive req then
        (if InBucket target then resolveBucketArchive readConfig req target
         else map_sum id (\<lambda>archivePath. ([], archivePath)) (archiveFilePath target))
      else case buildRcloneConfig readConfig req of Inl e \<Rightarrow> Inl e
      | Inr rcloneConf \<Rightarrow>
          map_sum id (\<lambda>remotePath. (rcloneConf, remotePath)) (buildRemotePath req))"

definition buildMoverCmd ::
  "BRequest \<Rightarrow> Target \<Rightarrow> string \<Rightarrow> string \<Rightarrow> (bucket_error, string) result" where
  "buildMoverCmd req target localPath remotePath =
     (if isArchive req \<and> InBucket target then
        map_sum StreamCmdFailed id (stream_Build
          \<lparr>st_Direction = archiveDirection req, st_RemotePath = remotePath, st_DataPath = localPath,
           st_ConfigPath = rcloneConfigMountPath, st_Compression = tg_Compression target,
           st_Level = bq_CompressionLevel req, st_ExtraArgs = bq_RcloneExtraArgs req,
           st_Clean = bq_DeleteExtraneousFiles req\<rparr>)
      else if isArchive req then buildArchiveCmd req target localPath
      else map_sum RcloneCmdFailed id (rclone_Build
          \<lparr>rc_Direction = bq_Direction req, rc_RemotePath = remotePath, rc_LocalPath = localPath,
           rc_ConfigPath = rcloneConfigMountPath, rc_ExtraArgs = bq_RcloneExtraArgs req,
           rc_Delete = bq_DeleteExtraneousFiles req\<rparr>))"

section \<open>The metadata sidecar\<close>

definition metadataSuffix :: string where "metadataSuffix = ''.meta.yaml''"

record metadataValues =
  mv_base64 :: string
  mv_remotePath :: string
  mv_localPath :: string

definition metadataValues_zero :: metadataValues where
  "metadataValues_zero = \<lparr>mv_base64 = [], mv_remotePath = [], mv_localPath = []\<rparr>"

record Metadata =
  md_Version :: int
  md_BackupTime :: go_time
  md_SourceNamespace :: string
  md_SourcePVC :: string
  md_Format :: string
  md_Compression :: string

text \<open>\<open>base64.StdEncoding\<close>: six bits a character, padded with \<open>=\<close> to a multiple of four.\<close>

definition base64_alphabet :: string where
  "base64_alphabet = ''ABCDEFGHIJKLMNOPQRSTUVWXYZabcdefghijklmnopqrstuvwxyz0123456789+/''"

definition sextet :: "nat \<Rightarrow> char" where
  "sextet n = base64_alphabet ! (n mod 64)"

fun EncodeToString :: "string \<Rightarrow> string" where
  "EncodeToString [] = []"
| "EncodeToString [a] = [sextet (byte a div 4), sextet (byte a * 16), CHR ''='', CHR ''='']"
| "EncodeToString [a, b] =
     [sextet (byte a div 4), sextet (byte a * 16 + byte b div 16), sextet (byte b * 4), CHR ''='']"
| "EncodeToString (a # b # c # cs) =
     [sextet (byte a div 4), sextet (byte a * 16 + byte b div 16),
      sextet (byte b * 4 + byte c div 64), sextet (byte c)] @ EncodeToString cs"

text \<open>\<open>marshal\<close> is the YAML encoder, \<open>now\<close> the clock in UTC.\<close>

type_synonym yaml = "Metadata \<Rightarrow> (string, string) result"

definition generateMetadataBase64 ::
  "yaml \<Rightarrow> go_time \<Rightarrow> string \<Rightarrow> string \<Rightarrow> string \<Rightarrow> string \<Rightarrow> (bucket_error, string) result" where
  "generateMetadataBase64 marshal now namespace pvcName format compression =
     map_sum MetadataFailed EncodeToString (marshal
       \<lparr>md_Version = 1, md_BackupTime = now, md_SourceNamespace = namespace, md_SourcePVC = pvcName,
        md_Format = format, md_Compression = compression\<rparr>)"

fun cut_first_suffix :: "string list \<Rightarrow> string \<Rightarrow> string option" where
  "cut_first_suffix [] p = None"
| "cut_first_suffix (ext # exts) p =
     (case CutSuffix p ext of Some stem \<Rightarrow> Some stem | None \<Rightarrow> cut_first_suffix exts p)"

definition sidecarPath :: "string \<Rightarrow> string" where
  "sidecarPath archivePath =
     (case cut_first_suffix archiveSuffixes archivePath of
        Some stem \<Rightarrow> stem @ metadataSuffix | None \<Rightarrow> archivePath @ metadataSuffix)"

definition buildMetadata ::
  "yaml \<Rightarrow> go_time \<Rightarrow> BRequest \<Rightarrow> Target \<Rightarrow> string \<Rightarrow> (bucket_error, metadataValues) result" where
  "buildMetadata marshal now req target namespace =
     (if bq_Direction req \<noteq> DirectionBackup then Inr metadataValues_zero
      else if isArchive req then
        (case generateMetadataBase64 marshal now namespace (bq_PVCName req) archiveFormat (tg_Compression target) of
           Inl e \<Rightarrow> Inl e
         | Inr encoded \<Rightarrow>
             if InBucket target then
               (if hasRcloneDryRun (bq_RcloneExtraArgs req) then Inr metadataValues_zero
                else Inr (metadataValues_zero\<lparr>mv_base64 := encoded,
                       mv_remotePath := BuildObjectPath (tg_Bucket target) (sidecarPath (tg_Path target))\<rparr>))
             else map_sum id (\<lambda>archivePath. metadataValues_zero\<lparr>mv_base64 := encoded,
                       mv_localPath := sidecarPath archivePath\<rparr>) (archiveFilePath target))
      else if shouldUploadMetadata req then
        map_sum id (\<lambda>encoded. metadataValues_zero\<lparr>mv_base64 := encoded,
            mv_remotePath := BuildMetadataRemotePath (bq_Bucket req) (bq_Prefix req) (bq_Name req)\<rparr>)
          (generateMetadataBase64 marshal now namespace (bq_PVCName req) [] [])
      else Inr metadataValues_zero)"

section \<open>Chart values\<close>

definition jobSuffix :: "BRequest \<Rightarrow> string" where
  "jobSuffix req = (if isArchive req then ''tar'' else ''rclone'')"

definition bucket_applyNonRootValues :: "hmap \<Rightarrow> hmap" where
  "bucket_applyNonRootValues vals =
     (case as_section (map_of vals ''rclone'') of None \<Rightarrow> vals
      | Some rcloneSection \<Rightarrow>
          AList.update ''rclone''
            (HMap (AList.update ''podSecurityContext'' (HMap [(''fsGroup'', HInt rcloneNonRootUID)])
              (AList.update ''securityContext''
                (HMap [(''runAsNonRoot'', HBool True), (''runAsUser'', HInt rcloneNonRootUID),
                       (''runAsGroup'', HInt rcloneNonRootUID), (''allowPrivilegeEscalation'', HBool False)])
                rcloneSection))) vals)"

definition data_mount :: "string \<Rightarrow> string \<Rightarrow> bool \<Rightarrow> hmap" where
  "data_mount name mountPath readOnly =
     [(''name'', HStr name), (''mountPath'', HStr mountPath), (''readOnly'', HBool readOnly)]"

definition buildHelmValues ::
  "string \<Rightarrow> BRequest \<Rightarrow> Info \<Rightarrow> Info option \<Rightarrow> string \<Rightarrow> string \<Rightarrow> bool \<Rightarrow> metadataValues \<Rightarrow> hmap" where
  "buildHelmValues namespace req pvcInfo archiveInfo rcloneConf cmdStr readOnly meta =
     (let mounts = data_mount (cl_Name (in_Claim pvcInfo)) dataMountPath readOnly #
            (case archiveInfo of None \<Rightarrow> []
             | Some a \<Rightarrow> [data_mount (cl_Name (in_Claim a)) archiveMountPath (\<not> readOnly)]);
          affinity = (case archiveInfo of None \<Rightarrow> in_Affinity pvcInfo | Some a \<Rightarrow> archiveAffinity pvcInfo a);
          rcloneVals =
            [(keyEnabled, HBool True), (keyNamespace, HStr namespace), (''jobSuffix'', HStr (jobSuffix req)),
             (''configMount'', HBool (rcloneConf \<noteq> [])), (''config'', HStr rcloneConf),
             (''command'', HStr cmdStr), (''extraArgs'', HStr []), (''pvcMounts'', HMaps mounts),
             (''affinity'', (case affinity of None \<Rightarrow> HNull | Some m \<Rightarrow> HMap m))]
            @ (if mv_base64 meta \<noteq> []
               then [(''metadataBase64'', HStr (mv_base64 meta)),
                     (''metadataRemotePath'', HStr (mv_remotePath meta)),
                     (''metadataLocalPath'', HStr (mv_localPath meta))] else []);
          vals = [(''rclone'', HMap rcloneVals)]
      in if bq_NonRoot req then bucket_applyNonRootValues vals else vals)"

definition bucket_handleMounted :: "Info \<Rightarrow> bool \<Rightarrow> bool" where
  "bucket_handleMounted i ignoreMounted \<longleftrightarrow> in_MountedNode i = [] \<or> ignoreMounted"

section \<open>What a request may combine\<close>

definition usesSnapshot :: "BRequest \<Rightarrow> bool" where
  "usesSnapshot req \<longleftrightarrow> bq_Snapshot req \<or> bq_FromSnapshot req \<noteq> [] \<or> bq_Flush req \<noteq> []"

definition validateSnapshotRequest :: "BRequest \<Rightarrow> bucket_error option" where
  "validateSnapshotRequest req =
     (if \<not> usesSnapshot req then None
      else if bq_Direction req \<noteq> DirectionBackup then Some SnapshotOnRestore
      else if bq_FromSnapshot req \<noteq> [] \<and> bq_Flush req \<noteq> [] then Some FlushWithFromSnapshot
      else if bq_Flush req \<noteq> []
      then (case flush_Lookup (bq_Flush req) of Inl e \<Rightarrow> Some (BadFlush e) | Inr _ \<Rightarrow> None)
      else None)"

end
