(* ===== verification/BucketFacts.thy ===== *)
theory BucketFacts
  imports BucketTarget
begin

text \<open>
  Facts about backup targets: the paths of a job stay inside the mounts, distinct managed backups
  have distinct places, the dry-run reading agrees with a reference for the flags of rclone, and the
  affinity of a job admits exactly the nodes that can use both claims.
\<close>

section \<open>Paths inside the mounts\<close>

lemma joined_mount:
  assumes "plain_elements [m]" and "\<forall>here. walk here (Split p slash) = here @ es" and "plain_elements es"
  shows "IsAbs (path_Join [''/'' @ m, p])" and "elements (path_Join [''/'' @ m, p]) = m # es"
proof -
  have j: "path_Join [''/'' @ m, p] = Clean ((''/'' @ m) @ ''/'' @ p)" by (simp add: path_Join_def)
  have abs: "IsAbs ((''/'' @ m) @ ''/'' @ p)" by (simp add: IsAbs_def)
  show "IsAbs (path_Join [''/'' @ m, p])" unfolding j Clean_rooted [OF abs] by (simp add: IsAbs_def)
  have "location ((''/'' @ m) @ ''/'' @ p) = m # es"
    unfolding location_append using location_single [OF assms(1)] assms(2) by simp
  then show "elements (path_Join [''/'' @ m, p]) = m # es"
    unfolding j elements_Clean_rooted [OF abs] .
qed

lemma elements_mount: "plain_elements [m] \<Longrightarrow> elements (''/'' @ m) = [m]"
  using elements_rooted_Join [of "[m]"] by simp

lemma plain_mount_names: "plain_elements [''data'']" "plain_elements [''archive'']"
  by simp_all

lemma local_path_elements:
  assumes "local_path p = Inr q"
  obtains es where "elements q = ''data'' # es" "plain_elements es" "IsAbs q"
    "\<forall>here. walk here (Split p slash) = here @ es"
proof (cases "p = []")
  case True
  then show thesis
    using assms that [of "[]"] elements_mount [OF plain_mount_names(1)]
    by (auto simp: local_path_def dataMountPath_def IsAbs_def)
next
  case False
  then have q: "q = path_Join [''/'' @ ''data'', p]" and ok: "validateSubpath p = None"
    using assms by (auto simp: local_path_def dataMountPath_def split: option.splits)
  from ok have "\<not> IsAbs p" "Clean p \<noteq> ''..''" "\<not> HasPrefix (Clean p) ''../''"
    by (auto simp: validateSubpath_def split: if_splits)
  from Clean_relative_inside [OF this] obtain es where es: "plain_elements es"
    "\<forall>here. walk here (Split p slash) = here @ es" by blast
  from joined_mount [OF plain_mount_names(1) this(2,1)] es show thesis
    using that unfolding q [symmetric] by blast
qed

interpretation data_mount_path: mount_resolver local_path dataMountPath
proof
  fix s p
  assume "local_path s = Inr p"
  then obtain es where es: "elements p = ''data'' # es" "plain_elements es" "IsAbs p"
    by (rule local_path_elements)
  then show "IsAbs p" "plain_elements (elements p)" "under dataMountPath p"
    using elements_mount [OF plain_mount_names(1)] by (auto simp: under_def dataMountPath_def)
qed

text \<open>A path on the archive claim; a second leading slash makes the cleaned path absolute.\<close>

lemma cleaned_walk:
  assumes "Clean p \<noteq> ''..''" and "\<not> HasPrefix (Clean p) ''../''"
  obtains es where "plain_elements es" "\<forall>here. walk here (Split (Clean p) slash) = here @ es"
    "IsAbs p \<or> Clean p = (if es = [] then ''.'' else Join es ''/'')"
proof (cases "IsAbs p")
  case True
  have "walk here (Split (Clean p) slash) = here @ location p" for here
    using walk_elements [of here "Split (Clean p) slash"] elements_Clean_rooted [OF True]
      walk_plain [OF plain_elements_location, of here p] by (simp add: elements_def)
  with True show thesis using that [of "location p"] by (simp add: plain_elements_location)
next
  case False
  from Clean_relative_inside [OF this assms] obtain es where es: "plain_elements es"
    "Clean p = (if es = [] then ''.'' else Join es ''/'')" by blast
  have "walk here (Split (Clean p) slash) = here @ es" for here
  proof (cases "es = []")
    case True
    then show ?thesis using es by (simp add: Split_single)
  next
    case False
    then have "Split (Join es ''/'') slash = es"
      using es(1) by (intro Split_Join) (auto simp: plain_elements_def)
    with False es walk_plain [OF es(1)] show ?thesis by simp
  qed
  with es show thesis by (intro that) auto
qed

definition claim_path :: "string \<Rightarrow> (bucket_error, string) result" where
  "claim_path p = archiveFilePath (Target_zero\<lparr>tg_Claim := ''claim'', tg_Path := p\<rparr>)"

lemma archiveFilePath_claim: "InCluster t \<Longrightarrow> archiveFilePath t = claim_path (tg_Path t)"
  by (simp add: claim_path_def archiveFilePath_def InCluster_def Let_def)

lemma claim_path_elements:
  assumes "claim_path p = Inr q"
  obtains es where "elements q = ''archive'' # es" "plain_elements es" "IsAbs q"
    "IsAbs (TrimPrefix p ''/'') \<or> es \<noteq> []"
proof -
  let ?p = "TrimPrefix p ''/''"
  from assms have c: "Clean ?p \<noteq> ''..''" "\<not> HasPrefix (Clean ?p) ''../''" "Clean ?p \<noteq> ''.''"
    and q: "q = path_Join [''/'' @ ''archive'', Clean ?p]"
    by (auto simp: claim_path_def archiveFilePath_def InCluster_def archiveMountPath_def Let_def split: if_splits)
  from cleaned_walk [OF c(1,2)] obtain es where es: "plain_elements es"
    "\<forall>here. walk here (Split (Clean ?p) slash) = here @ es"
    "IsAbs ?p \<or> Clean ?p = (if es = [] then ''.'' else Join es ''/'')" by metis
  from joined_mount [OF plain_mount_names(2) es(2,1)] es(1,3) c(3) show thesis
    using that unfolding q [symmetric] by (metis (full_types))
qed

interpretation archive_mount: mount_resolver claim_path archiveMountPath
proof
  fix s p
  assume "claim_path s = Inr p"
  then obtain es where es: "elements p = ''archive'' # es" "plain_elements es" "IsAbs p"
    by (rule claim_path_elements)
  then show "IsAbs p" "plain_elements (elements p)" "under archiveMountPath p"
    using elements_mount [OF plain_mount_names(2)] by (auto simp: under_def archiveMountPath_def)
qed

text \<open>
  C10: the paths of a backup or restore job stay inside the job's mounts. The data path lies under
  \<open>/data\<close> and so does \<open>lost+found\<close> beneath it, the archive on a claim lies under \<open>/archive\<close>, however many
  \<open>..\<close> the request holds; and a data path that is accepted names what the request asked for, followed
  element by element from the volume's root.
\<close>

theorem job_paths_confined:
  assumes "local_path p = Inr q" and "InCluster t" and "archiveFilePath t = Inr a"
  shows "under dataMountPath q \<and> location q = walk [''data''] (Split p slash) \<and>
         under archiveMountPath a \<and> under dataMountPath (path_Join [q, ''lost+found''])"
proof -
  from assms(1) obtain es where es: "elements q = ''data'' # es" "plain_elements es" "IsAbs q"
    "\<forall>here. walk here (Split p slash) = here @ es" by (rule local_path_elements)
  have "location q = ''data'' # es" using data_mount_path.location_resolved [OF assms(1)] es(1) by simp
  then have "location q = walk [''data''] (Split p slash)" using es(4) by simp
  moreover have "plain_elements [''lost+found'']" by simp
  from data_mount_path.joined_under [OF assms(1) this]
  have "under dataMountPath (path_Join [q, ''lost+found''])" .
  ultimately show ?thesis
    using data_mount_path.resolved_under [OF assms(1)] archive_mount.resolved_under [of "tg_Path t" a]
      assms(3) archiveFilePath_claim [OF assms(2)] by simp
qed

lemma job_paths_confined_witness:
  "under dataMountPath ''/data/db'' \<and> location ''/data/db'' = walk [''data''] (Split ''x/../db'' slash) \<and>
   under archiveMountPath ''/archive/b.tar'' \<and> under dataMountPath (path_Join [''/data/db'', ''lost+found''])"
  by (rule job_paths_confined [of _ _ "\<lparr>tg_Claim = ''c'', tg_Bucket = [], tg_Path = ''/a/../b.tar'', tg_Compression = []\<rparr>"])
    (simp_all add: local_path_def validateSubpath_def archiveFilePath_def InCluster_def IsAbs_def Clean_def
      path_Join_def clean_step_def dataMountPath_def archiveMountPath_def TrimPrefix_def Let_def)

section \<open>Places in a bucket\<close>

lemma safe_segment_chars: "safeBucketSegment s \<Longrightarrow> s \<noteq> [] \<and> slash \<notin> set s"
  by (cases s) (auto simp: safeBucketSegment_def is_alnum_def segment_char_def list_all_iff
      is_digit_def is_lower_def is_upper_def byte_def)

lemma validatePrefix_no_empty:
  "validatePrefix pre = None \<Longrightarrow> pre \<noteq> [] \<Longrightarrow> list_all safeBucketSegment (Split pre slash)"
proof -
  assume a: "validatePrefix pre = None" "pre \<noteq> []"
  have "check_segments pre ss = None \<Longrightarrow> list_all safeBucketSegment ss" for ss
    by (induction ss) (auto simp: validateBucketSegment_def split: if_splits option.splits)
  with a show ?thesis by (simp add: validatePrefix_def)
qed

lemma remote_path_Split:
  assumes "buildRemotePath req = Inr p" and "bq_RcloneConfigFile req = []"
  shows "Split p slash = (''remote:'' @ bq_Bucket req) #
     (if bq_Prefix req = [] then [] else Split (bq_Prefix req) slash) @ [bq_Name req, []]"
    and "safeBucketSegment (bq_Bucket req)" and "safeBucketSegment (bq_Name req)"
proof -
  from assms show b: "safeBucketSegment (bq_Bucket req)" and n: "safeBucketSegment (bq_Name req)"
    by (auto simp: buildRemotePath_def validateBucketSegment_def ValidateName_def split: if_splits option.splits)
  have p: "p = BuildRemotePath (bq_Bucket req) (bq_Prefix req) (bq_Name req)"
    using assms by (auto simp: buildRemotePath_def split: if_splits option.splits)
  have sb: "Split (''remote:'' @ bq_Bucket req) slash = [''remote:'' @ bq_Bucket req]"
    using safe_segment_chars [OF b] by (intro Split_single) auto
  have sn: "Split (bq_Name req) slash = [bq_Name req]"
    using safe_segment_chars [OF n] by (intro Split_single) auto
  show "Split p slash = (''remote:'' @ bq_Bucket req) #
     (if bq_Prefix req = [] then [] else Split (bq_Prefix req) slash) @ [bq_Name req, []]"
  proof (cases "bq_Prefix req = []")
    case True
    then have "p = (''remote:'' @ bq_Bucket req) @ slash # bq_Name req @ slash # []"
      by (simp add: p BuildRemotePath_def remoteName_def)
    then show ?thesis using True by (simp only: Split_append_sep sb sn) simp
  next
    case False
    then have "p = (''remote:'' @ bq_Bucket req) @ slash # bq_Prefix req @ slash # bq_Name req @ slash # []"
      by (simp add: p BuildRemotePath_def remoteName_def)
    then show ?thesis using False by (simp only: Split_append_sep sb sn) simp
  qed
qed

text \<open>
  C39: two managed backups have the same place in the storage only if they agree in bucket, prefix and
  name: no choice of prefix and name arrives at another backup's place by way of slashes or dots. (One
  place may still lie below another: prefix \<open>a/b\<close> and name \<open>c\<close> below prefix \<open>a\<close> and name \<open>b\<close>.)
\<close>

theorem buildRemotePath_inject:
  assumes "buildRemotePath r = Inr p" and "buildRemotePath s = Inr p"
    and "bq_RcloneConfigFile r = []" and "bq_RcloneConfigFile s = []"
  shows "bq_Bucket r = bq_Bucket s \<and> bq_Prefix r = bq_Prefix s \<and> bq_Name r = bq_Name s"
proof -
  note r = remote_path_Split [OF assms(1,3)] and s = remote_path_Split [OF assms(2,4)]
  let ?pre = "\<lambda>q. if bq_Prefix q = [] then [] else Split (bq_Prefix q) slash"
  have snoc: "x # xs @ [a, b] = y # ys @ [c, d] \<Longrightarrow> x = y \<and> xs = ys \<and> a = c"
    for x y a b c d :: string and xs ys by simp
  note e0 = snoc [OF trans [OF r(1) [symmetric] s(1)]]
  from e0 have b: "''remote:'' @ bq_Bucket r = ''remote:'' @ bq_Bucket s" by (rule conjunct1)
  from e0 [THEN conjunct2] have e: "?pre r = ?pre s" by (rule conjunct1)
  from e0 [THEN conjunct2] have n: "bq_Name r = bq_Name s" by (rule conjunct2)
  have j: "Join (?pre q) ''/'' = bq_Prefix q" for q by (simp add: Join_Split)
  from arg_cong [OF e, of "\<lambda>x. Join x ''/''"] have "bq_Prefix r = bq_Prefix s" unfolding j .
  with b n show ?thesis by simp
qed

definition brequest_example :: BRequest where
  "brequest_example =
     \<lparr>bq_ID = ''id'', bq_ImageTag = [], bq_ChartVersion = [], bq_Direction = DirectionBackup,
      bq_KubeconfigPath = [], bq_Context = [], bq_Namespace = ''ns'',
      bq_PVCName = ''data'', bq_IgnoreMounted = False, bq_NonRoot = False, bq_Detach = False,
      bq_NoCleanup = False, bq_NoCleanupOnFailure = False, bq_DeleteExtraneousFiles = False,
      bq_Backend = BackendS3, bq_Bucket = ''b'', bq_S3Provider = [], bq_Endpoint = [], bq_Region = [],
      bq_AccessKey = ''k'', bq_SecretKey = ''s'', bq_StorageAccount = [], bq_StorageKey = [],
      bq_GCSServiceAccountJSON = [], bq_GCSBucketPolicyOnly = None, bq_Name = ''db'',
      bq_Prefix = ''a/b'', bq_Path = [], bq_RcloneConfigFile = [], bq_Remote = [], bq_RcloneExtraArgs = [],
      bq_ArchiveFile = [], bq_CompressionLevel = 0, bq_Snapshot = False, bq_FromSnapshot = [],
      bq_SnapshotClass = [], bq_KeepSnapshot = False, bq_Flush = [], bq_FlushContainer = [],
      bq_FlushCommand = [], bq_FlushUser = [], bq_FlushPassword = [], bq_FlushPasswordSecret = [],
      bq_HelmTimeout = 0, bq_HelmValuesFiles = [], bq_HelmValues = [], bq_HelmFileValues = [], bq_HelmStringValues = [],
      bq_StructuredLogs = False, bq_ColorOutput = False\<rparr>"

lemma buildRemotePath_inject_witness:
  "\<exists>p. buildRemotePath brequest_example = Inr p \<and>
     bq_Name brequest_example = bq_Name (brequest_example\<lparr>bq_ID := ''other''\<rparr>)"
proof -
  obtain p where "buildRemotePath brequest_example = Inr p"
    and "buildRemotePath (brequest_example\<lparr>bq_ID := ''other''\<rparr>) = Inr p"
    by (simp add: buildRemotePath_def brequest_example_def validateBucketSegment_def ValidateName_def
        ValidatePrefix_def validatePrefix_def safeBucketSegment_def is_alnum_def is_lower_def segment_char_def byte_def)
  with buildRemotePath_inject [of brequest_example p "brequest_example\<lparr>bq_ID := ''other''\<rparr>"]
  show ?thesis by (simp add: brequest_example_def)
qed

section \<open>Dry runs\<close>

text \<open>
  A reference for what rclone's flag parser makes of the arguments: every occurrence of the dry-run
  flag is an assignment, in order, and the last one counts. A bundle of short flags assigns to each
  of its letters, and a value given with \<open>=\<close> belongs to its last letter; a value that is not a boolean
  assigns nothing.
\<close>

definition flag_value :: "string option \<Rightarrow> bool list" where
  "flag_value v = (case v of None \<Rightarrow> [True] | Some s \<Rightarrow> (case ParseBool s of Some b \<Rightarrow> [b] | None \<Rightarrow> []))"

fun bundle_assignments :: "string \<Rightarrow> string option \<Rightarrow> bool list" where
  "bundle_assignments [] v = []"
| "bundle_assignments [l] v = (if l = CHR ''n'' then flag_value v else [])"
| "bundle_assignments (l # m # ls) v =
     (if l = CHR ''n'' then [True] else []) @ bundle_assignments (m # ls) v"

definition dry_run_assignments :: "string \<Rightarrow> bool list" where
  "dry_run_assignments arg =
     (let (name, value) = (case Cut arg ''='' of Some (n, v) \<Rightarrow> (n, Some v) | None \<Rightarrow> (arg, None))
      in if name = ''--dry-run'' then flag_value value
         else if shortFlagCluster name then bundle_assignments (tl name) value else [])"

definition last_or :: "'a \<Rightarrow> 'a list \<Rightarrow> 'a" where
  "last_or d xs = (if xs = [] then d else last xs)"

lemma last_or_append [simp]: "last_or d (xs @ ys) = last_or (last_or d xs) ys"
  by (simp add: last_or_def)

lemma last_or_simps [simp]: "last_or d [] = d" "last_or d [x] = x"
  by (simp_all add: last_or_def)

lemma setFromBool_last: "setFromBool d v = last_or d (flag_value (Some v))"
  by (simp add: setFromBool_def flag_value_def split: option.splits)

lemma apply_letters_last: "apply_letters d ls v = last_or d (bundle_assignments ls (Some v))"
proof (induction ls arbitrary: d)
  case (Cons l ls)
  then show ?case by (cases ls) (auto simp: setFromBool_last)
qed simp

lemma bare_bundle_last: "last_or d (bundle_assignments ls None) = (d \<or> CHR ''n'' \<in> set ls)"
proof (induction ls arbitrary: d)
  case (Cons l ls)
  then show ?case by (cases ls) (auto simp: flag_value_def)
qed simp

lemma shortFlagCluster_shape: "shortFlagCluster s \<Longrightarrow> s = CHR ''-'' # tl s \<and> CHR ''-'' \<notin> set (tl s)"
  by (cases s) (auto simp: shortFlagCluster_def list_all_iff is_lower_def is_upper_def byte_def)

lemma dry_run_step_last: "dry_run_step arg d = last_or d (dry_run_assignments arg)"
proof (cases "Cut arg ''=''")
  case None
  have "\<not> shortFlagCluster ''--dry-run''" by (simp add: shortFlagCluster_def is_lower_def is_upper_def byte_def)
  moreover have "CHR ''n'' \<in> set arg \<longleftrightarrow> CHR ''n'' \<in> set (tl arg)" if "shortFlagCluster arg"
    using shortFlagCluster_shape [OF that] by (cases arg) auto
  ultimately show ?thesis using None
    by (cases "arg = ''--dry-run''"; cases "shortFlagCluster arg")
      (simp_all add: dry_run_step_def dry_run_assignments_def bare_bundle_last flag_value_def)
next
  case (Some nv)
  obtain n v where nv: "nv = (n, v)" by (cases nv)
  have "TrimPrefix n ''-'' = tl n" if "shortFlagCluster n"
    using shortFlagCluster_shape [OF that] by (cases n) (auto simp: TrimPrefix_def)
  with Some nv show ?thesis
    by (simp add: dry_run_step_def dry_run_assignments_def applyAssignedFlag_def setFromBool_last apply_letters_last)
qed

text \<open>
  Reading the extra arguments one by one agrees with the reference: the run is dry exactly when
  the last assignment to the flag, across bundles, repetitions and explicit values, is true.
\<close>

theorem hasRcloneDryRun_last:
  "hasRcloneDryRun args = last_or False (concat (map dry_run_assignments (Fields args)))"
proof -
  have "fold dry_run_step fs d = last_or d (concat (map dry_run_assignments fs))" for fs d
    by (induction fs arbitrary: d) (simp_all add: dry_run_step_last)
  then show ?thesis by (simp add: hasRcloneDryRun_def)
qed

section \<open>Sidecars and placement\<close>

text \<open>Archives of one stem and different extensions have one sidecar between them.\<close>

lemma sidecar_shared: "sidecarPath ''db.tar.gz'' = sidecarPath ''db.tar.zst''"
  by (simp add: sidecarPath_def archiveSuffixes_def CutSuffix_def suffix_def)

text \<open>
  A sidecar is written by backups only, by none that is a dry run, and to one place at most.
\<close>

theorem buildMetadata_places:
  assumes "buildMetadata marshal now req target ns = Inr meta" and "mv_base64 meta \<noteq> []"
  shows "bq_Direction req = DirectionBackup \<and>
    (mv_remotePath meta = [] \<or> mv_localPath meta = []) \<and>
    (mv_remotePath meta \<noteq> [] \<longrightarrow> \<not> hasRcloneDryRun (bq_RcloneExtraArgs req))"
  using assms
  by (auto simp: buildMetadata_def metadataValues_zero_def shouldUploadMetadata_def map_sum_Inr_iff
      split: if_splits sum.splits)

lemma checkSchedulable_iff:
  "checkSchedulable d a = None \<longleftrightarrow>
     (\<exists>node. allows (in_PinnedNodes d) node \<and> allows (in_PinnedNodes a) node)"
proof -
  have "(\<exists>node. allows c node) \<longleftrightarrow> c \<noteq> Some []" for c
    by (cases c) (auto intro: list.set_sel(1))
  then show ?thesis unfolding allows_Intersect [symmetric] by (simp add: checkSchedulable_def placementNodes_def)
qed

lemma buildMetadata_places_witness:
  "\<exists>meta. buildMetadata (\<lambda>_. Inr ''v: 1'') (go_time.make 2024 5 6 7 8 9) brequest_example Target_zero ''ns'' = Inr meta \<and>
     mv_localPath meta = []"
proof -
  obtain meta where m: "buildMetadata (\<lambda>_. Inr ''v: 1'') (go_time.make 2024 5 6 7 8 9) brequest_example Target_zero ''ns'' = Inr meta"
    and "mv_base64 meta \<noteq> []" "mv_remotePath meta \<noteq> []"
    by (simp add: buildMetadata_def brequest_example_def isArchive_def shouldUploadMetadata_def
        hasRcloneDryRun_def Fields_def fields_from.simps generateMetadataBase64_def metadataValues_zero_def
        BuildMetadataRemotePath_def)
  with buildMetadata_places [OF m] show ?thesis by auto
qed

text \<open>
  C30: a job that mounts two claims, each as its lookup described it, is given an affinity that admits
  exactly the nodes both claims can be used on, and the request is refused beforehand exactly when
  there is no such node.
\<close>

theorem archiveAffinity_exact:
  assumes "newInfo api c ns n1 r1 = Inr d" and "newInfo api' c' ns' n2 r2 = Inr a"
  shows "(affinity_admits (archiveAffinity d a) node \<longleftrightarrow>
            allows (in_PinnedNodes d) node \<and> allows (in_PinnedNodes a) node) \<and>
         (checkSchedulable d a = None \<longleftrightarrow>
            (\<exists>node. allows (in_PinnedNodes d) node \<and> allows (in_PinnedNodes a) node))"
proof -
  have aff: "affinity_admits (in_Affinity i) node \<longleftrightarrow> allows (in_PinnedNodes i) node"
    if "newInfo api c ns n r = Inr i" for i n r ns c and api :: "'z kube_api"
    using that by (auto simp: newInfo_def affinity_admits_build split: sum.splits prod.splits if_splits)
  have pin: "in_PinnedNodes d = None \<and> in_PinnedNodes a = None" if "placementNodes d a = None"
    using that by (auto simp: placementNodes_def IntersectNodes_def split: option.splits)
  show ?thesis
  proof (cases "placementNodes d a = None")
    case True
    then show ?thesis using aff [OF assms(1)] aff [OF assms(2)] pin by (simp add: archiveAffinity_def checkSchedulable_iff)
  next
    case False
    then show ?thesis
      by (simp add: archiveAffinity_def affinity_admits_RequireNodes placementNodes_def allows_Intersect
          checkSchedulable_iff)
  qed
qed

lemma archiveAffinity_exact_witness:
  "\<exists>i. newInfo pvc_api_example \<lparr>cc_Host = ''h'', cc_NsInContext = ''d''\<rparr> ''ns'' ''data'' True = Inr i \<and>
     affinity_admits (archiveAffinity i i) ''n2'' \<and> \<not> affinity_admits (archiveAffinity i i) ''n1''"
proof -
  obtain i where i: "newInfo pvc_api_example \<lparr>cc_Host = ''h'', cc_NsInContext = ''d''\<rparr> ''ns'' ''data'' True = Inr i"
    and f: "in_PinnedNodes i = Some [''n2'']"
    by (simp add: newInfo_def pvc_api_example_def readAccessModes_eq findMountedPod_def
        pvc_resolveTopology_def AllowedNodesFor_def volumeNodeSelector_def ReadWriteOnce_def
        ReadOnlyMany_def ReadWriteMany_def ReadWriteOncePod_def IntersectNodes_def)
  from archiveAffinity_exact [OF i i] i f show ?thesis by simp
qed

end
