(* ===== verification/Snapshot.thy ===== *)
theory Snapshot
  imports BucketFacts
begin

text \<open>
  The requests a backup makes to the cluster, and packages \<open>internal/snapshot\<close> and
  \<open>internal/flush\<close>'s sessions on top of them (\<open>snapshot.go\<close>, \<open>session.go\<close>). A run transforms the
  trace of the requests made so far; the environment answers each request from that trace. A poll
  reads the cluster at most once per interval of its timeout, so its loop is bounded by their
  quotient; the environment may end it earlier, by its deadline or by a cancelled context.
\<close>

section \<open>Requests and answers\<close>

type_synonym labels = "(string \<times> string) list"

datatype bevent =
    GetClass string
  | Discover
  | CreateSnapshot string string string string labels bool
  | GetSnapshot string string
  | GetContent string
  | PollWait
  | CreateClone string string string "quantity option" labels bool
  | DeleteSnapshot string string
  | DeleteClaim string string
  | ListClaims string string
  | ListSnapshots string string
  | LookupClaim string string
  | GetSecret string string
  | OpenSession string string string "string list" bool
  | SessionSend string
  | SessionSecret string
  | SessionPoll
  | SessionClose
  | InitRelease
  | CheckNetworkPolicy string
  | InstallRelease string hmap bool
  | UninstallRelease string
  | WaitJobStart string
  | WaitJob string
  | ReportFailure string

record snapshot_status =
  ss_error :: "string option"
  ss_contentName :: string
  ss_ready :: bool

datatype poll_answer = PollTick | PollDeadline | PollCancelled
datatype session_answer = SessionTick | SessionDeadline | SessionCancelled | SessionEnded string

record benv =
  be_GetClass :: "bevent list \<Rightarrow> string \<Rightarrow> api_error option"
  be_Discover :: "bevent list \<Rightarrow> (string, (string \<times> string list) list) result"
  be_CreateSnapshot :: "bevent list \<Rightarrow> string \<Rightarrow> api_error option"
  be_GetSnapshot :: "bevent list \<Rightarrow> string \<Rightarrow> (api_error, snapshot_status) result"
  be_GetContent :: "bevent list \<Rightarrow> string \<Rightarrow> (api_error, string) result"
  be_Poll :: "bevent list \<Rightarrow> poll_answer"
  be_CreateClone :: "bevent list \<Rightarrow> string \<Rightarrow> api_error option"
  be_DeleteSnapshot :: "bevent list \<Rightarrow> string \<Rightarrow> api_error option"
  be_DeleteClaim :: "bevent list \<Rightarrow> string \<Rightarrow> api_error option"
  be_ListClaims :: "bevent list \<Rightarrow> (api_error, string list) result"
  be_ListSnapshots :: "bevent list \<Rightarrow> (api_error, string list) result"
  be_Lookup :: "bevent list \<Rightarrow> string \<Rightarrow> string \<Rightarrow> bool \<Rightarrow> (pvc_error, Info) result"
  be_GetSecret :: "bevent list \<Rightarrow> string \<Rightarrow> (api_error, (string \<times> string) list) result"
  be_Open :: "bevent list \<Rightarrow> string list \<Rightarrow> string option"
  be_Send :: "bevent list \<Rightarrow> string option"
  be_Output :: "bevent list \<Rightarrow> string"
  be_Session :: "bevent list \<Rightarrow> session_answer"
  be_Close :: "bevent list \<Rightarrow> string option"
  be_InitHelm :: "bevent list \<Rightarrow> string option"
  be_CanCreate :: "bevent list \<Rightarrow> string \<Rightarrow> (string, bool) result"
  be_MergeValues :: "string list \<Rightarrow> BRequest \<Rightarrow> hmap \<Rightarrow> (string, hmap) result"
  be_Install :: "bevent list \<Rightarrow> string \<Rightarrow> string option"
  be_Uninstall :: "bevent list \<Rightarrow> string \<Rightarrow> string option"
  be_JobStart :: "bevent list \<Rightarrow> string \<Rightarrow> string option"
  be_Job :: "bevent list \<Rightarrow> string \<Rightarrow> string option"

datatype run_error =
    BadRequest bucket_error
  | ClassUnread string api_error
  | NotInstalled
  | NoSuchClass string
  | CreateFailed string api_error
  | SnapshotUnread string api_error
  | ContentUnread string api_error
  | TimedOut string string
  | Cancelled
  | CloneFailed string api_error
  | DeleteFailed string api_error
  | ListFailed api_error
  | ClaimFailed pvc_error
  | SessionOpenFailed string
  | SessionSendFailed string string
  | SessionSecretFailed
  | MarkerTimedOut string string
  | SessionDied string string
  | CloseFailed string
  | LockUnconfirmed string string run_error
  | CannotIdentify string run_error
  | FlushError string flush_error
  | UnknownMode
  | CommandFailed string run_error string
  | LockRefused string string
  | ReleaseFailed string run_error string
  | StillLocked string string
  | UnlockUnclean string run_error
  | NoDatabasePod string string
  | PairTakesNoCommand string
  | PasswordTwice
  | UnusedCredentials string
  | BadSecretRef string
  | SecretUnread string api_error
  | SecretKeyMissing string string "string list"
  | MountedClaim string string
  | HelmInit string
  | HelmMerge string
  | HelmInstall string
  | HelmUninstall string string
  | JobNotStarted string
  | JobError string

section \<open>Runs\<close>

type_synonym 'a brun = "bevent list \<Rightarrow> (run_error, 'a) result \<times> bevent list"

definition bret :: "'a \<Rightarrow> 'a brun" where "bret x tr = (Inr x, tr)"
definition bfail :: "run_error \<Rightarrow> 'a brun" where "bfail e tr = (Inl e, tr)"

definition bbind :: "'a brun \<Rightarrow> ('a \<Rightarrow> 'b brun) \<Rightarrow> 'b brun" where
  "bbind m f tr = (case m tr of (Inl e, tr') \<Rightarrow> (Inl e, tr') | (Inr x, tr') \<Rightarrow> f x tr')"

text \<open>A request: answered on the trace so far, then recorded, with its outcome where that matters.\<close>

definition bask :: "('a \<Rightarrow> bevent) \<Rightarrow> (bevent list \<Rightarrow> 'a) \<Rightarrow> 'a brun" where
  "bask ev f tr = (Inr (f tr), tr @ [ev (f tr)])"

definition bguard :: "('e \<Rightarrow> run_error) \<Rightarrow> 'e option \<Rightarrow> unit brun" where
  "bguard wrap e = (case e of Some x \<Rightarrow> bfail (wrap x) | None \<Rightarrow> bret ())"

definition blift :: "('e \<Rightarrow> run_error) \<Rightarrow> ('e, 'a) result \<Rightarrow> 'a brun" where
  "blift wrap r = (case r of Inl e \<Rightarrow> bfail (wrap e) | Inr x \<Rightarrow> bret x)"

text \<open>Running something for its effect, the error dropped.\<close>

definition effect :: "'a brun \<Rightarrow> bevent list \<Rightarrow> bevent list" where
  "effect m tr = snd (m tr)"

lemmas run_defs = bret_def bfail_def bbind_def bask_def bguard_def blift_def effect_def

section \<open>The snapshot client\<close>

definition group :: string where "group = ''snapshot.storage.k8s.io''"
definition version1 :: string where "version1 = ''v1''"

text \<open>Durations in milliseconds.\<close>

definition pollInterval :: nat where "pollInterval = 2000"
definition cutTimeout :: nat where "cutTimeout = 300000"
definition readyTimeout :: nat where "readyTimeout = 1800000"

definition apiInstalled :: "benv \<Rightarrow> bool brun" where
  "apiInstalled env =
     bbind (bask (\<lambda>_. Discover) (be_Discover env)) (\<lambda>answer.
       bret (case answer of Inl _ \<Rightarrow> True
             | Inr groups \<Rightarrow> list_ex (\<lambda>(name, versions). name = group \<and> version1 \<in> set versions) groups))"

definition CheckClass :: "benv \<Rightarrow> string \<Rightarrow> unit brun" where
  "CheckClass env className =
     (if className = [] then bret ()
      else bbind (bask (\<lambda>_. GetClass className) (\<lambda>tr. be_GetClass env tr className)) (\<lambda>answer.
        case answer of None \<Rightarrow> bret ()
        | Some e \<Rightarrow>
            if e \<noteq> NotFound then bfail (ClassUnread className e)
            else bbind (apiInstalled env) (\<lambda>installed.
              bfail (if installed then NoSuchClass className else NotInstalled))))"

definition snapshot_Create ::
  "benv \<Rightarrow> string \<Rightarrow> string \<Rightarrow> string \<Rightarrow> string \<Rightarrow> labels \<Rightarrow> unit brun" where
  "snapshot_Create env ns claimName className snapshotName labels =
     bbind (bask (\<lambda>answer. CreateSnapshot ns claimName className snapshotName labels (answer = None))
              (\<lambda>tr. be_CreateSnapshot env tr snapshotName)) (\<lambda>answer.
       case answer of None \<Rightarrow> bret ()
       | Some e \<Rightarrow>
           if e = NotFound
           then bbind (apiInstalled env) (\<lambda>installed.
                  bfail (if installed then CreateFailed snapshotName e else NotInstalled))
           else bfail (CreateFailed snapshotName e))"

text \<open>\<open>noteError\<close>: the last error the controller reported, kept for the timeout message.\<close>

definition noteError :: "snapshot_status \<Rightarrow> string \<Rightarrow> string" where
  "noteError st lastError = (case ss_error st of Some message \<Rightarrow> message | None \<Rightarrow> lastError)"

text \<open>
  \<open>wait.PollUntilContextTimeout\<close> as \<open>poll\<close> uses it: the condition at once and then after every
  interval, until it holds, fails, or the context ends. The condition is not evaluated once the
  deadline has passed, so the budget is the intervals that end strictly before it; the wait after the
  last of them ends at the deadline, or earlier if the caller cancels.
\<close>

fun poll_loop ::
  "benv \<Rightarrow> nat \<Rightarrow> (string \<Rightarrow> (bool \<times> string) brun) \<Rightarrow> string \<Rightarrow> string \<Rightarrow> unit brun" where
  "poll_loop env fuel condition what lastError =
     bbind (condition lastError) (\<lambda>(finished, lastError).
       if finished then bret ()
       else bbind (bask (\<lambda>_. PollWait) (be_Poll env)) (\<lambda>answer.
         case answer of PollDeadline \<Rightarrow> bfail (TimedOut what lastError)
         | PollCancelled \<Rightarrow> bfail Cancelled
         | PollTick \<Rightarrow>
             (case fuel of 0 \<Rightarrow> bfail (TimedOut what lastError)
              | Suc fuel \<Rightarrow> poll_loop env fuel condition what lastError)))"

declare poll_loop.simps [simp del]

definition poll ::
  "benv \<Rightarrow> nat \<Rightarrow> (string \<Rightarrow> (bool \<times> string) brun) \<Rightarrow> string \<Rightarrow> unit brun" where
  "poll env timeout condition what = poll_loop env ((timeout - 1) div pollInterval) condition what []"

definition get_snapshot :: "benv \<Rightarrow> string \<Rightarrow> string \<Rightarrow> snapshot_status brun" where
  "get_snapshot env ns snapshotName =
     bbind (bask (\<lambda>_. GetSnapshot ns snapshotName) (\<lambda>tr. be_GetSnapshot env tr snapshotName))
       (blift (SnapshotUnread snapshotName))"

definition boundContentName :: "benv \<Rightarrow> string \<Rightarrow> string \<Rightarrow> string \<Rightarrow> (string \<times> string) brun" where
  "boundContentName env ns snapshotName lastError =
     bbind (get_snapshot env ns snapshotName) (\<lambda>st. bret (ss_contentName st, noteError st lastError))"

definition cut_condition :: "benv \<Rightarrow> string \<Rightarrow> string \<Rightarrow> string \<Rightarrow> (bool \<times> string) brun" where
  "cut_condition env ns snapshotName lastError =
     bbind (boundContentName env ns snapshotName lastError) (\<lambda>(contentName, lastError).
       if contentName = [] then bret (False, lastError)
       else bbind (bask (\<lambda>_. GetContent contentName) (\<lambda>tr. be_GetContent env tr contentName)) (\<lambda>answer.
         bbind (blift (ContentUnread contentName) answer) (\<lambda>handle. bret (handle \<noteq> [], lastError))))"

definition WaitForCut :: "benv \<Rightarrow> string \<Rightarrow> string \<Rightarrow> nat \<Rightarrow> unit brun" where
  "WaitForCut env ns snapshotName timeout =
     poll env timeout (cut_condition env ns snapshotName) ''the snapshot to be cut''"

definition ready_condition :: "benv \<Rightarrow> string \<Rightarrow> string \<Rightarrow> string \<Rightarrow> (bool \<times> string) brun" where
  "ready_condition env ns snapshotName lastError =
     bbind (get_snapshot env ns snapshotName) (\<lambda>st. bret (ss_ready st, noteError st lastError))"

definition WaitReady :: "benv \<Rightarrow> string \<Rightarrow> string \<Rightarrow> nat \<Rightarrow> unit brun" where
  "WaitReady env ns snapshotName timeout =
     poll env timeout (ready_condition env ns snapshotName) ''the snapshot to become ready to use''"

text \<open>
  \<open>Clone\<close>: the size asked for is the larger of the source's request and its capacity. A request that
  is absent counts as zero.
\<close>

definition clone_size :: "Claim \<Rightarrow> quantity option" where
  "clone_size source =
     (case cl_Capacity source of None \<Rightarrow> cl_Requests source
      | Some capacity \<Rightarrow>
          let requested = (case cl_Requests source of None \<Rightarrow> 0 | Some q \<Rightarrow> q)
          in if capacity > requested then Some capacity else cl_Requests source)"

definition snapshot_Clone ::
  "benv \<Rightarrow> string \<Rightarrow> string \<Rightarrow> Claim \<Rightarrow> labels \<Rightarrow> unit brun" where
  "snapshot_Clone env snapshotName cloneName source labels =
     bbind (bask (\<lambda>answer. CreateClone (cl_Namespace source) cloneName snapshotName (clone_size source) labels (answer = None))
              (\<lambda>tr. be_CreateClone env tr cloneName))
       (bguard (CloneFailed cloneName))"

text \<open>An object that is gone already is not an error.\<close>

definition ignore_missing :: "api_error option \<Rightarrow> api_error option" where
  "ignore_missing e = (if e = Some NotFound then None else e)"

definition snapshot_DeleteSnapshot :: "benv \<Rightarrow> string \<Rightarrow> string \<Rightarrow> unit brun" where
  "snapshot_DeleteSnapshot env ns snapshotName =
     bbind (bask (\<lambda>_. DeleteSnapshot ns snapshotName) (\<lambda>tr. be_DeleteSnapshot env tr snapshotName))
       (\<lambda>answer. bguard (DeleteFailed snapshotName) (ignore_missing answer))"

definition snapshot_DeleteClaim :: "benv \<Rightarrow> string \<Rightarrow> string \<Rightarrow> unit brun" where
  "snapshot_DeleteClaim env ns claimName =
     bbind (bask (\<lambda>_. DeleteClaim ns claimName) (\<lambda>tr. be_DeleteClaim env tr claimName))
       (\<lambda>answer. bguard (DeleteFailed claimName) (ignore_missing answer))"

text \<open>
  \<open>DeleteLabeled\<close> returns what it removed even when it fails, so its result is a pair; \<open>del\<close> is the
  deletion of one object and \<open>what\<close> the word for it.
\<close>

fun delete_each ::
  "(string \<Rightarrow> unit brun) \<Rightarrow> string \<Rightarrow> string list \<Rightarrow> string list \<Rightarrow> bevent list \<Rightarrow>
     (run_error option \<times> string list) \<times> bevent list" where
  "delete_each del what [] removed tr = ((None, removed), tr)"
| "delete_each del what (n # ns) removed tr =
     (case del n tr of (Inl e, tr') \<Rightarrow> ((Some e, removed), tr')
      | (Inr _, tr') \<Rightarrow> delete_each del what ns (removed @ [what @ n]) tr')"

definition DeleteLabeled ::
  "benv \<Rightarrow> string \<Rightarrow> string \<Rightarrow> bevent list \<Rightarrow> (run_error option \<times> string list) \<times> bevent list" where
  "DeleteLabeled env ns selector tr =
     (let tr1 = tr @ [ListClaims ns selector] in
      case be_ListClaims env tr of Inl e \<Rightarrow> ((Some (ListFailed e), []), tr1)
      | Inr claims \<Rightarrow>
      case delete_each (snapshot_DeleteClaim env ns) ''claim '' claims [] tr1 of
        ((Some e, removed), tr2) \<Rightarrow> ((Some e, removed), tr2)
      | ((None, removed), tr2) \<Rightarrow>
          let tr3 = tr2 @ [ListSnapshots ns selector] in
          case be_ListSnapshots env tr2 of
            Inl e \<Rightarrow> ((if e = NotFound then None else Some (ListFailed e), removed), tr3)
          | Inr snapshots \<Rightarrow>
              delete_each (snapshot_DeleteSnapshot env ns) ''snapshot '' snapshots removed tr3)"

section \<open>Sessions\<close>

definition markerPollInterval :: nat where "markerPollInterval = 200"
definition markerTimeout :: nat where "markerTimeout = 30000"

definition session_Write :: "benv \<Rightarrow> string \<Rightarrow> unit brun" where
  "session_Write env statement =
     bbind (bask (\<lambda>_. SessionSend statement) (be_Send env)) (bguard (SessionSendFailed statement))"

definition session_WriteSecret :: "benv \<Rightarrow> string \<Rightarrow> unit brun" where
  "session_WriteSecret env line =
     bbind (bask (\<lambda>_. SessionSecret line) (be_Send env)) (bguard (\<lambda>_. SessionSecretFailed))"

definition session_Output :: "benv \<Rightarrow> string brun" where
  "session_Output env tr = (Inr (TrimSpace (be_Output env tr)), tr)"

definition sawMarker :: "benv \<Rightarrow> string \<Rightarrow> bevent list \<Rightarrow> bool" where
  "sawMarker env marker tr \<longleftrightarrow> Contains (be_Output env tr) marker"

fun wait_loop :: "benv \<Rightarrow> nat \<Rightarrow> string \<Rightarrow> unit brun" where
  "wait_loop env fuel marker tr =
     (if sawMarker env marker tr then (Inr (), tr)
      else case fuel of 0 \<Rightarrow> (Inl (MarkerTimedOut marker (TrimSpace (be_Output env tr))), tr)
      | Suc fuel \<Rightarrow>
          bbind (bask (\<lambda>_. SessionPoll) (be_Session env)) (\<lambda>answer.
            case answer of SessionCancelled \<Rightarrow> bfail Cancelled
            | SessionDeadline \<Rightarrow> (\<lambda>tr. (Inl (MarkerTimedOut marker (TrimSpace (be_Output env tr))), tr))
            | SessionEnded e \<Rightarrow> bfail (SessionDied marker e)
            | SessionTick \<Rightarrow> wait_loop env fuel marker) tr)"

declare wait_loop.simps [simp del]

definition session_WaitFor :: "benv \<Rightarrow> string \<Rightarrow> nat \<Rightarrow> unit brun" where
  "session_WaitFor env marker timeout = wait_loop env (timeout div markerPollInterval) marker"

definition session_Close :: "benv \<Rightarrow> unit brun" where
  "session_Close env = bbind (bask (\<lambda>_. SessionClose) (be_Close env)) (bguard CloseFailed)"

record execTarget =
  et_namespace :: string
  et_pod :: string
  et_container :: string

definition session_Open :: "benv \<Rightarrow> execTarget \<Rightarrow> string list \<Rightarrow> unit brun" where
  "session_Open env t command =
     bbind (bask (\<lambda>answer. OpenSession (et_namespace t) (et_pod t) (et_container t) command (answer = None))
              (\<lambda>tr. be_Open env tr command))
       (bguard SessionOpenFailed)"

text \<open>\<open>flush.Run\<close> returns the output beside the error.\<close>

definition flush_Run ::
  "benv \<Rightarrow> execTarget \<Rightarrow> string list \<Rightarrow> string option \<Rightarrow> bevent list \<Rightarrow>
     (string \<times> run_error option) \<times> bevent list" where
  "flush_Run env t command password tr =
     (case session_Open env t command tr of (Inl e, tr1) \<Rightarrow> (([], Some e), tr1)
      | (Inr _, tr1) \<Rightarrow>
      case (case password of None \<Rightarrow> (Inr (), tr1) | Some p \<Rightarrow> session_WriteSecret env p tr1) of
        (Inl e, tr2) \<Rightarrow>
          (let tr3 = effect (session_Close env) tr2 in ((TrimSpace (be_Output env tr3), Some e), tr3))
      | (Inr _, tr2) \<Rightarrow>
          (case session_Close env tr2 of
             (Inl e, tr3) \<Rightarrow> ((TrimSpace (be_Output env tr3), Some e), tr3)
           | (Inr _, tr3) \<Rightarrow> ((TrimSpace (be_Output env tr3), None), tr3)))"

end
