(* ===== verification/SnapshotSource.thy ===== *)
theory SnapshotSource
  imports Snapshot
begin

text \<open>
  \<open>src/internal/bucketstorage/snapshotsource.go\<close>: quiescing the database, cutting a snapshot under
  its lock, cloning a claim from the snapshot, and taking everything back on failure. A closure of
  the source that releases a lock or removes a clone is a run; the flag that makes the release
  idempotent is a value passed along.
\<close>

section \<open>Credentials and plans\<close>

definition snapshotSuffix :: string where "snapshotSuffix = ''-snap''"
definition cloneSuffix :: string where "cloneSuffix = ''-clone''"
definition flushSecretDefaultKey :: string where "flushSecretDefaultKey = ''password''"

definition readSecretValue :: "benv \<Rightarrow> string \<Rightarrow> string \<Rightarrow> string brun" where
  "readSecretValue env ns ref =
     (let (name, key) = (case Cut ref '':'' of Some (n, k) \<Rightarrow> (n, k) | None \<Rightarrow> (ref, flushSecretDefaultKey))
      in if name = [] \<or> key = [] then bfail (BadSecretRef ref)
         else bbind (bask (\<lambda>_. GetSecret ns name) (\<lambda>tr. be_GetSecret env tr name)) (\<lambda>answer.
           bbind (blift (SecretUnread name) answer) (\<lambda>secretData.
             case map_of secretData key of None \<Rightarrow> bfail (SecretKeyMissing name key (sort (map fst secretData)))
             | Some value \<Rightarrow> bret value)))"

definition refuseUnusedCredentials :: "BRequest \<Rightarrow> run_error option" where
  "refuseUnusedCredentials req =
     (if bq_FlushUser req = [] \<and> bq_FlushPassword req = [] \<and> bq_FlushPasswordSecret req = [] then None
      else if bq_FlushCommand req \<noteq> [] then Some (UnusedCredentials ''--flush-command'')
      else Some (UnusedCredentials (bq_Flush req)))"

definition resolveFlushCredentials ::
  "benv \<Rightarrow> BRequest \<Rightarrow> string \<Rightarrow> Spec \<Rightarrow> Credentials option brun" where
  "resolveFlushCredentials env req ns spec =
     (if \<not> sp_ReadsCredentials spec
      then (case refuseUnusedCredentials req of Some e \<Rightarrow> bfail e | None \<Rightarrow> bret None)
      else if bq_FlushPassword req \<noteq> [] \<and> bq_FlushPasswordSecret req \<noteq> [] then bfail PasswordTwice
      else bbind (if bq_FlushPasswordSecret req \<noteq> [] then readSecretValue env ns (bq_FlushPasswordSecret req)
                  else bret (bq_FlushPassword req)) (\<lambda>password.
        let creds = \<lparr>cr_User = bq_FlushUser req, cr_Password = password\<rparr>
        in case credentials_Check creds of Some e \<Rightarrow> bfail (FlushError (bq_Flush req) e)
           | None \<Rightarrow> bret (Some creds)))"

record flushPlan =
  fp_spec :: Spec
  fp_target :: execTarget
  fp_creds :: "Credentials option"

definition prepareFlush :: "benv \<Rightarrow> BRequest \<Rightarrow> Info \<Rightarrow> flushPlan brun" where
  "prepareFlush env req source =
     bbind (blift (FlushError (bq_Flush req)) (flush_Lookup (bq_Flush req))) (\<lambda>spec.
       if in_MountedPod source = [] then bfail (NoDatabasePod (bq_Flush req) (cl_Name (in_Claim source)))
       else if bq_FlushCommand req \<noteq> [] \<and> sp_Mode spec = ModePair then bfail (PairTakesNoCommand (bq_Flush req))
       else let spec = (if bq_FlushCommand req \<noteq> [] then WithCommand spec (bq_FlushCommand req) else spec) in
         bbind (resolveFlushCredentials env req (cl_Namespace (in_Claim source)) spec) (\<lambda>creds.
           bret \<lparr>fp_spec = spec,
                 fp_target = \<lparr>et_namespace = cl_Namespace (in_Claim source), et_pod = in_MountedPod source,
                              et_container = bq_FlushContainer req\<rparr>,
                 fp_creds = creds\<rparr>))"

definition userOf :: "Credentials option \<Rightarrow> string" where
  "userOf creds = (case creds of None \<Rightarrow> [] | Some c \<Rightarrow> cr_User c)"

definition target_run ::
  "benv \<Rightarrow> execTarget \<Rightarrow> string list \<Rightarrow> Credentials option \<Rightarrow> bevent list \<Rightarrow>
     (string \<times> run_error option) \<times> bevent list" where
  "target_run env t command creds = flush_Run env t command (map_option cr_Password creds)"

section \<open>Taking the lock\<close>

definition chooseLock :: "benv \<Rightarrow> string \<Rightarrow> Spec \<Rightarrow> (Lock \<times> string) brun" where
  "chooseLock env kind spec =
     bbind (session_Write env (sp_Identify spec)) (\<lambda>_ tr.
       case session_WaitFor env IdentityEnd markerTimeout tr of
         (Inl e, tr1) \<Rightarrow> (Inl (CannotIdentify kind e), tr1)
       | (Inr _, tr1) \<Rightarrow>
           bbind (session_Output env) (\<lambda>out.
           bbind (blift (FlushError kind) (ParseIdentity out)) (\<lambda>identity.
           bbind (blift (FlushError kind) (sp_Choose spec identity)) (\<lambda>lock.
             bret (lock, case Cut identity ''|'' of Some (server, _) \<Rightarrow> server | None \<Rightarrow> identity)))) tr1)"

definition lock_session :: "benv \<Rightarrow> string \<Rightarrow> Spec \<Rightarrow> Credentials option \<Rightarrow> Lock brun" where
  "lock_session env kind spec creds =
     bbind (case creds of None \<Rightarrow> bret () | Some c \<Rightarrow> session_WriteSecret env (cr_Password c)) (\<lambda>_.
     bbind (chooseLock env kind spec) (\<lambda>(lock, server).
     bbind (session_Write env (lk_Statement lock)) (\<lambda>_.
     bbind (session_Write env (sp_Probe spec)) (\<lambda>_ tr.
       case session_WaitFor env (sp_Marker spec) markerTimeout tr of
         (Inl e, tr1) \<Rightarrow> (Inl (LockUnconfirmed kind (lk_Name lock) e), tr1)
       | (Inr _, tr1) \<Rightarrow> (Inr lock, tr1)))))"

definition release_session :: "benv \<Rightarrow> string \<Rightarrow> Lock \<Rightarrow> unit brun" where
  "release_session env kind lock tr =
     (case session_Write env (lk_Unlock lock) tr of
        (Inl e, tr1) \<Rightarrow> (Inl e, effect (session_Close env) tr1)
      | (Inr _, tr1) \<Rightarrow>
          (case session_Close env tr1 of
             (Inl e, tr2) \<Rightarrow> (Inl (UnlockUnclean kind e), tr2)
           | (Inr _, tr2) \<Rightarrow> (Inr (), tr2)))"

definition quiesceSession ::
  "benv \<Rightarrow> execTarget \<Rightarrow> string \<Rightarrow> Spec \<Rightarrow> Credentials option \<Rightarrow> unit brun brun" where
  "quiesceSession env t kind spec creds =
     bbind (session_Open env t (flush_Command spec (userOf creds))) (\<lambda>_ tr.
       case lock_session env kind spec creds tr of
         (Inl e, tr1) \<Rightarrow> (Inl e, effect (session_Close env) tr1)
       | (Inr lock, tr1) \<Rightarrow> (Inr (release_session env kind lock), tr1))"

definition quiesceOneShot ::
  "benv \<Rightarrow> execTarget \<Rightarrow> string \<Rightarrow> Spec \<Rightarrow> Credentials option \<Rightarrow> unit brun brun" where
  "quiesceOneShot env t kind spec creds tr =
     (case target_run env t (flush_Command spec (userOf creds)) creds tr of
        ((out, Some e), tr1) \<Rightarrow> (Inl (CommandFailed kind e out), tr1)
      | ((out, None), tr1) \<Rightarrow> (Inr (bret ()), tr1))"

definition checkLockTaken :: "string \<Rightarrow> Spec \<Rightarrow> string \<Rightarrow> run_error option" where
  "checkLockTaken kind spec out =
     (if sp_LockMarker spec \<noteq> [] \<and> \<not> Contains out (sp_LockMarker spec) then Some (LockRefused kind out)
      else None)"

definition release_pair ::
  "benv \<Rightarrow> execTarget \<Rightarrow> string \<Rightarrow> Spec \<Rightarrow> Credentials option \<Rightarrow> unit brun" where
  "release_pair env t kind spec creds tr =
     (case target_run env t (flush_Release spec (userOf creds)) creds tr of
        ((out, Some e), tr1) \<Rightarrow> (Inl (ReleaseFailed kind e out), tr1)
      | ((out, None), tr1) \<Rightarrow>
          if sp_ReleaseMarker spec \<noteq> [] \<and> \<not> Contains out (sp_ReleaseMarker spec)
          then (Inl (StillLocked kind out), tr1) else (Inr (), tr1))"

definition quiescePair ::
  "benv \<Rightarrow> execTarget \<Rightarrow> string \<Rightarrow> Spec \<Rightarrow> Credentials option \<Rightarrow> unit brun brun" where
  "quiescePair env t kind spec creds tr =
     (case target_run env t (flush_Command spec (userOf creds)) creds tr of
        ((out, Some e), tr1) \<Rightarrow> (Inl (CommandFailed kind e out), tr1)
      | ((out, None), tr1) \<Rightarrow>
          (case checkLockTaken kind spec out of Some e \<Rightarrow> (Inl e, tr1)
           | None \<Rightarrow> (Inr (release_pair env t kind spec creds), tr1)))"

definition quiesce_plan :: "benv \<Rightarrow> string \<Rightarrow> flushPlan \<Rightarrow> unit brun brun" where
  "quiesce_plan env kind plan =
     (case sp_Mode (fp_spec plan) of
        ModeSession \<Rightarrow> quiesceSession env (fp_target plan) kind (fp_spec plan) (fp_creds plan)
      | ModeOneShot \<Rightarrow> quiesceOneShot env (fp_target plan) kind (fp_spec plan) (fp_creds plan)
      | ModePair \<Rightarrow> quiescePair env (fp_target plan) kind (fp_spec plan) (fp_creds plan))"

definition quiesce :: "benv \<Rightarrow> BRequest \<Rightarrow> Info \<Rightarrow> unit brun brun" where
  "quiesce env req source =
     (if bq_Flush req = [] then bret (bret ())
      else bbind (prepareFlush env req source) (quiesce_plan env (bq_Flush req)))"

section \<open>Cutting the snapshot\<close>

text \<open>
  The body of \<open>cutSnapshot\<close> after the lock is taken, with the deferred removal of a snapshot that was
  created and never cut. The second result tells whether the release has run.
\<close>

definition cut_body ::
  "benv \<Rightarrow> BRequest \<Rightarrow> Info \<Rightarrow> string \<Rightarrow> labels \<Rightarrow> unit brun \<Rightarrow> bevent list \<Rightarrow>
     (run_error, unit) result \<times> bool \<times> bevent list" where
  "cut_body env req source snapshotName labels release tr =
     (let ns = cl_Namespace (in_Claim source) in
      case snapshot_Create env ns (cl_Name (in_Claim source)) (bq_SnapshotClass req) snapshotName labels tr of
        (Inl e, tr1) \<Rightarrow> (Inl e, False, tr1)
      | (Inr _, tr1) \<Rightarrow>
          (case WaitForCut env ns snapshotName cutTimeout tr1 of
             (Inl e, tr2) \<Rightarrow> (Inl e, False, effect (snapshot_DeleteSnapshot env ns snapshotName) tr2)
           | (Inr _, tr2) \<Rightarrow> (case release tr2 of (r, tr3) \<Rightarrow> (r, True, tr3))))"

definition cutSnapshot :: "benv \<Rightarrow> BRequest \<Rightarrow> Info \<Rightarrow> string \<Rightarrow> labels \<Rightarrow> unit brun" where
  "cutSnapshot env req source snapshotName labels tr =
     (case quiesce env req source tr of
        (Inl e, tr1) \<Rightarrow> (Inl e, tr1)
      | (Inr release, tr1) \<Rightarrow>
          (case cut_body env req source snapshotName labels release tr1 of
             (r, True, tr2) \<Rightarrow> (r, tr2)
           | (r, False, tr2) \<Rightarrow>
               (case release tr2 of
                  (Inl e, tr3) \<Rightarrow> (if isl r then r else Inl e, tr3)
                | (Inr _, tr3) \<Rightarrow> (r, tr3))))"

section \<open>The clone\<close>

definition runLabels :: "string \<Rightarrow> labels" where
  "runLabels releaseName =
     [(''app.kubernetes.io/name'', ''pv-migrate''), (''app.kubernetes.io/instance'', releaseName)]"

definition snapshotLabels :: "string \<Rightarrow> bool \<Rightarrow> labels" where
  "snapshotLabels releaseName keep =
     (if keep then [(''app.kubernetes.io/name'', ''pv-migrate'')] else runLabels releaseName)"

definition ensureSnapshot :: "benv \<Rightarrow> BRequest \<Rightarrow> Info \<Rightarrow> string \<Rightarrow> (string \<times> bool) brun" where
  "ensureSnapshot env req source releaseName =
     (if bq_FromSnapshot req \<noteq> [] then bret (bq_FromSnapshot req, False)
      else let snapshotName = releaseName @ snapshotSuffix in
        bbind (cutSnapshot env req source snapshotName (snapshotLabels releaseName (bq_KeepSnapshot req)))
          (\<lambda>_. bret (snapshotName, True)))"

definition inheritTopology :: "Info \<Rightarrow> Info \<Rightarrow> Info" where
  "inheritTopology clone source =
     (if in_AllowedNodes clone \<noteq> None \<or> in_AllowedNodes source = None then clone
      else clone\<lparr>in_AllowedNodes := in_AllowedNodes source, in_PinnedNodes := in_AllowedNodes source,
                 in_Affinity := RequireNodes (in_AllowedNodes source)\<rparr>)"

text \<open>\<open>cloneSnapshot\<close> returns beside its error whether the claim was created.\<close>

definition cloneSnapshot ::
  "benv \<Rightarrow> string \<Rightarrow> string \<Rightarrow> Info \<Rightarrow> labels \<Rightarrow> bevent list \<Rightarrow>
     (run_error, Info) result \<times> bool \<times> bevent list" where
  "cloneSnapshot env snapshotName cloneName source labels tr =
     (case snapshot_Clone env snapshotName cloneName (in_Claim source) labels tr of
        (Inl e, tr1) \<Rightarrow> (Inl e, False, tr1)
      | (Inr _, tr1) \<Rightarrow>
          (let ns = cl_Namespace (in_Claim source); tr2 = tr1 @ [LookupClaim ns cloneName] in
           case be_Lookup env tr1 ns cloneName True of
             Inl e \<Rightarrow> (Inl (ClaimFailed e), True, tr2)
           | Inr clone \<Rightarrow> (Inr (inheritTopology clone source), True, tr2)))"

definition rollbackSnapshotSource ::
  "benv \<Rightarrow> string \<Rightarrow> string \<Rightarrow> string \<Rightarrow> bool \<Rightarrow> bool \<Rightarrow> bevent list \<Rightarrow> bevent list" where
  "rollbackSnapshotSource env ns cloneName snapshotName cloneCreated removeSnapshot tr =
     (let tr1 = (if cloneCreated then effect (snapshot_DeleteClaim env ns cloneName) tr else tr)
      in if removeSnapshot then effect (snapshot_DeleteSnapshot env ns snapshotName) tr1 else tr1)"

definition removeSnapshotSource ::
  "benv \<Rightarrow> string \<Rightarrow> string \<Rightarrow> string \<Rightarrow> bool \<Rightarrow> unit brun" where
  "removeSnapshotSource env ns cloneName snapshotName removeSnapshot =
     bbind (snapshot_DeleteClaim env ns cloneName) (\<lambda>_.
       if \<not> removeSnapshot then bret () else snapshot_DeleteSnapshot env ns snapshotName)"

record snapshotSource =
  sn_clone :: Info
  sn_cleanup :: "bevent list \<Rightarrow> (run_error, unit) result \<times> bevent list"

definition prepareSnapshotSource :: "benv \<Rightarrow> BRequest \<Rightarrow> Info \<Rightarrow> string \<Rightarrow> snapshotSource brun" where
  "prepareSnapshotSource env req source releaseName =
     bbind (if bq_FromSnapshot req = [] then CheckClass env (bq_SnapshotClass req) else bret ()) (\<lambda>_.
     bbind (ensureSnapshot env req source releaseName) (\<lambda>(snapshotName, created) tr.
       let ns = cl_Namespace (in_Claim source);
           removeSnapshot = (created \<and> \<not> bq_KeepSnapshot req);
           cloneName = releaseName @ cloneSuffix
       in case WaitReady env ns snapshotName readyTimeout tr of
            (Inl e, tr1) \<Rightarrow>
              (Inl e, rollbackSnapshotSource env ns cloneName snapshotName False removeSnapshot tr1)
          | (Inr _, tr1) \<Rightarrow>
              (case cloneSnapshot env snapshotName cloneName source (runLabels releaseName) tr1 of
                 (Inl e, cloneCreated, tr2) \<Rightarrow>
                   (Inl e, rollbackSnapshotSource env ns cloneName snapshotName cloneCreated removeSnapshot tr2)
               | (Inr clone, cloneCreated, tr2) \<Rightarrow>
                   (Inr \<lparr>sn_clone = clone,
                         sn_cleanup = removeSnapshotSource env ns cloneName snapshotName removeSnapshot\<rparr>, tr2))))"

text \<open>\<open>releaseSnapshotSource\<close>: the clean-up once the backup is over.\<close>

definition releaseSnapshotSource :: "BRequest \<Rightarrow> snapshotSource \<Rightarrow> bool \<Rightarrow> bevent list \<Rightarrow> bevent list" where
  "releaseSnapshotSource req src failed tr =
     (if bq_Detach req then tr
      else if bq_NoCleanup req \<or> failed \<and> bq_NoCleanupOnFailure req then tr
      else effect (sn_cleanup src) tr)"

definition resolveSource ::
  "benv \<Rightarrow> BRequest \<Rightarrow> Info \<Rightarrow> string \<Rightarrow> (Info \<times> (bool \<Rightarrow> bevent list \<Rightarrow> bevent list)) brun" where
  "resolveSource env req live releaseName =
     (if \<not> usesSnapshot req
      then (if bucket_handleMounted live (bq_IgnoreMounted req) then bret (live, \<lambda>_ tr. tr)
            else bfail (MountedClaim (cl_Name (in_Claim live)) (in_MountedNode live)))
      else bbind (prepareSnapshotSource env req live releaseName) (\<lambda>src.
             bret (sn_clone src, releaseSnapshotSource req src)))"

end
