(* ===== verification/SnapshotRuns.thy ===== *)
theory SnapshotRuns
  imports SnapshotSource
begin

text \<open>
  Which requests the runs of a snapshot-backed backup make: a small calculus of \<open>emits\<close> facts, the
  requests between making and cutting a snapshot, and the contract of the three ways to take a
  database lock (locale \<open>lock_protocol\<close>), which the quiesce of every kind satisfies.
\<close>

section \<open>What a run adds to the trace\<close>

named_theorems emits_intro \<open>which requests a run makes\<close>

definition emits :: "(bevent \<Rightarrow> bool) \<Rightarrow> 'a brun \<Rightarrow> bool" where
  "emits P m \<longleftrightarrow> (\<forall>tr. \<exists>evs. snd (m tr) = tr @ evs \<and> list_all P evs)"

lemma emitsE:
  assumes "emits P m"
  obtains evs where "snd (m tr) = tr @ evs" "list_all P evs"
  using assms by (auto simp: emits_def)

lemma emits_mono: "emits P m \<Longrightarrow> (\<And>e. P e \<Longrightarrow> Q e) \<Longrightarrow> emits Q m"
  unfolding emits_def by (meson list_all_iff)

lemma emits_basic [emits_intro]:
  "emits P (bret x)" "emits P (bfail e)" "emits P (bguard w o')" "emits P (blift w r)"
  "(\<And>x. P (ev x)) \<Longrightarrow> emits P (bask ev f)"
  by (auto simp: emits_def run_defs split: option.splits sum.splits)

lemma emits_bbind [emits_intro]:
  assumes "emits P m" and "\<And>x. emits P (f x)"
  shows "emits P (bbind m f)"
  unfolding emits_def
proof
  fix tr
  obtain evs where e: "snd (m tr) = tr @ evs" "list_all P evs" using assms(1) by (rule emitsE)
  show "\<exists>evs. snd (bbind m f tr) = tr @ evs \<and> list_all P evs"
  proof (cases "fst (m tr)")
    case (Inl err)
    with e show ?thesis by (auto simp: bbind_def split: prod.splits)
  next
    case (Inr x)
    obtain evs' where e': "snd (f x (tr @ evs)) = (tr @ evs) @ evs'" "list_all P evs'"
      using assms(2) by (rule emitsE)
    from Inr e(1) have "m tr = (Inr x, tr @ evs)" by (metis prod.collapse)
    with e e' show ?thesis by (auto simp: bbind_def)
  qed
qed

lemma emits_cases [emits_intro]:
  "(b \<Longrightarrow> emits P m) \<Longrightarrow> (\<not> b \<Longrightarrow> emits P m') \<Longrightarrow> emits P (if b then m else m')"
  "(o' = None \<Longrightarrow> emits P m) \<Longrightarrow> (\<And>x. o' = Some x \<Longrightarrow> emits P (g x)) \<Longrightarrow> emits P (case o' of None \<Rightarrow> m | Some x \<Rightarrow> g x)"
  "(\<And>x y. emits P (h x y)) \<Longrightarrow> emits P (case p of (x, y) \<Rightarrow> h x y)"
  by (auto split: option.splits prod.splits)

lemma effect_emits: "emits P m \<Longrightarrow> \<exists>evs. effect m tr = tr @ evs \<and> list_all P evs"
  by (auto simp: emits_def effect_def)

lemma emits_poll_loop [emits_intro]:
  assumes "\<And>l. emits P (condition l)" and "P PollWait"
  shows "emits P (poll_loop env fuel condition what l)"
proof (induction fuel arbitrary: l)
  case 0
  show ?case unfolding poll_loop.simps [of _ 0]
    by (auto intro!: emits_intro assms split: prod.splits poll_answer.splits)
next
  case (Suc fuel)
  show ?case unfolding poll_loop.simps [of _ "Suc fuel"]
    by (auto intro!: emits_intro assms Suc split: prod.splits poll_answer.splits)
qed

section \<open>The requests of the snapshot client\<close>

fun watching :: "bevent \<Rightarrow> bool" where
  "watching (GetSnapshot _ _) = True"
| "watching (GetContent _) = True"
| "watching PollWait = True"
| "watching Discover = True"
| "watching (GetClass _) = True"
| "watching _ = False"

text \<open>A request to the snapshot API: a read of its state, or making or deleting a snapshot.\<close>

fun snapshot_request :: "bevent \<Rightarrow> bool" where
  "snapshot_request (CreateSnapshot _ _ _ _ _ _) = True"
| "snapshot_request (DeleteSnapshot _ _) = True"
| "snapshot_request e = watching e"

lemma emits_watching [emits_intro]:
  "emits watching (WaitForCut env ns name t)" "emits watching (WaitReady env ns name t)"
  "emits watching (apiInstalled env)" "emits watching (CheckClass env c)"
  by (auto intro!: emits_intro simp: WaitForCut_def WaitReady_def poll_def cut_condition_def ready_condition_def
      boundContentName_def get_snapshot_def apiInstalled_def CheckClass_def)

lemma watching_request: "watching e \<Longrightarrow> snapshot_request e"
  by (cases e) simp_all

lemma watching_facts:
  "list_all watching evs \<Longrightarrow> list_all snapshot_request evs"
  "list_all watching evs \<Longrightarrow> CreateSnapshot ns c cl n l b \<notin> set evs"
  "list_all watching evs \<Longrightarrow> DeleteSnapshot ns n \<notin> set evs"
  by (auto simp: list_all_iff watching_request dest: bspec)

lemma Create_facts:
  assumes "snapshot_Create env ns c cls n l tr = (r, tr')"
  obtains evs where "tr' = tr @ CreateSnapshot ns c cls n l (\<not> isl r) # evs" "list_all watching evs"
proof -
  let ?a = "be_CreateSnapshot env tr n"
  let ?tr1 = "tr @ [CreateSnapshot ns c cls n l (?a = None)]"
  obtain ok evs where api: "apiInstalled env ?tr1 = (Inr ok, ?tr1 @ evs)" "list_all watching evs"
    by (auto simp: apiInstalled_def run_defs)
  show thesis
  proof (cases ?a)
    case None
    then show thesis using assms that [of "[]"] by (auto simp: snapshot_Create_def run_defs)
  next
    case (Some e)
    then show thesis using assms that [of evs] that [of "[]"] api
      by (auto simp: snapshot_Create_def bbind_def bask_def bfail_def split: if_splits)
  qed
qed

lemma DeleteSnapshot_effect:
  "effect (snapshot_DeleteSnapshot env ns n) tr = tr @ [DeleteSnapshot ns n]"
  "effect (snapshot_DeleteClaim env ns n) tr = tr @ [DeleteClaim ns n]"
  by (auto simp: snapshot_DeleteSnapshot_def snapshot_DeleteClaim_def run_defs split: option.splits)

lemma cut_body_facts:
  fixes source
  defines "ns \<equiv> cl_Namespace (in_Claim source)"
  assumes "cut_body env req source name labels release tr = (r, rel, tr')"
  obtains cut ok where
    "list_all snapshot_request cut"
    "CreateSnapshot ns (cl_Name (in_Claim source)) (bq_SnapshotClass req) name labels ok = hd cut" "cut \<noteq> []"
    "\<forall>ev \<in> set (tl cut). \<forall>a b c d e f. ev \<noteq> CreateSnapshot a b c d e f"
    "if rel then ok \<and> release (tr @ cut) = (r, tr') \<and> (\<forall>ns n. DeleteSnapshot ns n \<notin> set cut)
     else isl r \<and> tr' = tr @ cut \<and> (ok \<longrightarrow> last cut = DeleteSnapshot ns name)"
proof -
  obtain r1 tr1 where c: "snapshot_Create env ns (cl_Name (in_Claim source)) (bq_SnapshotClass req) name labels tr = (r1, tr1)"
    by fastforce
  then obtain evs where e: "tr1 = tr @ CreateSnapshot ns (cl_Name (in_Claim source)) (bq_SnapshotClass req) name labels (\<not> isl r1) # evs"
    "list_all watching evs" by (rule Create_facts)
  obtain r2 evs2 where w: "WaitForCut env ns name cutTimeout tr1 = (r2, tr1 @ evs2)" "list_all watching evs2"
    by (metis emitsE emits_watching(1) prod.collapse)
  let ?c = "\<lambda>ok. CreateSnapshot ns (cl_Name (in_Claim source)) (bq_SnapshotClass req) name labels ok"
  note wf = watching_facts [OF e(2)] watching_facts [OF w(2)]
  show thesis
  proof (cases r1)
    case (Inl err)
    then show thesis using assms(2) c e wf
      by (intro that [of "?c False # evs" False]) (auto simp: cut_body_def ns_def Let_def)
  next
    case r1: (Inr u)
    show thesis
    proof (cases r2)
      case (Inl err)
      then show thesis using assms(2) c e w wf r1
        by (intro that [of "?c True # evs @ evs2 @ [DeleteSnapshot ns name]" True])
          (auto simp: cut_body_def ns_def Let_def DeleteSnapshot_effect)
    next
      case (Inr v)
      then show thesis using assms(2) c e w wf r1
        by (intro that [of "?c True # evs @ evs2" True])
          (auto simp: cut_body_def ns_def Let_def split: prod.splits)
    qed
  qed
qed

section \<open>Sessions that stay open\<close>

text \<open>The number of client sessions opened and not closed again.\<close>

fun session_delta :: "bevent \<Rightarrow> int" where
  "session_delta (OpenSession _ _ _ _ ok) = (if ok then 1 else 0)"
| "session_delta SessionClose = -1"
| "session_delta _ = 0"

definition sessions :: "bevent list \<Rightarrow> int" where
  "sessions tr = sum_list (map session_delta tr)"

lemma sessions_append [simp]: "sessions (a @ b) = sessions a + sessions b"
  by (simp add: sessions_def)

lemma sessions_Cons [simp]: "sessions (e # b) = session_delta e + sessions b" "sessions [] = 0"
  by (simp_all add: sessions_def)

definition silent :: "bevent \<Rightarrow> bool" where "silent e \<longleftrightarrow> session_delta e = 0"

lemma silent_sessions: "list_all silent evs \<Longrightarrow> sessions evs = 0"
  by (induction evs) (auto simp: silent_def)

lemma emits_silent: "emits silent m \<Longrightarrow> sessions (snd (m tr)) = sessions tr"
  by (metis add.right_neutral emitsE sessions_append silent_sessions)

lemma snapshot_request_silent: "snapshot_request e \<Longrightarrow> silent e"
  by (cases e) (simp_all add: silent_def)

lemma emits_wait_loop [emits_intro]: "P SessionPoll \<Longrightarrow> emits P (wait_loop env fuel marker)"
proof (induction fuel)
  case (Suc fuel)
  have "emits P (bbind (bask (\<lambda>_. SessionPoll) (be_Session env)) (\<lambda>answer.
            case answer of SessionCancelled \<Rightarrow> bfail Cancelled
            | SessionDeadline \<Rightarrow> (\<lambda>tr. (Inl (MarkerTimedOut marker (TrimSpace (be_Output env tr))), tr))
            | SessionEnded e \<Rightarrow> bfail (SessionDied marker e)
            | SessionTick \<Rightarrow> wait_loop env fuel marker))"
    using Suc by (auto intro!: emits_intro split: session_answer.splits) (auto simp: emits_def)
  then show ?case by (auto simp: emits_def wait_loop.simps [of _ "Suc fuel"])
qed (auto simp: emits_def wait_loop.simps [of _ 0])

lemma emits_session [emits_intro]:
  "P SessionPoll \<Longrightarrow> emits P (session_WaitFor env marker t)"
  "P (SessionSend statement) \<Longrightarrow> emits P (session_Write env statement)"
  "P (SessionSecret line) \<Longrightarrow> emits P (session_WriteSecret env line)"
  "emits P (session_Output env)"
  "P SessionClose \<Longrightarrow> emits P (session_Close env)"
  by (auto intro!: emits_intro simp: session_WaitFor_def session_Write_def session_WriteSecret_def session_Close_def)
    (simp add: emits_def session_Output_def)

lemma wrapped_error:
  assumes "emits P m"
  shows "emits P (\<lambda>tr. case m tr of (Inl e, tr1) \<Rightarrow> (Inl (w e), tr1) | (Inr x, tr1) \<Rightarrow> (Inr (g x), tr1))"
  using assms unfolding emits_def by (auto split: prod.splits sum.splits) (metis snd_conv)+

lemma emits_chooseLock [emits_intro]:
  assumes "\<And>s. P (SessionSend s)" and "P SessionPoll"
  shows "emits P (chooseLock env kind spec)"
proof -
  let ?k = "bbind (session_Output env) (\<lambda>out.
           bbind (blift (FlushError kind) (ParseIdentity out)) (\<lambda>identity.
           bbind (blift (FlushError kind) (sp_Choose spec identity)) (\<lambda>lock.
             bret (lock, case Cut identity ''|'' of Some (server, _) \<Rightarrow> server | None \<Rightarrow> identity))))"
  have "emits P (bbind (session_WaitFor env IdentityEnd markerTimeout) (\<lambda>_. ?k))"
    by (auto intro!: emits_intro assms)
  then have "emits P (\<lambda>tr. case session_WaitFor env IdentityEnd markerTimeout tr of
         (Inl e, tr1) \<Rightarrow> (Inl (CannotIdentify kind e), tr1) | (Inr _, tr1) \<Rightarrow> ?k tr1)"
    unfolding emits_def bbind_def by (auto split: prod.splits sum.splits) (metis (no_types, lifting) snd_conv)+
  then show ?thesis unfolding chooseLock_def by (auto intro!: emits_intro assms)
qed

lemma emits_lock_session [emits_intro]:
  assumes "\<And>s. P (SessionSend s)" and "P SessionPoll" and "\<And>c. creds = Some c \<Longrightarrow> P (SessionSecret (cr_Password c))"
  shows "emits P (lock_session env kind spec creds)"
proof -
  have "emits P (\<lambda>tr. case session_WaitFor env (sp_Marker spec) markerTimeout tr of
         (Inl e, tr1) \<Rightarrow> (Inl (LockUnconfirmed kind (lk_Name lock) e), tr1)
       | (Inr _, tr1) \<Rightarrow> (Inr lock, tr1))" for lock
    by (intro wrapped_error [where g = "\<lambda>_. lock"] emits_intro assms)
  then show ?thesis unfolding lock_session_def by (auto intro!: emits_intro assms)
qed

lemma Close_delta: "sessions (snd (session_Close env tr)) = sessions tr - 1" "sessions (effect (session_Close env) tr) = sessions tr - 1"
  by (auto simp: session_Close_def run_defs split: option.splits)

lemma Open_delta:
  "session_Open env t c tr = (r, tr') \<Longrightarrow> sessions tr' = sessions tr + (if isl r then 0 else 1)"
  by (auto simp: session_Open_def run_defs split: option.splits)

lemma flush_Run_delta:
  assumes "flush_Run env t command password tr = (r, tr')"
  shows "sessions tr' = sessions tr"
proof -
  obtain r1 tr1 where o: "session_Open env t command tr = (r1, tr1)" by fastforce
  obtain r2 tr2 where w: "(case password of None \<Rightarrow> (Inr (), tr1) | Some p \<Rightarrow> session_WriteSecret env p tr1) = (r2, tr2)"
    by fastforce
  have s2: "sessions tr2 = sessions tr1"
  proof (cases password)
    case (Some p)
    have "emits silent (session_WriteSecret env p)" by (intro emits_intro) (simp add: silent_def)
    from emits_silent [OF this, of tr1] Some w show ?thesis by simp
  qed (use w in simp)
  show ?thesis
    using assms o w s2 Open_delta [OF o] Close_delta [of env tr2]
    by (auto simp: flush_Run_def Let_def split: sum.splits prod.splits)
qed

text \<open>
  What cutting a snapshot relies on: a lock that could not be taken leaves no session behind, and the
  release of one that was taken closes what taking it left open, whatever happened in between.
\<close>

locale lock_protocol =
  fixes acquire :: "unit brun brun"
  assumes not_acquired: "acquire tr = (Inl e, tr1) \<Longrightarrow> sessions tr1 = sessions tr"
    and acquired: "acquire tr = (Inr release, tr1) \<Longrightarrow>
          sessions (snd (release tr2)) - sessions tr2 = sessions tr - sessions tr1"
begin

lemma released_balanced:
  assumes "acquire tr = (Inr release, tr1)" and "list_all silent between"
  shows "sessions (snd (release (tr1 @ between))) = sessions tr"
  using acquired [OF assms(1), of "tr1 @ between"] silent_sessions [OF assms(2)] by simp

end

interpretation no_lock: lock_protocol "bret (bret ())"
  by unfold_locales (auto simp: run_defs)

interpretation oneshot_lock: lock_protocol "quiesceOneShot env t kind spec creds"
  for env t kind spec creds
  by unfold_locales
    (auto simp: quiesceOneShot_def target_run_def run_defs dest!: flush_Run_delta split: prod.splits option.splits)

interpretation pair_lock: lock_protocol "quiescePair env t kind spec creds"
  for env t kind spec creds
proof
  fix tr e tr1 release tr2
  show "sessions tr1 = sessions tr" if "quiescePair env t kind spec creds tr = (Inl e, tr1)"
    using that by (auto simp: quiescePair_def target_run_def dest!: flush_Run_delta split: prod.splits option.splits)
  have r: "sessions (snd (release_pair env t kind spec creds tr2)) = sessions tr2"
    by (auto simp: release_pair_def target_run_def dest!: flush_Run_delta split: prod.splits option.splits)
  show "sessions (snd (release tr2)) - sessions tr2 = sessions tr - sessions tr1"
    if "quiescePair env t kind spec creds tr = (Inr release, tr1)"
    using that r by (auto simp: quiescePair_def target_run_def dest!: flush_Run_delta split: prod.splits option.splits)
qed

lemma release_session_delta: "sessions (snd (release_session env kind lock tr)) = sessions tr - 1"
proof -
  obtain r1 tr1 where w: "session_Write env (lk_Unlock lock) tr = (r1, tr1)" by fastforce
  have "emits silent (session_Write env (lk_Unlock lock))"
    by (intro emits_intro) (simp add: silent_def)
  from emits_silent [OF this, of tr] w have "sessions tr1 = sessions tr" by simp
  with w Close_delta [of env tr1] show ?thesis
    by (auto simp: release_session_def split: sum.splits prod.splits)
qed

interpretation session_lock: lock_protocol "quiesceSession env t kind spec creds"
  for env t kind spec creds
proof
  fix tr e tr1 release tr2
  have l: "sessions (snd (lock_session env kind spec creds tr0)) = sessions tr0" for tr0
    by (intro emits_silent emits_intro) (simp_all add: silent_def)
  show "sessions tr1 = sessions tr" if "quiesceSession env t kind spec creds tr = (Inl e, tr1)"
  proof -
    obtain r0 tr0 where o: "session_Open env t (flush_Command spec (userOf creds)) tr = (r0, tr0)" by fastforce
    show ?thesis
      using that o Open_delta [OF o] l [of tr0] Close_delta(2) [of env "snd (lock_session env kind spec creds tr0)"]
      by (auto simp: quiesceSession_def bbind_def split: sum.splits prod.splits)
  qed
  show "sessions (snd (release tr2)) - sessions tr2 = sessions tr - sessions tr1"
    if "quiesceSession env t kind spec creds tr = (Inr release, tr1)"
  proof -
    obtain r0 tr0 where o: "session_Open env t (flush_Command spec (userOf creds)) tr = (r0, tr0)" by fastforce
    show ?thesis
      using that o Open_delta [OF o] l [of tr0]
      by (auto simp: quiesceSession_def bbind_def release_session_delta split: sum.splits prod.splits)
  qed
qed

lemma emits_prepareFlush [emits_intro]:
  assumes "\<And>ns n. P (GetSecret ns n)"
  shows "emits P (prepareFlush env req source)"
  unfolding prepareFlush_def resolveFlushCredentials_def readSecretValue_def Let_def
  by (auto intro!: emits_intro assms split: prod.splits option.splits)

lemma plan_protocol: "lock_protocol (quiesce_plan env kind plan)"
  by (cases "sp_Mode (fp_spec plan)")
    (simp_all add: quiesce_plan_def session_lock.lock_protocol_axioms oneshot_lock.lock_protocol_axioms
      pair_lock.lock_protocol_axioms)

lemma quiesce_plan_of:
  assumes "quiesce env req source tr = (r, tr1)" and "bq_Flush req \<noteq> []"
  obtains (unprepared) e where "prepareFlush env req source tr = (Inl e, tr1)" "r = Inl e"
  | (prepared) plan tr0 where "prepareFlush env req source tr = (Inr plan, tr0)"
      "quiesce_plan env (bq_Flush req) plan tr0 = (r, tr1)"
  using assms by (auto simp: quiesce_def bbind_def split: prod.splits sum.splits)

lemma quiesce_protocol: "lock_protocol (quiesce env req source)"
proof (cases "bq_Flush req = []")
  case True
  then show ?thesis by (simp add: quiesce_def no_lock.lock_protocol_axioms)
next
  case False
  have p: "prepareFlush env req source tr = (r, tr0) \<Longrightarrow> sessions tr0 = sessions tr" for tr r tr0
    using emits_silent [OF emits_prepareFlush, of env req source tr] by (simp add: silent_def)
  show ?thesis
  proof
    fix tr e tr1 release tr2
    show "sessions tr1 = sessions tr" if "quiesce env req source tr = (Inl e, tr1)"
      using that False by (cases rule: quiesce_plan_of)
        (metis p lock_protocol.not_acquired [OF plan_protocol])+
    show "sessions (snd (release tr2)) - sessions tr2 = sessions tr - sessions tr1"
      if "quiesce env req source tr = (Inr release, tr1)"
      using that False
    proof (cases rule: quiesce_plan_of)
      case (prepared plan tr0)
      with lock_protocol.acquired [OF plan_protocol prepared(2), of tr2] p show ?thesis by simp
    qed simp
  qed
qed

end
