(* ===== verification/SnapshotFacts.thy ===== *)
theory SnapshotFacts
  imports SnapshotRuns
begin

text \<open>
  What a snapshot-backed backup guarantees: the cut happens under a confirmed lock that is released
  on every path, secrets reach a client as one line, waiting is bounded and ends when the cut
  happens in time, and a failed preparation takes back what it made.
\<close>

section \<open>The cut is protected\<close>

lemma cutSnapshot_facts:
  fixes source
  defines "ns \<equiv> cl_Namespace (in_Claim source)"
  assumes "quiesce env req source tr = (Inr release, tr1)"
    and "cutSnapshot env req source name labels tr = (r, tr')"
  obtains between ok where
    "tr' = snd (release (tr1 @ between))" "list_all snapshot_request between"
    "hd between = CreateSnapshot ns (cl_Name (in_Claim source)) (bq_SnapshotClass req) name labels ok"
    "between \<noteq> []" "\<forall>ev \<in> set (tl between). \<forall>a b c d e f. ev \<noteq> CreateSnapshot a b c d e f"
    "if isl r then ok \<longrightarrow> last between = DeleteSnapshot ns name \<or> fst (release (tr1 @ between)) = r
     else ok \<and> fst (release (tr1 @ between)) = r \<and> (\<forall>ns n. DeleteSnapshot ns n \<notin> set between)"
proof -
  obtain r1 rel tr2 where b: "cut_body env req source name labels release tr1 = (r1, rel, tr2)"
    by (metis prod_cases3)
  show thesis
  proof (rule cut_body_facts [OF b, folded ns_def])
    fix between ok
    assume f: "list_all snapshot_request between"
      "CreateSnapshot ns (cl_Name (in_Claim source)) (bq_SnapshotClass req) name labels ok = hd between" "between \<noteq> []"
      "\<forall>ev \<in> set (tl between). \<forall>a b c d e f. ev \<noteq> CreateSnapshot a b c d e f"
      "if rel then ok \<and> release (tr1 @ between) = (r1, tr2) \<and> (\<forall>ns n. DeleteSnapshot ns n \<notin> set between)
       else isl r1 \<and> tr2 = tr1 @ between \<and> (ok \<longrightarrow> last between = DeleteSnapshot ns name)"
    have "r = r1 \<and> tr' = snd (release (tr1 @ between))"
      using assms(2,3) b f(5) by (auto simp: cutSnapshot_def split: if_splits prod.splits sum.splits)
    with f that [of between ok] show thesis by (cases rel) auto
  qed
qed

text \<open>
  C2: the snapshot is cut under the lock. Once the database is quiesced nothing but requests to the
  snapshot API happens until the lock's release, which runs exactly once, last, and on every path;
  no client session is left open. On success the snapshot was made, not deleted, and the release
  succeeded. On failure a snapshot that was made is deleted before the release, unless it was cut and
  the error is the release's own.
\<close>

theorem cutSnapshot_protected:
  assumes "quiesce env req source tr = (Inr release, tr1)"
    and "cutSnapshot env req source name labels tr = (r, tr')"
  shows "\<exists>between ok. tr' = snd (release (tr1 @ between)) \<and> list_all snapshot_request between \<and>
    hd between = CreateSnapshot (cl_Namespace (in_Claim source)) (cl_Name (in_Claim source)) (bq_SnapshotClass req)
      name labels ok \<and> between \<noteq> [] \<and>
    (if isl r then ok \<longrightarrow> last between = DeleteSnapshot (cl_Namespace (in_Claim source)) name \<or>
                         fst (release (tr1 @ between)) = r
     else ok \<and> fst (release (tr1 @ between)) = r \<and> (\<forall>ns n. DeleteSnapshot ns n \<notin> set between)) \<and>
    sessions tr' = sessions tr"
proof (rule cutSnapshot_facts [OF assms])
  fix between ok
  assume f: "tr' = snd (release (tr1 @ between))" "list_all snapshot_request between"
    "hd between = CreateSnapshot (cl_Namespace (in_Claim source)) (cl_Name (in_Claim source))
       (bq_SnapshotClass req) name labels ok" "between \<noteq> []"
    "if isl r then ok \<longrightarrow> last between = DeleteSnapshot (cl_Namespace (in_Claim source)) name \<or>
                         fst (release (tr1 @ between)) = r
     else ok \<and> fst (release (tr1 @ between)) = r \<and> (\<forall>ns n. DeleteSnapshot ns n \<notin> set between)"
  have "list_all silent between" using f(2) by (auto simp: list_all_iff snapshot_request_silent)
  from lock_protocol.released_balanced [OF quiesce_protocol assms(1) this] f show ?thesis by blast
qed

text \<open>What a successful quiesce has seen: the marker that the database prints once the lock is held.\<close>

lemma wait_loop_saw: "wait_loop env fuel marker tr = (Inr (), tr') \<Longrightarrow> sawMarker env marker tr'"
proof (induction fuel arbitrary: tr)
  case (Suc fuel)
  then show ?case
    by (auto simp: wait_loop.simps [of _ "Suc fuel"] run_defs split: if_splits session_answer.splits)
qed (auto simp: wait_loop.simps [of _ 0] split: if_splits)

definition no_line_break :: "string \<Rightarrow> bool" where
  "no_line_break s \<longleftrightarrow> return_byte \<notin> set s \<and> newline_byte \<notin> set s"

fun secret_fits :: "bevent \<Rightarrow> bool" where
  "secret_fits (SessionSecret s) = no_line_break s"
| "secret_fits _ = True"

lemma prepareFlush_creds:
  assumes "prepareFlush env req source tr = (Inr plan, tr')" and "fp_creds plan = Some c"
  shows "no_line_break (cr_Password c)"
  using assms
  by (auto simp: prepareFlush_def resolveFlushCredentials_def bbind_def bret_def bfail_def blift_def Let_def
      credentials_Check_def ContainsAny_iff no_line_break_def
      split: sum.splits prod.splits if_splits option.splits)

lemma flush_Run_extends:
  assumes "flush_Run env t command password tr = (r, tr')"
    and "\<And>ns p c cmd ok. P (OpenSession ns p c cmd ok)" and "P SessionClose"
    and "\<And>p. password = Some p \<Longrightarrow> P (SessionSecret p)"
  obtains evs where "tr' = tr @ evs" "list_all P evs"
proof -
  have "emits P (session_Open env t command)"
    unfolding session_Open_def by (intro emits_intro assms(2))
  then obtain e1 where e1: "snd (session_Open env t command tr) = tr @ e1" "list_all P e1" by (rule emitsE)
  have "emits P (\<lambda>tr1. case password of None \<Rightarrow> (Inr (), tr1) | Some p \<Rightarrow> session_WriteSecret env p tr1)"
    using emits_session(3) [of P _ env] assms(4) by (cases password) (simp_all add: emits_def)
  then obtain e2 where e2: "snd (case password of None \<Rightarrow> (Inr (), tr @ e1) | Some p \<Rightarrow> session_WriteSecret env p (tr @ e1)) = (tr @ e1) @ e2"
    "list_all P e2" by (rule emitsE)
  have "emits P (session_Close env)" using assms(3) by (intro emits_intro)
  then obtain e3 where e3: "snd (session_Close env (tr @ e1 @ e2)) = (tr @ e1 @ e2) @ e3" "list_all P e3" by (rule emitsE)
  have "tr' = tr @ e1 \<or> tr' = tr @ e1 @ e2 @ e3"
    using assms(1) e1(1) e2(1) e3(1)
    by (auto simp: flush_Run_def Let_def effect_def split: sum.splits prod.splits)
  with e1(2) e2(2) e3(2) that show thesis by (metis list_all_append)
qed

lemma emits_plan [emits_intro]:
  assumes "\<And>ns p c cmd ok. P (OpenSession ns p c cmd ok)" and "P SessionClose" and "P SessionPoll"
    and "\<And>s. P (SessionSend s)" and "\<And>c. fp_creds plan = Some c \<Longrightarrow> P (SessionSecret (cr_Password c))"
  shows "emits P (quiesce_plan env kind plan)"
    and "quiesce_plan env kind plan tr = (Inr release, tr1) \<Longrightarrow> emits P release"
proof -
  have run: "\<exists>evs. tr' = tr @ evs \<and> list_all P evs"
    if "target_run env t command (fp_creds plan) tr = (r, tr')" for t command tr r tr'
    using that unfolding target_run_def
    by (rule flush_Run_extends) (use assms in auto)
  have o: "emits P (session_Open env t command)" for t command
    unfolding session_Open_def by (intro emits_intro assms(1))
  have l: "emits P (lock_session env kind (fp_spec plan) (fp_creds plan))"
    by (intro emits_intro assms)
  have c: "emits P (session_Close env)" by (intro emits_intro assms)
  have after: "emits P (\<lambda>tr. case lock_session env kind (fp_spec plan) (fp_creds plan) tr of
         (Inl e, tr1) \<Rightarrow> (Inl e, effect (session_Close env) tr1)
       | (Inr lock, tr1) \<Rightarrow> (Inr (release_session env kind lock), tr1))"
    using l c unfolding emits_def effect_def
    by (auto split: prod.splits sum.splits) (metis append.assoc list_all_append snd_conv)+
  show "emits P (quiesce_plan env kind plan)"
  proof (cases "sp_Mode (fp_spec plan)")
    case ModeSession
    then show ?thesis unfolding quiesce_plan_def quiesceSession_def by (auto intro!: emits_bbind o after)
  next
    case ModeOneShot
    then show ?thesis unfolding emits_def
      by (auto simp: quiesce_plan_def quiesceOneShot_def dest!: run split: prod.splits option.splits)
  next
    case ModePair
    then show ?thesis unfolding emits_def
      by (auto simp: quiesce_plan_def quiescePair_def dest!: run split: prod.splits option.splits)
  qed
  have rs: "emits P (release_session env kind lock)" for lock
  proof -
    have w: "emits P (session_Write env (lk_Unlock lock))" by (intro emits_intro assms)
    show ?thesis
      using w c unfolding emits_def effect_def release_session_def
      by (auto split: prod.splits sum.splits) (metis append.assoc list_all_append snd_conv)+
  qed
  have rp: "emits P (release_pair env t kind (fp_spec plan) (fp_creds plan))" for t
    unfolding emits_def by (auto simp: release_pair_def dest!: run split: prod.splits option.splits)
  show "quiesce_plan env kind plan tr = (Inr release, tr1) \<Longrightarrow> emits P release"
    using rs rp
    by (cases "sp_Mode (fp_spec plan)")
      (auto simp: quiesce_plan_def quiesceSession_def quiesceOneShot_def quiescePair_def bbind_def
        split: prod.splits sum.splits option.splits intro: emits_intro)
qed

lemma emits_quiesce:
  assumes "\<And>ns n. P (GetSecret ns n)" and "\<And>ns p c cmd ok. P (OpenSession ns p c cmd ok)" and "P SessionClose"
    and "P SessionPoll" and "\<And>s. P (SessionSend s)" and "\<And>s. no_line_break s \<Longrightarrow> P (SessionSecret s)"
    and "quiesce env req source tr = (r, tr1)"
  shows "\<exists>evs. tr1 = tr @ evs \<and> list_all P evs" and "r = Inr release \<Longrightarrow> emits P release"
proof -
  have prep: "emits P (prepareFlush env req source)" by (intro emits_intro assms(1))
  show "\<exists>evs. tr1 = tr @ evs \<and> list_all P evs"
  proof (cases "bq_Flush req = []")
    case False
    with assms(7) show ?thesis
    proof (cases rule: quiesce_plan_of)
      case (unprepared e)
      then show ?thesis using prep by (metis emitsE snd_conv)
    next
      case (prepared plan tr0)
      have "emits P (quiesce_plan env (bq_Flush req) plan)"
        using prepareFlush_creds [OF prepared(1)] by (intro emits_plan assms) auto
      then obtain e2 where e2: "tr1 = tr0 @ e2" "list_all P e2"
        using prepared(2) by (metis emitsE snd_conv)
      obtain e1 where "tr0 = tr @ e1" "list_all P e1" using prep prepared(1) by (metis emitsE snd_conv)
      with e2 show ?thesis by auto
    qed
  qed (use assms(7) in \<open>auto simp: quiesce_def bret_def\<close>)
  show "emits P release" if "r = Inr release"
  proof (cases "bq_Flush req = []")
    case True
    then show ?thesis using assms(7) that by (auto simp: quiesce_def bret_def emits_def)
  next
    case False
    with assms(7) show ?thesis
    proof (cases rule: quiesce_plan_of)
      case (prepared plan tr0)
      from prepared(2) that show ?thesis
        using prepareFlush_creds [OF prepared(1)] by (intro emits_plan(2) [of P plan env "bq_Flush req" tr0 release tr1] assms) auto
    qed (use that in simp)
  qed
qed

text \<open>
  C24: the first line a client is sent is the password and nothing more. Whatever the request and the
  secret hold, no secret written to a client's input contains a line break, so no part of a password
  reaches the database as a statement; a request whose password has one is refused.
\<close>

theorem flush_secrets_single_line:
  assumes "cutSnapshot env req source name labels tr = (r, tr')"
  shows "\<exists>evs. tr' = tr @ evs \<and> list_all secret_fits evs"
proof -
  obtain q tr1 where q: "quiesce env req source tr = (q, tr1)" by fastforce
  have e: "\<exists>evs. tr1 = tr @ evs \<and> list_all secret_fits evs"
    by (rule emits_quiesce(1) [OF _ _ _ _ _ _ q]) simp_all
  show ?thesis
  proof (cases q)
    case (Inl err)
    then show ?thesis using e q assms by (auto simp: cutSnapshot_def)
  next
    case (Inr release)
    then have q': "quiesce env req source tr = (Inr release, tr1)" using q by simp
    have rel: "emits secret_fits release"
      by (rule emits_quiesce(2) [OF _ _ _ _ _ _ q Inr]) simp_all
    show ?thesis
    proof (rule cutSnapshot_facts [OF q' assms])
      fix between ok
      assume f: "tr' = snd (release (tr1 @ between))" "list_all snapshot_request between"
      have "snapshot_request ev \<Longrightarrow> secret_fits ev" for ev by (cases ev) simp_all
      with f(2) have b: "list_all secret_fits between" by (auto simp: list_all_iff)
      obtain e3 where "snd (release (tr1 @ between)) = (tr1 @ between) @ e3" "list_all secret_fits e3"
        using rel by (rule emitsE)
      with f(1) b e show ?thesis by auto
    qed
  qed
qed

text \<open>The client that a plan runs: the kind's own command, or the one the request gives instead.\<close>

definition planned :: "BRequest \<Rightarrow> Spec \<Rightarrow> Spec" where
  "planned req spec = (if bq_FlushCommand req = [] then spec else WithCommand spec (bq_FlushCommand req))"

lemma planned_simps [simp]:
  "sp_Mode (planned req spec) = sp_Mode spec" "sp_Marker (planned req spec) = sp_Marker spec"
  "sp_LockMarker (planned req spec) = sp_LockMarker spec"
  by (simp_all add: planned_def WithCommand_def)

lemma prepareFlush_plan:
  assumes "prepareFlush env req source tr = (Inr plan, tr0)" and "flush_Lookup (bq_Flush req) = Inr spec"
  shows "fp_spec plan = planned req spec \<and> fp_target plan =
    \<lparr>et_namespace = cl_Namespace (in_Claim source), et_pod = in_MountedPod source, et_container = bq_FlushContainer req\<rparr>"
  using assms
  by (auto simp: prepareFlush_def planned_def bbind_def blift_def bret_def bfail_def Let_def
      split: sum.splits prod.splits if_splits)

text \<open>A client that was run to its end without an error: it was started, and its exit was clean.\<close>

definition exited_clean :: "benv \<Rightarrow> bevent list \<Rightarrow> bool" where
  "exited_clean env tr \<longleftrightarrow> (\<exists>before. tr = before @ [SessionClose] \<and> be_Close env before = None)"

lemma target_run_clean:
  assumes "target_run env t command creds tr0 = ((out, None), tr1)"
  shows "OpenSession (et_namespace t) (et_pod t) (et_container t) command True \<in> set tr1"
    and "exited_clean env tr1" and "out = TrimSpace (be_Output env tr1)"
  using assms
  by (auto simp: target_run_def flush_Run_def session_Open_def session_WriteSecret_def session_Close_def run_defs
      exited_clean_def Let_def split: sum.splits prod.splits option.splits)

lemma lock_session_saw:
  assumes "lock_session env k spec cr tr0 = (Inr l, tr1)"
  shows "Contains (be_Output env tr1) (sp_Marker spec)" and "set tr0 \<subseteq> set tr1"
proof -
  show "Contains (be_Output env tr1) (sp_Marker spec)"
    using assms
    by (auto simp: lock_session_def bbind_def session_WaitFor_def sawMarker_def
        dest!: wait_loop_saw split: sum.splits prod.splits)
  have "emits (\<lambda>_. True) (lock_session env k spec cr)" by (intro emits_intro TrueI)
  then show "set tr0 \<subseteq> set tr1" using assms by (metis emitsE set_append snd_conv Un_upper1)
qed

text \<open>
  C25: a quiesce that succeeds has been confirmed. The client, the kind's own or the one given instead,
  was started in the pod that holds the claim. A kind that keeps a session has printed the probe's
  marker; a kind that flushes once has exited without an error; and a kind that locks on the server
  has exited without an error and printed that the lock was taken.
\<close>

theorem quiesce_confirmed:
  assumes "quiesce env req source tr = (Inr release, tr1)" and "flush_Lookup (bq_Flush req) = Inr spec"
  shows "(\<exists>user. OpenSession (cl_Namespace (in_Claim source)) (in_MountedPod source) (bq_FlushContainer req)
        (flush_Command (planned req spec) user) True \<in> set tr1) \<and>
    (case sp_Mode spec of
       ModeSession \<Rightarrow> Contains (be_Output env tr1) (sp_Marker spec)
     | ModePair \<Rightarrow> exited_clean env tr1 \<and> Contains (TrimSpace (be_Output env tr1)) (sp_LockMarker spec)
     | ModeOneShot \<Rightarrow> exited_clean env tr1)"
proof -
  have ne: "bq_Flush req \<noteq> []"
    using assms(2) by (auto simp: flush_Lookup_def specs_def)
  have lm: "sp_LockMarker spec \<noteq> []" if "sp_Mode spec = ModePair"
    using Lookup_modes [OF assms(2)] that by simp
  from assms(1) ne show ?thesis
  proof (cases rule: quiesce_plan_of)
    case (prepared plan tr0)
    note sp = prepareFlush_plan [OF prepared(1) assms(2)]
    have opened: "OpenSession (et_namespace t) (et_pod t) (et_container t) command True \<in> set tr2"
      if "session_Open env t command tr0 = (Inr u, tr2)" for t command u tr2
      using that by (auto simp: session_Open_def run_defs split: option.splits)
    show ?thesis
    proof (cases "sp_Mode spec")
      case ModeSession
      with prepared(2) sp obtain tr2 u l where "session_Open env (fp_target plan) (flush_Command (planned req spec) (userOf (fp_creds plan))) tr0 = (Inr u, tr2)"
        and l: "lock_session env (bq_Flush req) (planned req spec) (fp_creds plan) tr2 = (Inr l, tr1)"
        by (auto simp: quiesce_plan_def quiesceSession_def bbind_def split: sum.splits prod.splits)
      with opened [of "fp_target plan" _ u tr2] lock_session_saw [OF l] sp ModeSession show ?thesis by auto
    next
      case ModeOneShot
      with prepared(2) sp obtain out where "target_run env (fp_target plan)
          (flush_Command (planned req spec) (userOf (fp_creds plan))) (fp_creds plan) tr0 = ((out, None), tr1)"
        by (auto simp: quiesce_plan_def quiesceOneShot_def split: prod.splits option.splits)
      from target_run_clean [OF this] sp ModeOneShot show ?thesis by auto
    next
      case ModePair
      with prepared(2) sp lm obtain out where r: "target_run env (fp_target plan)
          (flush_Command (planned req spec) (userOf (fp_creds plan))) (fp_creds plan) tr0 = ((out, None), tr1)"
        and "Contains out (sp_LockMarker spec)"
        by (auto simp: quiesce_plan_def quiescePair_def checkLockTaken_def split: prod.splits option.splits if_splits)
      with target_run_clean [OF r] sp ModePair show ?thesis by auto
    qed
  qed simp
qed

section \<open>Waiting for the cut\<close>

definition waits :: "bevent list \<Rightarrow> nat" where
  "waits tr = length (filter (\<lambda>e. e = PollWait) tr)"

lemma waits_simps [simp]: "waits [] = 0" "waits (e # tr) = (if e = PollWait then Suc (waits tr) else waits tr)"
  "waits (a @ b) = waits a + waits b"
  by (simp_all add: waits_def)

lemma cut_condition_cases:
  assumes "cut_condition env ns name l tr = (r, tr')"
  obtains (unbound) st where "be_GetSnapshot env tr name = Inr st" "ss_contentName st = []"
      "tr' = tr @ [GetSnapshot ns name]" "r = Inr (False, noteError st l)"
  | (bound) st h where "be_GetSnapshot env tr name = Inr st" "ss_contentName st \<noteq> []"
      "be_GetContent env (tr @ [GetSnapshot ns name]) (ss_contentName st) = Inr h"
      "tr' = tr @ [GetSnapshot ns name, GetContent (ss_contentName st)]" "r = Inr (h \<noteq> [], noteError st l)"
  | (failed) e evs where "r = Inl e" "tr' = tr @ evs" "length evs \<le> 2" "waits evs = 0"
  using assms
  by (auto simp: cut_condition_def boundContentName_def get_snapshot_def run_defs
      split: sum.splits prod.splits if_splits)

text \<open>One round of the loop: the condition, and a wait when it is not met.\<close>

lemma poll_round:
  "poll_loop env fuel condition what l tr =
     (case condition l tr of (Inl e, tr1) \<Rightarrow> (Inl e, tr1)
      | (Inr (True, l'), tr1) \<Rightarrow> (Inr (), tr1)
      | (Inr (False, l'), tr1) \<Rightarrow>
          (case be_Poll env tr1 of PollDeadline \<Rightarrow> (Inl (TimedOut what l'), tr1 @ [PollWait])
           | PollCancelled \<Rightarrow> (Inl Cancelled, tr1 @ [PollWait])
           | PollTick \<Rightarrow> (case fuel of 0 \<Rightarrow> (Inl (TimedOut what l'), tr1 @ [PollWait])
               | Suc fuel \<Rightarrow> poll_loop env fuel condition what l' (tr1 @ [PollWait]))))"
  by (simp add: poll_loop.simps [of _ fuel] bbind_def bask_def bret_def bfail_def
      split: sum.splits prod.splits bool.splits poll_answer.splits nat.splits)

lemma poll_cut:
  assumes "poll_loop env fuel (cut_condition env ns name) what l tr = (r, tr')"
  shows "\<exists>evs. tr' = tr @ evs \<and> length evs \<le> 3 * fuel + 3 \<and>
    (r = Inr () \<longrightarrow> (\<exists>c h. evs \<noteq> [] \<and> last evs = GetContent c \<and>
       be_GetContent env (butlast tr') c = Inr h \<and> h \<noteq> []))"
  using assms
proof (induction fuel arbitrary: l tr)
  case 0
  obtain r1 tr1 where c: "cut_condition env ns name l tr = (r1, tr1)" by fastforce
  from c show ?case
  proof (cases rule: cut_condition_cases)
    case (unbound st)
    then show ?thesis using 0 c by (auto simp: poll_round [of _ 0] split: poll_answer.splits)
  next
    case (bound st h)
    then show ?thesis using 0 c
      by (cases "h = []") (auto simp: poll_round [of _ 0] butlast_append split: poll_answer.splits)
  next
    case (failed e evs)
    then show ?thesis using 0 c by (auto simp: poll_round [of _ 0])
  qed
next
  case (Suc fuel)
  obtain r1 tr1 where c: "cut_condition env ns name l tr = (r1, tr1)" by fastforce
  have next_round: ?case if n: "r1 = Inr (False, l')" "tr1 = tr @ evs1" "length evs1 \<le> 2" for l' evs1
  proof (cases "be_Poll env tr1")
    case PollTick
    with Suc.prems c n have "poll_loop env fuel (cut_condition env ns name) what l' (tr1 @ [PollWait]) = (r, tr')"
      by (simp add: poll_round [of _ "Suc fuel"])
    from Suc.IH [OF this] obtain evs where "tr' = (tr1 @ [PollWait]) @ evs" "length evs \<le> 3 * fuel + 3"
      "r = Inr () \<longrightarrow> (\<exists>c h. evs \<noteq> [] \<and> last evs = GetContent c \<and>
         be_GetContent env (butlast tr') c = Inr h \<and> h \<noteq> [])" by blast
    with n show ?thesis by (intro exI [of _ "evs1 @ [PollWait] @ evs"]) auto
  qed (use Suc.prems c n in \<open>auto simp: poll_round [of _ "Suc fuel"]\<close>)
  from c show ?case
  proof (cases rule: cut_condition_cases)
    case (unbound st)
    then show ?thesis by (intro next_round) auto
  next
    case (bound st h)
    show ?thesis
    proof (cases "h = []")
      case True
      with bound show ?thesis by (intro next_round) auto
    next
      case False
      with bound show ?thesis using Suc.prems c by (auto simp: poll_round [of _ "Suc fuel"] butlast_append)
    qed
  next
    case (failed e evs)
    then show ?thesis using Suc.prems c by (auto simp: poll_round [of _ "Suc fuel"])
  qed
qed

text \<open>
  C32: the wait for the cut ends within its budget, five minutes at one read every two seconds, with at
  most 450 requests, and it succeeds only upon reading a storage handle: the last thing it read is
  the content of the snapshot, which carried one.
\<close>

theorem WaitForCut_bounded:
  assumes "WaitForCut env ns name cutTimeout tr = (r, tr')"
  shows "\<exists>evs. tr' = tr @ evs \<and> length evs \<le> 450 \<and>
    (r = Inr () \<longrightarrow> (\<exists>c h. evs \<noteq> [] \<and> last evs = GetContent c \<and>
       be_GetContent env (butlast tr') c = Inr h \<and> h \<noteq> []))"
  using poll_cut [of env "(cutTimeout - 1) div pollInterval" ns name _ "[]" tr r tr'] assms
  by (simp add: WaitForCut_def poll_def cutTimeout_def pollInterval_def)

text \<open>
  A cluster that answers every read, on which every wait of the loop ends by its interval and not by a
  cancellation or an early deadline, and which has cut the snapshot after \<open>k\<close> intervals.
\<close>

definition cuts_after :: "benv \<Rightarrow> string \<Rightarrow> nat \<Rightarrow> bool" where
  "cuts_after env name k \<longleftrightarrow>
     (\<forall>tr. be_Poll env tr = PollTick \<and>
        (\<exists>st. be_GetSnapshot env tr name = Inr st \<and> (k \<le> waits tr \<longrightarrow> ss_contentName st \<noteq> [])) \<and>
        (\<forall>c. \<exists>h. be_GetContent env tr c = Inr h \<and> (k \<le> waits tr \<longrightarrow> h \<noteq> [])))"

text \<open>On such a cluster a round succeeds, and it must once the snapshot is cut.\<close>

lemma cuts_round:
  assumes "cuts_after env name k"
  obtains b l' tr1 where "cut_condition env ns name l tr = (Inr (b, l'), tr1)" "waits tr1 = waits tr"
    "k \<le> waits tr \<longrightarrow> b"
proof -
  obtain st where st: "be_GetSnapshot env tr name = Inr st" "k \<le> waits tr \<longrightarrow> ss_contentName st \<noteq> []"
    using assms unfolding cuts_after_def by blast
  obtain h where h: "be_GetContent env (tr @ [GetSnapshot ns name]) (ss_contentName st) = Inr h"
    "k \<le> waits (tr @ [GetSnapshot ns name]) \<longrightarrow> h \<noteq> []"
    using assms unfolding cuts_after_def by blast
  show thesis
  proof (cases "ss_contentName st = []")
    case True
    with st show thesis
      by (intro that [of False "noteError st l" "tr @ [GetSnapshot ns name]"])
        (simp_all add: cut_condition_def boundContentName_def get_snapshot_def run_defs)
  next
    case False
    with st h show thesis
      by (intro that [of "h \<noteq> []" "noteError st l" "tr @ [GetSnapshot ns name, GetContent (ss_contentName st)]"])
        (simp_all add: cut_condition_def boundContentName_def get_snapshot_def run_defs)
  qed
qed

lemma poll_cuts:
  assumes "cuts_after env name k" and "k \<le> waits tr + fuel"
  shows "fst (poll_loop env fuel (cut_condition env ns name) what l tr) = Inr ()"
  using assms(2)
proof (induction fuel arbitrary: l tr)
  case 0
  obtain b l' tr1 where "cut_condition env ns name l tr = (Inr (b, l'), tr1)" "waits tr1 = waits tr"
    "k \<le> waits tr \<longrightarrow> b"
    by (rule cuts_round [OF assms(1), where ns = ns and l = l and tr = tr])
  with 0 show ?case by (simp add: poll_round [of _ 0])
next
  case (Suc fuel)
  obtain b l' tr1 where c: "cut_condition env ns name l tr = (Inr (b, l'), tr1)" "waits tr1 = waits tr"
    by (rule cuts_round [OF assms(1), where ns = ns and l = l and tr = tr])
  have tick: "be_Poll env tr1 = PollTick" using assms(1) unfolding cuts_after_def by blast
  have "fst (poll_loop env fuel (cut_condition env ns name) what l' (tr1 @ [PollWait])) = Inr ()"
    using Suc.prems c(2) by (intro Suc.IH) simp
  then show ?case by (simp add: poll_round [of _ "Suc fuel"] c tick split: bool.split)
qed

text \<open>
  C31: a snapshot that is cut within the budget is waited for. If the cluster answers every read, the
  waits end by their interval, and the cut has happened after at most 149 intervals, the last that end
  before the five minutes are over, the wait returns and reports success.
\<close>

theorem WaitForCut_returns:
  assumes "cuts_after env name k" and "k \<le> 149"
  shows "fst (WaitForCut env ns name cutTimeout tr) = Inr ()"
  using poll_cuts [OF assms(1), of tr "(cutTimeout - 1) div pollInterval"] assms(2)
  by (simp add: WaitForCut_def poll_def cutTimeout_def pollInterval_def)

section \<open>Taking back what a failure leaves\<close>

fun release_error :: "run_error \<Rightarrow> bool" where
  "release_error (SessionSendFailed _ _) = True"
| "release_error (UnlockUnclean _ _) = True"
| "release_error (ReleaseFailed _ _ _) = True"
| "release_error (StillLocked _ _) = True"
| "release_error _ = False"

lemma release_errors:
  assumes "quiesce env req source tr = (Inr release, tr1)" and "fst (release tr2) = Inl e"
  shows "release_error e \<and> bq_Flush req \<noteq> []"
proof (cases "bq_Flush req = []")
  case True
  then show ?thesis using assms by (auto simp: quiesce_def bret_def)
next
  case False
  from assms(1) False show ?thesis
  proof (cases rule: quiesce_plan_of)
    case (prepared plan tr0)
    have rs: "release_error e" if "fst (release_session env k lock tr2) = Inl e" for k lock
      using that by (auto simp: release_session_def session_Write_def run_defs split: prod.splits sum.splits option.splits)
    have rp: "release_error e" if "fst (release_pair env t k sp cr tr2) = Inl e" for t k sp cr
      using that by (auto simp: release_pair_def split: prod.splits option.splits if_splits)
    show ?thesis using prepared(2) assms(2) False
      by (cases "sp_Mode (fp_spec plan)")
        (auto simp: quiesce_plan_def quiesceSession_def quiesceOneShot_def quiescePair_def bbind_def bret_def
          dest: rs rp split: prod.splits sum.splits option.splits)
  qed simp
qed

fun made_snapshot :: "string \<Rightarrow> string \<Rightarrow> bevent \<Rightarrow> bool" where
  "made_snapshot ns n (CreateSnapshot ns' _ _ n' _ ok) \<longleftrightarrow> ns = ns' \<and> n = n' \<and> ok"
| "made_snapshot ns n _ \<longleftrightarrow> False"

lemma made_snapshot_iff: "made_snapshot ns n e \<longleftrightarrow> (\<exists>c cl l. e = CreateSnapshot ns c cl n l True)"
  by (cases e) auto

fun made_clone :: "string \<Rightarrow> string \<Rightarrow> bevent \<Rightarrow> bool" where
  "made_clone ns n (CreateClone ns' n' _ _ _ ok) \<longleftrightarrow> ns = ns' \<and> n = n' \<and> ok"
| "made_clone ns n _ \<longleftrightarrow> False"

fun removes :: "bevent \<Rightarrow> bool" where
  "removes (DeleteSnapshot _ _) = True"
| "removes (DeleteClaim _ _) = True"
| "removes _ = False"

text \<open>Requests that make and remove nothing.\<close>

definition inert :: "bevent \<Rightarrow> bool" where
  "inert e \<longleftrightarrow> (\<forall>ns n. \<not> made_snapshot ns n e \<and> \<not> made_clone ns n e) \<and> \<not> removes e"

lemma watching_inert: "watching e \<Longrightarrow> inert e"
  by (cases e) (simp_all add: inert_def)

lemma emits_watching_inert: "emits watching m \<Longrightarrow> emits inert m"
  by (rule emits_mono [OF _ watching_inert])

lemma inert_set: "list_all inert evs \<Longrightarrow> e \<in> set evs \<Longrightarrow> \<not> made_snapshot ns n e \<and> \<not> made_clone ns n e \<and> \<not> removes e"
  by (auto simp: list_all_iff inert_def)

lemma quiesce_inert:
  assumes "quiesce env req source tr = (r, tr1)"
  shows "\<exists>evs. tr1 = tr @ evs \<and> list_all inert evs" and "r = Inr release \<Longrightarrow> emits inert release"
  by (rule emits_quiesce [OF _ _ _ _ _ _ assms]; simp add: inert_def)+

lemma between_made:
  assumes "list_all snapshot_request between" and "e \<in> set between"
    and "between = CreateSnapshot ns a c name labels ok # rest"
    and "\<forall>ev \<in> set rest. \<forall>a b c d e f. ev \<noteq> CreateSnapshot a b c d e f"
  shows "made_snapshot ns' n' e \<longleftrightarrow> e = hd between \<and> ok \<and> ns' = ns \<and> n' = name"
    and "\<not> made_clone ns' n' e" and "removes e \<Longrightarrow> \<exists>a b. e = DeleteSnapshot a b"
proof -
  have "\<not> made_snapshot ns' n' e" if "e \<in> set rest" using assms(4) that unfolding made_snapshot_iff by auto
  then show "made_snapshot ns' n' e \<longleftrightarrow> e = hd between \<and> ok \<and> ns' = ns \<and> n' = name" using assms(2,3) by auto
  show "\<not> made_clone ns' n' e" "removes e \<Longrightarrow> \<exists>a b. e = DeleteSnapshot a b"
    using assms(1,2) by (cases e; auto simp: list_all_iff)+
qed

lemma cutSnapshot_made:
  assumes "cutSnapshot env req source name labels tr = (r, tr')"
  obtains evs where "tr' = tr @ evs" "\<forall>e \<in> set evs. \<not> made_clone ns n e"
    "\<forall>e \<in> set evs. made_snapshot ns n e \<longrightarrow> ns = cl_Namespace (in_Claim source) \<and> n = name"
    "case r of Inl err \<Rightarrow> (\<exists>e \<in> set evs. made_snapshot ns n e) \<longrightarrow> DeleteSnapshot ns n \<in> set evs \<or> release_error err \<and> bq_Flush req \<noteq> []
     | Inr _ \<Rightarrow> (\<forall>e \<in> set evs. \<not> removes e) \<and> (\<exists>e \<in> set evs. made_snapshot (cl_Namespace (in_Claim source)) name e)"
proof -
  obtain q tr1 where q: "quiesce env req source tr = (q, tr1)" by fastforce
  obtain e1 where e1: "tr1 = tr @ e1" "list_all inert e1" using quiesce_inert(1) [OF q] by blast
  show thesis
  proof (cases q)
    case (Inl err)
    then show thesis using e1 q assms inert_set [OF e1(2)] by (intro that [of e1]) (auto simp: cutSnapshot_def)
  next
    case (Inr release)
    then have q': "quiesce env req source tr = (Inr release, tr1)" using q by simp
    show thesis
    proof (rule cutSnapshot_facts [OF q' assms])
      fix between ok
      let ?ns = "cl_Namespace (in_Claim source)"
      assume f: "tr' = snd (release (tr1 @ between))" "list_all snapshot_request between"
        "hd between = CreateSnapshot ?ns (cl_Name (in_Claim source)) (bq_SnapshotClass req) name labels ok" "between \<noteq> []"
        "\<forall>ev \<in> set (tl between). \<forall>a b c d e f. ev \<noteq> CreateSnapshot a b c d e f"
        "if isl r then ok \<longrightarrow> last between = DeleteSnapshot ?ns name \<or> fst (release (tr1 @ between)) = r
         else ok \<and> fst (release (tr1 @ between)) = r \<and> (\<forall>ns n. DeleteSnapshot ns n \<notin> set between)"
      obtain e3 where e3: "tr' = (tr1 @ between) @ e3" "list_all inert e3"
        using quiesce_inert(2) [OF q Inr] f(1) by (metis emitsE)
      let ?evs = "e1 @ between @ e3"
      note i = inert_set [OF e1(2)] inert_set [OF e3(2)]
      obtain rest where bt: "between = CreateSnapshot ?ns (cl_Name (in_Claim source)) (bq_SnapshotClass req) name labels ok # rest"
        using f(3,4) by (cases between) auto
      note btw = between_made [OF f(2) _ bt f(5) [unfolded bt list.sel]]
      have made: "made_snapshot ns' n' e \<longleftrightarrow> e = hd between \<and> ok \<and> ns' = ?ns \<and> n' = name" if "e \<in> set ?evs" for e ns' n'
        using that i btw(1) bt by auto
      have sr: "\<not> made_clone ns' n' e \<and> (removes e \<longrightarrow> (\<exists>a b. e = DeleteSnapshot a b))" if "e \<in> set between" for e ns' n'
        using btw(2,3) [OF that] by blast
      show thesis
      proof (rule that [of ?evs])
        show "tr' = tr @ ?evs" using e1 e3 by simp
        show "\<forall>e \<in> set ?evs. \<not> made_clone ns n e" using i sr by auto
        show "\<forall>e \<in> set ?evs. made_snapshot ns n e \<longrightarrow> ns = ?ns \<and> n = name" using made by auto
        show "case r of Inl err \<Rightarrow> (\<exists>e \<in> set ?evs. made_snapshot ns n e) \<longrightarrow>
              DeleteSnapshot ns n \<in> set ?evs \<or> release_error err \<and> bq_Flush req \<noteq> []
          | Inr _ \<Rightarrow> (\<forall>e \<in> set ?evs. \<not> removes e) \<and> (\<exists>e \<in> set ?evs. made_snapshot ?ns name e)"
        proof (cases r)
          case (Inl err)
          have "DeleteSnapshot ns n \<in> set ?evs \<or> release_error err \<and> bq_Flush req \<noteq> []"
            if m: "e \<in> set ?evs" "made_snapshot ns n e" for e
          proof -
            from made [OF m(1)] m(2) have "ok" "ns = ?ns" "n = name" by auto
            with f(4,6) Inl have "DeleteSnapshot ns n \<in> set between \<or> fst (release (tr1 @ between)) = Inl err"
              by (metis last_in_set sum.disc(1))
            with release_errors [OF q'] show ?thesis by auto
          qed
          with Inl show ?thesis by auto
        next
          case (Inr u)
          with f(6) have "ok" "\<forall>ns n. DeleteSnapshot ns n \<notin> set between" by simp_all
          with i sr bt Inr show ?thesis by fastforce
        qed
      qed
    qed
  qed
qed

lemma ensureSnapshot_made:
  assumes "ensureSnapshot env req source releaseName tr = (r, tr')"
  obtains evs where "tr' = tr @ evs" "\<forall>e \<in> set evs. \<not> made_clone ns n e"
    "case r of Inl err \<Rightarrow> (\<exists>e \<in> set evs. made_snapshot ns n e) \<longrightarrow> DeleteSnapshot ns n \<in> set evs \<or> release_error err \<and> bq_Flush req \<noteq> []
     | Inr (name, created) \<Rightarrow> (\<forall>e \<in> set evs. \<not> removes e) \<and>
         (\<forall>e \<in> set evs. made_snapshot ns n e \<longrightarrow> created \<and> ns = cl_Namespace (in_Claim source) \<and> n = name)"
proof (cases "bq_FromSnapshot req = []")
  case False
  then show thesis using assms by (intro that [of "[]"]) (auto simp: ensureSnapshot_def bret_def)
next
  case True
  obtain r1 tr1 where c: "cutSnapshot env req source (releaseName @ snapshotSuffix)
      (snapshotLabels releaseName (bq_KeepSnapshot req)) tr = (r1, tr1)" by fastforce
  show thesis
  proof (rule cutSnapshot_made [OF c])
    fix evs
    assume f: "tr1 = tr @ evs" "\<forall>e \<in> set evs. \<not> made_clone ns n e"
      "\<forall>e \<in> set evs. made_snapshot ns n e \<longrightarrow> ns = cl_Namespace (in_Claim source) \<and> n = releaseName @ snapshotSuffix"
      "case r1 of Inl err \<Rightarrow> (\<exists>e \<in> set evs. made_snapshot ns n e) \<longrightarrow> DeleteSnapshot ns n \<in> set evs \<or> release_error err \<and> bq_Flush req \<noteq> []
       | Inr _ \<Rightarrow> (\<forall>e \<in> set evs. \<not> removes e) \<and> (\<exists>e \<in> set evs. made_snapshot (cl_Namespace (in_Claim source)) (releaseName @ snapshotSuffix) e)"
    from assms True c have "r = map_sum id (\<lambda>_. (releaseName @ snapshotSuffix, True)) r1 \<and> tr' = tr1"
      by (auto simp: ensureSnapshot_def bbind_def bret_def Let_def split: sum.splits)
    with f show thesis by (intro that [of evs]) (auto split: sum.splits)
  qed
qed

lemma cloneSnapshot_made:
  assumes "cloneSnapshot env snapshotName cloneName source labels tr = (r, created, tr')"
  obtains evs where "tr' = tr @ evs" "\<forall>e \<in> set evs. \<not> made_snapshot ns n e \<and> \<not> removes e"
    "(\<exists>e \<in> set evs. made_clone ns n e) \<longleftrightarrow> created \<and> ns = cl_Namespace (in_Claim source) \<and> n = cloneName"
    "\<not> isl r \<longrightarrow> created"
proof -
  let ?ev = "\<lambda>ok. CreateClone (cl_Namespace (in_Claim source)) cloneName snapshotName (clone_size (in_Claim source)) labels ok"
  show thesis
  proof (cases "be_CreateClone env tr cloneName")
    case None
    then show thesis using assms
      by (intro that [of "[?ev True, LookupClaim (cl_Namespace (in_Claim source)) cloneName]"])
        (auto simp: cloneSnapshot_def snapshot_Clone_def run_defs Let_def split: sum.splits)
  next
    case (Some e)
    then show thesis using assms
      by (intro that [of "[?ev False]"]) (auto simp: cloneSnapshot_def snapshot_Clone_def run_defs Let_def)
  qed
qed

lemma rollback_events:
  "rollbackSnapshotSource env ns cl sn created remove tr =
     tr @ (if created then [DeleteClaim ns cl] else []) @ (if remove then [DeleteSnapshot ns sn] else [])"
  by (simp add: rollbackSnapshotSource_def DeleteSnapshot_effect)

lemma removeSnapshotSource_events:
  "DeleteClaim ns cl \<in> set (drop (length tr) (effect (removeSnapshotSource env ns cl sn remove) tr))"
  by (auto simp: removeSnapshotSource_def snapshot_DeleteClaim_def snapshot_DeleteSnapshot_def run_defs
      split: option.splits)

text \<open>What follows once there is a snapshot: the wait, the clone and the rollback.\<close>

lemma prepareSnapshotSource_late:
  fixes source releaseName
  defines "src_ns \<equiv> cl_Namespace (in_Claim source)" and "cl \<equiv> releaseName @ cloneSuffix"
  assumes "prepareSnapshotSource env req source releaseName tr = (r, tr')"
    and "(if bq_FromSnapshot req = [] then CheckClass env (bq_SnapshotClass req) else bret ()) tr = (r0, tr @ e0)" "\<not> isl r0"
    and "ensureSnapshot env req source releaseName (tr @ e0) = (Inr (name, created), tr1)"
  obtains e2 e3 cc where "list_all inert e2" "\<forall>e \<in> set e3. \<not> made_snapshot ns n e \<and> \<not> removes e"
    "(\<exists>e \<in> set e3. made_clone ns n e) \<longleftrightarrow> cc \<and> ns = src_ns \<and> n = cl"
    "case r of Inl err \<Rightarrow> tr' = tr1 @ e2 @ e3 @ (if cc then [DeleteClaim src_ns cl] else []) @
         (if created \<and> \<not> bq_KeepSnapshot req then [DeleteSnapshot src_ns name] else [])
     | Inr src \<Rightarrow> tr' = tr1 @ e2 @ e3 \<and>
         sn_cleanup src = removeSnapshotSource env src_ns cl name (created \<and> \<not> bq_KeepSnapshot req)"
proof -
  obtain r2 e2 where w: "WaitReady env src_ns name readyTimeout tr1 = (r2, tr1 @ e2)" "list_all inert e2"
    by (metis emitsE emits_watching(2) emits_watching_inert prod.collapse)
  show thesis
  proof (cases r2)
    case (Inl e)
    with assms(3-6) w show thesis unfolding src_ns_def cl_def
      by (intro that [of e2 "[]" False])
        (auto simp: prepareSnapshotSource_def bbind_def Let_def rollback_events src_ns_def cl_def split: sum.splits)
  next
    case (Inr u)
    obtain r3 cc tr3 where k: "cloneSnapshot env name cl source (runLabels releaseName) (tr1 @ e2) = (r3, cc, tr3)"
      by (metis prod_cases3)
    show thesis
    proof (rule cloneSnapshot_made [OF k, of ns n])
      fix e3
      assume e3: "tr3 = (tr1 @ e2) @ e3" "\<forall>e \<in> set e3. \<not> made_snapshot ns n e \<and> \<not> removes e"
        "(\<exists>e \<in> set e3. made_clone ns n e) \<longleftrightarrow> cc \<and> ns = cl_Namespace (in_Claim source) \<and> n = cl" "\<not> isl r3 \<longrightarrow> cc"
      show thesis
        by (rule that [of e2 e3 cc])
          (use assms(3-6) w k e3 Inr in \<open>auto simp: prepareSnapshotSource_def bbind_def Let_def rollback_events
             src_ns_def cl_def split: sum.splits\<close>)
    qed
  qed
qed

text \<open>A preparation that succeeds has deleted nothing.\<close>

lemma prepareSnapshotSource_keeps:
  assumes "prepareSnapshotSource env req source releaseName tr = (Inr src, tr')"
  shows "\<exists>evs. tr' = tr @ evs \<and> (\<forall>e \<in> set evs. \<not> removes e)"
proof -
  have "emits inert (if bq_FromSnapshot req = [] then CheckClass env (bq_SnapshotClass req) else bret ())"
    by (auto intro!: emits_watching_inert emits_intro)
  then obtain r0 e0 where c: "(if bq_FromSnapshot req = [] then CheckClass env (bq_SnapshotClass req) else bret ()) tr = (r0, tr @ e0)"
    and e0: "list_all inert e0" by (metis emitsE prod.collapse)
  obtain r1 tr1 where s: "ensureSnapshot env req source releaseName (tr @ e0) = (r1, tr1)" by fastforce
  have ok: "\<not> isl r0" "\<not> isl r1"
    using assms c s by (auto simp: prepareSnapshotSource_def bbind_def isl_def split: sum.splits)
  then obtain name created where r1: "r1 = Inr (name, created)" by (cases r1) auto
  show ?thesis
  proof (rule ensureSnapshot_made [OF s, of "[]" "[]"], rule prepareSnapshotSource_late [OF assms c ok(1) s [unfolded r1], of "[]" "[]"])
    fix e1 e2 e3 cc
    assume "tr1 = (tr @ e0) @ e1" and e1: "case r1 of Inl err \<Rightarrow> (\<exists>e \<in> set e1. made_snapshot [] [] e) \<longrightarrow> DeleteSnapshot [] [] \<in> set e1 \<or> release_error err \<and> bq_Flush req \<noteq> []
       | Inr (name, created) \<Rightarrow> (\<forall>e \<in> set e1. \<not> removes e) \<and>
           (\<forall>e \<in> set e1. made_snapshot [] [] e \<longrightarrow> created \<and> [] = cl_Namespace (in_Claim source) \<and> [] = name)"
    moreover assume "list_all inert e2" "\<forall>e \<in> set e3. \<not> made_snapshot [] [] e \<and> \<not> removes e"
      and "case Inr src of Inl err \<Rightarrow> tr' = tr1 @ e2 @ e3 @ (if cc then [DeleteClaim (cl_Namespace (in_Claim source)) (releaseName @ cloneSuffix)] else []) @
             (if created \<and> \<not> bq_KeepSnapshot req then [DeleteSnapshot (cl_Namespace (in_Claim source)) name] else [])
         | Inr src \<Rightarrow> tr' = tr1 @ e2 @ e3 \<and>
             sn_cleanup src = removeSnapshotSource env (cl_Namespace (in_Claim source)) (releaseName @ cloneSuffix) name (created \<and> \<not> bq_KeepSnapshot req)"
    ultimately show ?thesis
      using r1 e0 by (intro exI [of _ "e0 @ e1 @ e2 @ e3"]) (auto simp: list_all_iff inert_def)
  qed
qed

text \<open>
  C9: preparing a snapshot to back up from takes back what it made when it fails: a cloned claim is
  deleted, and so is a snapshot it made, unless the request says to keep the snapshot or the failure
  is that the database's lock could not be released, which leaves the snapshot behind. When it succeeds nothing was deleted, and the clean-up it
  hands back deletes the clone.
\<close>

theorem prepareSnapshotSource_rollback:
  assumes "prepareSnapshotSource env req source releaseName tr = (r, tr')"
  shows "\<exists>evs. tr' = tr @ evs \<and>
    (case r of
       Inl err \<Rightarrow>
         ((\<exists>e \<in> set evs. made_clone ns n e) \<longrightarrow> DeleteClaim ns n \<in> set evs) \<and>
         ((\<exists>e \<in> set evs. made_snapshot ns n e) \<longrightarrow>
            DeleteSnapshot ns n \<in> set evs \<or> bq_KeepSnapshot req \<or> release_error err \<and> bq_Flush req \<noteq> [])
     | Inr src \<Rightarrow>
         (\<forall>e \<in> set evs. \<not> removes e) \<and>
         ((\<exists>e \<in> set evs. made_clone ns n e) \<longrightarrow>
            DeleteClaim ns n \<in> set (drop (length tr2) (effect (sn_cleanup src) tr2))))"
proof -
  let ?ns = "cl_Namespace (in_Claim source)" and ?cl = "releaseName @ cloneSuffix"
  have "emits inert (if bq_FromSnapshot req = [] then CheckClass env (bq_SnapshotClass req) else bret ())"
    by (auto intro!: emits_watching_inert emits_intro)
  then obtain r0 e0 where c: "(if bq_FromSnapshot req = [] then CheckClass env (bq_SnapshotClass req) else bret ()) tr = (r0, tr @ e0)"
    and e0: "list_all inert e0" by (metis emitsE prod.collapse)
  obtain r1 tr1 where s: "ensureSnapshot env req source releaseName (tr @ e0) = (r1, tr1)" by fastforce
  note i0 = inert_set [OF e0]
  show ?thesis
  proof (rule ensureSnapshot_made [OF s, of ns n])
    fix e1
    assume e1: "tr1 = (tr @ e0) @ e1" "\<forall>e \<in> set e1. \<not> made_clone ns n e"
      "case r1 of Inl err \<Rightarrow> (\<exists>e \<in> set e1. made_snapshot ns n e) \<longrightarrow> DeleteSnapshot ns n \<in> set e1 \<or> release_error err \<and> bq_Flush req \<noteq> []
       | Inr (name, created) \<Rightarrow> (\<forall>e \<in> set e1. \<not> removes e) \<and>
           (\<forall>e \<in> set e1. made_snapshot ns n e \<longrightarrow> created \<and> ns = ?ns \<and> n = name)"
    show ?thesis
    proof (cases "isl r0 \<or> isl r1")
      case True
      with assms c s e1 i0 show ?thesis
        by (intro exI [of _ "if isl r0 then e0 else e0 @ e1"])
          (auto simp: prepareSnapshotSource_def bbind_def isl_def split: sum.splits)
    next
      case False
      then obtain name created where r1: "r1 = Inr (name, created)" and r0: "\<not> isl r0" by (cases r1) auto
      have m1: "\<forall>e \<in> set e1. \<not> removes e"
        "\<forall>e \<in> set e1. made_snapshot ns n e \<longrightarrow> created \<and> ns = ?ns \<and> n = name"
        using e1(3) r1 by simp_all
      show ?thesis
      proof (rule prepareSnapshotSource_late [OF assms c r0 s [unfolded r1], of ns n])
        fix e2 e3 cc
        assume late: "list_all inert e2" "\<forall>e \<in> set e3. \<not> made_snapshot ns n e \<and> \<not> removes e"
          "(\<exists>e \<in> set e3. made_clone ns n e) \<longleftrightarrow> cc \<and> ns = ?ns \<and> n = ?cl"
          "case r of Inl err \<Rightarrow> tr' = tr1 @ e2 @ e3 @ (if cc then [DeleteClaim ?ns ?cl] else []) @
               (if created \<and> \<not> bq_KeepSnapshot req then [DeleteSnapshot ?ns name] else [])
           | Inr src \<Rightarrow> tr' = tr1 @ e2 @ e3 \<and>
               sn_cleanup src = removeSnapshotSource env ?ns ?cl name (created \<and> \<not> bq_KeepSnapshot req)"
        have pre: "\<forall>e \<in> set (e0 @ e1 @ e2). \<not> made_clone ns n e \<and> \<not> removes e"
          "\<forall>e \<in> set (e0 @ e1 @ e2). made_snapshot ns n e \<longrightarrow> created \<and> ns = ?ns \<and> n = name"
          using m1 e1(2) i0 inert_set [OF late(1)] by auto
        show ?thesis
          using pre late(2-4) e1(1) removeSnapshotSource_events [of ?ns ?cl tr2 env name "created \<and> \<not> bq_KeepSnapshot req"]
          by (cases r; intro exI [of _ "drop (length tr) tr'"]) auto
      qed
    qed
  qed
qed

section \<open>An environment\<close>

text \<open>
  A cluster on which everything works: the snapshot is cut at once, and the database in the pod is a
  MongoDB that takes and releases its lock.
\<close>

definition claim_example :: Claim where
  "claim_example =
     \<lparr>cl_Namespace = ''ns'', cl_Name = ''data'', cl_AccessModes = [''ReadWriteOnce''], cl_VolumeName = ''pv'',
      cl_StorageClassName = None, cl_Annotations = [], cl_Capacity = Some 5, cl_Requests = Some 3\<rparr>"

definition info_example :: Info where
  "info_example =
     \<lparr>in_Client = \<lparr>cc_Host = ''h'', cc_NsInContext = ''ns''\<rparr>, in_Claim = claim_example, in_MountedNode = ''n'',
      in_AllowedNodes = None, in_PinnedNodes = None, in_MountedPod = ''mongo-0'', in_Affinity = None,
      in_SupportsRWO = True, in_SupportsROX = False, in_SupportsRWX = False\<rparr>"

definition benv_example :: benv where
  "benv_example =
     \<lparr>be_GetClass = (\<lambda>_ _. None), be_Discover = (\<lambda>_. Inr []), be_CreateSnapshot = (\<lambda>_ _. None),
      be_GetSnapshot = (\<lambda>_ _. Inr \<lparr>ss_error = None, ss_contentName = ''content'', ss_ready = True\<rparr>),
      be_GetContent = (\<lambda>_ _. Inr ''handle''), be_Poll = (\<lambda>_. PollTick), be_CreateClone = (\<lambda>_ _. None),
      be_DeleteSnapshot = (\<lambda>_ _. None), be_DeleteClaim = (\<lambda>_ _. None), be_ListClaims = (\<lambda>_. Inr []),
      be_ListSnapshots = (\<lambda>_. Inr []), be_Lookup = (\<lambda>_ _ _ _. Inr info_example),
      be_GetSecret = (\<lambda>_ _. Inr []), be_Open = (\<lambda>_ _. None), be_Send = (\<lambda>_. None),
      be_Output = (\<lambda>_. ''pv-migrate-fsynclock=1;pv-migrate-lockcount=0''), be_Session = (\<lambda>_. SessionTick),
      be_Close = (\<lambda>_. None), be_InitHelm = (\<lambda>_. None), be_CanCreate = (\<lambda>_ _. Inr True),
      be_MergeValues = (\<lambda>_ _ vals. Inr vals), be_Install = (\<lambda>_ _. None), be_Uninstall = (\<lambda>_ _. None),
      be_JobStart = (\<lambda>_ _. None), be_Job = (\<lambda>_ _. None)\<rparr>"

definition flush_request :: BRequest where
  "flush_request = brequest_example\<lparr>bq_Flush := ''mongodb''\<rparr>"

lemma example_output: "TrimSpace (be_Output benv_example tr) = be_Output benv_example tr"
  using TrimSpace_solid(1) [of "CHR ''p''" "''v-migrate-fsynclock=1;pv-migrate-lockcount=0''"]
  by (simp add: benv_example_def solid_def byte_def)

lemma example_markers:
  "Contains (be_Output benv_example tr) ''pv-migrate-fsynclock=1''"
  "Contains (be_Output benv_example tr) ''pv-migrate-lockcount=0''"
  by (simp_all add: benv_example_def go_eval)

lemma example_mongodb:
  obtains spec where "flush_Lookup ''mongodb'' = Inr spec" "sp_Mode spec = ModePair"
    "sp_LockMarker spec = ''pv-migrate-fsynclock=1''" "sp_ReadsCredentials spec"
  by (simp add: flush_Lookup_def specs_def Spec_zero_def mysqlFamily_def)

lemma example_quiesce: "\<exists>release tr1. quiesce benv_example flush_request info_example [] = (Inr release, tr1)"
proof -
  obtain spec where sp: "flush_Lookup ''mongodb'' = Inr spec" "sp_Mode spec = ModePair"
    "sp_LockMarker spec = ''pv-migrate-fsynclock=1''" "sp_ReadsCredentials spec"
    by (rule example_mongodb)
  obtain plan tr0 where p: "prepareFlush benv_example flush_request info_example [] = (Inr plan, tr0)" "fp_spec plan = spec"
    using sp by (simp add: prepareFlush_def resolveFlushCredentials_def flush_request_def brequest_example_def
        info_example_def credentials_Check_def ContainsAny_def run_defs Let_def)
  have run: "\<exists>tr1. flush_Run benv_example t c pw tr0 = ((be_Output benv_example [], None), tr1)" for t c pw
    using example_output by (auto simp: flush_Run_def session_Open_def session_WriteSecret_def session_Close_def
        run_defs benv_example_def Let_def split: option.splits)
  have "\<exists>release tr1. quiescePair benv_example t k spec cr tr0 = (Inr release, tr1)" for t k cr
    using run [of t "flush_Command spec (userOf cr)" "map_option cr_Password cr"] example_markers(1) [of "[]"] sp
    by (auto simp: quiescePair_def target_run_def checkLockTaken_def)
  with p sp show ?thesis by (simp add: quiesce_def quiesce_plan_def bbind_def flush_request_def)
qed

lemma cutSnapshot_protected_witness:
  "\<exists>release tr1 r tr' between. quiesce benv_example flush_request info_example [] = (Inr release, tr1) \<and>
     cutSnapshot benv_example flush_request info_example ''s'' [] [] = (r, tr') \<and>
     tr' = snd (release (tr1 @ between)) \<and> list_all snapshot_request between \<and> sessions tr' = 0"
proof -
  obtain release tr1 where q: "quiesce benv_example flush_request info_example [] = (Inr release, tr1)"
    using example_quiesce by blast
  obtain r tr' where c: "cutSnapshot benv_example flush_request info_example ''s'' [] [] = (r, tr')" by fastforce
  from cutSnapshot_protected [OF q c] q c show ?thesis by force
qed

lemma flush_secrets_single_line_witness:
  "\<exists>r evs. cutSnapshot benv_example flush_request info_example ''s'' [] [] = (r, evs) \<and> list_all secret_fits evs"
proof -
  obtain r tr' where c: "cutSnapshot benv_example flush_request info_example ''s'' [] [] = (r, tr')" by fastforce
  from flush_secrets_single_line [OF c] c show ?thesis by simp
qed

lemma quiesce_confirmed_witness:
  "\<exists>release tr1. quiesce benv_example flush_request info_example [] = (Inr release, tr1) \<and>
     Contains (TrimSpace (be_Output benv_example tr1)) ''pv-migrate-fsynclock=1''"
proof -
  obtain release tr1 where q: "quiesce benv_example flush_request info_example [] = (Inr release, tr1)"
    using example_quiesce by blast
  obtain spec where sp: "flush_Lookup ''mongodb'' = Inr spec" "sp_Mode spec = ModePair"
    "sp_LockMarker spec = ''pv-migrate-fsynclock=1''" by (rule example_mongodb)
  from quiesce_confirmed [OF q, of spec] sp q show ?thesis by (simp add: flush_request_def)
qed

lemma WaitForCut_bounded_witness:
  "\<exists>r evs. WaitForCut benv_example ''ns'' ''s'' cutTimeout [] = (r, evs) \<and> length evs \<le> 450"
proof -
  obtain r tr' where c: "WaitForCut benv_example ''ns'' ''s'' cutTimeout [] = (r, tr')" by fastforce
  from WaitForCut_bounded [OF c] c show ?thesis by auto
qed

lemma WaitForCut_returns_witness: "fst (WaitForCut benv_example ''ns'' ''s'' cutTimeout []) = Inr ()"
  by (rule WaitForCut_returns [of _ _ 0]) (simp_all add: cuts_after_def benv_example_def)

text \<open>The same environment, but the clone cannot be looked up.\<close>

lemma prepareSnapshotSource_rollback_witness:
  "\<exists>r evs. prepareSnapshotSource (benv_example\<lparr>be_Lookup := \<lambda>_ _ _ _. Inl (NodesGone [] [])\<rparr>)
       brequest_example info_example ''rel'' [] = (Inl r, evs) \<and>
     DeleteClaim ''ns'' ''rel-clone'' \<in> set evs \<and> DeleteSnapshot ''ns'' ''rel-snap'' \<in> set evs"
proof -
  let ?env = "benv_example\<lparr>be_Lookup := \<lambda>_ _ _ _. Inl (NodesGone [] [])\<rparr>"
  note ev = prepareSnapshotSource_def ensureSnapshot_def cutSnapshot_def quiesce_def cut_body_def snapshot_Create_def
    WaitForCut_def WaitReady_def poll_def cutTimeout_def readyTimeout_def pollInterval_def cut_condition_def
    ready_condition_def boundContentName_def get_snapshot_def cloneSnapshot_def snapshot_Clone_def run_defs Let_def
    benv_example_def brequest_example_def info_example_def claim_example_def snapshotSuffix_def cloneSuffix_def
    CheckClass_def poll_loop.simps
  obtain r evs where p: "prepareSnapshotSource ?env brequest_example info_example ''rel'' [] = (Inl r, evs)"
    and m: "\<exists>e \<in> set evs. made_clone ''ns'' ''rel-clone'' e" "\<exists>e \<in> set evs. made_snapshot ''ns'' ''rel-snap'' e"
    by (simp add: ev rollback_events)
  from prepareSnapshotSource_rollback [OF p, of "''ns''" "''rel-clone''" "[]"]
    prepareSnapshotSource_rollback [OF p, of "''ns''" "''rel-snap''" "[]"] p m
  show ?thesis by (simp add: brequest_example_def)
qed

end
