(* ===== verification/BucketRun.thy ===== *)
theory BucketRun
  imports SnapshotFacts Opid
begin

text \<open>
  \<open>bucketstorage.Run\<close> and what it calls (\<open>src/internal/bucketstorage/bucketstorage.go\<close>): a backup or
  restore from the checks on the request to the removal of everything it made. Helm, the cluster and
  the waits of package \<open>k8s\<close> answer through the environment; what is printed is left out.
\<close>

section \<open>One run\<close>

record bworld =
  bw_ReadConfig :: "string \<Rightarrow> (string, string) result"
  bw_Marshal :: yaml
  bw_Now :: go_time
  bw_GenerateID :: string
  bw_Client :: "(run_error, ClusterClient) result"
  bw_Chart :: "run_error option"

definition bucket_mergeHelmValues :: "benv \<Rightarrow> hmap \<Rightarrow> BRequest \<Rightarrow> (string, hmap) result" where
  "bucket_mergeHelmValues env baseValues req =
     be_MergeValues env
       (if bq_ImageTag req \<noteq> [] then (''rclone.image.tag='' @ bq_ImageTag req) # bq_HelmValues req
        else bq_HelmValues req) req baseValues"

definition init_release :: "benv \<Rightarrow> unit brun" where
  "init_release env = bbind (bask (\<lambda>_. InitRelease) (be_InitHelm env)) (bguard HelmInit)"

definition disable_forbidden :: "benv \<Rightarrow> hmap \<Rightarrow> hmap brun" where
  "disable_forbidden env vals tr =
     (let run = disable_run (be_CanCreate env tr) vals
      in (Inr (fst run), tr @ map CheckNetworkPolicy (rev (map fst (snd run)))))"

definition bucket_installHelmChart :: "benv \<Rightarrow> string \<Rightarrow> hmap \<Rightarrow> BRequest \<Rightarrow> unit brun" where
  "bucket_installHelmChart env releaseName baseValues req =
     bbind (init_release env) (\<lambda>_.
     bbind (disable_forbidden env baseValues) (\<lambda>vals.
     bbind (blift HelmMerge (bucket_mergeHelmValues env vals req)) (\<lambda>merged.
     bbind (bask (\<lambda>answer. InstallRelease releaseName merged (answer = None)) (\<lambda>tr. be_Install env tr releaseName))
       (bguard HelmInstall))))"

definition bucket_cleanupRelease :: "benv \<Rightarrow> string \<Rightarrow> unit brun" where
  "bucket_cleanupRelease env releaseName =
     bbind (init_release env) (\<lambda>_.
     bbind (bask (\<lambda>_. UninstallRelease releaseName) (\<lambda>tr. be_Uninstall env tr releaseName))
       (bguard (HelmUninstall releaseName)))"

text \<open>The body of \<open>handleJobCompletion\<close> before its deferred clean-up; \<open>writeFailure\<close> is one report.\<close>

definition await_job :: "benv \<Rightarrow> BRequest \<Rightarrow> string \<Rightarrow> string \<Rightarrow> unit brun" where
  "await_job env req releaseName jobName =
     (if bq_Detach req
      then bbind (bask (\<lambda>_. WaitJobStart jobName) (\<lambda>tr. be_JobStart env tr jobName)) (bguard JobNotStarted)
      else bbind (bask (\<lambda>_. WaitJob jobName) (\<lambda>tr. be_Job env tr jobName)) (\<lambda>answer.
        case answer of None \<Rightarrow> bret ()
        | Some e \<Rightarrow> bbind (bask (\<lambda>_. ReportFailure releaseName) (\<lambda>_. ())) (\<lambda>_. bfail (JobError e))))"

definition handleJobCompletion :: "benv \<Rightarrow> BRequest \<Rightarrow> string \<Rightarrow> string \<Rightarrow> unit brun" where
  "handleJobCompletion env req releaseName jobName tr =
     (case await_job env req releaseName jobName tr of (r, tr1) \<Rightarrow>
        (r, if bq_NoCleanup req then tr1
            else if bq_NoCleanupOnFailure req \<and> isl r then tr1
            else if bq_Detach req then tr1
            else effect (bucket_cleanupRelease env releaseName) tr1))"

text \<open>
  \<open>Run\<close> up to the first request to the cluster: everything that is refused for the request alone. The
  result is the archive target, the release name, the rclone configuration, the remote path and the
  path inside the volume.
\<close>

definition check_request ::
  "bworld \<Rightarrow> BRequest \<Rightarrow> (bucket_error, Target \<times> string \<times> string \<times> string \<times> string) result" where
  "check_request w req =
     (let operationID = (if bq_ID req = [] then bw_GenerateID w else bq_ID req) in
      case (if isArchive req then parseArchiveTarget req (bw_Now w) else Inr Target_zero) of Inl e \<Rightarrow> Inl e
      | Inr target \<Rightarrow>
      case validateSnapshotRequest req of Some e \<Rightarrow> Inl e
      | None \<Rightarrow>
      let releaseName = ReleasePrefix @ operationID @ ''-'' @ bq_Direction req in
      case resolveTarget (bw_ReadConfig w) req target of Inl e \<Rightarrow> Inl e
      | Inr (rcloneConf, remotePath) \<Rightarrow>
      case local_path (bq_Path req) of Inl e \<Rightarrow> Inl e
      | Inr localPath \<Rightarrow> Inr (target, releaseName, rcloneConf, remotePath, localPath))"

definition resolveArchiveClaim :: "benv \<Rightarrow> string \<Rightarrow> Target \<Rightarrow> Info \<Rightarrow> Info brun" where
  "resolveArchiveClaim env ns target dataInfo =
     bbind (bask (\<lambda>_. LookupClaim ns (tg_Claim target)) (\<lambda>tr. be_Lookup env tr ns (tg_Claim target) True)) (\<lambda>answer.
     bbind (blift ClaimFailed answer) (\<lambda>archiveInfo.
       case checkSchedulable dataInfo archiveInfo of Some e \<Rightarrow> bfail (BadRequest e) | None \<Rightarrow> bret archiveInfo))"

text \<open>What follows once the source is resolved, before the deferred release of a snapshot.\<close>

definition run_job ::
  "benv \<Rightarrow> bworld \<Rightarrow> BRequest \<Rightarrow> string \<Rightarrow> Target \<times> string \<times> string \<times> string \<times> string \<Rightarrow> Info \<Rightarrow> unit brun" where
  "run_job env w req ns = (\<lambda>(target, releaseName, rcloneConf, remotePath, localPath) pvcInfo.
     bbind (if isArchive req \<and> InCluster target
            then bbind (resolveArchiveClaim env ns target pvcInfo) (\<lambda>i. bret (Some i)) else bret None) (\<lambda>archiveInfo.
     bbind (blift BadRequest (buildMoverCmd req target localPath remotePath)) (\<lambda>cmdStr.
     bbind (blift BadRequest (buildMetadata (bw_Marshal w) (bw_Now w) req target ns)) (\<lambda>meta tr.
       let helmVals = buildHelmValues ns req pvcInfo archiveInfo rcloneConf cmdStr
                        (bq_Direction req = DirectionBackup) meta
       in case bucket_installHelmChart env releaseName helmVals req tr of
            (Inl e, tr1) \<Rightarrow> (Inl e, tr1 @ [ReportFailure releaseName])
          | (Inr _, tr1) \<Rightarrow> handleJobCompletion env req releaseName (releaseName @ ''-'' @ jobSuffix req) tr1))))"

definition bucket_Run :: "benv \<Rightarrow> bworld \<Rightarrow> BRequest \<Rightarrow> unit brun" where
  "bucket_Run env w req =
     bbind (blift BadRequest (check_request w req)) (\<lambda>checked.
     bbind (blift id (bw_Client w)) (\<lambda>client.
       let ns = (if bq_Namespace req = [] then cc_NsInContext client else bq_Namespace req) in
     bbind (bask (\<lambda>_. LookupClaim ns (bq_PVCName req))
              (\<lambda>tr. be_Lookup env tr ns (bq_PVCName req) (\<not> usesSnapshot req))) (\<lambda>answer.
     bbind (blift ClaimFailed answer) (\<lambda>live.
     bbind (bguard id (bw_Chart w)) (\<lambda>_.
     bbind (resolveSource env req live (fst (snd checked))) (\<lambda>(pvcInfo, release) tr.
       case run_job env w req ns checked pvcInfo tr of (r, tr1) \<Rightarrow> (r, release (isl r) tr1)))))))"

end
