(* ===== verification/BucketRunFacts.thy ===== *)
theory BucketRunFacts
  imports BucketRun
begin

text \<open>
  What a backup or restore run guarantees: the order in which it installs and removes, and the checks
  it has passed when it installs anything.
\<close>

section \<open>Nothing is installed while the source is prepared\<close>

fun release_request :: "bevent \<Rightarrow> bool" where
  "release_request (InstallRelease _ _ _) = True"
| "release_request (UninstallRelease _) = True"
| "release_request _ = False"

abbreviation preparing :: "bevent \<Rightarrow> bool" where "preparing e \<equiv> \<not> release_request e"

lemma watching_preparing: "watching e \<Longrightarrow> preparing e" "snapshot_request e \<Longrightarrow> preparing e"
  by (cases e; simp)+

lemma emits_watching_preparing: "emits watching m \<Longrightarrow> emits preparing m"
  by (rule emits_mono [OF _ watching_preparing(1)])

lemma emits_deletes [emits_intro]:
  "P (DeleteSnapshot ns n) \<Longrightarrow> emits P (snapshot_DeleteSnapshot env ns n)"
  "P (DeleteClaim ns n) \<Longrightarrow> emits P (snapshot_DeleteClaim env ns n)"
  by (auto intro!: emits_intro simp: snapshot_DeleteSnapshot_def snapshot_DeleteClaim_def)

lemma emits_cutSnapshot [emits_intro]: "emits preparing (cutSnapshot env req source name labels)"
  unfolding emits_def
proof
  fix tr
  obtain q tr1 where q: "quiesce env req source tr = (q, tr1)" by fastforce
  obtain r tr' where c: "cutSnapshot env req source name labels tr = (r, tr')" by fastforce
  have e: "\<exists>evs. tr1 = tr @ evs \<and> list_all preparing evs"
    by (rule emits_quiesce(1) [OF _ _ _ _ _ _ q]) simp_all
  show "\<exists>evs. snd (cutSnapshot env req source name labels tr) = tr @ evs \<and> list_all preparing evs"
  proof (cases q)
    case (Inl err)
    then show ?thesis using e q by (auto simp: cutSnapshot_def)
  next
    case (Inr release)
    then have q': "quiesce env req source tr = (Inr release, tr1)" using q by simp
    have rel: "emits preparing release" by (rule emits_quiesce(2) [OF _ _ _ _ _ _ q Inr]) simp_all
    show ?thesis
    proof (rule cutSnapshot_facts [OF q' c])
      fix between ok
      assume f: "tr' = snd (release (tr1 @ between))" "list_all snapshot_request between"
      then have b: "list_all preparing between" by (auto simp: list_all_iff watching_preparing)
      obtain e3 where "snd (release (tr1 @ between)) = (tr1 @ between) @ e3" "list_all preparing e3"
        using rel by (rule emitsE)
      with f(1) b e c show ?thesis by auto
    qed
  qed
qed

lemma clone_preparing:
  "cloneSnapshot env sn cn source labels tr = (r, c, tr') \<Longrightarrow> \<exists>evs. tr' = tr @ evs \<and> list_all preparing evs"
  by (auto simp: cloneSnapshot_def snapshot_Clone_def run_defs Let_def split: sum.splits option.splits)

lemma prepare_preparing:
  assumes "prepareSnapshotSource env req source rel tr = (r, tr')"
  shows "\<exists>evs. tr' = tr @ evs \<and> list_all preparing evs"
proof -
  let ?ns = "cl_Namespace (in_Claim source)" and ?cl = "rel @ cloneSuffix"
  have ens: "emits preparing (ensureSnapshot env req source rel)"
    unfolding ensureSnapshot_def Let_def by (auto intro!: emits_intro)
  have chk: "emits preparing (if bq_FromSnapshot req = [] then CheckClass env (bq_SnapshotClass req) else bret ())"
    by (auto intro!: emits_watching_preparing emits_intro)
  have tail: "\<exists>evs. snd (case WaitReady env ?ns name readyTimeout tr of
            (Inl e, tr1) \<Rightarrow> (Inl e, rollbackSnapshotSource env ns cn name False rm tr1)
          | (Inr _, tr1) \<Rightarrow>
              (case cloneSnapshot env name cn source labels tr1 of
                 (Inl e, cloneCreated, tr2) \<Rightarrow> (Inl e, rollbackSnapshotSource env ns cn name cloneCreated rm tr2)
               | (Inr clone, cloneCreated, tr2) \<Rightarrow> (Inr (f clone), tr2))) = tr @ evs \<and> list_all preparing evs"
    for name tr ns cn rm labels and f :: "Info \<Rightarrow> snapshotSource"
  proof -
    obtain r2 e2 where w: "WaitReady env ?ns name readyTimeout tr = (r2, tr @ e2)" "list_all preparing e2"
      by (metis emitsE emits_watching(2) emits_watching_preparing prod.collapse)
    obtain r3 cc e3 where k: "cloneSnapshot env name cn source labels (tr @ e2) = (r3, cc, (tr @ e2) @ e3)"
      "list_all preparing e3"
      by (metis clone_preparing prod_cases3)
    show ?thesis using w k by (auto simp: rollback_events split: sum.splits)
  qed
  have "emits preparing (prepareSnapshotSource env req source rel)"
    unfolding prepareSnapshotSource_def Let_def
    by (intro emits_bbind chk ens) (auto simp: emits_def intro!: tail)
  with assms show ?thesis by (metis emitsE snd_conv)
qed


lemma resolveSource_preparing:
  assumes "resolveSource env req live rel tr = (r, tr')"
  shows "\<exists>evs. tr' = tr @ evs \<and> list_all preparing evs"
proof -
  obtain r1 tr1 where p: "prepareSnapshotSource env req live rel tr = (r1, tr1)" by fastforce
  show ?thesis using assms prepare_preparing [OF p] p
    by (auto simp: resolveSource_def bbind_def bret_def bfail_def split: if_splits sum.splits)
qed

text \<open>Requests that neither install nor uninstall nor delete.\<close>

definition harmless :: "bevent \<Rightarrow> bool" where
  [simp]: "harmless e \<longleftrightarrow> preparing e \<and> \<not> removes e"

lemma resolveSource_harmless:
  assumes "resolveSource env req live rel tr = (Inr x, tr')"
  shows "\<exists>evs. tr' = tr @ evs \<and> list_all harmless evs"
proof (cases "usesSnapshot req")
  case True
  then obtain src where p: "prepareSnapshotSource env req live rel tr = (Inr src, tr')"
    using assms by (auto simp: resolveSource_def bbind_def bret_def split: if_splits sum.splits prod.splits)
  from prepare_preparing [OF p] prepareSnapshotSource_keeps [OF p] show ?thesis by (auto simp: list_all_iff)
qed (use assms in \<open>auto simp: resolveSource_def bret_def bfail_def split: if_splits\<close>)

text \<open>When a run leaves what it made in place.\<close>

definition keeps :: "BRequest \<Rightarrow> bool \<Rightarrow> bool" where
  "keeps req failed \<longleftrightarrow> bq_Detach req \<or> bq_NoCleanup req \<or> failed \<and> bq_NoCleanupOnFailure req"

lemma resolveSource_release:
  assumes "resolveSource env req live rel tr = (Inr (i, release), tr1)"
  shows "if \<not> usesSnapshot req \<or> keeps req failed then release failed tr2 = tr2
    else \<exists>more. release failed tr2 = tr2 @ DeleteClaim (cl_Namespace (in_Claim live)) (rel @ cloneSuffix) # more \<and> list_all removes more"
proof -
  have cl: "\<exists>more. effect (removeSnapshotSource env ns cn sn rm) tr2 = tr2 @ DeleteClaim ns cn # more \<and> list_all removes more" for ns cn sn rm
    by (auto simp: removeSnapshotSource_def snapshot_DeleteClaim_def snapshot_DeleteSnapshot_def run_defs split: option.splits)
  have src: "\<exists>sn rm. sn_cleanup src = removeSnapshotSource env (cl_Namespace (in_Claim live)) (rel @ cloneSuffix) sn rm"
    if "prepareSnapshotSource env req live rel tr = (Inr src, tr1)" for src
    using that by (auto simp: prepareSnapshotSource_def bbind_def Let_def split: prod.splits sum.splits)
      (rule exI, rule exI, rule refl)
  show ?thesis
    using assms cl
    by (auto simp: resolveSource_def bbind_def bret_def bfail_def releaseSnapshotSource_def keeps_def dest!: src
        split: if_splits prod.splits sum.splits)
qed

section \<open>The job\<close>

lemma install_shape:
  assumes "bucket_installHelmChart env rel vals req tr = (r, tr')"
  obtains (unasked) pre where "isl r" "tr' = tr @ pre" "list_all harmless pre"
  | (failed) pre m where "isl r" "tr' = tr @ pre @ [InstallRelease rel m False]" "list_all harmless pre"
  | (installed) pre m where "\<not> isl r" "tr' = tr @ pre @ [InstallRelease rel m True]" "list_all harmless pre"
proof (cases "be_InitHelm env tr")
  case (Some e)
  then show thesis using assms unasked [of "[InitRelease]"]
    by (auto simp: bucket_installHelmChart_def init_release_def run_defs)
next
  case None
  let ?run = "disable_run (be_CanCreate env (tr @ [InitRelease])) vals"
  let ?pre = "InitRelease # map CheckNetworkPolicy (rev (map fst (snd ?run)))"
  have p: "list_all harmless ?pre" by (auto simp: list_all_iff)
  show thesis
  proof (cases "bucket_mergeHelmValues env (fst ?run) req")
    case (Inl e)
    then show thesis using assms None p unasked [of ?pre]
      by (auto simp: bucket_installHelmChart_def init_release_def disable_forbidden_def run_defs Let_def)
  next
    case (Inr m)
    then show thesis using assms None p failed [of ?pre m] installed [of ?pre m]
      by (auto simp: bucket_installHelmChart_def init_release_def disable_forbidden_def run_defs Let_def split: option.splits)
  qed
qed

lemma handleJobCompletion_shape:
  assumes "\<And>tr. be_InitHelm env tr = None" and "handleJobCompletion env req rel job tr = (r, tr')"
  shows "\<exists>mid. list_all harmless mid \<and>
     tr' = tr @ mid @ (if keeps req (isl r) then [] else [UninstallRelease rel])"
  using assms
  by (auto simp: handleJobCompletion_def await_job_def bucket_cleanupRelease_def init_release_def run_defs keeps_def
      split: option.splits if_splits)

text \<open>Up to the installation: an error after preparations only, or the installation and what follows it.\<close>

lemma run_job_installs:
  assumes "run_job env w req ns (target, rel, conf, rp, lp) i tr = (r, tr')"
  obtains (early) evs where "list_all harmless evs" "tr' = tr @ evs" "isl r"
  | (asked) ea vals r1 tr1 where "list_all harmless ea" "bucket_installHelmChart env rel vals req (tr @ ea) = (r1, tr1)"
      "(r, tr') = (if isl r1 then (Inl (projl r1), tr1 @ [ReportFailure rel])
         else handleJobCompletion env req rel (rel @ ''-'' @ jobSuffix req) tr1)"
proof -
  let ?lookup = "if isArchive req \<and> InCluster target
            then bbind (resolveArchiveClaim env ns target i) (\<lambda>i. bret (Some i)) else bret None"
  have "emits harmless ?lookup"
    unfolding resolveArchiveClaim_def by (auto intro!: emits_intro)
  then obtain ra ea where a: "?lookup tr = (ra, tr @ ea)" "list_all harmless ea" by (metis emitsE prod.collapse)
  show thesis
  proof (cases "isl ra \<or> isl (buildMoverCmd req target lp rp) \<or> isl (buildMetadata (bw_Marshal w) (bw_Now w) req target ns)")
    case True
    then show thesis using assms a
      by (intro early [of ea]) (auto simp: run_job_def bbind_def blift_def bfail_def bret_def isl_def split: sum.splits)
  next
    case False
    then obtain ai c meta where x: "ra = Inr ai" "buildMoverCmd req target lp rp = Inr c"
      "buildMetadata (bw_Marshal w) (bw_Now w) req target ns = Inr meta" by (metis sum.collapse(2))
    let ?vals = "buildHelmValues ns req i ai conf c (bq_Direction req = DirectionBackup) meta"
    obtain r1 tr1 where ins: "bucket_installHelmChart env rel ?vals req (tr @ ea) = (r1, tr1)" by fastforce
    show thesis
      by (rule asked [OF a(2) ins])
        (use assms a x ins in \<open>auto simp: run_job_def bbind_def blift_def bret_def Let_def split: sum.splits\<close>)
  qed
qed

lemma run_job_shape:
  assumes "\<And>tr. be_InitHelm env tr = None"
    and "run_job env w req ns (target, rel, conf, rp, lp) i tr = (r, tr')"
  obtains (none) evs where "tr' = tr @ evs" "\<And>n m ok. InstallRelease n m ok \<notin> set evs" "isl r"
  | (failed) pre m where "list_all harmless pre" "isl r" "tr' = tr @ pre @ [InstallRelease rel m False, ReportFailure rel]"
  | (job) pre m mid where "list_all harmless pre" "list_all harmless mid"
      "tr' = tr @ pre @ InstallRelease rel m True # mid @ (if keeps req (isl r) then [] else [UninstallRelease rel])"
proof -
  from assms(2) show thesis
  proof (cases rule: run_job_installs)
    case (early evs)
    then show thesis by (intro none [of evs]) (auto simp: list_all_iff)
  next
    case (asked ea vals r1 tr1)
    have pa: "InstallRelease n m b \<notin> set ea" for n m b using asked(1) by (auto simp: list_all_iff)
    from asked(2) show thesis
    proof (cases rule: install_shape)
      case (unasked pre)
      then show thesis using asked(3) pa
        by (intro none [of "ea @ pre @ [ReportFailure rel]"]) (auto simp: list_all_iff)
    next
      case (failed pre m)
      then show thesis using asked(1,3) by (intro that(2) [of "ea @ pre" m]) auto
    next
      case (installed pre m)
      obtain mid where "list_all harmless mid"
        "tr' = tr1 @ mid @ (if keeps req (isl r) then [] else [UninstallRelease rel])"
        using handleJobCompletion_shape [OF assms(1)] asked(3) installed(1) by (metis (no_types, lifting))
      then show thesis using installed(2,3) asked(1) by (intro job [of "ea @ pre" mid m]) auto
    qed
  qed
qed

text \<open>
  What happens around the job: only preparations before it, and after it nothing or the deletion of
  the clone.
\<close>

lemma bucket_Run_job:
  assumes "bucket_Run env w req tr = (r, tr @ evs)" and "InstallRelease n m ok \<in> set evs"
  obtains ns target rel conf rp lp i pre tr2 dels where "list_all harmless pre"
    "run_job env w req ns (target, rel, conf, rp, lp) i (tr @ pre) = (r, tr2)" "tr @ evs = tr2 @ dels"
    "if \<not> usesSnapshot req \<or> keeps req (isl r) then dels = []
     else \<exists>ns more. dels = DeleteClaim ns (rel @ cloneSuffix) # more \<and> list_all removes more"
proof -
  obtain target rel conf rp lp where chk: "check_request w req = Inr (target, rel, conf, rp, lp)"
    using assms by (cases "check_request w req") (auto simp: bucket_Run_def bbind_def blift_def bfail_def)
  obtain client where cl: "bw_Client w = Inr client"
    using assms chk by (cases "bw_Client w") (auto simp: bucket_Run_def bbind_def blift_def bfail_def bret_def)
  let ?ns = "if bq_Namespace req = [] then cc_NsInContext client else bq_Namespace req"
  let ?tr0 = "tr @ [LookupClaim ?ns (bq_PVCName req)]"
  obtain live where li: "be_Lookup env tr ?ns (bq_PVCName req) (\<not> usesSnapshot req) = Inr live"
    using assms chk cl
    by (cases "be_Lookup env tr ?ns (bq_PVCName req) (\<not> usesSnapshot req)")
      (auto simp: bucket_Run_def bbind_def blift_def bfail_def bret_def bask_def Let_def)
  have ch: "bw_Chart w = None"
    using assms chk cl li
    by (cases "bw_Chart w") (auto simp: bucket_Run_def bbind_def blift_def bguard_def bfail_def bret_def bask_def Let_def)
  obtain rs tr1 where rs: "resolveSource env req live rel ?tr0 = (rs, tr1)" by fastforce
  obtain e1 where e1: "tr1 = ?tr0 @ e1" "list_all preparing e1" using resolveSource_preparing [OF rs] by blast
  have body: "(r, tr @ evs) = (case rs of Inl e \<Rightarrow> (Inl e, tr1)
      | Inr (i, release) \<Rightarrow> (case run_job env w req ?ns (target, rel, conf, rp, lp) i tr1 of (r, tr2) \<Rightarrow> (r, release (isl r) tr2)))"
    using assms(1) chk cl li ch rs
    by (auto simp: bucket_Run_def bbind_def blift_def bguard_def bret_def bask_def Let_def split: sum.splits prod.splits)
  show thesis
  proof (cases rs)
    case (Inl e)
    then show thesis using body e1 assms(2) by (auto simp: list_all_iff)
  next
    case (Inr ir)
    have p1: "list_all harmless (LookupClaim ?ns (bq_PVCName req) # e1)"
      using resolveSource_harmless [OF rs [unfolded Inr]] e1(1) by auto
    obtain i release where ir: "ir = (i, release)" by (cases ir)
    obtain r2 tr2 where j: "run_job env w req ?ns (target, rel, conf, rp, lp) i tr1 = (r2, tr2)" by fastforce
    with body Inr ir have rr: "r = r2" "tr @ evs = release (isl r) tr2" by simp_all
    have rel: "if \<not> usesSnapshot req \<or> keeps req (isl r) then release (isl r) tr2 = tr2
      else \<exists>more. release (isl r) tr2 = tr2 @ DeleteClaim (cl_Namespace (in_Claim live)) (rel @ cloneSuffix) # more \<and> list_all removes more"
      using resolveSource_release [of env req live rel ?tr0 i release tr1] rs Inr ir by blast
    have tail: "\<exists>dels. release (isl r) tr2 = tr2 @ dels \<and>
        (if \<not> usesSnapshot req \<or> keeps req (isl r) then dels = []
         else \<exists>ns more. dels = DeleteClaim ns (rel @ cloneSuffix) # more \<and> list_all removes more)"
      using rel by (auto split: if_splits)
    then obtain dels where dels: "tr @ evs = tr2 @ dels"
      "if \<not> usesSnapshot req \<or> keeps req (isl r) then dels = []
       else \<exists>ns more. dels = DeleteClaim ns (rel @ cloneSuffix) # more \<and> list_all removes more"
      using rr(2) by metis
    show thesis
      by (rule that [of "LookupClaim ?ns (bq_PVCName req) # e1" ?ns target rel conf rp lp i tr2 dels])
        (use p1 j rr(1) e1(1) dels in auto)
  qed
qed

text \<open>
  C3: a backup or restore that asks for its release, on a machine where Helm can be initialised, works
  in order and removes only what it may. Before the installation nothing is uninstalled or deleted, and
  until the uninstall no claim and no snapshot is, so the volume is not pulled out from under the job.
  When the installation fails, the run reports it and uninstalls nothing. Otherwise the release is
  uninstalled at the end; in both cases a run that read from a snapshot then deletes the clone it
  made. A run that is detached, told to keep its resources, or has failed and is to keep them then,
  removes nothing.
\<close>

theorem bucket_Run_order:
  assumes "\<And>tr. be_InitHelm env tr = None" and "bucket_Run env w req tr = (r, tr @ evs)"
    and "InstallRelease n m ok \<in> set evs"
  shows "\<exists>pre mid dels. evs = pre @ InstallRelease n m ok # mid @
      (if ok \<and> \<not> keeps req (isl r) then [UninstallRelease n] else []) @ dels \<and>
    list_all harmless pre \<and> list_all harmless mid \<and>
    (\<not> ok \<longrightarrow> isl r \<and> mid = [ReportFailure n]) \<and>
    (if usesSnapshot req \<and> \<not> keeps req (isl r)
     then \<exists>ns more. dels = DeleteClaim ns (n @ cloneSuffix) # more \<and> list_all removes more else dels = [])"
proof -
  obtain ns target rel conf rp lp i pre tr2 dels where p: "list_all harmless pre"
    and j: "run_job env w req ns (target, rel, conf, rp, lp) i (tr @ pre) = (r, tr2)" and d: "tr @ evs = tr2 @ dels"
    and dels: "if \<not> usesSnapshot req \<or> keeps req (isl r) then dels = []
      else \<exists>ns more. dels = DeleteClaim ns (rel @ cloneSuffix) # more \<and> list_all removes more"
    using assms(2,3) by (rule bucket_Run_job)
  have n: "InstallRelease n m ok \<notin> set dels" "InstallRelease n m ok \<notin> set pre"
    using dels p by (fastforce simp: list_all_iff split: if_splits)+
  from assms(1) j show ?thesis
  proof (cases rule: run_job_shape)
    case (none es)
    then have "evs = pre @ es @ dels" using d by simp
    then show ?thesis using assms(3) none(2) n by auto
  next
    case (failed pre2 m2)
    then have ev: "evs = (pre @ pre2) @ InstallRelease rel m2 False # [ReportFailure rel] @ dels" using d by simp
    have "InstallRelease n m ok \<notin> set pre2" using failed by (auto simp: list_all_iff)
    with ev assms(3) n have nm: "n = rel" "m = m2" "\<not> ok" by auto
    show ?thesis
      by (rule exI [of _ "pre @ pre2"], rule exI [of _ "[ReportFailure rel]"], rule exI [of _ dels])
        (use ev nm p failed(1,2) dels in \<open>simp split: if_splits\<close>)
  next
    case (job pre2 m2 mid)
    then have ev: "evs = (pre @ pre2) @ InstallRelease rel m2 True # mid @
        (if keeps req (isl r) then [] else [UninstallRelease rel]) @ dels" using d by simp
    have "InstallRelease n m ok \<notin> set (pre2 @ mid)" using job by (auto simp: list_all_iff)
    with ev assms(3) n have nm: "n = rel" "m = m2" "ok" by (auto split: if_splits)
    show ?thesis
      by (rule exI [of _ "pre @ pre2"], rule exI [of _ mid], rule exI [of _ dels])
        (use ev nm p job(1,2) dels in \<open>simp split: if_splits\<close>)
  qed
qed

section \<open>A run, and what it was checked for\<close>

definition bworld_example :: bworld where
  "bworld_example =
     \<lparr>bw_ReadConfig = (\<lambda>_. Inr ''[r]''), bw_Marshal = (\<lambda>_. Inr ''v''), bw_Now = \<lparr>gt_year = 2024, gt_month = 5, gt_day = 6, gt_hour = 7, gt_minute = 8, gt_second = 9\<rparr>, bw_GenerateID = ''gen'',
      bw_Client = Inr \<lparr>cc_Host = ''h'', cc_NsInContext = ''ns''\<rparr>, bw_Chart = None\<rparr>"

text \<open>A backup from a snapshot or of the live volume, and a cluster on which the claim is mounted or not.\<close>

definition run_request :: "bool \<Rightarrow> BRequest" where
  "run_request snapshot = brequest_example\<lparr>bq_RcloneConfigFile := ''f'', bq_Remote := ''r:b'', bq_Snapshot := snapshot\<rparr>"

definition run_env :: "string \<Rightarrow> benv" where
  "run_env node = benv_example\<lparr>be_Lookup := \<lambda>_ _ _ _. Inr (info_example\<lparr>in_MountedNode := node\<rparr>)\<rparr>"

lemma example_check: "check_request bworld_example (run_request b) =
    Inr (Target_zero, ''pv-migrate-id-backup'', ''[r]'', ''r:b'', ''/data'')"
  by (simp add: check_request_def bworld_example_def run_request_def brequest_example_def isArchive_def
      validateSnapshotRequest_def usesSnapshot_def resolveTarget_def buildRcloneConfig_def buildRemotePath_def
      BuildRemotePathRaw_def local_path_def dataMountPath_def ReleasePrefix_def DirectionBackup_def Let_def)

lemma example_mover: "\<exists>c. buildMoverCmd (run_request b) Target_zero ''/data'' ''r:b'' = Inr c"
  by (simp add: buildMoverCmd_def run_request_def brequest_example_def isArchive_def rclone_Build_def
      CheckSingleLine_eval DirectionBackup_def rcloneConfigMountPath_def)

lemma example_uses: "usesSnapshot (run_request b) = b" "\<not> keeps (run_request b) False"
    "\<not> bq_IgnoreMounted (run_request b)"
  by (simp_all add: usesSnapshot_def run_request_def brequest_example_def keeps_def)

lemma example_source:
  assumes "b \<or> node = []"
  shows "\<exists>i release tr1. resolveSource (run_env node) (run_request b) (info_example\<lparr>in_MountedNode := node\<rparr>) rel tr0 =
    (Inr (i, release), tr1)"
proof (cases b)
  case True
  then show ?thesis
    by (simp add: resolveSource_def usesSnapshot_def run_request_def brequest_example_def prepareSnapshotSource_def
      ensureSnapshot_def cutSnapshot_def quiesce_def cut_body_def snapshot_Create_def
      WaitForCut_def WaitReady_def poll_def cutTimeout_def readyTimeout_def pollInterval_def cut_condition_def
      ready_condition_def boundContentName_def get_snapshot_def cloneSnapshot_def snapshot_Clone_def run_defs Let_def
      run_env_def benv_example_def CheckClass_def poll_loop.simps)
next
  case False
  with assms show ?thesis
    by (simp add: resolveSource_def example_uses bucket_handleMounted_def bret_def)
qed

lemma example_install:
  "\<exists>m tr1. bucket_installHelmChart (run_env node) rel vals (run_request b) tr0 = (Inr (), tr1) \<and>
     InstallRelease rel m True \<in> set tr1"
  by (simp add: bucket_installHelmChart_def init_release_def disable_forbidden_def bucket_mergeHelmValues_def
      run_defs Let_def run_env_def benv_example_def) blast

lemma example_job:
  "\<exists>m tr1. run_job (run_env node) bworld_example (run_request b) ns
      (Target_zero, rel, conf, ''r:b'', ''/data'') i tr0 = (Inr (), tr1) \<and> InstallRelease rel m True \<in> set tr1"
proof -
  obtain c where c: "buildMoverCmd (run_request b) Target_zero ''/data'' ''r:b'' = Inr c" using example_mover by blast
  have k: "\<exists>more. handleJobCompletion (run_env node) (run_request b) rel j tr1 = (Inr (), tr1 @ more)" for j tr1
    by (simp add: handleJobCompletion_def await_job_def bucket_cleanupRelease_def init_release_def run_defs
        run_env_def benv_example_def run_request_def brequest_example_def)
  have m: "\<exists>meta. buildMetadata ma now (run_request b) Target_zero ns = Inr meta" for ma now
    by (simp add: buildMetadata_def run_request_def brequest_example_def isArchive_def shouldUploadMetadata_def)
  have a: "\<not> isArchive (run_request b)" by (simp add: run_request_def brequest_example_def isArchive_def)
  obtain meta where m: "buildMetadata (bw_Marshal bworld_example) (bw_Now bworld_example) (run_request b) Target_zero ns = Inr meta"
    using m by blast
  obtain mm tr1 where ins: "bucket_installHelmChart (run_env node) rel
      (buildHelmValues ns (run_request b) i None conf c (bq_Direction (run_request b) = DirectionBackup) meta)
      (run_request b) tr0 = (Inr (), tr1)"
     "InstallRelease rel mm True \<in> set tr1" using example_install by blast
  obtain more where "handleJobCompletion (run_env node) (run_request b) rel (rel @ ''-'' @ jobSuffix (run_request b)) tr1 =
      (Inr (), tr1 @ more)"
    using k by blast
  with c m a ins show ?thesis by (auto simp: run_job_def bbind_def blift_def bret_def Let_def)
qed

lemma example_run:
  assumes "b \<or> node = []"
  shows "\<exists>m evs. bucket_Run (run_env node) bworld_example (run_request b) [] = (Inr (), [] @ evs) \<and>
     InstallRelease ''pv-migrate-id-backup'' m True \<in> set evs"
proof -
  let ?tr0 = "[LookupClaim ''ns'' ''data'']" and ?live = "info_example\<lparr>in_MountedNode := node\<rparr>"
  obtain i release tr1 where s: "resolveSource (run_env node) (run_request b) ?live ''pv-migrate-id-backup'' ?tr0 = (Inr (i, release), tr1)"
    using example_source [OF assms] by blast
  obtain m tr2 where j: "run_job (run_env node) bworld_example (run_request b) ''ns''
      (Target_zero, ''pv-migrate-id-backup'', ''[r]'', ''r:b'', ''/data'') i tr1 = (Inr (), tr2)"
    "InstallRelease ''pv-migrate-id-backup'' m True \<in> set tr2" using example_job by blast
  obtain more where rel: "release False tr2 = tr2 @ more"
    using resolveSource_release [OF s, of False tr2] example_uses by (cases b) auto
  have flds: "bq_Namespace (run_request b) = ''ns''" "bq_PVCName (run_request b) = ''data''" "bw_Chart bworld_example = None"
    "bw_Client bworld_example = Inr \<lparr>cc_Host = ''h'', cc_NsInContext = ''ns''\<rparr>"
    "be_Lookup (run_env node) = (\<lambda>_ _ _ _. Inr ?live)"
    by (simp_all add: run_request_def brequest_example_def bworld_example_def run_env_def)
  have "bucket_Run (run_env node) bworld_example (run_request b) [] = (Inr (), tr2 @ more)"
    using example_check s j(1) rel flds by (simp add: bucket_Run_def run_defs Let_def)
  with j(2) show ?thesis by (intro exI [of _ m] exI [of _ "tr2 @ more"]) simp
qed

lemma bucket_Run_order_witness:
  "\<exists>m pre mid dels evs. bucket_Run (run_env ''n'') bworld_example (run_request True) [] = (Inr (), evs) \<and>
     evs = pre @ InstallRelease ''pv-migrate-id-backup'' m True # mid @ UninstallRelease ''pv-migrate-id-backup'' # dels \<and>
     list_all harmless pre \<and> dels \<noteq> []"
proof -
  obtain m evs where run: "bucket_Run (run_env ''n'') bworld_example (run_request True) [] = (Inr (), [] @ evs)"
    and i: "InstallRelease ''pv-migrate-id-backup'' m True \<in> set evs" using example_run [of True] by blast
  have init: "\<And>tr. be_InitHelm (run_env ''n'') tr = None" by (simp add: run_env_def benv_example_def)
  from bucket_Run_order [OF init run i] example_uses [of True] run show ?thesis by force
qed

text \<open>
  C28: nothing is installed for a request that makes no sense: when a run installs a release, a
  snapshot was asked for only by a backup and not together with a flush of an existing one, the data
  path lies inside the volume, and a claim that is read or written live was looked up in the request's
  namespace, or else in the one of the client's context, and is not mounted by anything, unless that
  is to be ignored.
\<close>

theorem bucket_Run_checked:
  assumes "bucket_Run env w req tr = (r, tr @ evs)" and "InstallRelease n m ok \<in> set evs"
  shows "(usesSnapshot req \<longrightarrow> bq_Direction req = DirectionBackup \<and> (bq_FromSnapshot req = [] \<or> bq_Flush req = [])) \<and>
    (\<exists>q. local_path (bq_Path req) = Inr q \<and> under dataMountPath q) \<and>
    (\<exists>client. bw_Client w = Inr client \<and> (usesSnapshot req \<or> bq_IgnoreMounted req \<or>
       (\<exists>live. be_Lookup env tr (if bq_Namespace req = [] then cc_NsInContext client else bq_Namespace req)
          (bq_PVCName req) True = Inr live \<and> in_MountedNode live = [])))"
proof -
  obtain target rel conf rp lp where chk: "check_request w req = Inr (target, rel, conf, rp, lp)"
    using assms by (cases "check_request w req") (auto simp: bucket_Run_def bbind_def blift_def bfail_def)
  obtain client where cl: "bw_Client w = Inr client"
    using assms chk by (cases "bw_Client w") (auto simp: bucket_Run_def bbind_def blift_def bfail_def bret_def)
  let ?ns = "if bq_Namespace req = [] then cc_NsInContext client else bq_Namespace req"
  obtain live where li: "be_Lookup env tr ?ns (bq_PVCName req) (\<not> usesSnapshot req) = Inr live"
    using assms chk cl
    by (cases "be_Lookup env tr ?ns (bq_PVCName req) (\<not> usesSnapshot req)")
      (auto simp: bucket_Run_def bbind_def blift_def bfail_def bret_def bask_def Let_def)
  have v: "validateSnapshotRequest req = None" and lp: "local_path (bq_Path req) = Inr lp"
    using chk by (auto simp: check_request_def Let_def split: sum.splits option.splits if_splits)
  have "bucket_handleMounted live (bq_IgnoreMounted req)" if "\<not> usesSnapshot req"
    using assms chk cl li that
    by (auto simp: bucket_Run_def bbind_def blift_def bfail_def bret_def bask_def bguard_def Let_def resolveSource_def
        split: if_splits option.splits)
  with v lp li cl data_mount_path.resolved_under [OF lp] show ?thesis
    by (cases "usesSnapshot req") (auto simp: validateSnapshotRequest_def bucket_handleMounted_def split: if_splits)
qed

lemma bucket_Run_checked_witness:
  "\<exists>m evs live. bucket_Run (run_env []) bworld_example (run_request False) [] = (Inr (), evs) \<and>
     InstallRelease ''pv-migrate-id-backup'' m True \<in> set evs \<and>
     be_Lookup (run_env []) [] ''ns'' ''data'' True = Inr live \<and> in_MountedNode live = []"
proof -
  obtain m evs where run: "bucket_Run (run_env []) bworld_example (run_request False) [] = (Inr (), [] @ evs)"
    and i: "InstallRelease ''pv-migrate-id-backup'' m True \<in> set evs" using example_run [of False "[]"] by blast
  have "bq_Namespace (run_request False) = ''ns''" "bq_PVCName (run_request False) = ''data''"
    by (simp_all add: run_request_def brequest_example_def)
  with bucket_Run_checked [OF run i] example_uses [of False] run i show ?thesis by auto
qed

end
