(* ===== verification/GoRegexp.thy ===== *)
theory GoRegexp
  imports GoPrelude
begin

text \<open>
  Package \<open>regexp\<close>, as far as the progress parsers use it: byte classes, sequences, alternatives,
  greedy repetition, groups and the word boundary. A match returns every way of matching a prefix of
  the input, the preferred one first, so the head of the list is the leftmost-first match that Go
  reports. The language of an expression is the reference: whatever is matched or captured is in it.
\<close>

section \<open>Expressions and their matches\<close>

datatype regex =
  Class "char \<Rightarrow> bool"
| Seq regex regex
| Alt regex regex
| Star regex
| Group string regex
| WordBoundary

text \<open>What is left to read, the byte before it, and the groups captured so far, the newest first.\<close>

record matching =
  mt_prev :: "char option"
  mt_rest :: string
  mt_caps :: "(string \<times> string) list"

definition is_space :: "char \<Rightarrow> bool" where
  "is_space c \<longleftrightarrow> c \<in> {CHR '' '', tab_byte, newline_byte, CHR 0x0C, return_byte}"

definition is_word :: "char option \<Rightarrow> bool" where
  "is_word c \<longleftrightarrow> (case c of None \<Rightarrow> False
     | Some c \<Rightarrow> is_digit c \<or> is_lower c \<or> is_upper c \<or> c = CHR ''_'')"

definition peek :: "matching \<Rightarrow> char option" where
  "peek m = (case mt_rest m of [] \<Rightarrow> None | c # _ \<Rightarrow> Some c)"

definition capture :: "string \<Rightarrow> matching \<Rightarrow> matching \<Rightarrow> matching" where
  "capture n m m' =
     m'\<lparr>mt_caps := (n, take (length (mt_rest m) - length (mt_rest m')) (mt_rest m)) # mt_caps m'\<rparr>"

text \<open>A repetition that read nothing ends, so the bytes left bound the repetitions.\<close>

primrec repeat :: "nat \<Rightarrow> (matching \<Rightarrow> matching list) \<Rightarrow> matching \<Rightarrow> matching list" where
  "repeat 0 f m = [m]"
| "repeat (Suc n) f m =
     concat (map (repeat n f) (filter (\<lambda>m'. length (mt_rest m') < length (mt_rest m)) (f m))) @ [m]"

primrec matches :: "regex \<Rightarrow> matching \<Rightarrow> matching list" where
  "matches (Class P) m = (case mt_rest m of [] \<Rightarrow> []
     | c # s \<Rightarrow> if P c then [m\<lparr>mt_prev := Some c, mt_rest := s\<rparr>] else [])"
| "matches (Seq r s) m = concat (map (matches s) (matches r m))"
| "matches (Alt r s) m = matches r m @ matches s m"
| "matches (Star r) m = repeat (length (mt_rest m)) (matches r) m"
| "matches (Group n r) m = map (capture n m) (matches r m)"
| "matches WordBoundary m = (if is_word (mt_prev m) \<noteq> is_word (peek m) then [m] else [])"

text \<open>The search for the leftmost match: the match found, the bytes read, and where it ends.\<close>

fun search :: "regex \<Rightarrow> char option \<Rightarrow> string \<Rightarrow> (string \<times> matching) option" where
  "search r p s = (case matches r \<lparr>mt_prev = p, mt_rest = s, mt_caps = []\<rparr> of
     m # _ \<Rightarrow> Some (take (length s - length (mt_rest m)) s, m)
   | [] \<Rightarrow> (case s of [] \<Rightarrow> None | c # s' \<Rightarrow> search r (Some c) s'))"

declare search.simps [simp del]

definition FindStringSubmatch :: "regex \<Rightarrow> string \<Rightarrow> (string \<times> string) list option" where
  "FindStringSubmatch r s = map_option (mt_caps \<circ> snd) (search r None s)"

text \<open>A group that took no part in the match reads as the empty string, as a missing map key does.\<close>

definition cap :: "(string \<times> string) list \<Rightarrow> string \<Rightarrow> string" where
  "cap caps n = (case map_of caps n of None \<Rightarrow> [] | Some w \<Rightarrow> w)"

text \<open>All matches that do not overlap; for expressions that match no empty string.\<close>

fun find_all :: "nat \<Rightarrow> regex \<Rightarrow> char option \<Rightarrow> string \<Rightarrow> string list" where
  "find_all 0 r p s = []"
| "find_all (Suc n) r p s = (case search r p s of None \<Rightarrow> []
     | Some (w, m) \<Rightarrow> w # find_all n r (mt_prev m) (mt_rest m))"

definition FindAllString :: "regex \<Rightarrow> string \<Rightarrow> string list" where
  "FindAllString r s = find_all (Suc (length s)) r None s"

section \<open>Building expressions\<close>

definition Empty :: regex where "Empty = Star (Class (\<lambda>_. False))"
definition Opt :: "regex \<Rightarrow> regex" where "Opt r = Alt r Empty"
definition Plus :: "regex \<Rightarrow> regex" where "Plus r = Seq r (Star r)"

primrec Lit :: "string \<Rightarrow> regex" where
  "Lit [] = Empty"
| "Lit (c # s) = Seq (Class (\<lambda>x. x = c)) (Lit s)"

section \<open>The language of an expression\<close>

inductive_set star_of :: "string set \<Rightarrow> string set" for A where
  star_Nil: "[] \<in> star_of A"
| star_app: "u \<in> A \<Longrightarrow> v \<in> star_of A \<Longrightarrow> u @ v \<in> star_of A"

primrec lang :: "regex \<Rightarrow> string set" where
  "lang (Class P) = {[c] |c. P c}"
| "lang (Seq r s) = {u @ v |u v. u \<in> lang r \<and> v \<in> lang s}"
| "lang (Alt r s) = lang r \<union> lang s"
| "lang (Star r) = star_of (lang r)"
| "lang (Group n r) = lang r"
| "lang WordBoundary = {[]}"

primrec groups :: "regex \<Rightarrow> (string \<times> regex) set" where
  "groups (Class P) = {}"
| "groups (Seq r s) = groups r \<union> groups s"
| "groups (Alt r s) = groups r \<union> groups s"
| "groups (Star r) = groups r"
| "groups (Group n r) = insert (n, r) (groups r)"
| "groups WordBoundary = {}"

text \<open>The groups that take part in every match.\<close>

primrec sure :: "regex \<Rightarrow> string set" where
  "sure (Class P) = {}"
| "sure (Seq r s) = sure r \<union> sure s"
| "sure (Alt r s) = sure r \<inter> sure s"
| "sure (Star r) = {}"
| "sure (Group n r) = insert n (sure r)"
| "sure WordBoundary = {}"

definition explained :: "regex \<Rightarrow> matching \<Rightarrow> matching \<Rightarrow> bool" where
  "explained r m m' \<longleftrightarrow> (\<exists>u. mt_rest m = u @ mt_rest m' \<and> u \<in> lang r) \<and>
     (\<exists>new. mt_caps m' = new @ mt_caps m \<and>
        (\<forall>(n, w) \<in> set new. \<exists>r'. (n, r') \<in> groups r \<and> w \<in> lang r') \<and> sure r \<subseteq> fst ` set new)"

lemma explainedI:
  assumes "mt_rest m = u @ mt_rest m'" "u \<in> lang r" "mt_caps m' = new @ mt_caps m"
    and "\<And>n w. (n, w) \<in> set new \<Longrightarrow> \<exists>r'. (n, r') \<in> groups r \<and> w \<in> lang r'" "sure r \<subseteq> fst ` set new"
  shows "explained r m m'"
  using assms unfolding explained_def by fast

lemma explainedE:
  assumes "explained r m m'"
  obtains u new where "mt_rest m = u @ mt_rest m'" "u \<in> lang r" "mt_caps m' = new @ mt_caps m"
    and "\<And>n w. (n, w) \<in> set new \<Longrightarrow> \<exists>r'. (n, r') \<in> groups r \<and> w \<in> lang r'" "sure r \<subseteq> fst ` set new"
  using assms unfolding explained_def by fast

lemma explained_Seq:
  assumes "explained r m k" and "explained s k m'"
  shows "explained (Seq r s) m m'"
proof -
  from assms(1) obtain u new where u: "mt_rest m = u @ mt_rest k" "u \<in> lang r" "mt_caps k = new @ mt_caps m"
    "\<And>n w. (n, w) \<in> set new \<Longrightarrow> \<exists>r'. (n, r') \<in> groups r \<and> w \<in> lang r'" "sure r \<subseteq> fst ` set new"
    by (rule explainedE) blast
  from assms(2) obtain v new' where v: "mt_rest k = v @ mt_rest m'" "v \<in> lang s" "mt_caps m' = new' @ mt_caps k"
    "\<And>n w. (n, w) \<in> set new' \<Longrightarrow> \<exists>r'. (n, r') \<in> groups s \<and> w \<in> lang r'" "sure s \<subseteq> fst ` set new'"
    by (rule explainedE) blast
  show ?thesis
  proof (rule explainedI)
    show "mt_rest m = (u @ v) @ mt_rest m'" "mt_caps m' = (new' @ new) @ mt_caps m" using u v by simp_all
    show "u @ v \<in> lang (Seq r s)" using u(2) v(2) by auto
    show "\<exists>r'. (n, r') \<in> groups (Seq r s) \<and> w \<in> lang r'" if "(n, w) \<in> set (new' @ new)" for n w
      using that u(4) v(4) by fastforce
    show "sure (Seq r s) \<subseteq> fst ` set (new' @ new)" using u(5) v(5) by auto
  qed
qed

lemma repeat_explained:
  assumes "\<And>m m'. m' \<in> set (f m) \<Longrightarrow> explained r m m'"
  shows "m' \<in> set (repeat n f m) \<Longrightarrow> explained (Star r) m m'"
proof (induction n arbitrary: m)
  case 0
  then show ?case by (auto simp: explained_def intro: star_Nil)
next
  case (Suc n)
  show ?case
  proof (cases "m' = m")
    case True
    then show ?thesis by (auto simp: explained_def intro: star_Nil)
  next
    case False
    with Suc.prems obtain k where k: "k \<in> set (f m)" "m' \<in> set (repeat n f k)" by auto
    from assms [OF k(1)] Suc.IH [OF k(2)] show ?thesis
      unfolding explained_def by (fastforce intro: star_app)
  qed
qed

theorem matches_explained: "m' \<in> set (matches r m) \<Longrightarrow> explained r m m'"
proof (induction r arbitrary: m m')
  case (Class P)
  then show ?case by (cases "mt_rest m") (auto simp: explained_def split: if_splits)
next
  case (Seq r s)
  then obtain k where "k \<in> set (matches r m)" "m' \<in> set (matches s k)" by auto
  with Seq.IH show ?case by (blast intro: explained_Seq)
next
  case (Alt r s)
  then show ?case by (fastforce simp: explained_def)
next
  case (Star r)
  then show ?case using repeat_explained [of "matches r" r] by simp
next
  case (Group n r)
  then obtain k where k: "k \<in> set (matches r m)" "m' = capture n m k" by auto
  with Group.IH [of k m] show ?case
    by (fastforce simp: explained_def capture_def)
next
  case WordBoundary
  then show ?case by (auto simp: explained_def split: if_splits)
qed

lemma matches_here:
  assumes "matches r \<lparr>mt_prev = p, mt_rest = s, mt_caps = []\<rparr> = m # ms"
  shows "s = take (length s - length (mt_rest m)) s @ mt_rest m"
    and "take (length s - length (mt_rest m)) s \<in> lang r"
proof -
  from matches_explained [of m r "\<lparr>mt_prev = p, mt_rest = s, mt_caps = []\<rparr>"] assms
  obtain u where "s = u @ mt_rest m" "u \<in> lang r" by (auto simp: explained_def)
  then show "s = take (length s - length (mt_rest m)) s @ mt_rest m"
    and "take (length s - length (mt_rest m)) s \<in> lang r" by auto
qed

lemma search_Some:
  "search r p s = Some (w, m) \<Longrightarrow> \<exists>pre p' ms. s = pre @ w @ mt_rest m \<and> w \<in> lang r \<and>
     matches r \<lparr>mt_prev = p', mt_rest = w @ mt_rest m, mt_caps = []\<rparr> = m # ms"
proof (induction s arbitrary: p)
  case Nil
  then obtain ms where ms: "matches r \<lparr>mt_prev = p, mt_rest = [], mt_caps = []\<rparr> = m # ms" "w = []"
    by (auto simp: search.simps [of r p "[]"] split: list.splits)
  with matches_here [OF ms(1)] show ?case by auto
next
  case (Cons c s)
  let ?m = "\<lparr>mt_prev = p, mt_rest = c # s, mt_caps = []\<rparr>"
  show ?case
  proof (cases "matches r ?m")
    case Nil
    with Cons.prems have "search r (Some c) s = Some (w, m)" by (simp add: search.simps [of r p "c # s"])
    from Cons.IH [OF this] show ?thesis by (metis append_Cons)
  next
    case (Cons k ks)
    with Cons.prems have "k = m" "w = take (length (c # s) - length (mt_rest m)) (c # s)"
      by (auto simp: search.simps [of r p "c # s"])
    with matches_here [OF Cons] Cons show ?thesis by (metis append_Nil)
  qed
qed

text \<open>Every capture is a word of its group, and a group that is in every match is captured.\<close>

theorem FindStringSubmatch_cap:
  assumes "FindStringSubmatch r s = Some caps" and "n \<in> sure r"
  shows "\<exists>r'. (n, r') \<in> groups r \<and> cap caps n \<in> lang r'"
proof -
  obtain w m where m: "search r None s = Some (w, m)" "caps = mt_caps m"
    using assms(1) by (auto simp: FindStringSubmatch_def)
  from search_Some [OF m(1)] obtain p' where
    "m \<in> set (matches r \<lparr>mt_prev = p', mt_rest = w @ mt_rest m, mt_caps = []\<rparr>)"
    by (metis list.set_intros(1))
  from matches_explained [OF this] assms(2) m(2)
  have all: "\<forall>(n, w) \<in> set caps. \<exists>r'. (n, r') \<in> groups r \<and> w \<in> lang r'" and "n \<in> fst ` set caps"
    by (auto simp: explained_def)
  then obtain v where "map_of caps n = Some v"
    by (metis map_of_eq_None_iff not_Some_eq)
  with all show ?thesis by (fastforce simp: cap_def dest: map_of_SomeD)
qed

section \<open>The preferred match\<close>

definition first :: "regex \<Rightarrow> matching \<Rightarrow> matching \<Rightarrow> bool" where
  "first r m m' \<longleftrightarrow> (\<exists>ms. matches r m = m' # ms)"

definition here :: "char option \<Rightarrow> string \<Rightarrow> (string \<times> string) list \<Rightarrow> matching" where
  "here p s caps = \<lparr>mt_prev = p, mt_rest = s, mt_caps = caps\<rparr>"

lemma here_sel [simp]: "mt_prev (here p s caps) = p" "mt_rest (here p s caps) = s" "mt_caps (here p s caps) = caps"
  by (simp_all add: here_def)

lemma capture_here: "capture n (here p (w @ s) caps) (here p' s caps') = here p' s ((n, w) # caps')"
  by (simp add: capture_def here_def)

lemma first_Class: "P c \<Longrightarrow> first (Class P) (here p (c # s) caps) (here (Some c) s caps)"
  by (simp add: first_def here_def)

lemma first_Seq: "first r m k \<Longrightarrow> first s k m' \<Longrightarrow> first (Seq r s) m m'"
  by (auto simp: first_def)

lemma first_AltL: "first r m m' \<Longrightarrow> first (Alt r s) m m'"
  by (auto simp: first_def)

lemma first_AltR: "matches r m = [] \<Longrightarrow> first s m m' \<Longrightarrow> first (Alt r s) m m'"
  by (auto simp: first_def)

lemma first_Group:
  "first r (here p (w @ s) caps) (here p' s caps') \<Longrightarrow> first (Group n r) (here p (w @ s) caps) (here p' s ((n, w) # caps'))"
  by (auto simp: first_def capture_here)

lemma repeat_enough:
  "length (mt_rest m) \<le> n \<Longrightarrow> length (mt_rest m) \<le> n' \<Longrightarrow> repeat n f m = repeat n' f m"
proof (induction n arbitrary: m n')
  case 0
  then show ?case by (cases n') auto
next
  case (Suc n)
  show ?case
  proof (cases n')
    case 0
    with Suc.prems show ?thesis by simp
  next
    case n': (Suc n'')
    have "repeat n f k = repeat n'' f k" if "length (mt_rest k) < length (mt_rest m)" for k
      using that Suc.prems n' by (intro Suc.IH) auto
    then show ?thesis by (auto simp: n' intro!: arg_cong [of _ _ concat])
  qed
qed

lemma first_Star_step:
  assumes "first r m k" and "first (Star r) k m'" and "length (mt_rest k) < length (mt_rest m)"
  shows "first (Star r) m m'"
proof -
  obtain n where n: "length (mt_rest m) = Suc n" using assms(3) by (cases "length (mt_rest m)") auto
  with assms(3) have "repeat n (matches r) k = repeat (length (mt_rest k)) (matches r) k"
    by (intro repeat_enough) auto
  with assms n show ?thesis by (auto simp: first_def)
qed

lemma first_Star_stop: "matches r m = [] \<Longrightarrow> first (Star r) m m"
  by (cases "length (mt_rest m)") (auto simp: first_def)

lemma first_Star_Class:
  assumes "list_all P w" and "s = [] \<or> \<not> P (hd s)"
  shows "first (Star (Class P)) (here p (w @ s) caps) (here (if w = [] then p else Some (last w)) s caps)"
  using assms
proof (induction w arbitrary: p)
  case Nil
  then show ?case by (auto intro!: first_Star_stop split: list.splits)
next
  case (Cons c w)
  then have "first (Star (Class P)) (here (Some c) (w @ s) caps) (here (if w = [] then Some c else Some (last w)) s caps)"
    by simp
  moreover have "first (Class P) (here p (c # w @ s) caps) (here (Some c) (w @ s) caps)"
    using Cons.prems by (intro first_Class) simp
  ultimately show ?case by (auto intro: first_Star_step)
qed

lemma first_Plus_Class:
  assumes "list_all P w" "w \<noteq> []" and "s = [] \<or> \<not> P (hd s)"
  shows "first (Plus (Class P)) (here p (w @ s) caps) (here (Some (last w)) s caps)"
proof (cases w)
  case (Cons c w')
  then have "first (Class P) (here p (w @ s) caps) (here (Some c) (w' @ s) caps)"
    using assms(1) by (auto intro: first_Class)
  moreover have "first (Star (Class P)) (here (Some c) (w' @ s) caps) (here (Some (last w)) s caps)"
    using first_Star_Class [of P w' s "Some c" caps] assms Cons by (auto split: if_splits)
  ultimately show ?thesis unfolding Plus_def by (rule first_Seq)
qed (use assms in simp)

lemma first_Empty: "first Empty m m"
  unfolding Empty_def by (rule first_Star_stop) (simp split: list.splits)

lemma first_Lit: "first (Lit w) (here p (w @ s) caps) (here (if w = [] then p else Some (last w)) s caps)"
proof (induction w arbitrary: p)
  case Nil
  then show ?case by (simp add: first_Empty)
next
  case (Cons c w)
  have "first (Class (\<lambda>x. x = c)) (here p (c # w @ s) caps) (here (Some c) (w @ s) caps)"
    by (rule first_Class) simp
  with Cons.IH [of "Some c"] show ?case by (auto intro!: first_Seq)
qed

lemma search_first:
  assumes "first r (here None s []) (here p' s' caps)"
  shows "FindStringSubmatch r s = Some caps"
  using assms by (auto simp: FindStringSubmatch_def search.simps first_def here_def)

text \<open>An expression that finds nothing before a byte finds what it finds from there on.\<close>

lemma search_skip:
  assumes "matches r (here p (c # s) []) = []"
  shows "search r p (c # s) = search r (Some c) s"
  using assms by (simp add: search.simps [of r p "c # s"] here_def)

section \<open>The bytes of a language\<close>

primrec alphabet :: "regex \<Rightarrow> char set" where
  "alphabet (Class P) = {c. P c}"
| "alphabet (Seq r s) = alphabet r \<union> alphabet s"
| "alphabet (Alt r s) = alphabet r \<union> alphabet s"
| "alphabet (Star r) = alphabet r"
| "alphabet (Group n r) = alphabet r"
| "alphabet WordBoundary = {}"

lemma lang_alphabet: "w \<in> lang r \<Longrightarrow> set w \<subseteq> alphabet r"
proof (induction r arbitrary: w)
  case (Seq r s)
  then show ?case by fastforce
next
  case (Star r)
  from Star.prems have "w \<in> star_of (lang r)" by simp
  then show ?case by induction (use Star.IH in auto)
qed auto

lemma lang_Empty [simp]: "lang Empty = {[]}"
proof -
  have "w \<in> star_of {} \<Longrightarrow> w = []" for w :: string by (induction rule: star_of.induct) auto
  then show ?thesis by (auto simp: Empty_def intro: star_Nil)
qed

lemma lang_Lit [simp]: "lang (Lit w) = {w}"
  by (induction w) auto

lemma groups_Lit [simp]: "groups (Lit w) = {}"
  by (induction w) (auto simp: Empty_def)

lemma groups_simple [simp]: "groups Empty = {}" "groups (Plus r) = groups r" "groups (Opt r) = groups r"
  by (simp_all add: Empty_def Plus_def Opt_def)

lemma matches_Lit_None: "\<not> prefix w s \<Longrightarrow> matches (Lit w) (here p s caps) = []"
proof (induction w arbitrary: p s)
  case (Cons c w)
  then show ?case by (cases s) (auto simp: here_def)
qed simp

end
