(* ===== verification/Float64.thy ===== *)
theory Float64
  imports GoPrelude Complex_Main "HOL-Library.Log_Nat"
begin

text \<open>
  Go's \<open>float64\<close> on the values the progress parsers compute with, which are never negative: a float
  is the rational number it stands for, and every operation rounds the exact result to the nearest
  float, ties to even, with 53 significant bits and the least exponent of the format. Above the
  largest float the model keeps counting; no theorem uses a value there except to say it is large.
\<close>

definition floor_log2 :: "rat \<Rightarrow> int" where
  "floor_log2 x = (let (n, d) = quotient_of x; l = bitlen n - bitlen d in if x < 2 powi l then l - 1 else l)"

definition half_even :: "rat \<Rightarrow> int" where
  "half_even x = (let f = \<lfloor>x\<rfloor>; r = x - of_int f in
     if r < 1 / 2 then f else if 1 / 2 < r then f + 1 else if even f then f else f + 1)"

definition ulp_exp :: "rat \<Rightarrow> int" where
  "ulp_exp x = max (- 1074) (floor_log2 x - 52)"

definition round64 :: "rat \<Rightarrow> rat" where
  "round64 x = (if x \<le> 0 then 0 else of_int (half_even (x / 2 powi ulp_exp x)) * 2 powi ulp_exp x)"

definition float_of_int :: "int \<Rightarrow> rat" where "float_of_int n = round64 (of_int n)"
definition float_div :: "rat \<Rightarrow> rat \<Rightarrow> rat" where "float_div x y = round64 (x / y)"
definition float_mul :: "rat \<Rightarrow> rat \<Rightarrow> rat" where "float_mul x y = round64 (x * y)"

text \<open>A value that rounds to \<open>2 ^ 1024\<close> or beyond is infinite.\<close>

definition infinite64 :: "rat \<Rightarrow> bool" where
  "infinite64 x \<longleftrightarrow> 0 < x \<and> 1024 \<le> floor_log2 x"

section \<open>Rounding\<close>

lemma powi_add: "(2::rat) powi (a + b) = 2 powi a * 2 powi b"
  by (simp add: power_int_add)

lemma powi_diff: "(2::rat) powi (a - b) = 2 powi a / 2 powi b"
  by (simp add: power_int_diff)

lemma powi_pos [simp]: "(0::rat) < 2 powi a"
  by simp

lemma powi_nat: "0 \<le> k \<Longrightarrow> (2::rat) powi k = of_int (2 ^ nat k)"
  by (simp add: power_int_def)

lemma powi_less_iff [simp]: "(2::rat) powi a < 2 powi b \<longleftrightarrow> a < b"
  by (metis linorder_not_less one_less_numeral_iff order.strict_implies_order power_int_increasing
      power_int_strict_increasing rel_simps(9) semiring_norm(76) one_le_numeral)

lemma bitlen_powi:
  assumes "0 < n" shows "(2::rat) powi (bitlen n - 1) \<le> of_int n" and "of_int n < (2::rat) powi bitlen n"
proof -
  have b: "2 ^ nat (bitlen n - 1) \<le> n \<and> n < 2 ^ nat (bitlen n)" by (rule bitlen_bounds [OF assms])
  have p: "0 < bitlen n" using assms bitlen_eq_zero_iff [of n] bitlen_nonneg [of n] by linarith
  from b have "of_int (2 ^ nat (bitlen n - 1)) \<le> (of_int n :: rat)" by (simp only: of_int_le_iff)
  with p show "(2::rat) powi (bitlen n - 1) \<le> of_int n" by (simp add: powi_nat)
  from b have "of_int n < (of_int (2 ^ nat (bitlen n)) :: rat)" by (simp only: of_int_less_iff)
  with p show "of_int n < (2::rat) powi bitlen n" by (simp add: powi_nat)
qed

lemma floor_log2_bounds:
  assumes "0 < x"
  shows "2 powi floor_log2 x \<le> x" and "x < 2 powi (floor_log2 x + 1)"
proof -
  obtain n d where q: "quotient_of x = (n, d)" by (cases "quotient_of x")
  then have d: "0 < d" and x: "x = of_int n / of_int d" by (auto simp: quotient_of_denom_pos quotient_of_div)
  with assms have n: "0 < n" by (simp add: zero_less_divide_iff)
  let ?l = "bitlen n - bitlen d"
  have "2 powi (bitlen n - 1) / 2 powi bitlen d < x"
    unfolding x using bitlen_powi [OF n] bitlen_powi [OF d] d
    by (intro frac_less2) auto
  then have lo: "2 powi (?l - 1) < x" by (simp add: powi_diff powi_add algebra_simps)
  have "x < 2 powi bitlen n / 2 powi (bitlen d - 1)"
    unfolding x using bitlen_powi [OF n] bitlen_powi [OF d] n
    by (intro frac_less) auto
  then have hi: "x < 2 powi (?l + 1)" by (simp add: powi_diff powi_add algebra_simps)
  show "2 powi floor_log2 x \<le> x" "x < 2 powi (floor_log2 x + 1)"
    using lo hi by (auto simp: floor_log2_def q Let_def)
qed

lemma floor_log2_mono:
  assumes "0 < x" "x \<le> y" shows "floor_log2 x \<le> floor_log2 y"
proof (rule ccontr)
  assume "\<not> ?thesis"
  then have "(2::rat) powi (floor_log2 y + 1) \<le> 2 powi floor_log2 x" by (intro power_int_increasing) auto
  with floor_log2_bounds [of x] floor_log2_bounds [of y] assms show False by linarith
qed

lemma half_even_of_int [simp]: "half_even (of_int n) = n"
  by (simp add: half_even_def)

lemma half_even_bounds: "\<lfloor>x\<rfloor> \<le> half_even x" "half_even x \<le> \<lfloor>x\<rfloor> + 1"
  by (simp_all add: half_even_def Let_def)

lemma half_even_mono:
  assumes "x \<le> y" shows "half_even x \<le> half_even y"
proof (cases "\<lfloor>x\<rfloor> = \<lfloor>y\<rfloor>")
  case True
  then show ?thesis using assms by (simp add: half_even_def Let_def)
next
  case False
  with floor_mono [OF assms] have "\<lfloor>x\<rfloor> + 1 \<le> \<lfloor>y\<rfloor>" by linarith
  then show ?thesis using half_even_bounds(2) [of x] half_even_bounds(1) [of y] by linarith
qed

lemma half_even_le_int: "x \<le> of_int n \<Longrightarrow> half_even x \<le> n"
  using half_even_mono [of x "of_int n"] by simp

lemma half_even_ge_int: "of_int n \<le> x \<Longrightarrow> n \<le> half_even x"
  using half_even_mono [of "of_int n" x] by simp

lemma round64_nonneg [simp]: "0 \<le> round64 x"
proof (cases "0 < x")
  case True
  then have "0 \<le> half_even (x / 2 powi ulp_exp x)" by (intro half_even_ge_int) simp
  then show ?thesis by (simp add: round64_def)
qed (simp add: round64_def)

text \<open>A multiple of the unit in the last place is kept.\<close>

lemma round64_exact:
  assumes "x = of_int n * 2 powi ulp_exp x" and "0 \<le> x"
  shows "round64 x = x"
proof (cases "x = 0")
  case False
  then have "x / 2 powi ulp_exp x = of_int n" using assms(1) by (simp add: field_simps)
  with False assms show ?thesis by (simp add: round64_def)
qed (simp add: round64_def)

lemma round64_between_powers:
  assumes "0 < x" and "- 1074 \<le> floor_log2 x - 52"
  shows "2 powi floor_log2 x \<le> round64 x" and "round64 x \<le> 2 powi (floor_log2 x + 1)"
proof -
  let ?l = "floor_log2 x"
  have u: "ulp_exp x = ?l - 52" using assms(2) by (simp add: ulp_exp_def)
  have up: "(0::rat) < 2 powi ulp_exp x" by simp
  have lo: "of_int (2 ^ 52) * 2 powi ulp_exp x = (2::rat) powi ?l"
    and hi: "of_int (2 ^ 53) * 2 powi ulp_exp x = (2::rat) powi (?l + 1)"
    by (simp_all add: u powi_diff powi_add)
  have "of_int (2 ^ 52) \<le> x / 2 powi ulp_exp x" "x / 2 powi ulp_exp x \<le> of_int (2 ^ 53)"
    using floor_log2_bounds [OF assms(1)] unfolding lo [symmetric] hi [symmetric]
    by (simp_all add: pos_le_divide_eq pos_divide_le_eq)
  then have "2 ^ 52 \<le> half_even (x / 2 powi ulp_exp x)" "half_even (x / 2 powi ulp_exp x) \<le> 2 ^ 53"
    by (auto intro: half_even_ge_int half_even_le_int)
  then have "of_int (2 ^ 52) \<le> (of_int (half_even (x / 2 powi ulp_exp x)) :: rat)"
    "(of_int (half_even (x / 2 powi ulp_exp x)) :: rat) \<le> of_int (2 ^ 53)" by (simp_all only: of_int_le_iff)
  then show "2 powi ?l \<le> round64 x" "round64 x \<le> 2 powi (?l + 1)"
    using assms(1) up unfolding lo [symmetric] hi [symmetric] by (simp_all add: round64_def mult_right_mono)
qed

theorem round64_mono:
  assumes "x \<le> y" shows "round64 x \<le> round64 y"
proof (cases "0 < x")
  case False
  then have "round64 x = 0" by (simp add: round64_def)
  then show ?thesis by simp
next
  case True
  then have y: "0 < y" using assms by linarith
  have l: "floor_log2 x \<le> floor_log2 y" by (rule floor_log2_mono [OF True assms])
  show ?thesis
  proof (cases "ulp_exp x = ulp_exp y")
    case same: True
    have "half_even (x / 2 powi ulp_exp x) \<le> half_even (y / 2 powi ulp_exp y)"
      unfolding same by (intro half_even_mono divide_right_mono) (use assms in auto)
    then show ?thesis using True y by (simp add: round64_def same mult_right_mono)
  next
    case False
    then have ly: "- 1074 \<le> floor_log2 y - 52" and ll: "floor_log2 x < floor_log2 y"
      using l by (auto simp: ulp_exp_def)
    have "round64 x \<le> 2 powi floor_log2 y"
    proof (cases "- 1074 \<le> floor_log2 x - 52")
      case True
      have "round64 x \<le> 2 powi (floor_log2 x + 1)" by (rule round64_between_powers [OF \<open>0 < x\<close> True])
      also have "\<dots> \<le> 2 powi floor_log2 y" using ll by (intro power_int_increasing) auto
      finally show ?thesis .
    next
      case small: False
      let ?n = "2 ^ nat (floor_log2 y + 1074) :: int"
      have u: "ulp_exp x = - 1074" using small by (simp add: ulp_exp_def)
      have eq: "of_int ?n * 2 powi - 1074 = (2::rat) powi floor_log2 y"
      proof -
        have "of_int ?n = (2::rat) powi (floor_log2 y + 1074)" using ly by (subst powi_nat) auto
        then show ?thesis unfolding powi_add [symmetric] by (simp only: powi_add [symmetric]) simp
      qed
      have "x < 2 powi (floor_log2 x + 1)" by (rule floor_log2_bounds [OF True])
      also have "\<dots> \<le> of_int ?n * 2 powi - 1074" unfolding eq using ll by (intro power_int_increasing) auto
      finally have "x / 2 powi - 1074 \<le> of_int ?n" by (simp add: pos_divide_le_eq)
      then have "half_even (x / 2 powi - 1074) \<le> ?n" by (rule half_even_le_int)
      then have "(of_int (half_even (x / 2 powi - 1074)) :: rat) \<le> of_int ?n" by (simp only: of_int_le_iff)
      then show ?thesis using True unfolding eq [symmetric] by (simp add: round64_def u mult_right_mono)
    qed
    also have "\<dots> \<le> round64 y" by (rule round64_between_powers [OF y ly])
    finally show ?thesis .
  qed
qed

section \<open>Values that are kept\<close>

lemma floor_log2_eqI:
  assumes "2 powi l \<le> x" "x < 2 powi (l + 1)" shows "floor_log2 x = l"
proof -
  have x: "0 < x" using assms(1) powi_pos [of l] by linarith
  have "(2::rat) powi l < 2 powi (floor_log2 x + 1)" "(2::rat) powi floor_log2 x < 2 powi (l + 1)"
    using floor_log2_bounds [OF x] assms by linarith+
  then show ?thesis by simp
qed

text \<open>Integers below \<open>2 ^ 53\<close> and powers of two are floats.\<close>

lemma round64_of_int:
  assumes "0 \<le> n" "n < 2 ^ 53" shows "round64 (of_int n) = of_int n"
proof (cases "n = 0")
  case False
  let ?x = "of_int n :: rat" and ?l = "floor_log2 (of_int n :: rat)"
  have x: "0 < ?x" and one: "1 \<le> ?x" using False assms(1) by simp_all
  have "?x < of_int (2 ^ 53)" using assms(2) by (simp only: of_int_less_iff)
  then have "(2::rat) powi ?l < 2 powi 53" using floor_log2_bounds(1) [OF x] by (simp add: powi_nat)
  then have hi: "?l < 53" by (simp only: powi_less_iff)
  have "(1::rat) < 2 powi (?l + 1)" using floor_log2_bounds(2) [OF x] one by linarith
  then have "(2::rat) powi 0 < 2 powi (?l + 1)" by simp
  then have lo: "0 \<le> ?l" by (simp only: powi_less_iff)
  let ?e = "ulp_exp ?x"
  have e: "?e = ?l - 52" using lo by (simp add: ulp_exp_def)
  have "of_int (n * 2 ^ nat (- ?e)) * 2 powi ?e = ?x"
    using hi powi_nat [of "- ?e"] by (simp add: e power_int_minus_left power_int_diff power_int_minus field_simps)
  then show ?thesis using assms(1) by (intro round64_exact [of _ "n * 2 ^ nat (- ?e)"]) simp_all
qed (simp add: round64_def)

end
