(* ===== verification/Progress.thy ===== *)
theory Progress
  imports GoRegexp Float64 Archive
begin

text \<open>
  Reading progress out of a job's log: the line scanner of \<open>src/internal/progresslog/logger.go\<close>, the
  parsers for rsync, rclone and zstd (\<open>src/internal/rsync/progress\<close>, \<open>src/internal/rclone/progress\<close>,
  \<open>src/internal/archive/progress\<close>) and the choice between them (\<open>src/internal/jobprogress\<close>).
  \<open>encoding/json\<close> is an argument: what a theorem says holds for whatever a line decodes to. So is the
  result of converting a float that no \<open>int64\<close> holds, which Go leaves to the platform.
\<close>

record Update =
  up_Line :: string
  up_Percentage :: int
  up_Transferred :: int
  up_Total :: int

definition Update_zero :: Update where
  "Update_zero = \<lparr>up_Line = [], up_Percentage = 0, up_Transferred = 0, up_Total = 0\<rparr>"

datatype progress_error =
  NoMatch | BadNumber string | BadTotal string | UnknownUnit string | EmptyLine | NotJSON | NoStats | NegativeCount

type_synonym parsed = "(progress_error, Update) result"

text \<open>A parser may keep a total between lines, so it returns the total it leaves behind.\<close>

type_synonym parser = "int \<Rightarrow> string \<Rightarrow> parsed \<times> int"

section \<open>Lines\<close>

definition line_end :: "char \<Rightarrow> bool" where
  "line_end c \<longleftrightarrow> c = return_byte \<or> c = newline_byte"

definition scanCRLF :: "string \<Rightarrow> bool \<Rightarrow> nat \<times> string option" where
  "scanCRLF data atEOF =
     (if atEOF \<and> data = [] then (0, None)
      else let idx = length (takeWhile (\<lambda>c. \<not> line_end c) data) in
        if idx < length data
        then (if data ! idx = return_byte \<and> idx + 1 < length data \<and> data ! (idx + 1) = newline_byte
              then (idx + 2, Some (take idx data)) else (idx + 1, Some (take idx data)))
        else if atEOF then (length data, Some data) else (0, None))"

text \<open>
  \<open>bufio.Scanner\<close> over a reader that hands out the given chunks and then ends: the tokens, and
  whether it stopped at a line longer than its buffer.
\<close>

definition maxTokenSize :: nat where "maxTokenSize = 65536"

lemma scanCRLF_advance: "scanCRLF data atEOF = (n, Some t) \<Longrightarrow> 0 < n \<and> data \<noteq> []"
  by (cases data) (auto simp: scanCRLF_def Let_def split: if_splits)

function scan :: "string \<Rightarrow> string list \<Rightarrow> string list \<times> bool" where
  "scan buf chunks =
     (case (if buf = [] \<and> chunks \<noteq> [] then (0, None) else scanCRLF buf (chunks = [])) of
        (n, Some t) \<Rightarrow> (case scan (drop n buf) chunks of (ts, long) \<Rightarrow> (t # ts, long))
      | (_, None) \<Rightarrow> (case chunks of [] \<Rightarrow> ([], False)
          | c # cs \<Rightarrow> if maxTokenSize \<le> length buf then ([], True) else scan (buf @ c) cs))"
  by auto
termination
  by (relation "measure (\<lambda>(buf, cs). length buf + sum_list (map length cs) + length cs)")
    (auto split: if_splits dest: scanCRLF_advance [OF sym])

declare scan.simps [simp del]

primrec parse_lines :: "parser \<Rightarrow> string list \<Rightarrow> int \<Rightarrow> Update \<Rightarrow> Update" where
  "parse_lines parse [] tot latest = latest"
| "parse_lines parse (t # ts) tot latest =
     (case parse tot t of (Inr u, tot') \<Rightarrow> parse_lines parse ts tot' u
      | (Inl _, tot') \<Rightarrow> parse_lines parse ts tot' latest)"

definition progresslog_FindLast :: "string list \<Rightarrow> parser option \<Rightarrow> Update" where
  "progresslog_FindLast chunks parseLine =
     (case parseLine of None \<Rightarrow> Update_zero
      | Some parse \<Rightarrow> parse_lines parse (fst (scan [] chunks)) 0 Update_zero)"

section \<open>rsync\<close>

abbreviation digit :: regex where "digit \<equiv> Class is_digit"
abbreviation space :: regex where "space \<equiv> Class is_space"

definition grouped_number :: regex where
  "grouped_number = Seq (Plus digit) (Star (Seq (Class (\<lambda>c. c = CHR '','')) (Plus digit)))"

definition percentage_figure :: regex where
  "percentage_figure = Alt (Lit ''100'') (Seq digit (Opt digit))"

definition progressRegex :: regex where
  "progressRegex = Seq (Star space) (Seq (Group ''bytes'' grouped_number)
     (Seq (Plus space) (Seq (Group ''percentage'' percentage_figure) (Lit ''%''))))"

definition rsyncEndRegex :: regex where
  "rsyncEndRegex = Seq (Star space) (Seq (Lit ''total size is '') (Group ''bytes'' grouped_number))"

definition parseNumBytes :: "string \<Rightarrow> (progress_error, int) result" where
  "parseNumBytes numBytes = (case ParseInt (ReplaceByte numBytes (CHR '','') []) of
     None \<Rightarrow> Inl (BadNumber numBytes) | Some n \<Rightarrow> Inr n)"

definition estimateTotal :: "int \<Rightarrow> int \<Rightarrow> int" where
  "estimateTotal transferred percentage =
     (if percentage \<le> 0 then transferred
      else let scaled = float_mul (float_div (float_of_int transferred) (float_of_int percentage)) 100 in
        if 2 ^ 63 \<le> scaled then transferred else max transferred \<lfloor>scaled\<rfloor>)"

definition rsync_ParseLine :: "string \<Rightarrow> parsed" where
  "rsync_ParseLine line =
     (case FindStringSubmatch rsyncEndRegex line of
        Some caps \<Rightarrow> (case parseNumBytes (cap caps ''bytes'') of Inl e \<Rightarrow> Inl e
          | Inr tot \<Rightarrow> Inr \<lparr>up_Line = line, up_Percentage = 100, up_Transferred = tot, up_Total = tot\<rparr>)
      | None \<Rightarrow>
     (case FindStringSubmatch progressRegex line of None \<Rightarrow> Inl NoMatch
      | Some caps \<Rightarrow>
     (case ParseInt (cap caps ''percentage'') of None \<Rightarrow> Inl (BadNumber (cap caps ''percentage''))
      | Some percentage \<Rightarrow>
        if percentage = 0
        then Inr \<lparr>up_Line = line, up_Percentage = 0, up_Transferred = 0, up_Total = 0\<rparr>
        else (case parseNumBytes (cap caps ''bytes'') of Inl e \<Rightarrow> Inl e
          | Inr transferred \<Rightarrow> Inr \<lparr>up_Line = line, up_Percentage = percentage, up_Transferred = transferred,
                                 up_Total = estimateTotal transferred percentage\<rparr>))))"

section \<open>rclone\<close>

text \<open>What \<open>json.Unmarshal\<close> leaves in a log entry: an error, no statistics, or the two byte counts.\<close>

record stats =
  st_Bytes :: int
  st_TotalBytes :: int

type_synonym json_entry = "string \<Rightarrow> stats option option"

definition rclone_ParseLine :: "json_entry \<Rightarrow> string \<Rightarrow> parsed" where
  "rclone_ParseLine unmarshal raw =
     (let line = TrimSpace raw in
      if line = [] then Inl EmptyLine
      else case unmarshal line of None \<Rightarrow> Inl NotJSON
      | Some None \<Rightarrow> Inl NoStats
      | Some (Some s) \<Rightarrow>
        if st_Bytes s < 0 \<or> st_TotalBytes s < 0 then Inl NegativeCount
        else Inr \<lparr>up_Line = line,
                  up_Percentage = (if 0 < st_TotalBytes s
                    then (if st_TotalBytes s \<le> st_Bytes s then 100
                          else \<lfloor>float_mul (float_div (float_of_int (st_Bytes s)) (float_of_int (st_TotalBytes s))) 100\<rfloor>)
                    else 0),
                  up_Transferred = st_Bytes s,
                  up_Total = max (st_Bytes s) (st_TotalBytes s)\<rparr>)"

section \<open>zstd\<close>

definition readLine :: regex where
  "readLine = Seq (Lit ''Read:'') (Seq (Plus space) (Seq (Group ''1'' (Plus (Class (\<lambda>c. is_digit c \<or> c = CHR ''.''))))
     (Seq (Star space) (Seq (Group ''2'' (Seq (Opt (Class (\<lambda>c. c \<in> set ''KMGT'')))
        (Seq (Opt (Class (\<lambda>c. c = CHR ''i''))) (Class (\<lambda>c. c = CHR ''B''))))) WordBoundary))))"

definition totalLine :: regex where
  "totalLine = Seq (Lit TotalMarker) (Seq (Star space) (Group ''1'' (Plus digit)))"

definition units :: "string \<rightharpoonup> int" where
  "units = map_of [(''B'', 1), (''KiB'', 2 ^ 10), (''MiB'', 2 ^ 20), (''GiB'', 2 ^ 30), (''TiB'', 2 ^ 40)]"

text \<open>\<open>strconv.ParseFloat\<close> on digits and dots: one dot at most, a digit somewhere, and a finite value.\<close>

definition ParseFloat :: "string \<Rightarrow> rat option" where
  "ParseFloat s =
     (let (a, b) = (case Cut s ''.'' of None \<Rightarrow> (s, []) | Some p \<Rightarrow> p) in
      if a = [] \<and> b = [] then None
      else case digits_value 0 (a @ b) of None \<Rightarrow> None
      | Some n \<Rightarrow> let v = round64 (of_nat n / 10 ^ length b) in if infinite64 v then None else Some v)"

definition wrap64 :: "int \<Rightarrow> int" where
  "wrap64 n = (n + 2 ^ 63) mod 2 ^ 64 - 2 ^ 63"

definition quot :: "int \<Rightarrow> int \<Rightarrow> int" where
  "quot a b = sgn a * sgn b * (\<bar>a\<bar> div \<bar>b\<bar>)"

definition int64_of_float :: "(rat \<Rightarrow> int) \<Rightarrow> rat \<Rightarrow> int" where
  "int64_of_float platform x = (if x < 2 ^ 63 then \<lfloor>x\<rfloor> else platform x)"

definition parseRead :: "(rat \<Rightarrow> int) \<Rightarrow> string \<Rightarrow> int \<Rightarrow> parsed" where
  "parseRead platform line total0 =
     (case FindStringSubmatch readLine line of None \<Rightarrow> Inl NoMatch
      | Some caps \<Rightarrow>
     (case units (cap caps ''2'') of None \<Rightarrow> Inl (UnknownUnit (cap caps ''2''))
      | Some scale \<Rightarrow>
     (case ParseFloat (cap caps ''1'') of None \<Rightarrow> Inl (BadNumber (cap caps ''1''))
      | Some val \<Rightarrow>
        let transferred = int64_of_float platform (float_mul val (float_of_int scale));
            tot = (if total0 < transferred then transferred else total0);
            percentage = (if 0 < tot then quot (wrap64 (transferred * 100)) tot else 0)
        in Inr \<lparr>up_Line = TrimSpace line, up_Percentage = percentage, up_Transferred = transferred,
                up_Total = tot\<rparr>)))"

text \<open>\<open>NewParser\<close>, whose closure keeps the total, and the fallback of a range error to the limit.\<close>

definition archive_parser :: "(rat \<Rightarrow> int) \<Rightarrow> parser" where
  "archive_parser platform tot line =
     (case FindStringSubmatch totalLine line of
        Some caps \<Rightarrow> (case ParseInt (cap caps ''1'') of None \<Rightarrow> (Inl (BadTotal (cap caps ''1'')), tot)
          | Some parsed \<Rightarrow> (Inl NoMatch, parsed))
      | None \<Rightarrow> (parseRead platform line tot, tot))"

definition archive_FindLast :: "(rat \<Rightarrow> int) \<Rightarrow> string \<Rightarrow> Update option" where
  "archive_FindLast platform text =
     (let tot = (case FindStringSubmatch totalLine text of None \<Rightarrow> 0
        | Some caps \<Rightarrow> (case ParseInt (cap caps ''1'') of Some n \<Rightarrow> n | None \<Rightarrow> max_int64));
          updates = map (\<lambda>w. parseRead platform w tot) (rev (FindAllString readLine text))
      in case List.find (\<lambda>r. \<not> isl r) updates of None \<Rightarrow> None | Some r \<Rightarrow> Some (projr r))"

section \<open>The parser of a job\<close>

definition stateless :: "(string \<Rightarrow> parsed) \<Rightarrow> parser" where
  "stateless f tot line = (f line, tot)"

fun firstMatch :: "parser list \<Rightarrow> parser" where
  "firstMatch [] tot line = (Inr Update_zero, tot)"
| "firstMatch [parse] tot line = parse tot line"
| "firstMatch (parse # ps) tot line = (case parse tot line of (Inr u, tot') \<Rightarrow> (Inr u, tot')
     | (Inl _, tot') \<Rightarrow> firstMatch ps tot' line)"

definition job_parser :: "json_entry \<Rightarrow> (rat \<Rightarrow> int) \<Rightarrow> string \<Rightarrow> parser option" where
  "job_parser unmarshal platform jobName =
     (if HasSuffix jobName ''-rsync'' then Some (firstMatch [stateless rsync_ParseLine, archive_parser platform])
      else if HasSuffix jobName ''-rclone'' then Some (stateless (rclone_ParseLine unmarshal))
      else if HasSuffix jobName ''-tar''
        then Some (firstMatch [stateless (rclone_ParseLine unmarshal), archive_parser platform])
      else None)"

definition jobprogress_Description :: "string \<Rightarrow> string" where
  "jobprogress_Description jobName =
     (if HasSuffix jobName ''-rsync'' then ''rsync''
      else if HasSuffix jobName ''-rclone'' then ''rclone''
      else if HasSuffix jobName ''-tar'' then ''tar'' else ''job'')"

definition jobprogress_FindLast :: "json_entry \<Rightarrow> (rat \<Rightarrow> int) \<Rightarrow> string \<Rightarrow> string list \<Rightarrow> Update option" where
  "jobprogress_FindLast unmarshal platform jobName chunks =
     (if HasSuffix jobName ''-rsync''
      then (case archive_FindLast platform (concat chunks) of Some u \<Rightarrow> Some u
        | None \<Rightarrow> Some (progresslog_FindLast chunks (Some (stateless rsync_ParseLine))))
      else if HasSuffix jobName ''-rclone'' \<or> HasSuffix jobName ''-tar''
      then (case archive_FindLast platform (concat chunks) of Some u \<Rightarrow> Some u
        | None \<Rightarrow> Some (progresslog_FindLast chunks (Some (stateless (rclone_ParseLine unmarshal)))))
      else None)"

end
