(* ===== verification/ProgressFacts.thy ===== *)
theory ProgressFacts
  imports Progress
begin

text \<open>
  What the progress parsers promise: every update is in range, what rsync prints is read back, and
  the last update of a log does not depend on the sizes of the reads it arrived in.
\<close>

section \<open>Updates are in range\<close>

definition update_ok :: "Update \<Rightarrow> bool" where
  "update_ok u \<longleftrightarrow> 0 \<le> up_Percentage u \<and> up_Percentage u \<le> 100 \<and>
     0 \<le> up_Transferred u \<and> up_Transferred u \<le> up_Total u \<and> up_Total u \<le> max_int64"

lemma max_int64_nonneg [simp]: "0 \<le> max_int64"
  by (simp add: max_int64_def)

lemma ParseInt_digits:
  assumes "ParseInt s = Some v" and "list_all is_digit s"
  shows "0 \<le> v" and "v \<le> max_int64" and "digits_value 0 s = Some (nat v)"
proof -
  obtain c cs where s: "s = c # cs" using assms(1) by (cases s) (auto simp: ParseInt_def)
  with assms(2) have "c \<noteq> CHR ''-''" "c \<noteq> CHR ''+''" by (auto simp: is_digit_def byte_def)
  with assms(1) s show "0 \<le> v" "v \<le> max_int64" "digits_value 0 s = Some (nat v)"
    by (auto simp: ParseInt_def Let_def split: option.splits if_splits)
qed

lemma digits_value_bound: "digits_value n s = Some v \<Longrightarrow> v < (n + 1) * 10 ^ length s"
proof (induction s arbitrary: n)
  case (Cons c s)
  then have "byte c - 48 < 10" "v < (10 * n + (byte c - 48) + 1) * 10 ^ length s"
    by (auto simp: is_digit_def split: if_splits)
  moreover from this(1) have "(10 * n + (byte c - 48) + 1) * 10 ^ length s \<le> (10 * n + 10) * 10 ^ length s"
    by (intro mult_right_mono) auto
  ultimately show ?case by (simp add: algebra_simps)
qed simp

lemma percentage_figure_bound:
  assumes "w \<in> lang percentage_figure" and "ParseInt w = Some v"
  shows "0 \<le> v" and "v \<le> 100"
proof -
  have cases: "w = ''100'' \<or> (list_all is_digit w \<and> length w \<le> 2)"
    using assms(1) by (auto simp: percentage_figure_def Opt_def)
  moreover have "ParseInt ''100'' = Some 100" by code_simp
  moreover have "0 \<le> v \<and> v \<le> 100" if "list_all is_digit w" "length w \<le> 2"
  proof -
    from ParseInt_digits [OF assms(2) that(1)] have v: "0 \<le> v" "digits_value 0 w = Some (nat v)" by auto
    have "nat v < 10 ^ length w" using digits_value_bound [OF v(2)] by simp
    also have "(10::nat) ^ length w \<le> 10 ^ 2" using that(2) by (intro power_increasing) auto
    finally show ?thesis using v(1) by auto
  qed
  ultimately show "0 \<le> v" "v \<le> 100" using assms(2) by auto
qed

lemma parseNumBytes_range:
  assumes "w \<in> lang grouped_number" and "parseNumBytes w = Inr n"
  shows "0 \<le> n" and "n \<le> max_int64"
proof -
  have "set w \<subseteq> {c. is_digit c} \<union> {CHR '',''}"
    using lang_alphabet [OF assms(1)] by (auto simp: grouped_number_def Plus_def)
  then have "list_all is_digit (ReplaceByte w (CHR '','') [])"
    by (induction w) auto
  with assms(2) show "0 \<le> n" "n \<le> max_int64"
    by (auto simp: parseNumBytes_def split: option.splits dest: ParseInt_digits)
qed

lemma estimateTotal_range:
  assumes "0 \<le> t" "t \<le> max_int64"
  shows "t \<le> estimateTotal t p" and "estimateTotal t p \<le> max_int64"
proof -
  have "\<lfloor>x\<rfloor> \<le> max_int64" if "\<not> 2 ^ 63 \<le> x" for x :: rat
  proof -
    have "x < of_int (2 ^ 63)" using that by simp
    then have "\<lfloor>x\<rfloor> < 2 ^ 63" by (simp only: floor_less_iff)
    then show ?thesis by (simp add: max_int64_def)
  qed
  then show "t \<le> estimateTotal t p" "estimateTotal t p \<le> max_int64"
    using assms by (auto simp: estimateTotal_def Let_def)
qed

lemma parseNumBytes_estimate:
  assumes "w \<in> lang grouped_number" and "parseNumBytes w = Inr n"
  shows "n \<le> estimateTotal n p" and "estimateTotal n p \<le> max_int64"
  using estimateTotal_range [OF parseNumBytes_range [OF assms]] by auto

lemma sure_rsync: "''bytes'' \<in> sure rsyncEndRegex" "''bytes'' \<in> sure progressRegex" "''percentage'' \<in> sure progressRegex"
  by (simp_all add: rsyncEndRegex_def progressRegex_def)

lemma rsync_groups:
  "groups rsyncEndRegex = {(''bytes'', grouped_number)}"
  "groups progressRegex = {(''bytes'', grouped_number), (''percentage'', percentage_figure)}"
  by (simp_all add: rsyncEndRegex_def progressRegex_def del: Lit.simps)
    (auto simp: grouped_number_def percentage_figure_def Empty_def)

lemma rsync_captures:
  "FindStringSubmatch rsyncEndRegex line = Some caps \<Longrightarrow> cap caps ''bytes'' \<in> lang grouped_number"
  "FindStringSubmatch progressRegex line = Some caps \<Longrightarrow> cap caps ''bytes'' \<in> lang grouped_number"
  "FindStringSubmatch progressRegex line = Some caps \<Longrightarrow> cap caps ''percentage'' \<in> lang percentage_figure"
  using FindStringSubmatch_cap [OF _ sure_rsync(1), of line caps] FindStringSubmatch_cap [OF _ sure_rsync(2), of line caps]
    FindStringSubmatch_cap [OF _ sure_rsync(3), of line caps]
  by (auto simp: rsync_groups)

lemma rsync_update_ok:
  assumes "rsync_ParseLine line = Inr u" shows "update_ok u"
proof (cases "FindStringSubmatch rsyncEndRegex line")
  case (Some caps)
  with assms rsync_captures(1) [OF Some] show ?thesis
    by (auto simp: rsync_ParseLine_def update_ok_def split: sum.splits dest: parseNumBytes_range)
next
  case None
  with assms obtain caps where caps: "FindStringSubmatch progressRegex line = Some caps"
    by (auto simp: rsync_ParseLine_def split: option.splits)
  with None assms rsync_captures(2,3) [OF caps] show ?thesis
    by (auto simp: rsync_ParseLine_def update_ok_def split: sum.splits option.splits if_splits
        dest: percentage_figure_bound intro: parseNumBytes_range parseNumBytes_estimate)
qed

lemma rclone_update_ok:
  assumes "rclone_ParseLine unmarshal line = Inr u"
    and "\<And>l s. unmarshal l = Some (Some s) \<Longrightarrow> st_Bytes s \<le> max_int64 \<and> st_TotalBytes s \<le> max_int64"
  shows "update_ok u"
proof -
  have pct: "0 \<le> \<lfloor>float_mul (float_div (float_of_int b) (float_of_int t)) 100\<rfloor> \<and>
      \<lfloor>float_mul (float_div (float_of_int b) (float_of_int t)) 100\<rfloor> \<le> 100" if "0 \<le> b" "b < t" for b t
  proof -
    have "round64 1 = 1" "round64 100 = 100" using round64_of_int [of 1] round64_of_int [of 100] by simp_all
    moreover have "round64 1 \<le> float_of_int t" unfolding float_of_int_def
      using that by (intro round64_mono) simp
    moreover have "float_of_int b \<le> float_of_int t" unfolding float_of_int_def
      using that by (intro round64_mono) simp
    ultimately have "float_div (float_of_int b) (float_of_int t) \<le> round64 1"
      unfolding float_div_def by (intro round64_mono) (simp add: divide_le_eq)
    with \<open>round64 1 = 1\<close> have "float_mul (float_div (float_of_int b) (float_of_int t)) 100 \<le> round64 100"
      unfolding float_mul_def by (intro round64_mono) simp
    with \<open>round64 100 = 100\<close> show ?thesis
      by (auto simp: floor_le_iff float_mul_def)
  qed
  then show ?thesis using assms(1)
    by (auto simp: rclone_ParseLine_def update_ok_def Let_def split: option.splits if_splits dest: assms(2))
qed

lemma quot_range:
  assumes "0 \<le> t" "t \<le> max_int64 div 100" "t \<le> n" "0 < n"
  shows "0 \<le> quot (wrap64 (t * 100)) n" and "quot (wrap64 (t * 100)) n \<le> 100"
proof -
  have "wrap64 (t * 100) = t * 100" using assms(1,2) by (simp add: wrap64_def max_int64_def)
  moreover have "t * 100 div n \<le> 100"
    using assms by (metis mult.commute nonzero_mult_div_cancel_left order_less_irrefl zdiv_mono1 mult_le_cancel_left_pos
        zero_less_numeral)
  moreover have "0 \<le> t * 100 div n" using assms by (simp add: pos_imp_zdiv_nonneg_iff)
  ultimately show "0 \<le> quot (wrap64 (t * 100)) n" "quot (wrap64 (t * 100)) n \<le> 100"
    using assms by (auto simp: quot_def sgn_if)
qed

lemma parseRead_update_ok:
  assumes "parseRead platform line tot = Inr u" "0 \<le> tot" "tot \<le> max_int64"
    and "0 \<le> up_Transferred u" "up_Transferred u \<le> max_int64 div 100"
  shows "update_ok u"
  using assms quot_range [of "up_Transferred u" "up_Total u"]
  by (auto simp: parseRead_def update_ok_def Let_def max_int64_def split: option.splits if_splits)

lemma archive_parser_total:
  assumes "archive_parser platform tot line = (r, tot')" "0 \<le> tot" "tot \<le> max_int64"
  shows "0 \<le> tot' \<and> tot' \<le> max_int64"
proof (cases "FindStringSubmatch totalLine line")
  case (Some caps)
  have "''1'' \<in> sure totalLine" by (simp add: totalLine_def)
  from FindStringSubmatch_cap [OF Some this] have "cap caps ''1'' \<in> lang (Plus digit)"
    by (auto simp: totalLine_def)
  then have "list_all is_digit (cap caps ''1'')"
    using lang_alphabet [of "cap caps ''1''" "Plus digit"] by (auto simp: Plus_def list_all_iff)
  with assms Some show ?thesis
    by (auto simp: archive_parser_def split: option.splits dest: ParseInt_digits)
qed (use assms in \<open>auto simp: archive_parser_def\<close>)

text \<open>
  C33: the updates a job's parser reports are in range, but for two kinds of count: a percentage from 0
  to 100 and a total that is neither below what was transferred nor beyond 64 bits, so the progress bar
  can be driven by them. The parser's remembered total stays a byte count. The exceptions are a negative
  count, which rclone's statistics could hold, and a count beyond a hundredth of the 64-bit range, where
  zstd's counter is converted and multiplied unguarded (\<open>archive_percentage_overflows\<close> below).
\<close>

theorem job_updates_in_range:
  assumes "job_parser unmarshal platform jobName = Some parse" and "parse tot line = (r, tot')"
    and "0 \<le> tot" "tot \<le> max_int64"
    and "\<And>l s. unmarshal l = Some (Some s) \<Longrightarrow> st_Bytes s \<le> max_int64 \<and> st_TotalBytes s \<le> max_int64"
  shows "0 \<le> tot' \<and> tot' \<le> max_int64 \<and>
    (\<forall>u. r = Inr u \<longrightarrow> update_ok u \<or> up_Transferred u < 0 \<or> max_int64 div 100 < up_Transferred u)"
proof -
  have arch: "0 \<le> tot' \<and> tot' \<le> max_int64 \<and>
      (\<forall>u. r = Inr u \<longrightarrow> update_ok u \<or> up_Transferred u < 0 \<or> max_int64 div 100 < up_Transferred u)"
    if "archive_parser platform tot line = (r, tot')"
    using archive_parser_total [OF that assms(3,4)] parseRead_update_ok [OF _ assms(3,4), of platform line] that
    by (auto simp: archive_parser_def split: option.splits) (meson linorder_not_le)+
  show ?thesis using assms(1,2) arch assms(3,4) rsync_update_ok [of line] rclone_update_ok [of unmarshal line, OF _ assms(5)]
    by (auto simp: job_parser_def stateless_def split: if_splits sum.splits)
qed

theorem job_updates_in_range_witness:
  "update_ok \<lparr>up_Line = ''7 50%'', up_Percentage = 50, up_Transferred = 7, up_Total = 14\<rparr>"
proof -
  have "firstMatch [stateless rsync_ParseLine, archive_parser (\<lambda>_. 0)] 0 ''7 50%'' =
      (Inr \<lparr>up_Line = ''7 50%'', up_Percentage = 50, up_Transferred = 7, up_Total = 14\<rparr>, 0)" by code_simp
  with job_updates_in_range [of "\<lambda>_. None" "\<lambda>_. 0" "''a-rsync''"
      "firstMatch [stateless rsync_ParseLine, archive_parser (\<lambda>_. 0)]" 0 "''7 50%''"] show ?thesis
    by (simp add: job_parser_def suffix_def max_int64_def)
qed

text \<open>The product wraps: a count above 82 PiB reports a negative percentage.\<close>

theorem archive_percentage_overflows:
  "parseRead platform ''Read: 90000 TiB'' 0 =
     Inr \<lparr>up_Line = ''Read: 90000 TiB'', up_Percentage = - 86, up_Transferred = 98956046499840000,
          up_Total = 98956046499840000\<rparr>"
proof -
  have "FindStringSubmatch readLine ''Read: 90000 TiB'' = Some [(''2'', ''TiB''), (''1'', ''90000'')]"
    by code_simp
  moreover have "digits_value 0 ''90000'' = Some 90000" by (simp add: is_digit_def byte_def)
  moreover have "round64 90000 = 90000" "\<not> infinite64 90000" by code_simp+
  ultimately have "ParseFloat ''90000'' = Some 90000" by (simp add: ParseFloat_def)
  moreover have "float_mul 90000 (float_of_int (2 ^ 40)) = 98956046499840000" by code_simp
  moreover have "quot (wrap64 (98956046499840000 * 100)) 98956046499840000 = - 86" by code_simp
  moreover have "TrimSpace ''Read: 90000 TiB'' = ''Read: 90000 TiB''" by code_simp
  ultimately show ?thesis
    using \<open>FindStringSubmatch readLine _ = _\<close> by (simp add: parseRead_def cap_def units_def int64_of_float_def)
qed

section \<open>What rsync prints is read back\<close>

definition stops :: "(char \<Rightarrow> bool) \<Rightarrow> string \<Rightarrow> bool" where
  "stops P s \<longleftrightarrow> s = [] \<or> \<not> P (hd s)"

lemma first_more_groups:
  assumes "\<forall>g \<in> set gs. g \<noteq> [] \<and> list_all is_digit g" and "stops is_digit s" "stops (\<lambda>c. c = CHR '','') s"
  shows "\<exists>p'. first (Star (Seq (Class (\<lambda>c. c = CHR '','')) (Plus digit)))
           (here p (concat (map (\<lambda>g. CHR '','' # g) gs) @ s) caps) (here p' s caps)"
  using assms(1)
proof (induction gs arbitrary: p)
  case Nil
  have "matches (Seq (Class (\<lambda>c. c = CHR '','')) (Plus digit)) (here p s caps) = []"
    using assms(3) by (cases s) (auto simp: stops_def)
  then have "first (Star (Seq (Class (\<lambda>c. c = CHR '','')) (Plus digit))) (here p s caps) (here p s caps)"
    by (rule first_Star_stop)
  then show ?case by (simp del: matches.simps) blast
next
  case (Cons g gs)
  let ?t = "concat (map (\<lambda>g. CHR '','' # g) gs) @ s"
  have t: "?t = [] \<or> \<not> is_digit (hd ?t)"
    using assms(2) by (cases gs) (auto simp: stops_def is_digit_def byte_def)
  have "first (Class (\<lambda>c. c = CHR '','')) (here p (CHR '','' # g @ ?t) caps) (here (Some (CHR '','')) (g @ ?t) caps)"
    by (rule first_Class) simp
  moreover have "first (Plus digit) (here (Some (CHR '','')) (g @ ?t) caps) (here (Some (last g)) ?t caps)"
    using Cons.prems t by (intro first_Plus_Class) auto
  ultimately have "first (Seq (Class (\<lambda>c. c = CHR '','')) (Plus digit)) (here p (CHR '','' # g @ ?t) caps)
      (here (Some (last g)) ?t caps)" by (rule first_Seq)
  moreover obtain p' where "first (Star (Seq (Class (\<lambda>c. c = CHR '','')) (Plus digit)))
      (here (Some (last g)) ?t caps) (here p' s caps)" using Cons by fastforce
  ultimately have "first (Star (Seq (Class (\<lambda>c. c = CHR '','')) (Plus digit)))
      (here p (CHR '','' # g @ ?t) caps) (here p' s caps)" by (rule first_Star_step) auto
  then show ?case by auto
qed

lemma Join_comma: "Join (g # gs) '','' = g @ concat (map (\<lambda>g. CHR '','' # g) gs)"
  by (induction gs arbitrary: g) auto

lemma first_grouped_number:
  assumes "gs \<noteq> []" "\<forall>g \<in> set gs. g \<noteq> [] \<and> list_all is_digit g" and "stops is_digit s" "stops (\<lambda>c. c = CHR '','') s"
  shows "\<exists>p'. first grouped_number (here p (Join gs '','' @ s) caps) (here p' s caps)"
proof -
  obtain g gs' where gs: "gs = g # gs'" using assms(1) by (cases gs) auto
  let ?t = "concat (map (\<lambda>g. CHR '','' # g) gs') @ s"
  have "?t = [] \<or> \<not> is_digit (hd ?t)"
    using assms(3) by (cases gs') (auto simp: stops_def is_digit_def byte_def)
  then have "first (Plus digit) (here p (g @ ?t) caps) (here (Some (last g)) ?t caps)"
    using assms(2) gs by (intro first_Plus_Class) auto
  moreover obtain p' where "first (Star (Seq (Class (\<lambda>c. c = CHR '','')) (Plus digit)))
      (here (Some (last g)) ?t caps) (here p' s caps)"
    using first_more_groups [OF _ assms(3,4), of gs' "Some (last g)" caps] assms(2) gs by auto
  ultimately show ?thesis unfolding gs Join_comma grouped_number_def append_assoc by (blast intro: first_Seq)
qed

lemma show_nat_two: "n < 100 \<Longrightarrow> show_nat n = (if n < 10 then [digit_char n] else [digit_char (n div 10), digit_char (n mod 10)])"
  by (subst show_nat.simps) (auto simp: show_nat.simps [of "n div 10"])

lemma first_percentage:
  assumes "n \<le> 100"
  shows "\<exists>p'. first percentage_figure (here p (show_nat n @ CHR ''%'' # s) caps) (here p' (CHR ''%'' # s) caps)"
proof (cases "n = 100")
  case True
  have "show_nat 100 = ''100''" by code_simp
  with True show ?thesis using first_AltL [OF first_Lit [of "''100''" p "CHR ''%'' # s" caps]]
    unfolding percentage_figure_def by metis
next
  case False
  with assms have n: "n < 100" by simp
  have no: "matches (Lit ''100'') (here p (show_nat n @ CHR ''%'' # s) caps) = []"
    by (rule matches_Lit_None) (simp add: show_nat_two [OF n])
  have opt1: "first (Opt digit) (here q (CHR ''%'' # s) caps) (here q (CHR ''%'' # s) caps)" for q
    unfolding Opt_def by (rule first_AltR [OF _ first_Empty]) (simp add: is_digit_def byte_def)
  have opt2: "is_digit d \<Longrightarrow> first (Opt digit) (here q (d # s') caps) (here (Some d) s' caps)" for d q s'
    unfolding Opt_def by (rule first_AltL [OF first_Class])
  have "\<exists>p'. first (Seq digit (Opt digit)) (here p (show_nat n @ CHR ''%'' # s) caps) (here p' (CHR ''%'' # s) caps)"
    using n by (cases "n < 10") (auto simp: show_nat_two [OF n] intro!: digit_char_is_digit exI first_Seq [OF first_Class] opt1 opt2)
  then show ?thesis unfolding percentage_figure_def using first_AltR [OF no] by blast
qed

lemma first_progressRegex:
  assumes "list_all is_space sp" "list_all is_space sp'" "sp' \<noteq> []" "gs \<noteq> []"
    "\<forall>g \<in> set gs. g \<noteq> [] \<and> list_all is_digit g" "n \<le> 100"
  shows "FindStringSubmatch progressRegex (sp @ Join gs '','' @ sp' @ show_nat n @ ''%'' @ s) =
    Some [(''percentage'', show_nat n), (''bytes'', Join gs '','')]"
proof -
  let ?b = "Join gs '',''"
  let ?s3 = "show_nat n @ CHR ''%'' # s" let ?s2 = "sp' @ ?s3" let ?s1 = "?b @ ?s2"
  have digit_space: "is_digit c \<Longrightarrow> \<not> is_space c" for c by (auto simp: is_digit_def is_space_def byte_def)
  obtain b bs where b: "?b = b # bs" "is_digit b"
    using assms(4,5) by (cases gs; cases "hd gs") (auto simp: Join_comma simp del: Join.simps)
  obtain d ds where d: "show_nat n = d # ds" "is_digit d"
    using show_nat_digits by (cases "show_nat n") (auto, metis list.set_intros(1))
  obtain x xs where x: "sp' = x # xs" "is_space x" using assms(2,3) by (cases sp') auto
  obtain p1 where "first (Star space) (here None (sp @ ?s1) []) (here p1 ?s1 [])"
    using first_Star_Class [OF assms(1), of ?s1 None "[]"] b digit_space by (auto split: if_splits)
  moreover obtain p2 where "first grouped_number (here p1 ?s1 []) (here p2 ?s2 [])"
    using first_grouped_number [OF assms(4,5), of ?s2 p1 "[]"] x digit_space
    by (auto simp: stops_def is_space_def)
  then have "first (Group ''bytes'' grouped_number) (here p1 ?s1 []) (here p2 ?s2 [(''bytes'', ?b)])"
    by (rule first_Group)
  moreover obtain p3 where "first (Plus space) (here p2 ?s2 [(''bytes'', ?b)]) (here p3 ?s3 [(''bytes'', ?b)])"
    using first_Plus_Class [OF assms(2,3), of ?s3 p2 "[(''bytes'', ?b)]"] d digit_space by auto
  moreover obtain p4 where "first percentage_figure (here p3 ?s3 [(''bytes'', ?b)]) (here p4 (CHR ''%'' # s) [(''bytes'', ?b)])"
    using first_percentage [OF assms(6)] by blast
  then have "first (Group ''percentage'' percentage_figure) (here p3 ?s3 [(''bytes'', ?b)])
      (here p4 (CHR ''%'' # s) [(''percentage'', show_nat n), (''bytes'', ?b)])" by (rule first_Group)
  moreover have "first (Lit ''%'') (here p4 (CHR ''%'' # s) [(''percentage'', show_nat n), (''bytes'', ?b)])
      (here (Some (CHR ''%'')) s [(''percentage'', show_nat n), (''bytes'', ?b)])"
    using first_Lit [of "''%''" p4 s "[(''percentage'', show_nat n), (''bytes'', ?b)]"] by (simp del: Lit.simps)
  ultimately have "first progressRegex (here None (sp @ ?s1) [])
      (here (Some (CHR ''%'')) s [(''percentage'', show_nat n), (''bytes'', ?b)])"
    unfolding progressRegex_def by (blast intro: first_Seq)
  then show ?thesis by (simp add: search_first)
qed

lemma rsyncEndRegex_None:
  assumes "\<not> Contains line ''total size is ''"
  shows "FindStringSubmatch rsyncEndRegex line = None"
proof (rule ccontr)
  assume "\<not> ?thesis"
  then obtain w m where "search rsyncEndRegex None line = Some (w, m)" by (auto simp: FindStringSubmatch_def)
  from search_Some [OF this] obtain pre where "line = pre @ w @ mt_rest m" "w \<in> lang rsyncEndRegex" by blast
  moreover from this(2) obtain a b where "w = a @ ''total size is '' @ b"
    unfolding rsyncEndRegex_def by (auto simp del: Lit.simps)
  ultimately have "line = (pre @ a) @ ''total size is '' @ (b @ mt_rest m)" by simp
  with assms show False unfolding Contains_iff by blast
qed

lemma ReplaceByte_concat:
  "ReplaceByte (Join gs '','') (CHR '','') [] = concat gs"
  if "\<forall>g \<in> set gs. list_all is_digit g" for gs
proof -
  have keep: "ReplaceByte (u @ v) (CHR '','') [] = ReplaceByte u (CHR '','') [] @ ReplaceByte v (CHR '','') []" for u v
    by (induction u) auto
  have digits: "list_all is_digit g \<Longrightarrow> ReplaceByte g (CHR '','') [] = g" for g
    by (induction g) (auto simp: is_digit_def byte_def)
  from that show ?thesis
  proof (induction gs)
    case (Cons g gs)
    then show ?case by (cases gs) (auto simp: keep digits)
  qed simp
qed

text \<open>
  C38: rsync's progress line is read back. Whatever blanks precede the byte count, however many comma
  groups it has, and whatever follows the percent sign, the parser reports exactly the percentage that
  was printed and, unless that is zero, exactly the count, as long as the count fits 64 bits and the
  line is not the summary. At zero percent the count is dropped and zero bytes are reported.
\<close>

theorem rsync_progress_reads_back:
  assumes "list_all is_space sp" "list_all is_space sp'" "sp' \<noteq> []"
    and "gs \<noteq> []" "\<forall>g \<in> set gs. g \<noteq> [] \<and> list_all is_digit g"
    and "digits_value 0 (concat gs) = Some n" "int n \<le> max_int64" and "pct \<le> 100"
    and "line = sp @ Join gs '','' @ sp' @ show_nat pct @ ''%'' @ rest" "\<not> Contains line ''total size is ''"
  shows "rsync_ParseLine line = Inr \<lparr>up_Line = line, up_Percentage = int pct, up_Transferred = (if pct = 0 then 0 else int n),
    up_Total = (if pct = 0 then 0 else estimateTotal (int n) (int pct))\<rparr>"
proof -
  have "FindStringSubmatch progressRegex line = Some [(''percentage'', show_nat pct), (''bytes'', Join gs '','')]"
    unfolding assms(9) by (rule first_progressRegex) (use assms in auto)
  moreover have "ParseInt (show_nat pct) = Some (int pct)"
    using assms(8) by (intro ParseInt_show_nat) (simp add: max_int64_def)
  moreover have "concat gs \<noteq> []" "list_all is_digit (concat gs)"
    using assms(4,5) by (cases gs; auto simp: list_all_iff)+
  then have "ParseInt (concat gs) = Some (int n)"
    using assms(6,7) by (cases "concat gs") (auto simp: ParseInt_def Let_def is_digit_def byte_def min_int64_def)
  then have "parseNumBytes (Join gs '','') = Inr (int n)"
    using assms(5) by (simp add: parseNumBytes_def ReplaceByte_concat)
  ultimately show ?thesis
    by (simp add: rsync_ParseLine_def rsyncEndRegex_None [OF assms(10)] cap_def)
qed

theorem rsync_progress_reads_back_witness:
  "rsync_ParseLine ''  1,234  45% 3MB/s'' = Inr \<lparr>up_Line = ''  1,234  45% 3MB/s'', up_Percentage = 45,
     up_Transferred = 1234, up_Total = estimateTotal 1234 45\<rparr> \<and>
   rsync_ParseLine ''  32,768   0%'' = Inr \<lparr>up_Line = ''  32,768   0%'', up_Percentage = 0,
     up_Transferred = 0, up_Total = 0\<rparr>"
proof -
  have "show_nat 45 = ''45''" "show_nat 0 = ''0''" by code_simp+
  then show ?thesis
    using rsync_progress_reads_back [of "''  ''" "''  ''" "[''1'', ''234'']" 1234 45 "''  1,234  45% 3MB/s''" "'' 3MB/s''"]
      rsync_progress_reads_back [of "''  ''" "''   ''" "[''32'', ''768'']" 32768 0 "''  32,768   0%''" "[]"]
    by (simp add: is_space_def is_digit_def byte_def max_int64_def go_eval)
qed

section \<open>Lines do not depend on how the log arrives\<close>

text \<open>The reference: the lines between any two line ends, without the blank ones.\<close>

fun segments :: "string \<Rightarrow> string list" where
  "segments [] = [[]]"
| "segments (c # s) = (if line_end c then [] # segments s
     else case segments s of [] \<Rightarrow> [[c]] | w # ws \<Rightarrow> (c # w) # ws)"

definition nonblank_lines :: "string \<Rightarrow> string list" where
  "nonblank_lines s = filter (\<lambda>l. l \<noteq> []) (segments s)"

lemma segments_not_Nil [simp]: "segments s \<noteq> []"
  by (cases s) (auto split: list.splits)

lemma segments_line: "list_all (\<lambda>c. \<not> line_end c) t \<Longrightarrow> line_end c \<Longrightarrow> segments (t @ c # s) = t # segments s"
  by (induction t) auto

lemma segments_no_end: "list_all (\<lambda>c. \<not> line_end c) t \<Longrightarrow> segments t = [t]"
  by (induction t) auto

lemma segments_prefix: "list_all (\<lambda>c. \<not> line_end c) t \<Longrightarrow> \<exists>w ws. segments (t @ s) = (t @ w) # ws"
proof (induction t)
  case Nil
  then show ?case by (cases "segments s") auto
qed auto

lemma takeWhile_full: "\<not> length (takeWhile P xs) < length xs \<Longrightarrow> takeWhile P xs = xs"
  by (metis length_takeWhile_le linorder_not_less order_le_imp_less_or_eq takeWhile_eq_take take_all)

lemma scanCRLF_token:
  assumes "scanCRLF buf atEOF = (n, Some t)" and "atEOF \<Longrightarrow> rest = []"
  shows "nonblank_lines (buf @ rest) = (if t = [] then [] else [t]) @ nonblank_lines (drop n buf @ rest)"
proof -
  let ?P = "\<lambda>c. \<not> line_end c"
  let ?idx = "length (takeWhile ?P buf)"
  have pre: "list_all ?P (takeWhile ?P buf)" by (auto simp: list_all_iff dest: set_takeWhileD)
  have buf: "buf \<noteq> []" using scanCRLF_advance [OF assms(1)] by simp
  show ?thesis
  proof (cases "?idx < length buf")
    case False
    then have tw: "takeWhile ?P buf = buf" by (rule takeWhile_full)
    with assms buf False have "atEOF" "t = buf" "n = length buf"
      by (auto simp: scanCRLF_def Let_def split: if_splits)
    with assms(2) pre tw buf show ?thesis by (simp add: nonblank_lines_def segments_no_end)
  next
    case True
    have c: "line_end (buf ! ?idx)" using nth_length_takeWhile [OF True] by simp
    have split: "buf = takeWhile ?P buf @ buf ! ?idx # drop (Suc ?idx) buf"
      using True by (metis id_take_nth_drop takeWhile_eq_take)
    have seg: "segments (buf @ rest) = takeWhile ?P buf # segments (drop (Suc ?idx) buf @ rest)"
      by (subst split) (simp add: segments_line [OF pre c])
    have t: "t = takeWhile ?P buf" using assms(1) True buf
      by (auto simp: scanCRLF_def Let_def takeWhile_eq_take [symmetric] split: if_splits)
    show ?thesis
    proof (cases "n = Suc ?idx")
      case True
      with seg t show ?thesis by (simp add: nonblank_lines_def)
    next
      case False
      with assms(1) True buf have n: "n = Suc (Suc ?idx)" and "Suc ?idx < length buf" "buf ! Suc ?idx = newline_byte"
        by (auto simp: scanCRLF_def Let_def split: if_splits)
      then have "drop (Suc ?idx) buf = newline_byte # drop n buf" by (metis Cons_nth_drop_Suc)
      with seg t show ?thesis by (simp add: nonblank_lines_def line_end_def)
    qed
  qed
qed

lemma scanCRLF_None:
  "scanCRLF buf False = (n, None) \<Longrightarrow> list_all (\<lambda>c. \<not> line_end c) buf"
  using takeWhile_full [of "\<lambda>c. \<not> line_end c" buf]
  by (auto simp: scanCRLF_def Let_def list_all_iff takeWhile_eq_all_conv split: if_splits)

theorem scan_lines:
  assumes "\<forall>l \<in> set (nonblank_lines (buf @ concat chunks)). length l < maxTokenSize"
  shows "\<exists>ts. scan buf chunks = (ts, False) \<and> filter (\<lambda>l. l \<noteq> []) ts = nonblank_lines (buf @ concat chunks)"
  using assms
proof (induction buf chunks rule: scan.induct)
  case (1 buf chunks)
  let ?r = "if buf = [] \<and> chunks \<noteq> [] then (0, None) else scanCRLF buf (chunks = [])"
  obtain n t where r: "?r = (n, t)" by (cases ?r)
  show ?case
  proof (cases t)
    case (Some tok)
    with r have sc: "scanCRLF buf (chunks = []) = (n, Some tok)" by (auto split: if_splits)
    have dec: "nonblank_lines (buf @ concat chunks) =
        (if tok = [] then [] else [tok]) @ nonblank_lines (drop n buf @ concat chunks)"
      by (rule scanCRLF_token [OF sc]) simp
    with "1.prems" have "\<forall>l \<in> set (nonblank_lines (drop n buf @ concat chunks)). length l < maxTokenSize" by auto
    from "1.IH"(2) [OF r [symmetric] Some this] obtain ts where
      "scan (drop n buf) chunks = (ts, False)" "filter (\<lambda>l. l \<noteq> []) ts = nonblank_lines (drop n buf @ concat chunks)"
      by blast
    with r Some dec show ?thesis by (subst scan.simps) (auto simp del: not_Cons_self2)
  next
    case None
    show ?thesis
    proof (cases chunks)
      case Nil
      with r None have "buf = []" by (auto simp: scanCRLF_def Let_def split: if_splits)
      with Nil show ?thesis by (subst scan.simps) (simp add: scanCRLF_def nonblank_lines_def)
    next
      case (Cons c cs)
      have free: "list_all (\<lambda>c. \<not> line_end c) buf"
        using r None Cons scanCRLF_None [of buf n] by (cases buf) auto
      from segments_prefix [OF free, of "concat chunks"] obtain w ws where
        "segments (buf @ concat chunks) = (buf @ w) # ws" by blast
      with "1.prems" have short: "\<not> maxTokenSize \<le> length buf"
        by (cases "buf = []") (auto simp: nonblank_lines_def maxTokenSize_def)
      from "1.IH"(1) [OF r [symmetric] None Cons short] "1.prems" Cons
      show ?thesis by (subst scan.simps) (use r None Cons short in auto)
    qed
  qed
qed

text \<open>The last line that parses, whatever the reads were.\<close>

definition successes :: "(string \<Rightarrow> parsed) \<Rightarrow> string list \<Rightarrow> Update list" where
  "successes f ls = concat (map (\<lambda>l. case f l of Inr u \<Rightarrow> [u] | Inl _ \<Rightarrow> []) ls)"

lemma parse_lines_stateless:
  assumes "f [] = Inl e"
  shows "parse_lines (stateless f) ts tot u = last (u # successes f (filter (\<lambda>l. l \<noteq> []) ts))"
proof (induction ts arbitrary: u)
  case (Cons t ts)
  have step: "successes f (t # ls) = (case f t of Inr u \<Rightarrow> [u] | Inl _ \<Rightarrow> []) @ successes f ls" for ls
    by (simp add: successes_def)
  show ?case
    using assms by (cases "f t"; cases "t = []") (simp_all add: stateless_def step Cons [unfolded stateless_def])
qed (simp add: successes_def)

lemma blank_rsync: "rsync_ParseLine [] = Inl NoMatch"
  by code_simp

lemma blank_rclone: "rclone_ParseLine unmarshal [] = Inl EmptyLine"
proof -
  have "TrimSpace [] = []" by code_simp
  then show ?thesis by (simp add: rclone_ParseLine_def)
qed

text \<open>
  C35: the latest progress of a log, read by rsync's or by rclone's parser, is that of its last line
  that parses, however the reads cut the log: neither a line nor a carriage return with its line feed split between two reads matters, as
  long as no line fills the scanner's buffer.
\<close>

theorem FindLast_any_reads:
  assumes "\<forall>l \<in> set (nonblank_lines (concat chunks)). length l < maxTokenSize"
  shows "progresslog_FindLast chunks (Some (stateless rsync_ParseLine)) =
      last (Update_zero # successes rsync_ParseLine (nonblank_lines (concat chunks))) \<and>
    progresslog_FindLast chunks (Some (stateless (rclone_ParseLine unmarshal))) =
      last (Update_zero # successes (rclone_ParseLine unmarshal) (nonblank_lines (concat chunks)))"
proof -
  from scan_lines [of "[]" chunks] assms obtain ts where
    "fst (scan [] chunks) = ts" "filter (\<lambda>l. l \<noteq> []) ts = nonblank_lines (concat chunks)" by fastforce
  then show ?thesis
    by (simp add: progresslog_FindLast_def parse_lines_stateless [of rsync_ParseLine, OF blank_rsync]
        parse_lines_stateless [of "rclone_ParseLine unmarshal", OF blank_rclone])
qed

theorem FindLast_any_reads_witness:
  "progresslog_FindLast [''1 45'', ''%'' @ [return_byte], newline_byte # ''2 50%''] (Some (stateless rsync_ParseLine)) =
     \<lparr>up_Line = ''2 50%'', up_Percentage = 50, up_Transferred = 2, up_Total = 4\<rparr>"
proof -
  let ?c = "[''1 45'', ''%'' @ [return_byte], newline_byte # ''2 50%'']"
  have "nonblank_lines (concat ?c) = [''1 45%'', ''2 50%'']" by code_simp
  moreover have "successes rsync_ParseLine [''1 45%'', ''2 50%''] =
      [\<lparr>up_Line = ''1 45%'', up_Percentage = 45, up_Transferred = 1, up_Total = 2\<rparr>,
       \<lparr>up_Line = ''2 50%'', up_Percentage = 50, up_Transferred = 2, up_Total = 4\<rparr>]" by code_simp
  ultimately show ?thesis using FindLast_any_reads [of ?c] by (simp add: maxTokenSize_def)
qed

end
