(* ===== verification/ProgressLog.thy ===== *)
theory ProgressLog
  imports ProgressFacts
begin

text \<open>
  The log follower of \<open>src/internal/progresslog/logger.go\<close>. \<open>Logger.Start\<close> opens the stream, runs one
  goroutine that reads lines and one that handles them, and opens it again when it ends, until its
  context is cancelled or the completion signal arrives. The goroutines, the caller and the cluster
  interleave, so the follower is a step relation: each rule is one action of one of them, and a
  \<open>select\<close> with several ready cases is several rules. A read returns any line, ends or fails.
\<close>

section \<open>The bar\<close>

record bar =
  br_Transferred :: int
  br_Finished :: bool
  br_Drawn :: "int list"
  br_Finishes :: nat

definition bar_zero :: bar where
  "bar_zero = \<lparr>br_Transferred = 0, br_Finished = False, br_Drawn = [], br_Finishes = 0\<rparr>"

definition barMaximum :: int where "barMaximum = 100"
definition barStreamedMaximum :: int where "barStreamedMaximum = barMaximum - 1"

definition updateProgressBar :: "int \<Rightarrow> bar \<Rightarrow> bar" where
  "updateProgressBar percentage b = b\<lparr>br_Drawn := min percentage barStreamedMaximum # br_Drawn b\<rparr>"

definition finish_bar :: "bar \<Rightarrow> bar" where
  "finish_bar b = b\<lparr>br_Finished := True, br_Finishes := br_Finishes b + 1\<rparr>"

text \<open>The options, and \<open>handleLine\<close> on the total its parser keeps and on the bar.\<close>

record LoggerOptions =
  lo_ShowProgressBar :: bool
  lo_ParseLine :: "parser option"

definition handleLine :: "LoggerOptions \<Rightarrow> string \<Rightarrow> int \<times> bar \<Rightarrow> int \<times> bar" where
  "handleLine opts line = (\<lambda>(tot, b).
     case lo_ParseLine opts of None \<Rightarrow> (tot, b)
     | Some parse \<Rightarrow> (case parse tot line of
         (Inl _, tot') \<Rightarrow> (tot', b)
       | (Inr u, tot') \<Rightarrow>
           if \<not> lo_ShowProgressBar opts then (tot', b)
           else if up_Transferred u < br_Transferred b then (tot', b)
           else (tot', updateProgressBar (up_Percentage u) (b\<lparr>br_Transferred := up_Transferred u\<rparr>))))"

definition Rendered :: "bar \<Rightarrow> bool" where
  "Rendered b \<longleftrightarrow> br_Transferred b > 0 \<or> br_Finished b"

text \<open>\<open>FinishBar\<close>; the first argument tells whether a bar was ever made.\<close>

definition FinishBar :: "bool \<Rightarrow> bar \<Rightarrow> bar" where
  "FinishBar made b = (if \<not> made \<or> br_Finished b \<or> br_Transferred b = 0 then b else finish_bar b)"

section \<open>The follower\<close>

datatype follow_error = Canceled | EndOfStream | StreamFailed

datatype tail_state = Reading | Sending string | TailDone follow_error

datatype handler_state = Selecting | Finishing | HandlerDone

datatype phase =
  Top
| Opening
| Streaming tail_state handler_state bool
| Failed follow_error
| Waiting
| Returned

record follower =
  fo_phase :: phase
  fo_cancelled :: bool
  fo_signal :: bool
  fo_delay :: nat
  fo_total :: int
  fo_bar :: bar

definition logRetryInitialDelay :: nat where "logRetryInitialDelay = 250"
definition logRetryMaxDelay :: nat where "logRetryMaxDelay = 5000"

definition next_delay :: "nat \<Rightarrow> nat" where
  "next_delay d = (if 2 * d > logRetryMaxDelay then logRetryMaxDelay else 2 * d)"

definition NewLogger :: follower where
  "NewLogger = \<lparr>fo_phase = Top, fo_cancelled = False, fo_signal = False, fo_delay = logRetryInitialDelay,
                fo_total = 0, fo_bar = bar_zero\<rparr>"

text \<open>
  The steps of the caller: cancelling the context, and \<open>MarkAsComplete\<close>, whose channel holds one
  signal. In \<open>Streaming\<close> the flag tells whether the stream's own context is cancelled; it also is when
  the caller's is.
\<close>

inductive caller_step :: "follower \<Rightarrow> follower \<Rightarrow> bool" where
  cancel: "caller_step s (s\<lparr>fo_cancelled := True\<rparr>)"
| MarkAsComplete: "\<not> fo_signal s \<Longrightarrow> caller_step s (s\<lparr>fo_signal := True\<rparr>)"

text \<open>The loop of \<open>Start\<close>.\<close>

inductive loop_step :: "follower \<Rightarrow> follower \<Rightarrow> bool" where
  top_cancelled: "fo_phase s = Top \<Longrightarrow> fo_cancelled s \<Longrightarrow> loop_step s (s\<lparr>fo_phase := Returned\<rparr>)"
| top_signal: "fo_phase s = Top \<Longrightarrow> fo_signal s \<Longrightarrow>
    loop_step s (s\<lparr>fo_phase := Returned, fo_signal := False\<rparr>)"
| top_default: "fo_phase s = Top \<Longrightarrow> \<not> fo_cancelled s \<Longrightarrow> \<not> fo_signal s \<Longrightarrow>
    loop_step s (s\<lparr>fo_phase := Opening\<rparr>)"
| opened: "fo_phase s = Opening \<Longrightarrow> loop_step s (s\<lparr>fo_phase := Streaming Reading Selecting False\<rparr>)"
| open_failed: "fo_phase s = Opening \<Longrightarrow> loop_step s (s\<lparr>fo_phase := Failed StreamFailed\<rparr>)"
| open_cancelled: "fo_phase s = Opening \<Longrightarrow> fo_cancelled s \<Longrightarrow>
    loop_step s (s\<lparr>fo_phase := Failed Canceled\<rparr>)"
| join: "fo_phase s = Streaming (TailDone e) HandlerDone c \<Longrightarrow> loop_step s (s\<lparr>fo_phase := Failed e\<rparr>)"
| give_up: "fo_phase s = Failed Canceled \<Longrightarrow> loop_step s (s\<lparr>fo_phase := Returned\<rparr>)"
| retry: "fo_phase s = Failed e \<Longrightarrow> e \<noteq> Canceled \<Longrightarrow> loop_step s (s\<lparr>fo_phase := Waiting\<rparr>)"
| wait_cancelled: "fo_phase s = Waiting \<Longrightarrow> fo_cancelled s \<Longrightarrow> loop_step s (s\<lparr>fo_phase := Returned\<rparr>)"
| wait_signal: "fo_phase s = Waiting \<Longrightarrow> fo_signal s \<Longrightarrow>
    loop_step s (s\<lparr>fo_phase := Returned, fo_signal := False\<rparr>)"
| wait_over: "fo_phase s = Waiting \<Longrightarrow>
    loop_step s (s\<lparr>fo_phase := Top, fo_delay := next_delay (fo_delay s)\<rparr>)"

text \<open>\<open>tailLogs\<close> and \<open>handleLogs\<close>, which meet when a line is handed over.\<close>

inductive stream_step :: "LoggerOptions \<Rightarrow> follower \<Rightarrow> follower \<Rightarrow> bool" for opts where
  read_line: "fo_phase s = Streaming Reading h c \<Longrightarrow>
    stream_step opts s (s\<lparr>fo_phase := Streaming (Sending line) h c\<rparr>)"
| read_end: "fo_phase s = Streaming Reading h c \<Longrightarrow>
    stream_step opts s (s\<lparr>fo_phase := Streaming (TailDone (if c \<or> fo_cancelled s then Canceled else EndOfStream)) h True\<rparr>)"
| read_failed: "fo_phase s = Streaming Reading h c \<Longrightarrow>
    stream_step opts s (s\<lparr>fo_phase := Streaming (TailDone StreamFailed) h True\<rparr>)"
| read_cancelled: "fo_phase s = Streaming Reading h c \<Longrightarrow> c \<or> fo_cancelled s \<Longrightarrow>
    stream_step opts s (s\<lparr>fo_phase := Streaming (TailDone Canceled) h True\<rparr>)"
| send_cancelled: "fo_phase s = Streaming (Sending line) h c \<Longrightarrow> c \<or> fo_cancelled s \<Longrightarrow>
    stream_step opts s (s\<lparr>fo_phase := Streaming (TailDone Canceled) h True\<rparr>)"
| deliver: "fo_phase s = Streaming (Sending line) Selecting c \<Longrightarrow>
    handleLine opts line (fo_total s, fo_bar s) = (tot, b) \<Longrightarrow>
    stream_step opts s (s\<lparr>fo_phase := Streaming Reading Selecting c, fo_total := tot, fo_bar := b\<rparr>)"
| handler_cancelled: "fo_phase s = Streaming t Selecting c \<Longrightarrow> c \<or> fo_cancelled s \<Longrightarrow>
    stream_step opts s (s\<lparr>fo_phase := Streaming t HandlerDone True\<rparr>)"
| handler_signal: "fo_phase s = Streaming t Selecting c \<Longrightarrow> fo_signal s \<Longrightarrow>
    stream_step opts s (s\<lparr>fo_phase := Streaming t Finishing c, fo_signal := False,
      fo_bar := (if lo_ShowProgressBar opts \<and> \<not> br_Finished (fo_bar s) then finish_bar (fo_bar s) else fo_bar s)\<rparr>)"
| handler_finished: "fo_phase s = Streaming t Finishing c \<Longrightarrow>
    stream_step opts s (s\<lparr>fo_phase := Streaming t HandlerDone True\<rparr>)"

definition follow_step :: "LoggerOptions \<Rightarrow> follower \<Rightarrow> follower \<Rightarrow> bool" where
  "follow_step opts s s' \<longleftrightarrow> loop_step s s' \<or> stream_step opts s s'"

definition any_step :: "LoggerOptions \<Rightarrow> follower \<Rightarrow> follower \<Rightarrow> bool" where
  "any_step opts s s' \<longleftrightarrow> caller_step s s' \<or> follow_step opts s s'"

lemmas step_defs = any_step_def follow_step_def caller_step.simps loop_step.simps stream_step.simps

section \<open>The bar under every interleaving\<close>

definition follower_ok :: "follower \<Rightarrow> bool" where
  "follower_ok s \<longleftrightarrow> logRetryInitialDelay \<le> fo_delay s \<and> fo_delay s \<le> logRetryMaxDelay \<and>
     br_Finishes (fo_bar s) = (if br_Finished (fo_bar s) then 1 else 0) \<and>
     list_all (\<lambda>p. p < barMaximum) (br_Drawn (fo_bar s))"

lemma handleLine_bar:
  assumes "handleLine opts line (tot, b) = (tot', b')"
  shows "br_Finished b' = br_Finished b \<and> br_Finishes b' = br_Finishes b \<and> br_Transferred b \<le> br_Transferred b' \<and>
    (list_all (\<lambda>p. p < barMaximum) (br_Drawn b) \<longrightarrow> list_all (\<lambda>p. p < barMaximum) (br_Drawn b'))"
  using assms
  by (auto simp: handleLine_def updateProgressBar_def barStreamedMaximum_def
      split: option.splits prod.splits sum.splits if_splits)

lemma next_delay_bounds:
  "logRetryInitialDelay \<le> d \<Longrightarrow> d \<le> logRetryMaxDelay \<Longrightarrow>
     logRetryInitialDelay \<le> next_delay d \<and> next_delay d \<le> logRetryMaxDelay"
  by (simp add: next_delay_def logRetryInitialDelay_def logRetryMaxDelay_def)

lemma any_step_ok: "any_step opts s s' \<Longrightarrow> follower_ok s \<Longrightarrow> follower_ok s'"
  unfolding any_step_def follow_step_def
proof (elim disjE)
  assume "caller_step s s'" "follower_ok s"
  then show ?thesis by cases (simp_all add: follower_ok_def)
next
  assume "loop_step s s'" "follower_ok s"
  then show ?thesis by cases (simp_all add: follower_ok_def next_delay_bounds)
next
  assume "stream_step opts s s'" "follower_ok s"
  then show ?thesis
    by cases (auto simp: follower_ok_def finish_bar_def dest!: handleLine_bar)
qed

lemma any_step_transferred: "any_step opts s s' \<Longrightarrow> br_Transferred (fo_bar s) \<le> br_Transferred (fo_bar s')"
  by (auto simp: step_defs finish_bar_def dest: handleLine_bar)

text \<open>
  C22: the follower's progress state is sound under every interleaving of the reader, the handler, the
  retry loop and the caller. The count of transferred bytes that it has accepted never goes back
  (the percentage drawn may), nothing that is streamed draws the bar complete, the bar is finished at
  most once even with the caller's final \<open>FinishBar\<close>, and the delay between retries stays between a
  quarter of a second and five seconds.
\<close>

theorem bar_stays_sound:
  assumes "(any_step opts)\<^sup>*\<^sup>* NewLogger s" and "(any_step opts)\<^sup>*\<^sup>* s s'"
  shows "br_Transferred (fo_bar s) \<le> br_Transferred (fo_bar s') \<and> (\<forall>p \<in> set (br_Drawn (fo_bar s')). p < 100) \<and>
    br_Finishes (FinishBar made (fo_bar s')) \<le> 1 \<and> 250 \<le> fo_delay s' \<and> fo_delay s' \<le> 5000"
proof (intro conjI)
  have "follower_ok NewLogger"
    by (simp add: follower_ok_def NewLogger_def bar_zero_def logRetryInitialDelay_def logRetryMaxDelay_def)
  have "follower_ok s'" using rtranclp_trans [OF assms]
  proof (induction rule: rtranclp_induct)
    case base
    show ?case by fact
  qed (rule any_step_ok)
  then show "\<forall>p \<in> set (br_Drawn (fo_bar s')). p < 100" "br_Finishes (FinishBar made (fo_bar s')) \<le> 1"
    "250 \<le> fo_delay s'" "fo_delay s' \<le> 5000"
    by (auto simp: follower_ok_def list_all_iff barMaximum_def FinishBar_def finish_bar_def logRetryInitialDelay_def
        logRetryMaxDelay_def)
  from assms(2) show "br_Transferred (fo_bar s) \<le> br_Transferred (fo_bar s')"
    by (induction rule: rtranclp_induct) (auto dest: any_step_transferred)
qed

text \<open>A follower that has read one line of rsync and drawn it.\<close>

definition drawn_example :: follower where
  "drawn_example = NewLogger\<lparr>fo_phase := Streaming Reading Selecting False,
     fo_bar := bar_zero\<lparr>br_Transferred := 7, br_Drawn := [50]\<rparr>\<rparr>"

lemma drawn_example_reach:
  "(any_step \<lparr>lo_ShowProgressBar = True, lo_ParseLine = Some (stateless rsync_ParseLine)\<rparr>)\<^sup>*\<^sup>* NewLogger drawn_example"
proof -
  let ?o = "\<lparr>lo_ShowProgressBar = True, lo_ParseLine = Some (stateless rsync_ParseLine)\<rparr>"
  let ?a = "NewLogger\<lparr>fo_phase := Opening\<rparr>" and ?b = "NewLogger\<lparr>fo_phase := Streaming Reading Selecting False\<rparr>"
  let ?c = "NewLogger\<lparr>fo_phase := Streaming (Sending ''7 50%'') Selecting False\<rparr>"
  have "loop_step NewLogger ?a" using top_default [of NewLogger] by (simp add: NewLogger_def)
  moreover have "loop_step ?a ?b" using opened [of ?a] by (simp add: NewLogger_def)
  moreover have "stream_step ?o ?b ?c" using read_line [of ?b Selecting False ?o "''7 50%''"] by (simp add: NewLogger_def)
  moreover have "handleLine ?o ''7 50%'' (0, bar_zero) = (0, bar_zero\<lparr>br_Transferred := 7, br_Drawn := [50]\<rparr>)"
    by code_simp
  then have "stream_step ?o ?c drawn_example"
    using deliver [of ?c "''7 50%''" False ?o] by (simp add: NewLogger_def drawn_example_def)
  ultimately have "any_step ?o NewLogger ?a" "any_step ?o ?a ?b" "any_step ?o ?b ?c" "any_step ?o ?c drawn_example"
    by (simp_all add: any_step_def follow_step_def)
  then show ?thesis by (meson converse_rtranclp_into_rtranclp rtranclp.rtrancl_refl)
qed

theorem bar_stays_sound_witness:
  "br_Drawn (fo_bar drawn_example) = [50] \<and> br_Transferred (fo_bar NewLogger) \<le> br_Transferred (fo_bar drawn_example) \<and>
   br_Finishes (FinishBar True (fo_bar drawn_example)) \<le> 1"
  using bar_stays_sound [OF rtranclp.rtrancl_refl drawn_example_reach, of True] by (simp add: drawn_example_def)

section \<open>A cancelled follower returns\<close>

definition reads :: "follower \<Rightarrow> follower \<Rightarrow> bool" where
  "reads s s' \<longleftrightarrow> (\<exists>h c line. fo_phase s = Streaming Reading h c \<and> fo_phase s' = Streaming (Sending line) h c)"

text \<open>A run of the follower, with the lines it reads and the steps it takes.\<close>

inductive runs :: "LoggerOptions \<Rightarrow> nat \<Rightarrow> nat \<Rightarrow> follower \<Rightarrow> follower \<Rightarrow> bool" for opts where
  runs_nil: "runs opts 0 0 s s"
| runs_step: "runs opts k n s s' \<Longrightarrow> follow_step opts s' s'' \<Longrightarrow>
    runs opts (if reads s' s'' then Suc k else k) (Suc n) s s''"

fun rank :: "phase \<Rightarrow> nat" where
  "rank Returned = 0"
| "rank Top = 1"
| "rank Waiting = 2"
| "rank (Failed e) = 3"
| "rank (Streaming t h c) = 4 + (case t of Reading \<Rightarrow> 1 | Sending _ \<Rightarrow> 2 | TailDone _ \<Rightarrow> 0) +
     (case h of Selecting \<Rightarrow> 2 | Finishing \<Rightarrow> 1 | HandlerDone \<Rightarrow> 0)"
| "rank Opening = 8"

lemma follow_step_cancelled: "follow_step opts s s' \<Longrightarrow> fo_cancelled s' = fo_cancelled s"
  by (auto simp: step_defs)

lemma follow_step_rank:
  assumes "follow_step opts s s'" "fo_cancelled s"
  shows "if reads s s' then rank (fo_phase s') \<le> Suc (rank (fo_phase s)) else rank (fo_phase s') < rank (fo_phase s)"
  using assms(1) unfolding follow_step_def
proof
  assume "loop_step s s'"
  then show ?thesis using assms(2) by cases (auto simp: reads_def)
next
  assume "stream_step opts s s'"
  then show ?thesis by cases (auto simp: reads_def split: tail_state.splits)
qed

lemma follow_enabled:
  assumes "fo_cancelled s" "fo_phase s \<noteq> Returned"
  shows "\<exists>s'. follow_step opts s s'"
proof (cases "fo_phase s")
  case (Streaming t h c)
  show ?thesis
  proof (cases h)
    case Selecting
    then show ?thesis using Streaming assms handler_cancelled [of s t c opts] by (auto simp: follow_step_def)
  next
    case Finishing
    then show ?thesis using Streaming handler_finished [of s t c opts] by (auto simp: follow_step_def)
  next
    case HandlerDone
    then show ?thesis using Streaming assms join [of s _ c] read_failed [of s h c opts] send_cancelled [of s _ h c opts]
      by (cases t) (auto simp: follow_step_def)
  qed
next
  case (Failed e)
  then show ?thesis using give_up [of s] retry [of s e] by (cases "e = Canceled") (auto simp: follow_step_def)
qed (use assms in \<open>auto simp: follow_step_def intro: loop_step.intros\<close>)

lemma runs_cancelled: "runs opts k n s s' \<Longrightarrow> fo_cancelled s' = fo_cancelled s"
  by (induction rule: runs.induct) (auto dest: follow_step_cancelled)

text \<open>
  A follower whose context is cancelled returns. It takes at most eight steps and two for each line
  it still reads, and until it has returned it is never stuck: wherever the reader, the handler and
  the retry loop stand, one of them can go on.
\<close>

theorem cancelled_follower_returns:
  assumes "runs opts k n s s'" and "fo_cancelled s"
  shows "n \<le> 8 + 2 * k \<and> (fo_phase s' = Returned \<or> (\<exists>s''. follow_step opts s' s''))"
proof (intro conjI)
  have "n + rank (fo_phase s') \<le> rank (fo_phase s) + 2 * k" using assms
  proof (induction rule: runs.induct)
    case (runs_step k n s s' s'')
    from runs_step.hyps runs_step.prems have "fo_cancelled s'" using runs_cancelled by blast
    from follow_step_rank [OF runs_step.hyps(2) this] runs_step.IH [OF runs_step.prems] show ?case
      by (auto split: if_splits)
  qed simp
  moreover have "rank p \<le> 8" for p by (cases p) (auto split: tail_state.splits handler_state.splits)
  ultimately show "n \<le> 8 + 2 * k" by (meson add_leD1 add_mono_thms_linordered_semiring(3) order_trans)
  show "fo_phase s' = Returned \<or> (\<exists>s''. follow_step opts s' s'')"
    using follow_enabled [of s'] runs_cancelled [OF assms(1)] assms(2) by blast
qed

theorem cancelled_follower_returns_witness:
  "\<exists>s'. follow_step \<lparr>lo_ShowProgressBar = True, lo_ParseLine = None\<rparr> (NewLogger\<lparr>fo_cancelled := True\<rparr>) s'"
  using cancelled_follower_returns [OF runs_nil [of "\<lparr>lo_ShowProgressBar = True, lo_ParseLine = None\<rparr>"
    "NewLogger\<lparr>fo_cancelled := True\<rparr>"]] by (simp add: NewLogger_def)

section \<open>A signal that is lost\<close>

text \<open>No completion signal, no cancellation, and nothing under way that would end the follower.\<close>

definition stranded :: "follower \<Rightarrow> bool" where
  "stranded s \<longleftrightarrow> \<not> fo_cancelled s \<and> \<not> fo_signal s \<and>
     (case fo_phase s of Returned \<Rightarrow> False | Failed e \<Rightarrow> e \<noteq> Canceled
      | Streaming t h c \<Rightarrow> (case t of TailDone e \<Rightarrow> e \<noteq> Canceled | _ \<Rightarrow> \<not> c \<and> h = Selecting) | _ \<Rightarrow> True)"

lemma stranded_step: "follow_step opts s s' \<Longrightarrow> stranded s \<Longrightarrow> stranded s'"
  unfolding follow_step_def
proof (elim disjE)
  assume "loop_step s s'" "stranded s"
  then show ?thesis by cases (auto simp: stranded_def)
next
  assume "stream_step opts s s'" "stranded s"
  then show ?thesis by cases (auto simp: stranded_def split: tail_state.splits)
qed

lemma stranded_not_returned: "stranded s \<Longrightarrow> fo_phase s \<noteq> Returned"
  by (auto simp: stranded_def)

text \<open>
  The completion signal can be lost. The stream ends after the signal was sent; the handler, offered
  both the signal and the cancelled stream, takes the signal; the reader's end of stream then sends
  the loop into its retry, which waits for a signal that is gone. From there the follower returns only
  if its context is cancelled.
\<close>

theorem completion_signal_lost:
  "\<exists>opened marked s. (follow_step opts)\<^sup>*\<^sup>* NewLogger opened \<and> marked = opened\<lparr>fo_signal := True\<rparr> \<and>
     caller_step opened marked \<and> (follow_step opts)\<^sup>*\<^sup>* marked s \<and>
     (\<forall>s'. (follow_step opts)\<^sup>*\<^sup>* s s' \<longrightarrow> fo_phase s' \<noteq> Returned)"
proof -
  let ?top = NewLogger
  let ?opening = "?top\<lparr>fo_phase := Opening\<rparr>"
  let ?opened = "?opening\<lparr>fo_phase := Streaming Reading Selecting False\<rparr>"
  let ?marked = "?opened\<lparr>fo_signal := True\<rparr>"
  let ?ended = "?marked\<lparr>fo_phase := Streaming (TailDone EndOfStream) Selecting True\<rparr>"
  let ?b = "if lo_ShowProgressBar opts \<and> \<not> br_Finished (fo_bar ?ended) then finish_bar (fo_bar ?ended) else fo_bar ?ended"
  let ?taken = "?ended\<lparr>fo_phase := Streaming (TailDone EndOfStream) Finishing True, fo_signal := False, fo_bar := ?b\<rparr>"
  have fo: "fo_phase ?top = Top" "\<not> fo_cancelled ?top" "\<not> fo_signal ?top" by (simp_all add: NewLogger_def)
  have "follow_step opts ?top ?opening" unfolding follow_step_def using fo by (blast intro: top_default)
  moreover have "follow_step opts ?opening ?opened" unfolding follow_step_def by (rule disjI1, rule opened) simp
  ultimately have start: "(follow_step opts)\<^sup>*\<^sup>* ?top ?opened" by simp
  have mark: "caller_step ?opened ?marked" by (rule MarkAsComplete) (simp add: NewLogger_def)
  have e: "stream_step opts ?marked ?ended"
    using read_end [of ?marked Selecting False opts] fo(2) by simp
  have t: "stream_step opts ?ended ?taken" by (rule handler_signal) simp_all
  have go: "(follow_step opts)\<^sup>*\<^sup>* ?marked ?taken"
    by (rule rtranclp.rtrancl_into_rtrancl [OF r_into_rtranclp]) (unfold follow_step_def, rule disjI2 [OF e], rule disjI2 [OF t])
  have "stranded s'" if "(follow_step opts)\<^sup>*\<^sup>* ?taken s'" for s' using that
  proof (induction rule: rtranclp_induct)
    case base
    show ?case using fo(2) by (simp add: stranded_def)
  qed (rule stranded_step)
  then have "fo_phase s' \<noteq> Returned" if "(follow_step opts)\<^sup>*\<^sup>* ?taken s'" for s'
    using that stranded_not_returned by blast
  then have "\<forall>s'. (follow_step opts)\<^sup>*\<^sup>* ?taken s' \<longrightarrow> fo_phase s' \<noteq> Returned" by simp
  with go obtain s where s: "(follow_step opts)\<^sup>*\<^sup>* ?marked s"
    "\<forall>s'. (follow_step opts)\<^sup>*\<^sup>* s s' \<longrightarrow> fo_phase s' \<noteq> Returned" by (rule that)
  show ?thesis
    by (rule exI [of _ ?opened], rule exI [of _ ?marked], rule exI [of _ s]) (intro conjI start refl mark s)
qed

end
