(* ===== verification/Console.thy ===== *)
theory Console
  imports GoPrelude
begin

text \<open>
  The semantic colours of report blocks (\<open>src/internal/console/palette.go\<close>; a palette is whether it is
  enabled) and the writer that erases a progress bar's line ahead of a record
  (\<open>src/internal/console/erase.go\<close>).
\<close>

abbreviation escape_byte :: char where "escape_byte \<equiv> CHR 0x1B"

definition palette_reset :: string where "palette_reset = escape_byte # ''[0m''"

definition palette_wrap :: "bool \<Rightarrow> string \<Rightarrow> string \<Rightarrow> string" where
  "palette_wrap p code s = (if \<not> p \<or> s = [] then s else escape_byte # ''['' @ code @ ''m'' @ s @ palette_reset)"

definition Failure :: "bool \<Rightarrow> string \<Rightarrow> string" where "Failure p = palette_wrap p ''1;31''"
definition Bad :: "bool \<Rightarrow> string \<Rightarrow> string" where "Bad p = palette_wrap p ''31''"
definition Warn :: "bool \<Rightarrow> string \<Rightarrow> string" where "Warn p = palette_wrap p ''33''"
definition Good :: "bool \<Rightarrow> string \<Rightarrow> string" where "Good p = palette_wrap p ''32''"
definition Dim :: "bool \<Rightarrow> string \<Rightarrow> string" where "Dim p = palette_wrap p ''2''"
definition Bold :: "bool \<Rightarrow> string \<Rightarrow> string" where "Bold p = palette_wrap p ''1''"

definition ForTerminal :: "string \<Rightarrow> bool \<Rightarrow> bool \<Rightarrow> bool" where
  "ForTerminal no_color isTerminal structuredLogs \<longleftrightarrow> isTerminal \<and> \<not> structuredLogs \<and> no_color = []"

lemmas palette_defs = Failure_def Bad_def Warn_def Good_def Dim_def Bold_def palette_wrap_def

text \<open>A disabled palette changes nothing, which keeps plain text plain.\<close>

lemma palette_plain [simp]:
  "Failure False s = s" "Bad False s = s" "Warn False s = s" "Good False s = s" "Dim False s = s" "Bold False s = s"
  by (simp_all add: palette_defs)

definition eraseLine :: string where "eraseLine = return_byte # escape_byte # ''[2K''"

text \<open>A write answers how many bytes went out and whether it failed.\<close>

datatype write_error = ShortWrite | WriteFailed string

definition eraseLine_Write ::
  "(string \<Rightarrow> int \<times> write_error option) \<Rightarrow> string \<Rightarrow> int \<times> write_error option" where
  "eraseLine_Write write record =
     (let (n, err) = write (eraseLine @ record);
          written = min (max (n - int (length eraseLine)) 0) (int (length record))
      in if err = None \<and> written < int (length record) then (written, Some ShortWrite) else (written, err))"

text \<open>
  The contract of \<open>io.Writer\<close> holds for any writer underneath, even one that breaks it: the count is
  within the record, and a short count comes with an error.
\<close>

theorem eraseLine_Write_contract:
  assumes "eraseLine_Write write record = (n, err)"
  shows "0 \<le> n" and "n \<le> int (length record)" and "n < int (length record) \<Longrightarrow> err \<noteq> None"
  using assms by (auto simp: eraseLine_Write_def Let_def split: prod.splits if_splits)

end
