(* ===== verification/K8sPods.thy ===== *)
theory K8sPods
  imports Rsync Rclone Archive
begin

text \<open>
  Pods, jobs and services as package \<open>k8s\<close> reads them (\<open>src/internal/k8s/pod.go\<close>, \<open>exitcode.go\<close>,
  \<open>service.go\<close>). A watch is the list of the events it delivers before its context ends; \<open>client-go\<close>
  hands them to the condition one by one until it is met or fails.
\<close>

section \<open>Objects\<close>

record Terminated =
  te_ExitCode :: int
  te_Signal :: int
  te_Reason :: string
  te_Message :: string

record WaitingState =
  wa_Reason :: string
  wa_Message :: string

record ContainerStatus =
  cs_Name :: string
  cs_Waiting :: "WaitingState option"
  cs_Terminated :: "Terminated option"
  cs_LastTerminated :: "Terminated option"

record CorePod =
  cp_UID :: string
  cp_Name :: string
  cp_Namespace :: string
  cp_NodeName :: string
  cp_Phase :: string
  cp_Reason :: string
  cp_Message :: string
  cp_Conditions :: "(string \<times> string) list"
  cp_Containers :: "ContainerStatus list"

abbreviation PodPending :: string where "PodPending \<equiv> ''Pending''"
abbreviation PodRunning :: string where "PodRunning \<equiv> ''Running''"
abbreviation PodSucceeded :: string where "PodSucceeded \<equiv> ''Succeeded''"
abbreviation PodFailed :: string where "PodFailed \<equiv> ''Failed''"
abbreviation PodUnknown :: string where "PodUnknown \<equiv> ''Unknown''"

section \<open>Watches\<close>

datatype wait_error =
  UnexpectedObject
| WatchEnded
| GetFailed string
| WrongServiceType string

text \<open>
  \<open>watchtools.UntilWithSync\<close> over a condition that carries a state: the event that met it, with the
  state it left.
\<close>

fun until_with :: "('s \<Rightarrow> 'e \<Rightarrow> 's \<times> (wait_error, bool) result) \<Rightarrow> 's \<Rightarrow> 'e list \<Rightarrow> (wait_error, 'e) result \<times> 's" where
  "until_with cond st [] = (Inl WatchEnded, st)"
| "until_with cond st (e # es) = (case cond st e of
     (st', Inl err) \<Rightarrow> (Inl err, st')
   | (st', Inr True) \<Rightarrow> (Inr e, st')
   | (st', Inr False) \<Rightarrow> until_with cond st' es)"

definition podStarted :: "CorePod \<Rightarrow> bool" where
  "podStarted pod \<longleftrightarrow> cp_Phase pod \<noteq> PodPending"

definition podReady :: "CorePod \<Rightarrow> bool" where
  "podReady pod \<longleftrightarrow> (\<exists>c \<in> set (cp_Conditions pod). c = (''Ready'', ''True''))"

definition describeWaiting :: "WaitingState \<Rightarrow> string" where
  "describeWaiting w = (let message = TrimSpace (wa_Message w) in
     if message \<noteq> [] then wa_Reason w @ '': '' @ message else wa_Reason w)"

definition benignWaitingReasons :: "string list" where
  "benignWaitingReasons = [''ContainerCreating'', ''PodInitializing'']"

definition describePodWaiting :: "CorePod \<Rightarrow> string" where
  "describePodWaiting pod = Join (concat (map (\<lambda>st. case cs_Waiting st of None \<Rightarrow> []
     | Some w \<Rightarrow> if wa_Reason w = [] \<or> wa_Reason w \<in> set benignWaitingReasons then []
                else [cs_Name st @ '': '' @ describeWaiting w]) (cp_Containers pod))) '', ''"

text \<open>
  The condition of \<open>waitForPod\<close>: its state is the reason announced last and everything announced; an
  event that carries no pod is \<open>None\<close>.
\<close>

definition pod_condition ::
  "(CorePod \<Rightarrow> bool) \<Rightarrow> string \<times> string list \<Rightarrow> CorePod option \<Rightarrow> (string \<times> string list) \<times> (wait_error, bool) result" where
  "pod_condition finished st event = (case event of None \<Rightarrow> (st, Inl UnexpectedObject)
     | Some pod \<Rightarrow> (let waiting = describePodWaiting pod in
         (if waiting \<noteq> [] \<and> waiting \<noteq> fst st then (waiting, snd st @ [waiting]) else st, Inr (finished pod))))"

definition waitForPod ::
  "(CorePod \<Rightarrow> bool) \<Rightarrow> CorePod option list \<Rightarrow> (wait_error, CorePod) result \<times> string list" where
  "waitForPod finished events = (case until_with (pod_condition finished) ([], []) events of
     (Inl e, _, announced) \<Rightarrow> (Inl e, announced)
   | (Inr event, _, announced) \<Rightarrow> (Inr (the event), announced))"

definition WaitForPod :: "CorePod option list \<Rightarrow> (wait_error, CorePod) result \<times> string list" where
  "WaitForPod = waitForPod podStarted"

definition WaitForPodReady :: "CorePod option list \<Rightarrow> (wait_error, CorePod) result \<times> string list" where
  "WaitForPodReady = waitForPod podReady"

definition waitForPodTermination ::
  "(string, CorePod) result \<Rightarrow> CorePod option list \<Rightarrow> (wait_error, CorePod) result" where
  "waitForPodTermination get events = (case get of Inl e \<Rightarrow> Inl (GetFailed e)
     | Inr pod \<Rightarrow> if cp_Phase pod \<noteq> PodRunning then Inr pod
         else (case until_with (\<lambda>_ event. ((), case event of None \<Rightarrow> Inl UnexpectedObject
                 | Some p \<Rightarrow> Inr (cp_Phase p \<noteq> PodRunning))) () events of
                 (Inl e, _) \<Rightarrow> Inl e | (Inr event, _) \<Rightarrow> Inr (the event)))"

section \<open>Why a pod failed\<close>

definition rsyncJobSuffix :: string where "rsyncJobSuffix = ''-rsync''"
definition rcloneJobSuffix :: string where "rcloneJobSuffix = ''-rclone''"
definition tarJobSuffix :: string where "tarJobSuffix = ''-tar''"

definition jobSuffixes :: "string list" where
  "jobSuffixes = [rsyncJobSuffix, rcloneJobSuffix, tarJobSuffix]"

definition dataMoverContainer :: "string \<Rightarrow> string" where
  "dataMoverContainer jobName =
     (if HasSuffix jobName rsyncJobSuffix then ''rsync''
      else if HasSuffix jobName rcloneJobSuffix \<or> HasSuffix jobName tarJobSuffix then ''rclone''
      else [])"

definition interpretExitCode :: "string \<Rightarrow> int \<Rightarrow> string" where
  "interpretExitCode jobName code =
     (if HasSuffix jobName rsyncJobSuffix then rsync_Interpret code
      else if HasSuffix jobName rcloneJobSuffix then rclone_Interpret code
      else if HasSuffix jobName tarJobSuffix then archive_Interpret code
      else [])"

definition genericTerminationReason :: string where "genericTerminationReason = ''Error''"

definition describeTerminated :: "string \<Rightarrow> Terminated \<Rightarrow> string" where
  "describeTerminated jobName t =
     (let parts = [''the data mover exited with code '' @ Itoa (te_ExitCode t)]
            @ (if te_Signal t \<noteq> 0 then [''killed by signal '' @ Itoa (te_Signal t)] else [])
            @ (if te_Reason t \<noteq> [] \<and> te_Reason t \<noteq> genericTerminationReason then [''reason: '' @ te_Reason t] else [])
            @ (if TrimSpace (te_Message t) \<noteq> [] then [''message: '' @ TrimSpace (te_Message t)] else []);
          joined = Join parts '', '';
          meaning = interpretExitCode jobName (te_ExitCode t)
      in if meaning \<noteq> [] then joined @ '' ('' @ meaning @ '')'' else joined)"

definition podStatusDetail :: "CorePod \<Rightarrow> string" where
  "podStatusDetail pod =
     (let parts = (if cp_Reason pod \<noteq> [] then [''reason: '' @ cp_Reason pod] else [])
            @ (if TrimSpace (cp_Message pod) \<noteq> [] then [''message: '' @ TrimSpace (cp_Message pod)] else [])
      in if parts = [] then [] else '': '' @ Join parts '', '')"

definition terminatedContainerState :: "CorePod \<Rightarrow> string \<Rightarrow> Terminated option" where
  "terminatedContainerState pod jobName =
     (let name = dataMoverContainer jobName in
      case List.find (\<lambda>st. (name \<noteq> [] \<longrightarrow> cs_Name st = name) \<and> cs_Terminated st \<noteq> None) (cp_Containers pod) of
        None \<Rightarrow> None | Some st \<Rightarrow> cs_Terminated st)"

text \<open>\<open>failedPodError\<close>; the last argument is what fetching the pod again would answer.\<close>

definition failedPodError :: "string \<Rightarrow> CorePod \<Rightarrow> (string, CorePod) result \<Rightarrow> string" where
  "failedPodError jobName pod0 refetched =
     (let (pod, t) = (case terminatedContainerState pod0 jobName of
            Some t \<Rightarrow> (pod0, Some t)
          | None \<Rightarrow> (case refetched of Inl _ \<Rightarrow> (pod0, None)
              | Inr fresh \<Rightarrow> (fresh, terminatedContainerState fresh jobName)))
      in case t of
           None \<Rightarrow> ''pod '' @ cp_Namespace pod @ ''/'' @ cp_Name pod @ '' failed'' @ podStatusDetail pod
         | Some t \<Rightarrow> ''pod '' @ cp_Namespace pod @ ''/'' @ cp_Name pod @ '' failed: '' @ describeTerminated jobName t)"

section \<open>Services and nodes\<close>

record ServicePort =
  sv_PortName :: string
  sv_Port :: int
  sv_NodePort :: int

record Service =
  sv_UID :: string
  sv_Name :: string
  sv_Namespace :: string
  sv_Type :: string
  sv_Ports :: "ServicePort list"
  sv_Ingress :: "(string \<times> string) list"

text \<open>An ingress entry is its host name and its address.\<close>

definition service_address :: "Service \<Rightarrow> string option" where
  "service_address svc =
     (if sv_Type svc = ''ClusterIP'' then Some (sv_Name svc @ ''.'' @ sv_Namespace svc)
      else case sv_Ingress svc of [] \<Rightarrow> None
      | (hostname, ip) # _ \<Rightarrow> Some (if hostname \<noteq> [] then hostname else ip))"

definition GetServiceAddress :: "Service option list \<Rightarrow> (wait_error, string) result" where
  "GetServiceAddress events =
     (case until_with (\<lambda>_ event. ((), case event of None \<Rightarrow> Inl UnexpectedObject
         | Some svc \<Rightarrow> Inr (service_address svc \<noteq> None))) () events of
        (Inl e, _) \<Rightarrow> Inl e | (Inr event, _) \<Rightarrow> Inr (the (service_address (the event))))"

definition waitForNodePortService :: "Service option list \<Rightarrow> (wait_error, Service) result" where
  "waitForNodePortService events =
     (case until_with (\<lambda>_ event. ((), case event of None \<Rightarrow> Inl UnexpectedObject
         | Some svc \<Rightarrow> if sv_Type svc \<noteq> ''NodePort'' \<and> sv_Type svc \<noteq> ''LoadBalancer''
                      then Inl (WrongServiceType (sv_Type svc)) else Inr True)) () events of
        (Inl e, _) \<Rightarrow> Inl e | (Inr event, _) \<Rightarrow> Inr (the event))"

datatype port_error = NoPorts | NoNodePort string string | PortWait wait_error

definition findNodePort :: "Service \<Rightarrow> (port_error, int) result" where
  "findNodePort svc = (case sv_Ports svc of [] \<Rightarrow> Inl NoPorts
     | p # _ \<Rightarrow> (let port = (case List.find (\<lambda>c. sv_PortName c = ''ssh'' \<or> sv_Port c = 22) (sv_Ports svc) of
           Some c \<Rightarrow> c | None \<Rightarrow> p) in
         if sv_NodePort port = 0 then Inl (NoNodePort (sv_Namespace svc) (sv_Name svc)) else Inr (sv_NodePort port)))"

definition GetNodePort :: "Service option list \<Rightarrow> (port_error, int) result" where
  "GetNodePort events = (case waitForNodePortService events of Inl e \<Rightarrow> Inl (PortWait e) | Inr svc \<Rightarrow> findNodePort svc)"

text \<open>A node is the list of its address types with their addresses.\<close>

definition usable_address :: "(string \<times> string) list \<Rightarrow> string option" where
  "usable_address addresses = map_option snd (List.find (\<lambda>a. fst a \<in> {''InternalIP'', ''ExternalIP''}) addresses)"

definition GetNodeIP :: "(string, (string \<times> string) list) result \<Rightarrow> string option" where
  "GetNodeIP get = (case get of Inl _ \<Rightarrow> None | Inr addresses \<Rightarrow> usable_address addresses)"

definition GetAnyNodeIP :: "(string, (string \<times> string) list list) result \<Rightarrow> string option" where
  "GetAnyNodeIP listed = (case listed of Inl _ \<Rightarrow> None
     | Inr nodes \<Rightarrow> Option.bind (List.find (\<lambda>n. usable_address n \<noteq> None) nodes) usable_address)"

end
