(* ===== verification/K8sJobs.thy ===== *)
theory K8sJobs
  imports K8sPods ProgressLog Console
begin

text \<open>
  Waiting for a data mover's job and explaining its failure (\<open>src/internal/k8s/job.go\<close> and the parts
  of \<open>exitcode.go\<close> that print). The cluster's answers are a record with one field for each moment the
  code asks, so that two reads of one object may differ. What is written or warned about is returned
  as a list of effects.
\<close>

section \<open>Jobs\<close>

record JobCondition =
  jc_Type :: string
  jc_Status :: string
  jc_Message :: string
  jc_LastTransition :: "int option"

record CoreJob =
  jo_UID :: string
  jo_Name :: string
  jo_Namespace :: string
  jo_Images :: "string list"
  jo_Active :: int
  jo_Succeeded :: int
  jo_Failed :: int
  jo_Conditions :: "JobCondition list"
  jo_StartTime :: "int option"
  jo_CompletionTime :: "int option"

record jobapi =
  ja_ListPods :: "string \<Rightarrow> string \<Rightarrow> (string, CorePod list) result"
  ja_ListJobs :: "string \<Rightarrow> (string, CoreJob list) result"
  ja_GetJob :: "string \<Rightarrow> string \<Rightarrow> (string, CoreJob) result"
  ja_StartEvents :: "string \<Rightarrow> string \<Rightarrow> CorePod option list"
  ja_GetPod :: "string \<Rightarrow> string \<Rightarrow> (string, CorePod) result"
  ja_EndEvents :: "string \<Rightarrow> string \<Rightarrow> CorePod option list"
  ja_Refetch :: "string \<Rightarrow> string \<Rightarrow> (string, CorePod) result"
  ja_Logs :: "string \<Rightarrow> string \<Rightarrow> int option \<Rightarrow> (string, string) result"
  ja_ContextEnded :: bool
  ja_Record :: "string \<Rightarrow> (string \<times> string) option"

text \<open>\<open>FindJobPod\<close>: the first running pod of the job, or the first one.\<close>

datatype job_error =
  ListPodsFailed string
| ListJobsFailed string
| NoPods string
| NoJob string
| StartFailed wait_error
| EndFailed wait_error
| JobGone string
| PodFailure string
| MarkFailed

definition FindJobPod :: "jobapi \<Rightarrow> CoreJob \<Rightarrow> (job_error, CorePod) result" where
  "FindJobPod api job = (case ja_ListPods api (jo_Namespace job) (jo_Name job) of
     Inl e \<Rightarrow> Inl (ListPodsFailed e)
   | Inr pods \<Rightarrow> (case List.find (\<lambda>p. cp_Phase p = PodRunning) pods of
       Some p \<Rightarrow> Inr p
     | None \<Rightarrow> (case pods of p # _ \<Rightarrow> Inr p | [] \<Rightarrow> Inl (NoPods (jo_Name job)))))"

definition is_mover_job :: "string \<Rightarrow> CoreJob \<Rightarrow> bool" where
  "is_mover_job releasePrefix job \<longleftrightarrow> HasPrefix (jo_Name job) releasePrefix \<and>
     list_ex (HasSuffix (jo_Name job)) jobSuffixes"

text \<open>\<open>FindDataMoverJob\<close>, which looks in all namespaces when the given one has none.\<close>

function FindDataMoverJob :: "jobapi \<Rightarrow> string \<Rightarrow> string \<Rightarrow> (job_error, CoreJob) result" where
  "FindDataMoverJob api ns releasePrefix = (case ja_ListJobs api ns of
     Inl e \<Rightarrow> Inl (ListJobsFailed e)
   | Inr jobs \<Rightarrow> (case List.find (is_mover_job releasePrefix) jobs of
       Some job \<Rightarrow> Inr job
     | None \<Rightarrow> if ns \<noteq> [] then FindDataMoverJob api [] releasePrefix else Inl (NoJob releasePrefix)))"
  by auto
termination
  by (relation "measure (\<lambda>(_, ns, _). if ns = [] then 0 else 1)") auto

declare FindDataMoverJob.simps [simp del]

definition JobImage :: "jobapi \<Rightarrow> string \<Rightarrow> string \<Rightarrow> string" where
  "JobImage api ns name = (case ja_GetJob api ns name of Inl _ \<Rightarrow> ''unknown''
     | Inr job \<Rightarrow> (case jo_Images job of [] \<Rightarrow> ''unknown'' | img # _ \<Rightarrow> img))"

definition WaitForJobStart :: "jobapi \<Rightarrow> string \<Rightarrow> string \<Rightarrow> (wait_error, CorePod) result" where
  "WaitForJobStart api ns name = fst (WaitForPod (ja_StartEvents api ns name))"

definition showBar :: "bool \<Rightarrow> bool \<Rightarrow> bool" where
  "showBar requested structuredLogs \<longleftrightarrow> requested \<and> \<not> structuredLogs"

text \<open>How many lines of the log a follow starts with; \<open>None\<close> is the whole log.\<close>

definition followLogOptions :: "bool \<Rightarrow> int option" where
  "followLogOptions alreadyStreamed = (if alreadyStreamed then Some 0 else None)"

section \<open>The tail of a log\<close>

definition jobLogTailLines :: int where "jobLogTailLines = 100"

text \<open>The line ends are normalised: first a carriage return with its line feed, then a bare one.\<close>

fun crlf_to_lf :: "string \<Rightarrow> string" where
  "crlf_to_lf (c # d # s) = (if c = return_byte \<and> d = newline_byte then newline_byte # crlf_to_lf s
     else c # crlf_to_lf (d # s))"
| "crlf_to_lf s = s"

definition recentPodLogs :: "jobapi \<Rightarrow> CorePod \<Rightarrow> string" where
  "recentPodLogs api pod = (case ja_Logs api (cp_Namespace pod) (cp_Name pod) (Some jobLogTailLines) of
     Inl _ \<Rightarrow> [] | Inr text \<Rightarrow> ReplaceByte (crlf_to_lf text) return_byte [newline_byte])"

text \<open>\<open>strings.Count\<close> and \<open>strings.TrimRight\<close> of one byte.\<close>

function Count :: "string \<Rightarrow> string \<Rightarrow> nat" where
  "Count s sub = (if sub = [] then length s + 1 else case Cut s sub of None \<Rightarrow> 0 | Some (_, rest) \<Rightarrow> Suc (Count rest sub))"
  by auto
termination
  by (relation "measure (\<lambda>(s, sub). length s)") (auto dest!: Cut_Some)

declare Count.simps [simp del]

definition TrimRightByte :: "string \<Rightarrow> char \<Rightarrow> string" where
  "TrimRightByte s c = rev (dropWhile (\<lambda>x. x = c) (rev s))"

datatype job_effect =
  TailWritten string
| TailLogged string
| VanishedWarning "nat option"
| BarLineEnded
| BarCompleted

definition warnIfSourceFilesVanished :: "string \<Rightarrow> job_effect list" where
  "warnIfSourceFilesVanished tail =
     (if \<not> Contains tail VanishedFilesMarker then []
      else let n = Count tail ''file has vanished:'' in [VanishedWarning (if n > 0 then Some n else None)])"

definition mapRcloneRecord :: "(string \<Rightarrow> (string \<times> string) option) \<Rightarrow> string \<Rightarrow> string" where
  "mapRcloneRecord unmarshal line = (case unmarshal line of None \<Rightarrow> line
     | Some (level, msg) \<Rightarrow> if msg = [] then line else if level \<noteq> [] then level @ '': '' @ msg else msg)"

fun collapse :: "(string \<Rightarrow> nat) \<Rightarrow> string list \<Rightarrow> string list \<Rightarrow> string list" where
  "collapse counts seen [] = []"
| "collapse counts seen (line # lines) =
     (if line \<in> set seen then collapse counts seen lines
      else (if counts line > 1 \<and> TrimSpace line \<noteq> [] then line @ '' (x'' @ show_nat (counts line) @ '')'' else line)
        # collapse counts (line # seen) lines)"

definition tail_lines :: "(string \<Rightarrow> (string \<times> string) option) \<Rightarrow> string \<Rightarrow> string \<Rightarrow> string list" where
  "tail_lines unmarshal jobName tail =
     (let lines = Split (TrimRightByte tail newline_byte) newline_byte in
      if HasSuffix jobName rcloneJobSuffix then map (mapRcloneRecord unmarshal) lines else lines)"

definition renderTail :: "(string \<Rightarrow> (string \<times> string) option) \<Rightarrow> string \<Rightarrow> string \<Rightarrow> string" where
  "renderTail unmarshal jobName tail =
     (let lines = tail_lines unmarshal jobName tail in
      Join (collapse (count_list lines) [] lines) [newline_byte] @ [newline_byte])"

definition writeTail :: "jobapi \<Rightarrow> CorePod \<Rightarrow> string \<Rightarrow> string \<Rightarrow> bool \<Rightarrow> job_effect list" where
  "writeTail api pod jobName tail palette =
     (if tail = [] then []
      else [TailWritten (newline_byte # ''   ''
        @ Dim palette (''Last log lines of pod '' @ cp_Namespace pod @ ''/'' @ cp_Name pod @ '':'') @ [newline_byte]
        @ concat (map (\<lambda>line. ''     '' @ line @ [newline_byte])
            (Split (TrimRightByte (renderTail (ja_Record api) jobName tail) newline_byte) newline_byte))
        @ [newline_byte])])"

definition writeFailureTail :: "jobapi \<Rightarrow> string \<Rightarrow> CorePod \<Rightarrow> bool \<Rightarrow> bool \<Rightarrow> job_effect list" where
  "writeFailureTail api jobName pod structuredLogs palette =
     (let tail = recentPodLogs api pod in
      if tail = [] then [] else if structuredLogs then [TailLogged tail] else writeTail api pod jobName tail palette)"

section \<open>Waiting for a job\<close>

fun terminal_pod :: "CorePod option \<Rightarrow> CorePod list \<Rightarrow> CorePod option option" where
  "terminal_pod t [] = Some t"
| "terminal_pod t (p # ps) =
     (if cp_Phase p = PodPending \<or> cp_Phase p = PodRunning then None
      else if cp_Phase p = PodSucceeded then terminal_pod (Some p) ps
      else if cp_Phase p = PodFailed then terminal_pod (if t = None then Some p else t) ps
      else terminal_pod t ps)"

text \<open>A terminal pod, when every pod of the job is, and whether the job has any pod.\<close>

definition findTerminalJobPod :: "jobapi \<Rightarrow> string \<Rightarrow> string \<Rightarrow> (job_error, CorePod option \<times> bool) result" where
  "findTerminalJobPod api ns jobName = (case ja_ListPods api ns jobName of
     Inl e \<Rightarrow> Inl (ListPodsFailed e)
   | Inr pods \<Rightarrow> (case terminal_pod None pods of None \<Rightarrow> Inr (None, True) | Some t \<Rightarrow> Inr (t, pods \<noteq> [])))"

definition finishedJobWithoutPods :: "jobapi \<Rightarrow> string \<Rightarrow> string \<Rightarrow> (job_error, unit) result option" where
  "finishedJobWithoutPods api ns name = (case ja_GetJob api ns name of Inl _ \<Rightarrow> None
     | Inr job \<Rightarrow>
        if jo_Succeeded job > 0 then Some (Inr ())
        else if jo_Failed job > 0
        then Some (Inl (JobGone (''job '' @ ns @ ''/'' @ name @ '' failed and its pod is gone''
          @ (case List.find (\<lambda>c. jc_Type c = ''Failed'' \<and> jc_Status c = ''True'' \<and> jc_Message c \<noteq> []) (jo_Conditions job) of
               None \<Rightarrow> [] | Some c \<Rightarrow> '': '' @ jc_Message c))))
        else None)"

definition pod_error :: "jobapi \<Rightarrow> string \<Rightarrow> CorePod \<Rightarrow> job_error" where
  "pod_error api jobName pod = PodFailure (failedPodError jobName pod (ja_Refetch api (cp_Namespace pod) (cp_Name pod)))"

definition finishTerminalPod ::
  "jobapi \<Rightarrow> string \<Rightarrow> CorePod \<Rightarrow> bool \<Rightarrow> bool \<Rightarrow> (job_error, unit) result \<times> job_effect list" where
  "finishTerminalPod api jobName pod structuredLogs palette =
     (if cp_Phase pod \<noteq> PodSucceeded
      then (Inl (pod_error api jobName pod), writeFailureTail api jobName pod structuredLogs palette)
      else (Inr (), warnIfSourceFilesVanished (recentPodLogs api pod)))"

text \<open>\<open>resolveRunningJobPod\<close>: the pod to follow, or the result of a wait that is already over.\<close>

definition resolveRunningJobPod ::
  "jobapi \<Rightarrow> string \<Rightarrow> string \<Rightarrow> bool \<Rightarrow> bool \<Rightarrow> CorePod + (job_error, unit) result \<times> job_effect list" where
  "resolveRunningJobPod api ns name structuredLogs palette =
     (case findTerminalJobPod api ns name of
        Inl e \<Rightarrow> Inr (Inl e, [])
      | Inr (Some pod, _) \<Rightarrow> Inr (finishTerminalPod api name pod structuredLogs palette)
      | Inr (None, anyPods) \<Rightarrow>
          (case (if anyPods then None else finishedJobWithoutPods api ns name) of
             Some r \<Rightarrow> Inr (r, [])
           | None \<Rightarrow> (case WaitForJobStart api ns name of
               Inl e \<Rightarrow> Inr (Inl (StartFailed e), [])
             | Inr pod \<Rightarrow> if cp_Phase pod \<noteq> PodRunning
                 then Inr (finishTerminalPod api name pod structuredLogs palette) else Inl pod)))"

text \<open>
  \<open>WaitForJobCompletion\<close>. The follower's state when it is stopped is an argument: it draws beside
  this code until it is cancelled, and its own result is always nil.
\<close>

definition WaitForJobCompletion ::
  "jobapi \<Rightarrow> bar \<Rightarrow> string \<Rightarrow> string \<Rightarrow> bool \<Rightarrow> bool \<Rightarrow> bool \<Rightarrow> (job_error, unit) result \<times> job_effect list" where
  "WaitForJobCompletion api followed ns name requested structuredLogs palette =
     (let bar = showBar requested structuredLogs;
          stop = (\<lambda>barOpen. if barOpen \<and> Rendered followed then [BarLineEnded] else [])
      in case resolveRunningJobPod api ns name structuredLogs palette of
           Inr over \<Rightarrow> over
         | Inl pod \<Rightarrow>
             (case waitForPodTermination (ja_GetPod api (cp_Namespace pod) (cp_Name pod))
                     (ja_EndEvents api (cp_Namespace pod) (cp_Name pod)) of
                Inl e \<Rightarrow> (Inl (EndFailed e), stop bar)
              | Inr finalPod \<Rightarrow>
                  if cp_Phase finalPod \<noteq> PodSucceeded
                  then (Inl (pod_error api name finalPod),
                        stop bar @ writeFailureTail api name finalPod structuredLogs palette)
                  else if ja_ContextEnded api then (Inl MarkFailed, stop bar)
                  else (Inr (), (if FinishBar bar followed \<noteq> followed then [BarCompleted] else [])
                        @ warnIfSourceFilesVanished (recentPodLogs api finalPod))))"

section \<open>Explaining a failed job afterwards\<close>

definition DescribeJobFailure :: "jobapi \<Rightarrow> CoreJob \<Rightarrow> string" where
  "DescribeJobFailure api job = (case findTerminalJobPod api (jo_Namespace job) (jo_Name job) of
     Inr (Some pod, _) \<Rightarrow> if cp_Phase pod = PodFailed
       then failedPodError (jo_Name job) pod (ja_Refetch api (cp_Namespace pod) (cp_Name pod)) else []
   | _ \<Rightarrow> [])"

text \<open>The release a job belongs to: its name without the mover's suffix.\<close>

definition job_release :: "CoreJob \<Rightarrow> string" where
  "job_release job = fold (\<lambda>sfx release. TrimSuffix release sfx) jobSuffixes (jo_Name job)"

end
