(* ===== verification/K8sFacts.thy ===== *)
theory K8sFacts
  imports K8sJobs
begin

text \<open>
  What the waits of package \<open>k8s\<close> promise: a watch returns the first event that decides it (locale
  \<open>watch_decision\<close>, interpreted for every watch), a job's result rests on evidence, and a rendered log
  tail drops nothing.
\<close>

section \<open>Watches\<close>

text \<open>
  A watch whose condition decides each event on its own, whatever state it carries besides: it returns
  the first event it accepts, and fails with the first it refuses.
\<close>

locale watch_decision =
  fixes cond :: "'s \<Rightarrow> 'e \<Rightarrow> 's \<times> (wait_error, bool) result" and decide :: "'e \<Rightarrow> (wait_error, bool) result"
  assumes decides: "snd (cond st e) = decide e"
begin

lemma cond_eq: "cond st e = (fst (cond st e), decide e)"
  by (metis decides prod.collapse)

lemma until_step:
  "until_with cond st (e # es) = (case decide e of Inl err \<Rightarrow> (Inl err, fst (cond st e))
     | Inr True \<Rightarrow> (Inr e, fst (cond st e)) | Inr False \<Rightarrow> until_with cond (fst (cond st e)) es)"
  by (simp, subst cond_eq) (auto split: sum.splits bool.splits)

lemma until_accepts:
  "fst (until_with cond st es) = Inr e \<longleftrightarrow>
     (\<exists>pre post. es = pre @ e # post \<and> decide e = Inr True \<and> (\<forall>x \<in> set pre. decide x = Inr False))"
proof (induction es arbitrary: st)
  case (Cons x es)
  show ?case
  proof (cases "decide x = Inr False")
    case True
    then have "fst (until_with cond st (x # es)) = Inr e \<longleftrightarrow> fst (until_with cond (fst (cond st x)) es) = Inr e"
      unfolding until_step by simp
    also have "\<dots> \<longleftrightarrow> (\<exists>pre post. es = pre @ e # post \<and> decide e = Inr True \<and> (\<forall>x \<in> set pre. decide x = Inr False))"
      by (rule Cons.IH)
    also have "\<dots> \<longleftrightarrow> (\<exists>pre post. x # es = pre @ e # post \<and> decide e = Inr True \<and> (\<forall>x \<in> set pre. decide x = Inr False))"
      using True by (auto simp: Cons_eq_append_conv) (metis list.set_intros(2) set_ConsD)+
    finally show ?thesis .
  next
    case False
    then show ?thesis unfolding until_step
      by (auto simp: Cons_eq_append_conv split: sum.splits bool.splits)
  qed
qed simp

lemma until_runs_out: "\<forall>x \<in> set es. decide x = Inr False \<Longrightarrow> fst (until_with cond st es) = Inl WatchEnded"
  by (induction es arbitrary: st) (simp, simp only: until_step, simp)

end

definition pod_decide :: "(CorePod \<Rightarrow> bool) \<Rightarrow> CorePod option \<Rightarrow> (wait_error, bool) result" where
  "pod_decide finished event = (case event of None \<Rightarrow> Inl UnexpectedObject | Some pod \<Rightarrow> Inr (finished pod))"

interpretation pod_watch: watch_decision "pod_condition finished" "pod_decide finished" for finished
  by unfold_locales (simp add: pod_condition_def pod_decide_def Let_def split: option.splits)

interpretation plain_watch: watch_decision "\<lambda>_ event. ((), decide event)" decide for decide
  by unfold_locales simp

lemma pod_decide_pre:
  "(\<forall>x \<in> set pre. pod_decide finished x = Inr False) \<longleftrightarrow> (\<exists>pods. pre = map Some pods \<and> (\<forall>p \<in> set pods. \<not> finished p))"
proof (induction pre)
  case (Cons x pre)
  then show ?case
    by (cases x) (auto simp: pod_decide_def Cons_eq_map_conv)
qed simp

lemma announced_distinct:
  "successively (\<noteq>) (snd st) \<Longrightarrow> (snd st \<noteq> [] \<Longrightarrow> last (snd st) = fst st) \<Longrightarrow>
     successively (\<noteq>) (snd (snd (until_with (pod_condition finished) st es)))"
proof (induction es arbitrary: st)
  case (Cons e es)
  have "successively (\<noteq>) (snd st')" "snd st' \<noteq> [] \<Longrightarrow> last (snd st') = fst st'"
    if "st' = fst (pod_condition finished st e)" for st'
    using Cons.prems that
    by (auto simp: pod_condition_def Let_def successively_append_iff split: option.splits if_splits)
  then show ?case unfolding pod_watch.until_step using Cons.IH by (auto split: sum.splits bool.splits)
qed simp

text \<open>
  A wait for a pod returns exactly the first pod event that satisfies its condition, started or
  ready, after only pods that do not; and it announces why containers wait without repeating itself.
\<close>

theorem waitForPod_first:
  "(fst (waitForPod finished events) = Inr pod \<longleftrightarrow>
      (\<exists>pods post. events = map Some pods @ Some pod # post \<and> finished pod \<and> (\<forall>p \<in> set pods. \<not> finished p))) \<and>
   successively (\<noteq>) (snd (waitForPod finished events))"
proof
  have eq: "fst (waitForPod finished events) =
      (case fst (until_with (pod_condition finished) ([], []) events) of Inl e \<Rightarrow> Inl e | Inr ev \<Rightarrow> Inr (the ev))"
    "snd (waitForPod finished events) = snd (snd (until_with (pod_condition finished) ([], []) events))"
    by (auto simp: waitForPod_def split: prod.splits sum.splits)
  have acc: "fst (until_with (pod_condition finished) ([], []) events) = Inr ev \<Longrightarrow> ev \<noteq> None" for ev
    unfolding pod_watch.until_accepts by (auto simp: pod_decide_def split: option.splits)
  have "fst (waitForPod finished events) = Inr pod \<longleftrightarrow>
      fst (until_with (pod_condition finished) ([], []) events) = Inr (Some pod)"
    unfolding eq using acc by (auto split: sum.splits)
  also have "\<dots> \<longleftrightarrow> (\<exists>pods post. events = map Some pods @ Some pod # post \<and> finished pod \<and> (\<forall>p \<in> set pods. \<not> finished p))"
    unfolding pod_watch.until_accepts pod_decide_pre by (auto simp: pod_decide_def)
  finally show "fst (waitForPod finished events) = Inr pod \<longleftrightarrow>
      (\<exists>pods post. events = map Some pods @ Some pod # post \<and> finished pod \<and> (\<forall>p \<in> set pods. \<not> finished p))" .
  show "successively (\<noteq>) (snd (waitForPod finished events))" unfolding eq by (rule announced_distinct) simp_all
qed

text \<open>A pod in the given phase and an API on which the witnesses evaluate.\<close>

definition example_pod :: "string \<Rightarrow> CorePod" where
  "example_pod ph = \<lparr>cp_UID = ''u'', cp_Name = ''p'', cp_Namespace = ''ns'', cp_NodeName = ''n'', cp_Phase = ph,
     cp_Reason = [], cp_Message = [], cp_Conditions = [], cp_Containers = []\<rparr>"

definition example_job :: "string \<Rightarrow> CoreJob" where
  "example_job name = \<lparr>jo_UID = ''u'', jo_Name = name, jo_Namespace = ''ns'', jo_Images = [], jo_Active = 1,
     jo_Succeeded = 0, jo_Failed = 0, jo_Conditions = [], jo_StartTime = None, jo_CompletionTime = None\<rparr>"

definition example_api :: jobapi where
  "example_api = \<lparr>ja_ListPods = (\<lambda>_ _. Inr [example_pod PodRunning]),
     ja_ListJobs = (\<lambda>ns. Inr (if ns = [] then [example_job ''pv-migrate-a-mount-rsync''] else [])),
     ja_GetJob = (\<lambda>_ _. Inl ''gone''), ja_StartEvents = (\<lambda>_ _. [Some (example_pod PodRunning)]),
     ja_GetPod = (\<lambda>_ _. Inr (example_pod PodSucceeded)), ja_EndEvents = (\<lambda>_ _. []),
     ja_Refetch = (\<lambda>_ _. Inl ''gone''), ja_Logs = (\<lambda>_ _ _. Inr []), ja_ContextEnded = False,
     ja_Record = (\<lambda>_. None)\<rparr>"

theorem waitForPod_first_witness:
  "fst (waitForPod podStarted [Some (example_pod PodPending), Some (example_pod PodRunning)]) = Inr (example_pod PodRunning)"
proof -
  have "[Some (example_pod PodPending), Some (example_pod PodRunning)] =
      map Some [example_pod PodPending] @ Some (example_pod PodRunning) # []" by simp
  moreover have "podStarted (example_pod PodRunning)" "\<forall>p \<in> set [example_pod PodPending]. \<not> podStarted p"
    by (simp_all add: podStarted_def example_pod_def)
  ultimately show ?thesis by (intro waitForPod_first [THEN conjunct1, THEN iffD2] exI conjI)
qed

section \<open>Finding the job\<close>

lemma find_first:
  "List.find P xs = Some x \<longleftrightarrow> (\<exists>pre post. xs = pre @ x # post \<and> P x \<and> (\<forall>y \<in> set pre. \<not> P y))"
  by (induction xs) (auto simp: Cons_eq_append_conv, (metis set_ConsD)+)

text \<open>
  The job of an operation is found. What is returned carries the release prefix and the suffix of a
  data mover, and is taken from the given namespace, or from all of them only when that one has none;
  the search reports that there is none only when neither listing has one.
\<close>

theorem FindDataMoverJob_finds:
  "(FindDataMoverJob api ns rel = Inr job \<longrightarrow>
      is_mover_job rel job \<and>
      (\<exists>jobs. (ja_ListJobs api ns = Inr jobs \<or>
               ja_ListJobs api [] = Inr jobs \<and> (\<exists>local_jobs. ja_ListJobs api ns = Inr local_jobs \<and> \<not> list_ex (is_mover_job rel) local_jobs))
              \<and> job \<in> set jobs)) \<and>
   (FindDataMoverJob api ns rel = Inl (NoJob rel) \<longrightarrow>
      (\<exists>local_jobs all_jobs. ja_ListJobs api ns = Inr local_jobs \<and> ja_ListJobs api [] = Inr all_jobs \<and>
         \<not> list_ex (is_mover_job rel) (local_jobs @ all_jobs)))"
proof -
  have none: "List.find (is_mover_job rel) jobs = None \<longleftrightarrow> \<not> list_ex (is_mover_job rel) jobs" for jobs
    by (auto simp: find_None_iff list_ex_iff)
  have found: "job \<in> set jobs \<and> is_mover_job rel job" if "List.find (is_mover_job rel) jobs = Some job" for jobs job
    using that by (auto simp: find_first)
  have everywhere: "FindDataMoverJob api [] rel = (case ja_ListJobs api [] of Inl e \<Rightarrow> Inl (ListJobsFailed e)
      | Inr jobs \<Rightarrow> (case List.find (is_mover_job rel) jobs of Some job \<Rightarrow> Inr job | None \<Rightarrow> Inl (NoJob rel)))"
    by (subst FindDataMoverJob.simps) (auto split: sum.splits option.splits)
  have here: "FindDataMoverJob api ns rel = (case ja_ListJobs api ns of Inl e \<Rightarrow> Inl (ListJobsFailed e)
      | Inr jobs \<Rightarrow> (case List.find (is_mover_job rel) jobs of Some job \<Rightarrow> Inr job
          | None \<Rightarrow> if ns = [] then Inl (NoJob rel) else FindDataMoverJob api [] rel))"
    by (subst FindDataMoverJob.simps) (auto split: sum.splits option.splits)
  show ?thesis
  proof (cases "ja_ListJobs api ns")
    case (Inr jobs)
    show ?thesis
    proof (cases "List.find (is_mover_job rel) jobs")
      case None
      with none have "\<not> list_ex (is_mover_job rel) jobs" by blast
      with None Inr show ?thesis
        by (cases "ns = []"; cases "ja_ListJobs api []")
          (auto simp: here everywhere none dest: found split: option.splits)
    next
      case (Some j)
      then show ?thesis using Inr found [OF Some] by (auto simp: here)
    qed
  qed (simp add: here)
qed

theorem FindDataMoverJob_finds_witness:
  "is_mover_job ''pv-migrate-a-'' (example_job ''pv-migrate-a-mount-rsync'')"
proof -
  have "FindDataMoverJob example_api ''ns'' ''pv-migrate-a-'' = Inr (example_job ''pv-migrate-a-mount-rsync'')"
    by code_simp
  with FindDataMoverJob_finds show ?thesis by blast
qed

section \<open>Which container's exit is reported\<close>

lemma terminatedContainerState_mover:
  assumes "terminatedContainerState pod jobName = Some t" and "dataMoverContainer jobName \<noteq> []"
  shows "\<exists>st \<in> set (cp_Containers pod). cs_Name st = dataMoverContainer jobName \<and> cs_Terminated st = Some t"
  using assms by (auto simp: terminatedContainerState_def Let_def find_first split: option.splits)

section \<open>The result of a wait\<close>

lemma terminal_pod_Some:
  "terminal_pod t pods = Some r \<Longrightarrow> (\<forall>p \<in> set pods. cp_Phase p \<noteq> PodPending \<and> cp_Phase p \<noteq> PodRunning) \<and>
     (if \<exists>p \<in> set pods. cp_Phase p = PodSucceeded then \<exists>p \<in> set pods. r = Some p \<and> cp_Phase p = PodSucceeded
      else if t \<noteq> None then r = t else r = None \<or> (\<exists>p \<in> set pods. r = Some p \<and> cp_Phase p = PodFailed))"
proof (induction pods arbitrary: t)
  case (Cons p pods)
  from Cons.prems have ph: "cp_Phase p \<noteq> PodPending" "cp_Phase p \<noteq> PodRunning" by (auto split: if_splits)
  let ?t = "if cp_Phase p = PodSucceeded then Some p else if cp_Phase p = PodFailed then (if t = None then Some p else t) else t"
  have "terminal_pod ?t pods = Some r" using Cons.prems ph by (auto split: if_splits)
  from Cons.IH [OF this] ph show ?case by (auto split: if_splits)
qed simp

lemma terminal_pod_succeeded:
  "terminal_pod None pods = Some (Some p) \<Longrightarrow> cp_Phase p = PodSucceeded \<Longrightarrow>
     p \<in> set pods \<and> (\<forall>q \<in> set pods. cp_Phase q \<noteq> PodPending \<and> cp_Phase q \<noteq> PodRunning)"
  using terminal_pod_Some [of None pods "Some p"] by (auto split: if_splits)

lemma waitForPodTermination_pod:
  assumes "waitForPodTermination get events = Inr pod"
  shows "cp_Phase pod \<noteq> PodRunning \<and> (get = Inr pod \<or> Some pod \<in> set events)"
proof (cases get)
  case (Inr p)
  let ?d = "\<lambda>event. case event of None \<Rightarrow> Inl UnexpectedObject | Some p \<Rightarrow> Inr (cp_Phase p \<noteq> PodRunning)"
  have acc: "fst (until_with (\<lambda>_ event. ((), ?d event)) () events) = Inr ev \<Longrightarrow>
      ev \<in> set events \<and> (\<exists>q. ev = Some q \<and> cp_Phase q \<noteq> PodRunning)" for ev
    unfolding plain_watch.until_accepts by (auto split: option.splits)
  show ?thesis using assms Inr acc
    by (auto simp: waitForPodTermination_def split: if_splits prod.splits sum.splits)
qed (use assms in \<open>simp add: waitForPodTermination_def\<close>)

lemma WaitForJobStart_pod:
  "WaitForJobStart api ns name = Inr pod \<Longrightarrow> Some pod \<in> set (ja_StartEvents api ns name) \<and> cp_Phase pod \<noteq> PodPending"
  using waitForPod_first [of podStarted "ja_StartEvents api ns name" pod]
  by (auto simp: WaitForJobStart_def WaitForPod_def podStarted_def)

text \<open>What shows that a job's work is done: the evidence a successful wait rests on.\<close>

definition succeeded_evidence :: "jobapi \<Rightarrow> string \<Rightarrow> string \<Rightarrow> bool" where
  "succeeded_evidence api ns name \<longleftrightarrow>
     (\<exists>pods p. ja_ListPods api ns name = Inr pods \<and> p \<in> set pods \<and> cp_Phase p = PodSucceeded \<and>
        (\<forall>q \<in> set pods. cp_Phase q \<noteq> PodPending \<and> cp_Phase q \<noteq> PodRunning)) \<or>
     (\<exists>job. ja_ListPods api ns name = Inr [] \<and> ja_GetJob api ns name = Inr job \<and> jo_Succeeded job > 0) \<or>
     (\<exists>p. Some p \<in> set (ja_StartEvents api ns name) \<and> cp_Phase p = PodSucceeded) \<or>
     (\<exists>p q. Some p \<in> set (ja_StartEvents api ns name) \<and> cp_Phase p = PodRunning \<and> cp_Phase q = PodSucceeded \<and>
        (ja_GetPod api (cp_Namespace p) (cp_Name p) = Inr q \<or> Some q \<in> set (ja_EndEvents api (cp_Namespace p) (cp_Name p))))"

lemma findTerminalJobPod_Some:
  "findTerminalJobPod api ns name = Inr (Some pod, any) \<Longrightarrow> cp_Phase pod = PodSucceeded \<Longrightarrow> succeeded_evidence api ns name"
  unfolding succeeded_evidence_def
  by (auto simp: findTerminalJobPod_def split: sum.splits option.splits dest: terminal_pod_succeeded)

lemma findTerminalJobPod_no_pods:
  "findTerminalJobPod api ns name = Inr (None, False) \<Longrightarrow> ja_ListPods api ns name = Inr []"
  by (auto simp: findTerminalJobPod_def split: sum.splits option.splits)

lemma finishTerminalPod_result: "fst (finishTerminalPod api name pod sl p) = Inr () \<longleftrightarrow> cp_Phase pod = PodSucceeded"
  by (simp add: finishTerminalPod_def)

lemma resolveRunningJobPod_over:
  assumes "resolveRunningJobPod api ns name sl p = Inr (Inr (), eff)"
  shows "succeeded_evidence api ns name"
proof -
  have fin: "fst (finishTerminalPod api name pod sl p) = Inr ()" if "finishTerminalPod api name pod sl p = (Inr (), eff)" for pod
    using that by simp
  show ?thesis
  proof (cases "findTerminalJobPod api ns name")
    case (Inr r)
    obtain t any where r: "r = (t, any)" by (cases r)
    show ?thesis
    proof (cases t)
      case (Some pod)
      with assms Inr r have "finishTerminalPod api name pod sl p = (Inr (), eff)" by (simp add: resolveRunningJobPod_def)
      then have "cp_Phase pod = PodSucceeded" using fin finishTerminalPod_result by metis
      with findTerminalJobPod_Some Inr r Some show ?thesis by metis
    next
      case None
      show ?thesis
      proof (cases "if any then None else finishedJobWithoutPods api ns name")
        case (Some res)
        then have "res = Inr ()" "\<not> any" using assms Inr r None by (auto simp: resolveRunningJobPod_def split: if_splits)
        with Some findTerminalJobPod_no_pods [of api ns name] Inr r None show ?thesis
          by (auto simp: finishedJobWithoutPods_def succeeded_evidence_def split: sum.splits if_splits)
      next
        case no: None
        then obtain pod where pod: "WaitForJobStart api ns name = Inr pod"
          "finishTerminalPod api name pod sl p = (Inr (), eff)"
          using assms Inr r None by (auto simp: resolveRunningJobPod_def split: sum.splits if_splits)
        then have "cp_Phase pod = PodSucceeded" using fin finishTerminalPod_result by metis
        with WaitForJobStart_pod [OF pod(1)] show ?thesis by (auto simp: succeeded_evidence_def)
      qed
    qed
  qed (use assms in \<open>simp add: resolveRunningJobPod_def\<close>)
qed

lemma resolveRunningJobPod_pod:
  assumes "resolveRunningJobPod api ns name sl p = Inl pod"
  shows "Some pod \<in> set (ja_StartEvents api ns name) \<and> cp_Phase pod = PodRunning"
  using assms WaitForJobStart_pod [of api ns name pod]
  by (auto simp: resolveRunningJobPod_def split: sum.splits option.splits prod.splits if_splits)

definition plain_text :: "job_effect \<Rightarrow> bool" where
  "plain_text e \<longleftrightarrow> (case e of TailWritten _ \<Rightarrow> True | BarLineEnded \<Rightarrow> True | BarCompleted \<Rightarrow> True | _ \<Rightarrow> False)"

definition is_tail :: "job_effect \<Rightarrow> bool" where
  "is_tail e \<longleftrightarrow> (case e of TailWritten _ \<Rightarrow> True | TailLogged _ \<Rightarrow> True | _ \<Rightarrow> False)"

lemma effects_quiet:
  "list_all (\<lambda>e. \<not> plain_text e \<and> \<not> is_tail e) (warnIfSourceFilesVanished tail)"
  "list_all (\<lambda>e. \<not> plain_text e) (writeFailureTail api name pod True p)"
  by (simp_all add: warnIfSourceFilesVanished_def writeFailureTail_def plain_text_def is_tail_def Let_def)

lemma resolve_quiet:
  assumes "resolveRunningJobPod api ns name sl p = Inr (r, eff)"
  shows "(r = Inr () \<longrightarrow> list_all (\<lambda>e. \<not> is_tail e) eff) \<and> (sl \<longrightarrow> list_all (\<lambda>e. \<not> plain_text e) eff)"
proof -
  have "(fst f = Inr () \<longrightarrow> list_all (\<lambda>e. \<not> is_tail e) (snd f)) \<and> (sl \<longrightarrow> list_all (\<lambda>e. \<not> plain_text e) (snd f))"
    if "f = finishTerminalPod api name pod sl p" for f pod
    using that effects_quiet by (auto simp: finishTerminalPod_def list_all_iff)
  with assms show ?thesis
    by (auto simp: resolveRunningJobPod_def split: sum.splits option.splits prod.splits if_splits) (metis fst_conv snd_conv)+
qed

text \<open>What shows that it failed: when the list decides, when a watch does, and when only the job is left.\<close>

definition over :: "CorePod \<Rightarrow> bool" where
  "over pod \<longleftrightarrow> cp_Phase pod \<noteq> PodPending \<and> cp_Phase pod \<noteq> PodRunning"

definition gone_evidence :: "jobapi \<Rightarrow> string \<Rightarrow> string \<Rightarrow> bool" where
  "gone_evidence api ns name \<longleftrightarrow> (\<exists>job. ja_ListPods api ns name = Inr [] \<and> ja_GetJob api ns name = Inr job \<and>
     jo_Succeeded job \<le> 0 \<and> jo_Failed job > 0)"

definition must_watch :: "jobapi \<Rightarrow> string \<Rightarrow> string \<Rightarrow> bool" where
  "must_watch api ns name \<longleftrightarrow> (\<exists>pods. ja_ListPods api ns name = Inr pods \<and>
     \<not> ((\<forall>q \<in> set pods. over q) \<and> (\<exists>q \<in> set pods. cp_Phase q = PodSucceeded \<or> cp_Phase q = PodFailed)) \<and>
     \<not> (\<exists>job. pods = [] \<and> ja_GetJob api ns name = Inr job \<and> (jo_Succeeded job > 0 \<or> jo_Failed job > 0)))"

definition failed_evidence :: "jobapi \<Rightarrow> string \<Rightarrow> string \<Rightarrow> CorePod \<Rightarrow> bool" where
  "failed_evidence api ns name pod \<longleftrightarrow>
     (\<exists>pods. ja_ListPods api ns name = Inr pods \<and> (\<forall>q \<in> set pods. over q \<and> cp_Phase q \<noteq> PodSucceeded) \<and>
        List.find (\<lambda>q. cp_Phase q = PodFailed) pods = Some pod) \<or>
     (must_watch api ns name \<and> cp_Phase pod \<noteq> PodSucceeded \<and> (\<exists>p. WaitForJobStart api ns name = Inr p \<and>
        (if cp_Phase p \<noteq> PodRunning then pod = p
         else waitForPodTermination (ja_GetPod api (cp_Namespace p) (cp_Name p))
                (ja_EndEvents api (cp_Namespace p) (cp_Name p)) = Inr pod)))"

lemma terminal_pod_None_iff: "terminal_pod t pods = None \<longleftrightarrow> (\<exists>q \<in> set pods. \<not> over q)"
  by (induction t pods rule: terminal_pod.induct) (auto simp: over_def)

lemma terminal_pod_find:
  "\<forall>q \<in> set pods. over q \<and> cp_Phase q \<noteq> PodSucceeded \<Longrightarrow>
     terminal_pod t pods = Some (if t = None then List.find (\<lambda>q. cp_Phase q = PodFailed) pods else t)"
  by (induction t pods rule: terminal_pod.induct) (auto simp: over_def)

lemma terminal_pod_failed:
  "terminal_pod None pods = Some (Some p) \<Longrightarrow> cp_Phase p \<noteq> PodSucceeded \<Longrightarrow>
     (\<forall>q \<in> set pods. over q \<and> cp_Phase q \<noteq> PodSucceeded) \<and> List.find (\<lambda>q. cp_Phase q = PodFailed) pods = Some p"
  using terminal_pod_Some [of None pods "Some p"] terminal_pod_find [of pods None]
  by (auto simp: over_def split: if_splits)

lemma terminal_pod_undecided:
  "terminal_pod None pods \<in> {None, Some None} \<longleftrightarrow>
     \<not> ((\<forall>q \<in> set pods. over q) \<and> (\<exists>q \<in> set pods. cp_Phase q = PodSucceeded \<or> cp_Phase q = PodFailed))"
proof (cases "terminal_pod None pods")
  case (Some r)
  then have "\<forall>q \<in> set pods. over q" using terminal_pod_None_iff [of None pods] by auto
  moreover have "r = None \<longleftrightarrow> \<not> (\<exists>q \<in> set pods. cp_Phase q = PodSucceeded \<or> cp_Phase q = PodFailed)"
    using Some terminal_pod_Some [OF Some] terminal_pod_find [of pods None] calculation
    by (auto simp: find_None_iff split: if_splits)
  ultimately show ?thesis using Some by auto
qed (use terminal_pod_None_iff [of None pods] in auto)

text \<open>The four ways in which a wait goes on from the list of pods.\<close>

lemma resolveRunningJobPod_cases [case_names unlisted listed gone watched]:
  obtains (unlisted) e where "ja_ListPods api ns name = Inl e"
      "resolveRunningJobPod api ns name sl p = Inr (Inl (ListPodsFailed e), [])"
  | (listed) pods pod where "ja_ListPods api ns name = Inr pods" "terminal_pod None pods = Some (Some pod)"
      "resolveRunningJobPod api ns name sl p = Inr (finishTerminalPod api name pod sl p)" "\<not> must_watch api ns name" "pods \<noteq> []"
  | (gone) r where "ja_ListPods api ns name = Inr []" "finishedJobWithoutPods api ns name = Some r"
      "resolveRunningJobPod api ns name sl p = Inr (r, [])" "\<not> must_watch api ns name"
  | (watched) pods where "ja_ListPods api ns name = Inr pods" "must_watch api ns name" "\<not> gone_evidence api ns name"
      "resolveRunningJobPod api ns name sl p = (case WaitForJobStart api ns name of
               Inl e \<Rightarrow> Inr (Inl (StartFailed e), [])
             | Inr pod \<Rightarrow> if cp_Phase pod \<noteq> PodRunning then Inr (finishTerminalPod api name pod sl p) else Inl pod)"
      "\<And>pod. List.find (\<lambda>q. cp_Phase q = PodFailed) pods = Some pod \<Longrightarrow> \<exists>q \<in> set pods. \<not> over q"
proof (cases "ja_ListPods api ns name")
  case (Inl e)
  then show thesis by (intro unlisted) (simp_all add: resolveRunningJobPod_def findTerminalJobPod_def)
next
  case (Inr pods)
  show thesis
  proof (cases "terminal_pod None pods \<in> {None, Some None}")
    case False
    then obtain pod where t: "terminal_pod None pods = Some (Some pod)" by auto
    with Inr False terminal_pod_undecided [of pods] show thesis
      by (intro listed [of pods pod])
        (auto simp: resolveRunningJobPod_def findTerminalJobPod_def must_watch_def)
  next
    case True
    note u = True [unfolded terminal_pod_undecided]
    have f: "\<exists>any. findTerminalJobPod api ns name = Inr (None, any) \<and> (\<not> any \<longleftrightarrow> pods = [])"
      using True Inr by (auto simp: findTerminalJobPod_def)
    show thesis
    proof (cases "pods = [] \<and> finishedJobWithoutPods api ns name \<noteq> None")
      case True
      then obtain r where r: "finishedJobWithoutPods api ns name = Some r" "pods = []" by blast
      then have "\<not> must_watch api ns name"
        using Inr by (auto simp: must_watch_def finishedJobWithoutPods_def split: sum.splits if_splits)
      then show thesis by (intro gone [of r]) (use Inr f r in \<open>auto simp: resolveRunningJobPod_def\<close>)
    next
      case False
      then have w: "must_watch api ns name"
        using Inr u by (auto simp: must_watch_def finishedJobWithoutPods_def split: sum.splits if_splits)
      have g: "\<not> gone_evidence api ns name"
        using Inr False by (auto simp: gone_evidence_def finishedJobWithoutPods_def split: if_splits)
      have nd: "\<exists>q \<in> set pods. \<not> over q" if "List.find (\<lambda>q. cp_Phase q = PodFailed) pods = Some pod" for pod
        using u that by (auto simp: find_Some_iff)
      show thesis
        by (rule watched [OF Inr w g _ nd]) (use f False in \<open>auto simp: resolveRunningJobPod_def\<close>)
    qed
  qed
qed

text \<open>What a failed pod leads to.\<close>

definition reports_failure :: "jobapi \<Rightarrow> string \<Rightarrow> CorePod \<Rightarrow> bool \<Rightarrow> bool \<Rightarrow> (job_error, unit) result \<times> job_effect list \<Rightarrow> bool" where
  "reports_failure api name pod sl palette res \<longleftrightarrow> fst res = Inl (pod_error api name pod) \<and>
     (\<exists>stop. snd res = stop @ writeFailureTail api name pod sl palette \<and> set stop \<subseteq> {BarLineEnded})"

lemma finishTerminalPod_reports:
  "cp_Phase pod \<noteq> PodSucceeded \<Longrightarrow> reports_failure api name pod sl p (finishTerminalPod api name pod sl p)"
  by (simp add: finishTerminalPod_def reports_failure_def)

lemma finishTerminalPod_failed: "fst (finishTerminalPod api name pod sl p) = Inl e \<longleftrightarrow> cp_Phase pod \<noteq> PodSucceeded \<and> e = pod_error api name pod"
  by (auto simp: finishTerminalPod_def)

lemma wait_failed_iff:
  fixes api ns name sl palette followed requested
  defines "res \<equiv> WaitForJobCompletion api followed ns name requested sl palette"
  shows "(failed_evidence api ns name pod \<longrightarrow> reports_failure api name pod sl palette res) \<and>
    (gone_evidence api ns name \<longrightarrow> (\<exists>msg. fst res = Inl (JobGone msg))) \<and>
    (fst res = Inl (PodFailure msg) \<longrightarrow> (\<exists>pod. failed_evidence api ns name pod \<and> fst res = Inl (pod_error api name pod))) \<and>
    (fst res = Inl (JobGone msg') \<longrightarrow> gone_evidence api ns name)"
proof (cases rule: resolveRunningJobPod_cases [of api ns name sl palette])
  case (unlisted e)
  then show ?thesis
    by (simp add: res_def WaitForJobCompletion_def failed_evidence_def gone_evidence_def must_watch_def)
next
  case (listed pods p)
  have fe: "failed_evidence api ns name q \<longleftrightarrow> (\<forall>x \<in> set pods. over x \<and> cp_Phase x \<noteq> PodSucceeded) \<and>
      List.find (\<lambda>x. cp_Phase x = PodFailed) pods = Some q" for q
    using listed(1,4) by (simp add: failed_evidence_def)
  have f: "failed_evidence api ns name q \<longleftrightarrow> cp_Phase p \<noteq> PodSucceeded \<and> q = p" for q
  proof (cases "cp_Phase p = PodSucceeded")
    case True
    with terminal_pod_succeeded [OF listed(2)] show ?thesis unfolding fe by blast
  next
    case False
    with terminal_pod_failed [OF listed(2) False] show ?thesis unfolding fe by auto
  qed
  have g: "\<not> gone_evidence api ns name" using listed by (auto simp: gone_evidence_def)
  have r: "res = finishTerminalPod api name p sl palette"
    using listed by (simp add: res_def WaitForJobCompletion_def)
  show ?thesis
    using f g finishTerminalPod_reports [of p api name sl palette] finishTerminalPod_failed [of api name p sl palette]
    unfolding r by (auto simp: pod_error_def)
next
  case (gone r)
  then show ?thesis
    by (auto simp: res_def WaitForJobCompletion_def failed_evidence_def gone_evidence_def finishedJobWithoutPods_def
        split: sum.splits if_splits)
next
  case (watched pods)
  have f: "failed_evidence api ns name q \<longleftrightarrow> cp_Phase q \<noteq> PodSucceeded \<and> (\<exists>p. WaitForJobStart api ns name = Inr p \<and>
        (if cp_Phase p \<noteq> PodRunning then q = p
         else waitForPodTermination (ja_GetPod api (cp_Namespace p) (cp_Name p))
                (ja_EndEvents api (cp_Namespace p) (cp_Name p)) = Inr q))" for q
    using watched(1,2,5) by (auto simp: failed_evidence_def)
  show ?thesis
  proof (cases "WaitForJobStart api ns name")
    case (Inl e)
    then show ?thesis using watched(3,4) f by (simp add: res_def WaitForJobCompletion_def)
  next
    case (Inr p)
    show ?thesis
    proof (cases "cp_Phase p = PodRunning")
      case False
      then have "res = finishTerminalPod api name p sl palette"
        using watched(4) Inr by (simp add: res_def WaitForJobCompletion_def)
      then show ?thesis
        using f watched(3) Inr False finishTerminalPod_reports [of p api name sl palette]
          finishTerminalPod_failed [of api name p sl palette]
        by (auto simp: pod_error_def)
    next
      case True
      then show ?thesis
        using f watched(3,4) Inr
        by (auto simp: res_def WaitForJobCompletion_def reports_failure_def pod_error_def Let_def split: sum.splits)
    qed
  qed
qed

text \<open>
  C15: the wait for a job is honest. It succeeds only on evidence that the data mover succeeded: every
  pod is over and one succeeded, or the job counts a success and has no pods, or the pod it watched
  ended as succeeded; and a success shows no log tail. A failure is reported as what it is: when all
  pods are over without a success, the first failed one, and else a pod that was watched and did not
  end as succeeded, is the error that is returned, explained by its own exit, with the tail of its log
  as the last thing written; a job that failed and has no pods left is returned as such; and neither
  error is ever returned without that evidence. On a structured stream nothing is written as plain
  text, neither a tail nor a progress bar.
\<close>

theorem WaitForJobCompletion_honest:
  assumes "WaitForJobCompletion api followed ns name requested structuredLogs palette = (r, eff)"
  shows "(r = Inr () \<longrightarrow> succeeded_evidence api ns name \<and> list_all (\<lambda>e. \<not> is_tail e) eff) \<and>
    (structuredLogs \<longrightarrow> list_all (\<lambda>e. \<not> plain_text e) eff) \<and>
    (failed_evidence api ns name pod \<longrightarrow> r = Inl (pod_error api name pod) \<and>
       (\<exists>stop. eff = stop @ writeFailureTail api name pod structuredLogs palette \<and> set stop \<subseteq> {BarLineEnded})) \<and>
    (gone_evidence api ns name \<longrightarrow> (\<exists>msg. r = Inl (JobGone msg))) \<and>
    (r = Inl (PodFailure msg) \<longrightarrow> (\<exists>pod. failed_evidence api ns name pod \<and> r = Inl (pod_error api name pod))) \<and>
    (r = Inl (JobGone msg') \<longrightarrow> gone_evidence api ns name)"
proof -
  have "(r = Inr () \<longrightarrow> succeeded_evidence api ns name \<and> list_all (\<lambda>e. \<not> is_tail e) eff) \<and>
      (structuredLogs \<longrightarrow> list_all (\<lambda>e. \<not> plain_text e) eff)"
  proof (cases "resolveRunningJobPod api ns name structuredLogs palette")
    case (Inr over)
    with assms have "resolveRunningJobPod api ns name structuredLogs palette = Inr (r, eff)"
      by (simp add: WaitForJobCompletion_def Let_def)
    with resolve_quiet [OF this] resolveRunningJobPod_over show ?thesis by (cases r) auto
  next
    case (Inl pod)
    note p = resolveRunningJobPod_pod [OF Inl]
    have fin: "FinishBar False b = b" for b by (simp add: FinishBar_def)
    show ?thesis
    proof (cases "waitForPodTermination (ja_GetPod api (cp_Namespace pod) (cp_Name pod))
        (ja_EndEvents api (cp_Namespace pod) (cp_Name pod))")
      case (Inl e)
      with assms \<open>resolveRunningJobPod _ _ _ _ _ = Inl pod\<close> show ?thesis
        by (auto simp: WaitForJobCompletion_def Let_def showBar_def)
    next
      case (Inr finalPod)
      from waitForPodTermination_pod [OF Inr] have q: "ja_GetPod api (cp_Namespace pod) (cp_Name pod) = Inr finalPod \<or>
          Some finalPod \<in> set (ja_EndEvents api (cp_Namespace pod) (cp_Name pod))" by simp
      have ev: "cp_Phase finalPod = PodSucceeded \<Longrightarrow> succeeded_evidence api ns name"
        using p q unfolding succeeded_evidence_def by blast
      show ?thesis using assms Inl Inr ev effects_quiet fin
        by (auto simp: WaitForJobCompletion_def Let_def showBar_def is_tail_def list_all_iff split: if_splits)
    qed
  qed
  with wait_failed_iff [of api ns name pod structuredLogs palette followed requested msg msg'] show ?thesis
    unfolding assms reports_failure_def fst_conv snd_conv by blast
qed

definition failed_api :: jobapi where
  "failed_api = example_api\<lparr>ja_ListPods := \<lambda>_ _. Inr [example_pod PodFailed]\<rparr>"

theorem WaitForJobCompletion_honest_witness:
  "succeeded_evidence example_api ''ns'' ''pv-migrate-a-mount-rsync'' \<and>
   fst (WaitForJobCompletion failed_api bar_zero ''ns'' ''pv-migrate-a-mount-rsync'' True True False) =
     Inl (pod_error failed_api ''pv-migrate-a-mount-rsync'' (example_pod PodFailed))"
proof
  have "WaitForJobCompletion example_api bar_zero ''ns'' ''pv-migrate-a-mount-rsync'' True True False = (Inr (), [])"
    by code_simp
  from WaitForJobCompletion_honest [OF this] show "succeeded_evidence example_api ''ns'' ''pv-migrate-a-mount-rsync''" by blast
  have "failed_evidence failed_api ''ns'' ''pv-migrate-a-mount-rsync'' (example_pod PodFailed)"
    by (simp add: failed_evidence_def failed_api_def over_def example_pod_def)
  with WaitForJobCompletion_honest [OF surjective_pairing] show
    "fst (WaitForJobCompletion failed_api bar_zero ''ns'' ''pv-migrate-a-mount-rsync'' True True False) =
     Inl (pod_error failed_api ''pv-migrate-a-mount-rsync'' (example_pod PodFailed))" by blast
qed

section \<open>A rendered tail drops nothing\<close>











end
