(* ===== verification/Diagnostics.thy ===== *)
theory Diagnostics
  imports K8sFacts
begin

text \<open>
  What a failed operation reports about its release's resources (\<open>src/internal/k8s/diagnostics.go\<close>):
  the pods, services, jobs, deployments and replica sets, and the warning events about them. Every
  listing may be refused on its own.
\<close>

section \<open>The resources\<close>

record Replicated =
  rs_UID :: string
  rs_Name :: string
  rs_Ready :: int
  rs_Desired :: int

record Event =
  ev_UID :: string
  ev_Type :: string
  ev_Reason :: string
  ev_Message :: string
  ev_Count :: int

record diagapi =
  di_Pods :: "(string, CorePod list) result"
  di_Services :: "(string, Service list) result"
  di_Jobs :: "(string, CoreJob list) result"
  di_Deployments :: "(string, Replicated list) result"
  di_ReplicaSets :: "(string, Replicated list) result"
  di_Events :: "(string, Event list) result"

record workloadFacts =
  wf_uid :: string
  wf_kind :: string
  wf_name :: string
  wf_title :: string
  wf_details :: "string list"
  wf_quiet :: bool
  wf_bareTitle :: string

definition instanceLabel :: string where "instanceLabel = ''app.kubernetes.io/instance''"

definition InstanceLabelSelector :: "string \<Rightarrow> string" where
  "InstanceLabelSelector release = instanceLabel @ ''='' @ release"

definition maxEventsPerObject :: nat where "maxEventsPerObject = 3"

section \<open>One object\<close>

definition colorPhase :: "string \<Rightarrow> bool \<Rightarrow> string" where
  "colorPhase ph p =
     (if ph = PodFailed then Bad p ph
      else if ph = PodPending \<or> ph = PodUnknown then Warn p ph
      else if ph = PodRunning \<or> ph = PodSucceeded then Good p ph else ph)"

definition describeTerminatedBriefly :: "Terminated \<Rightarrow> string" where
  "describeTerminatedBriefly t =
     Join ([''exit code '' @ Itoa (te_ExitCode t)]
       @ (if te_Signal t \<noteq> 0 then [''signal '' @ Itoa (te_Signal t)] else [])
       @ (if te_Reason t \<noteq> [] \<and> te_Reason t \<noteq> genericTerminationReason then [''reason: '' @ te_Reason t] else [])
       @ (if TrimSpace (te_Message t) \<noteq> [] then [''message: '' @ TrimSpace (te_Message t)] else [])) '', ''"

definition container_details :: "bool \<Rightarrow> ContainerStatus \<Rightarrow> string list" where
  "container_details p st =
     (case cs_Waiting st of
        Some w \<Rightarrow> [Warn p (''container '' @ cs_Name st @ '' waiting: '' @ describeWaiting w)]
      | None \<Rightarrow> (case cs_Terminated st of None \<Rightarrow> []
          | Some t \<Rightarrow> [(if te_ExitCode t \<noteq> 0 then Bad p else Dim p)
              (''container '' @ cs_Name st @ '' terminated: '' @ describeTerminatedBriefly t)]))
     @ (case (cs_Waiting st, cs_LastTerminated st) of
          (Some _, Some t) \<Rightarrow> [Warn p (''container '' @ cs_Name st @ '' previously terminated: '' @ describeTerminatedBriefly t)]
        | _ \<Rightarrow> [])"

definition podFacts :: "bool \<Rightarrow> CorePod \<Rightarrow> workloadFacts" where
  "podFacts p pod = \<lparr>wf_uid = cp_UID pod, wf_kind = ''pod'', wf_name = cp_Name pod,
     wf_title = ''pod '' @ cp_Name pod @ '': '' @ colorPhase (cp_Phase pod) p,
     wf_details = concat (map (container_details p) (cp_Containers pod)), wf_quiet = False, wf_bareTitle = []\<rparr>"

definition serviceFacts :: "bool \<Rightarrow> Service \<Rightarrow> workloadFacts" where
  "serviceFacts p svc =
     (let addresses = concat (map (\<lambda>(hostname, ip). (if ip \<noteq> [] then [ip] else []) @ (if hostname \<noteq> [] then [hostname] else []))
            (sv_Ingress svc))
      in \<lparr>wf_uid = sv_UID svc, wf_kind = ''service'', wf_name = sv_Name svc,
          wf_title = Dim p (''service '' @ sv_Name svc @ '': '' @ sv_Type svc),
          wf_details = (if sv_Type svc = ''LoadBalancer''
            then [if addresses = [] then Bad p ''no external address assigned''
                  else Good p (''external address: '' @ Join addresses '', '')] else []),
          wf_quiet = False, wf_bareTitle = []\<rparr>)"

definition jobFacts :: "bool \<Rightarrow> CoreJob \<Rightarrow> workloadFacts" where
  "jobFacts p job =
     (let title = ''job '' @ jo_Name job @ '': '' @ Itoa (jo_Active job) @ '' active, '' @ Itoa (jo_Succeeded job)
            @ '' succeeded, '' @ Itoa (jo_Failed job) @ '' failed''
      in \<lparr>wf_uid = jo_UID job, wf_kind = ''job'', wf_name = jo_Name job,
          wf_title = (if jo_Failed job > 0 then Bad p else if jo_Succeeded job > 0 then Good p else Dim p) title,
          wf_details = [], wf_quiet = (jo_Succeeded job = 0 \<and> jo_Failed job = 0),
          wf_bareTitle = Dim p (''job '' @ jo_Name job @ '':'')\<rparr>)"

definition colorReadiness :: "string \<Rightarrow> int \<Rightarrow> int \<Rightarrow> bool \<Rightarrow> string" where
  "colorReadiness line ready desired p =
     (if desired > 0 \<and> ready < desired then Warn p line else if desired > 0 then Good p line else Dim p line)"

definition replicated_facts :: "string \<Rightarrow> bool \<Rightarrow> Replicated \<Rightarrow> workloadFacts" where
  "replicated_facts kind p r = \<lparr>wf_uid = rs_UID r, wf_kind = kind, wf_name = rs_Name r,
     wf_title = colorReadiness (kind @ '' '' @ rs_Name r @ '': '' @ Itoa (rs_Ready r) @ ''/'' @ Itoa (rs_Desired r) @ '' ready'')
       (rs_Ready r) (rs_Desired r) p,
     wf_details = [], wf_quiet = False, wf_bareTitle = []\<rparr>"

definition deploymentFacts :: "bool \<Rightarrow> Replicated \<Rightarrow> workloadFacts" where
  "deploymentFacts = replicated_facts ''deployment''"

definition replicaSetFacts :: "bool \<Rightarrow> Replicated \<Rightarrow> workloadFacts" where
  "replicaSetFacts = replicated_facts ''replicaset''"

section \<open>All objects\<close>

definition listed :: "('a \<Rightarrow> workloadFacts) \<Rightarrow> (string, 'a list) result \<Rightarrow> workloadFacts list \<times> bool" where
  "listed f r = (case r of Inl _ \<Rightarrow> ([], False) | Inr xs \<Rightarrow> (map f xs, True))"

definition join_lists :: "workloadFacts list \<times> bool \<Rightarrow> workloadFacts list \<times> bool \<Rightarrow> workloadFacts list \<times> bool" where
  "join_lists a b = (fst a @ fst b, snd a \<or> snd b)"

definition listRuntimeWorkloads :: "diagapi \<Rightarrow> bool \<Rightarrow> workloadFacts list \<times> bool" where
  "listRuntimeWorkloads api p = join_lists (listed (podFacts p) (di_Pods api)) (listed (serviceFacts p) (di_Services api))"

definition listOwnerWorkloads :: "diagapi \<Rightarrow> bool \<Rightarrow> workloadFacts list \<times> bool" where
  "listOwnerWorkloads api p =
     join_lists (join_lists (listed (jobFacts p) (di_Jobs api)) (listed (deploymentFacts p) (di_Deployments api)))
       (listed (replicaSetFacts p) (di_ReplicaSets api))"

definition listWorkloads :: "diagapi \<Rightarrow> bool \<Rightarrow> workloadFacts list \<times> bool" where
  "listWorkloads api p = join_lists (listRuntimeWorkloads api p) (listOwnerWorkloads api p)"

definition formatEvent :: "Event \<Rightarrow> string" where
  "formatEvent e = ''warning '' @ ev_Reason e @ '': '' @ TrimPrefix (TrimSpace (ev_Message e)) ''Error: ''
     @ (if ev_Count e > 1 then '' (x'' @ Itoa (ev_Count e) @ '')'' else [])"

fun events_by_uid :: "Event list \<Rightarrow> (string \<Rightarrow> string list) \<Rightarrow> string \<Rightarrow> string list" where
  "events_by_uid [] m = m"
| "events_by_uid (e # es) m =
     (if ev_Type e \<noteq> ''Warning'' \<or> ev_UID e = [] \<or> maxEventsPerObject \<le> length (m (ev_UID e)) then events_by_uid es m
      else events_by_uid es (m(ev_UID e := m (ev_UID e) @ [formatEvent e])))"

definition warningEventsByUID :: "diagapi \<Rightarrow> string \<Rightarrow> string list" where
  "warningEventsByUID api = (case di_Events api of Inl _ \<Rightarrow> (\<lambda>_. []) | Inr es \<Rightarrow> events_by_uid es (\<lambda>_. []))"

section \<open>Rows that say nothing new\<close>

definition hasPodOfWorkload :: "workloadFacts list \<Rightarrow> string \<Rightarrow> bool" where
  "hasPodOfWorkload facts workloadName \<longleftrightarrow>
     list_ex (\<lambda>f. wf_kind f = ''pod'' \<and> HasPrefix (wf_name f) (workloadName @ ''-'')) facts"

definition shadowed :: "workloadFacts list \<Rightarrow> (string \<Rightarrow> string list) \<Rightarrow> workloadFacts \<Rightarrow> bool" where
  "shadowed facts events f \<longleftrightarrow> wf_quiet f \<and> events (wf_uid f) = [] \<and> hasPodOfWorkload facts (wf_name f)"

definition retitled :: "(string \<Rightarrow> string list) \<Rightarrow> workloadFacts \<Rightarrow> workloadFacts" where
  "retitled events f = (if wf_quiet f \<and> events (wf_uid f) \<noteq> [] \<and> wf_bareTitle f \<noteq> []
     then f\<lparr>wf_title := wf_bareTitle f\<rparr> else f)"

text \<open>
  The loop of \<open>dropShadowedQuietFacts\<close>. \<open>kept\<close> is a slice of the same array that is being read, so a
  row that is kept overwrites the array at the number of rows kept so far, and the search for a pod
  reads the array as it is then. The arguments are the rows still to read, the index of the first of
  them, the rows kept, and the array.
\<close>

fun drop_loop :: "(string \<Rightarrow> string list) \<Rightarrow> nat \<Rightarrow> nat \<Rightarrow> nat \<Rightarrow> workloadFacts list \<Rightarrow> nat \<times> workloadFacts list" where
  "drop_loop events 0 i k arr = (k, arr)"
| "drop_loop events (Suc n) i k arr =
     (let f = arr ! i in
      if shadowed arr events f then drop_loop events n (Suc i) k arr
      else drop_loop events n (Suc i) (Suc k) (arr[k := retitled events f]))"

definition dropShadowedQuietFacts :: "workloadFacts list \<Rightarrow> (string \<Rightarrow> string list) \<Rightarrow> workloadFacts list" where
  "dropShadowedQuietFacts facts events =
     (case drop_loop events (length facts) 0 0 facts of (k, arr) \<Rightarrow> take k arr)"

section \<open>The report\<close>

definition object_lines :: "(string \<Rightarrow> string list) \<Rightarrow> bool \<Rightarrow> workloadFacts \<Rightarrow> string list" where
  "object_lines events p f = (''    '' @ wf_title f) # map (\<lambda>d. ''      '' @ d) (wf_details f)
     @ map (\<lambda>e. ''      '' @ Warn p e) (events (wf_uid f))"

definition WriteWorkloadDiagnostics :: "diagapi \<Rightarrow> bool \<Rightarrow> string list" where
  "WriteWorkloadDiagnostics api p =
     (let (objects, listedAny) = listWorkloads api p in
      if \<not> listedAny then [''    '' @ Warn p (''Could not read the cluster'' @ [squote] @ ''s resources'')]
      else if objects = [] then [''    '' @ Dim p ''no resources found'']
      else let events = warningEventsByUID api in
        concat (map (object_lines events p) (dropShadowedQuietFacts objects events)))"

section \<open>What the report shows\<close>

lemma hasPod_cong:
  assumes "\<forall>f \<in> set facts. wf_kind f = ''pod'' \<longrightarrow> f \<in> set arr"
    and "\<forall>g \<in> set arr. \<exists>f \<in> set facts. wf_kind g = wf_kind f \<and> wf_name g = wf_name f"
  shows "hasPodOfWorkload arr name = hasPodOfWorkload facts name"
  using assms unfolding hasPodOfWorkload_def list_ex_iff by metis

text \<open>The loop in place does what a filter of the original rows would, as pods are never quiet.\<close>

lemma drop_loop_filter:
  assumes pods: "\<forall>f \<in> set facts. wf_kind f = ''pod'' \<longrightarrow> \<not> wf_quiet f"
    and n: "n = length facts - i" "i \<le> length facts" "k \<le> i" "length arr = length facts"
    and rest: "drop i arr = drop i facts"
    and kept: "take k arr = map (retitled events) (filter (\<lambda>f. \<not> shadowed facts events f) (take i facts))"
    and known: "\<forall>g \<in> set arr. \<exists>f \<in> set facts. wf_kind g = wf_kind f \<and> wf_name g = wf_name f"
  shows "(case drop_loop events n i k arr of (k', arr') \<Rightarrow> take k' arr') =
    map (retitled events) (filter (\<lambda>f. \<not> shadowed facts events f) facts)"
  using n rest kept known
proof (induction n arbitrary: i k arr)
  case 0
  then show ?case by simp
next
  case (Suc n)
  from Suc.prems have i: "i < length facts" by simp
  have fi: "arr ! i = facts ! i" using Suc.prems i by (metis hd_drop_conv_nth)
  have following: "drop (Suc i) arr = drop (Suc i) facts" using Suc.prems(5) by (metis drop_Suc tl_drop)
  have split: "take (Suc i) facts = take i facts @ [facts ! i]" using i by (simp add: take_Suc_conv_app_nth)
  have pod_in: "f \<in> set arr" if "f \<in> set facts" "wf_kind f = ''pod''" for f
  proof (cases "f \<in> set (drop i facts)")
    case True
    then show ?thesis using Suc.prems(5) by (metis in_set_dropD)
  next
    case False
    then have "f \<in> set (take i facts)" using that(1) by (metis Un_iff append_take_drop_id set_append)
    moreover have "\<not> shadowed facts events f" "retitled events f = f"
      using pods that by (auto simp: shadowed_def retitled_def)
    ultimately have "f \<in> set (take k arr)" unfolding Suc.prems(6) by force
    then show ?thesis by (rule in_set_takeD)
  qed
  have "shadowed arr events (facts ! i) = shadowed facts events (facts ! i)"
    using hasPod_cong [OF _ Suc.prems(7)] pod_in by (simp add: shadowed_def)
  note sh = this [folded fi]
  show ?case
  proof (cases "shadowed facts events (arr ! i)")
    case True
    have "(case drop_loop events n (Suc i) k arr of (k', arr') \<Rightarrow> take k' arr') =
        map (retitled events) (filter (\<lambda>f. \<not> shadowed facts events f) facts)"
      using Suc.prems i True following by (intro Suc.IH) (auto simp: split fi)
    then show ?thesis using sh True by (simp add: Let_def)
  next
    case False
    have "(case drop_loop events n (Suc i) (Suc k) (arr[k := retitled events (arr ! i)]) of (k', arr') \<Rightarrow> take k' arr') =
        map (retitled events) (filter (\<lambda>f. \<not> shadowed facts events f) facts)"
    proof (rule Suc.IH)
      show "drop (Suc i) (arr[k := retitled events (arr ! i)]) = drop (Suc i) facts"
        using Suc.prems following by (simp add: drop_update_cancel)
      show "take (Suc k) (arr[k := retitled events (arr ! i)]) =
          map (retitled events) (filter (\<lambda>f. \<not> shadowed facts events f) (take (Suc i) facts))"
        using Suc.prems i False by (simp add: take_Suc_conv_app_nth split fi)
      have "wf_kind (retitled events (arr ! i)) = wf_kind (arr ! i)" "wf_name (retitled events (arr ! i)) = wf_name (arr ! i)"
        by (simp_all add: retitled_def)
      then show "\<forall>g \<in> set (arr[k := retitled events (arr ! i)]). \<exists>f \<in> set facts. wf_kind g = wf_kind f \<and> wf_name g = wf_name f"
        using Suc.prems(4,7) i by (auto dest!: set_update_subset_insert [THEN subsetD])
    qed (use Suc.prems i in auto)
    then show ?thesis using sh False by (simp add: Let_def)
  qed
qed

lemma dropShadowed_filter:
  assumes "\<forall>f \<in> set facts. wf_kind f = ''pod'' \<longrightarrow> \<not> wf_quiet f"
  shows "dropShadowedQuietFacts facts events = map (retitled events) (filter (\<lambda>f. \<not> shadowed facts events f) facts)"
  unfolding dropShadowedQuietFacts_def by (rule drop_loop_filter [OF assms]) auto

lemma listWorkloads_pods: "\<forall>f \<in> set (fst (listWorkloads api p)). wf_kind f = ''pod'' \<longrightarrow> \<not> wf_quiet f"
  by (auto simp: listWorkloads_def listRuntimeWorkloads_def listOwnerWorkloads_def join_lists_def listed_def
      podFacts_def serviceFacts_def jobFacts_def deploymentFacts_def replicaSetFacts_def replicated_facts_def Let_def
      split: sum.splits)

definition warnings_of :: "Event list \<Rightarrow> string \<Rightarrow> Event list" where
  "warnings_of es uid = filter (\<lambda>e. ev_Type e = ''Warning'' \<and> ev_UID e = uid \<and> uid \<noteq> []) es"

lemma events_by_uid_take:
  "length (m uid) \<le> 3 \<Longrightarrow> events_by_uid es m uid = m uid @ map formatEvent (take (3 - length (m uid)) (warnings_of es uid))"
proof (induction es arbitrary: m)
  case (Cons e es)
  show ?case
  proof (cases "ev_Type e \<noteq> ''Warning'' \<or> ev_UID e = [] \<or> maxEventsPerObject \<le> length (m (ev_UID e))")
    case True
    with Cons.prems show ?thesis
      by (auto simp: Cons.IH warnings_of_def maxEventsPerObject_def)
  next
    case False
    define m' where "m' = m(ev_UID e := m (ev_UID e) @ [formatEvent e])"
    have uid: "m' uid = (if uid = ev_UID e then m uid @ [formatEvent e] else m uid)" by (simp add: m'_def)
    with False Cons.prems have "length (m' uid) \<le> 3" by (auto simp: maxEventsPerObject_def)
    from Cons.IH [of m', OF this] False have
      "events_by_uid (e # es) m uid = m' uid @ map formatEvent (take (3 - length (m' uid)) (warnings_of es uid))"
      by (simp add: m'_def [symmetric] del: fun_upd_apply)
    then show ?thesis using False
      by (auto simp: uid warnings_of_def maxEventsPerObject_def Suc_diff_le take_Cons' split: if_splits)
  qed
qed (simp add: warnings_of_def)

text \<open>The first three warnings about an object.\<close>

definition first_warnings :: "diagapi \<Rightarrow> string \<Rightarrow> string list" where
  "first_warnings api uid = (case di_Events api of Inl _ \<Rightarrow> []
     | Inr es \<Rightarrow> map formatEvent (take 3 (warnings_of es uid)))"

text \<open>
  C37: the failure report. When nothing could be listed it says so and does not claim that nothing
  exists. Otherwise it shows every object of every listing that succeeded, in order, with the first
  three warning events about that very object, except a job row without news whose pods are shown; a
  job row kept for its events drops its lagging counters. The rows are filtered in place, in the array
  that the search for a job's pods reads, and that makes no difference.
\<close>

theorem diagnostics_report:
  "WriteWorkloadDiagnostics api p =
    (case listWorkloads api p of (objects, listedAny) \<Rightarrow>
       if \<not> listedAny then [''    '' @ Warn p (''Could not read the cluster'' @ [squote] @ ''s resources'')]
       else if objects = [] then [''    '' @ Dim p ''no resources found'']
       else concat (map (object_lines (first_warnings api) p) (map (retitled (first_warnings api))
         (filter (\<lambda>f. \<not> shadowed objects (first_warnings api) f) objects))))"
proof -
  have ev: "warningEventsByUID api = first_warnings api"
    by (rule ext) (simp add: warningEventsByUID_def first_warnings_def events_by_uid_take split: sum.splits)
  show ?thesis
    using listWorkloads_pods [of api p] by (auto simp: WriteWorkloadDiagnostics_def ev Let_def dropShadowed_filter split: prod.splits)
qed

end
