(* ===== verification/MoverSession.thy ===== *)
theory MoverSession
  imports ProgressLog LineTail Strategies
begin

text \<open>
  The mover session of the local strategy (\<open>src/internal/strategy/local.go\<close>, from \<open>runMoverSession\<close> to
  \<open>forwardTunnelConnections\<close>). Four goroutines of one errgroup share the ssh session, the tunnel
  listener and the pipe the session writes into: a watcher of the context, the forwarder of tunnel
  connections, the progress follower of \<open>ProgressLog\<close> and the runner of the mover. They are one step
  relation; what the remote side does is a second one. The context of the group is the context the
  follower is given, so its cancellation is the follower's.
\<close>

section \<open>What the session's end means\<close>

text \<open>
  What \<open>session.Run\<close> returns: nil, an error that carries an exit status, or another error. The text of
  an error is what its \<open>Error\<close> method returns.
\<close>

datatype run_result = RunOk | RunExit int string | RunBroken string

fun ExitStatus :: "run_result \<Rightarrow> int option" where
  "ExitStatus (RunExit code _) = Some code"
| "ExitStatus _ = None"

fun run_text :: "run_result \<Rightarrow> string" where
  "run_text RunOk = []"
| "run_text (RunExit _ msg) = msg"
| "run_text (RunBroken msg) = msg"

definition isToleratedExit :: "moverPolicy \<Rightarrow> run_result \<Rightarrow> bool" where
  "isToleratedExit policy runErr =
     (case ExitStatus runErr of Some code \<Rightarrow> tolerates policy code | None \<Rightarrow> False)"

datatype session_error = moverRunError run_result | AcceptFailed string | ContextDone

text \<open>
  \<open>completeMoverSession\<close>: whether it reaches the completion signal, and what it returns and stores in
  \<open>vanished\<close> given what \<open>MarkAsComplete\<close> returns.
\<close>

definition signals :: "moverPolicy \<Rightarrow> run_result \<Rightarrow> bool" where
  "signals policy runErr \<longleftrightarrow> runErr = RunOk \<or> isToleratedExit policy runErr"

definition completeMoverSession ::
  "run_result \<Rightarrow> moverPolicy \<Rightarrow> session_error option \<Rightarrow> session_error option \<times> bool" where
  "completeMoverSession runErr policy marked =
     (if runErr \<noteq> RunOk \<and> \<not> isToleratedExit policy runErr then (Some (moverRunError runErr), False)
      else (marked, runErr \<noteq> RunOk))"

definition moverSessionError :: "moverPolicy \<Rightarrow> run_result \<Rightarrow> string list \<Rightarrow> string" where
  "moverSessionError policy runErr recentLines =
     (let err = ''data mover session failed: '' @ run_text runErr;
          err = (case ExitStatus runErr of None \<Rightarrow> err
                 | Some code \<Rightarrow> (let meaning = mp_interpret policy code
                                 in if meaning \<noteq> [] then err @ '' ('' @ meaning @ '')'' else err))
      in if recentLines \<noteq> []
         then err @ newline_byte # ''last lines of rsync output:'' @ newline_byte # Join recentLines [newline_byte]
         else err)"

text \<open>
  \<open>finishMoverSession\<close>: the explained failure of the mover, any other error untouched, or the finished
  bar and whether the caveat is logged. The first argument is what \<open>eg.Wait\<close> returned.
\<close>

datatype session_report = Explained string | Untouched session_error | Transferred bool bar

definition finishMoverSession ::
  "session_error option \<Rightarrow> moverPolicy \<Rightarrow> bool \<Rightarrow> lineTail \<Rightarrow> bool \<Rightarrow> bar \<Rightarrow> session_report" where
  "finishMoverSession waitErr policy vanished tail made b =
     (case waitErr of
        Some (moverRunError e) \<Rightarrow> Explained (moverSessionError policy e (lt_Lines tail))
      | Some e \<Rightarrow> Untouched e
      | None \<Rightarrow> Transferred vanished (FinishBar made b))"

definition sessionProgressLogger :: "Request \<Rightarrow> LoggerOptions" where
  "sessionProgressLogger req =
     \<lparr>lo_ShowProgressBar = rq_ShowProgressBar req, lo_ParseLine = Some (stateless rsync_ParseLine)\<rparr>"

section \<open>The group\<close>

datatype tunnel_pc = Accepting | Draining | TunnelDone

text \<open>The mover goroutine, its deferred calls in the order they run, each with the error it will return.\<close>

datatype mover_pc =
  Running
| Completing run_result
| ClosingListener "session_error option"
| ClosingWriter "session_error option"
| ClosingDone "session_error option"
| MoverDone

record session =
  ss_log :: follower
  ss_err :: "session_error option"
  ss_watching :: bool
  ss_tunnel :: tunnel_pc
  ss_conns :: nat
  ss_mover :: mover_pc
  ss_vanished :: bool
  ss_tail :: lineTail
  ss_sessionClosed :: bool
  ss_listenerClosed :: bool
  ss_writerClosed :: bool
  ss_moverDone :: bool
  ss_copiers :: nat
  ss_writing :: nat
  ss_readerClosed :: bool
  ss_buffered :: bool
  ss_output :: "string list"
  ss_result :: "run_result option"
  ss_taken :: nat

text \<open>
  The session's \<open>Stdout\<close> and \<open>Stderr\<close> are one \<open>io.MultiWriter\<close>, so the ssh package runs two copiers that
  write first into the tail and then into the pipe. An \<open>io.Pipe\<close> has no buffer: \<open>ss_writing\<close> counts the
  copiers inside a \<open>Write\<close> that nobody has read yet, and \<open>session.Run\<close> returns only when no copier is.
  \<open>ss_readerClosed\<close> tells that the follower has closed its end, and \<open>ss_buffered\<close> that its scanner can
  return without reading: it holds a whole line, or more than it may hold.

  The last three fields are the history a theorem speaks of: what the session wrote, what it returned,
  and how often the follower took a chunk out of the pipe or a line out of its scanner. The group
  starts with everything open.
\<close>

definition session_start :: session where
  "session_start =
     \<lparr>ss_log = NewLogger, ss_err = None, ss_watching = True, ss_tunnel = Accepting, ss_conns = 0,
      ss_mover = Running, ss_vanished = False, ss_tail = lt_new sessionTailLines,
      ss_sessionClosed = False, ss_listenerClosed = False, ss_writerClosed = False, ss_moverDone = False,
      ss_copiers = 2, ss_writing = 0, ss_readerClosed = False, ss_buffered = False,
      ss_output = [], ss_result = None, ss_taken = 0\<rparr>"

text \<open>A goroutine of an errgroup returns: the first error is kept and cancels the context.\<close>

definition group_return :: "session_error option \<Rightarrow> session \<Rightarrow> session" where
  "group_return e s =
     (case e of None \<Rightarrow> s
      | Some _ \<Rightarrow> s\<lparr>ss_err := (if ss_err s = None then e else ss_err s),
                    ss_log := (ss_log s)\<lparr>fo_cancelled := True\<rparr>\<rparr>)"

text \<open>
  Which steps of the follower its stream allows here, where the stream is the pipe's reader and not a
  connection. \<open>LogStreamFunc\<close> returns that one reader and never fails; a read that finds nothing blocks;
  the end of the stream comes when the writer is closed, cancelled or not; and once the follower has
  closed the reader every further read fails. Reading a line is a rule of its own below.
\<close>

definition pipe_gives :: "session \<Rightarrow> follower \<Rightarrow> bool" where
  "pipe_gives s l \<longleftrightarrow>
     (case (fo_phase (ss_log s), fo_phase l) of
        (Opening, Failed _) \<Rightarrow> False
      | (Streaming Reading _ _, Streaming t _ _) \<Rightarrow>
          (case t of Reading \<Rightarrow> True | Sending _ \<Rightarrow> False
           | TailDone StreamFailed \<Rightarrow> ss_readerClosed s \<or> ss_buffered s
           | TailDone _ \<Rightarrow> ss_writerClosed s \<and> \<not> ss_readerClosed s \<and> \<not> ss_buffered s)
      | _ \<Rightarrow> True)"

text \<open>\<open>startSingle\<close> closes the stream when it returns, and its scanner is gone with it.\<close>

definition stream_ends :: "follower \<Rightarrow> follower \<Rightarrow> bool" where
  "stream_ends l l' \<longleftrightarrow> (case (fo_phase l, fo_phase l') of (Streaming _ _ _, Failed _) \<Rightarrow> True | _ \<Rightarrow> False)"

text \<open>
  The steps of the program. A read of the pipe takes the rest of a write, which then returns, or only
  a part of it; a write into a pipe whose reader is closed fails and ends its copier.
\<close>

inductive group_step :: "LoggerOptions \<Rightarrow> moverPolicy \<Rightarrow> session \<Rightarrow> session \<Rightarrow> bool" for opts policy where
  watch_cancelled: "ss_watching s \<Longrightarrow> fo_cancelled (ss_log s) \<Longrightarrow>
    group_step opts policy s (s\<lparr>ss_watching := False, ss_sessionClosed := True\<rparr>)"
| watch_done: "ss_watching s \<Longrightarrow> ss_moverDone s \<Longrightarrow>
    group_step opts policy s (s\<lparr>ss_watching := False\<rparr>)"
| accept_closed: "ss_tunnel s = Accepting \<Longrightarrow> ss_listenerClosed s \<Longrightarrow>
    group_step opts policy s (s\<lparr>ss_tunnel := Draining\<rparr>)"
| drained: "ss_tunnel s = Draining \<Longrightarrow> ss_conns s = 0 \<Longrightarrow>
    group_step opts policy s (s\<lparr>ss_tunnel := TunnelDone\<rparr>)"
| follow: "follow_step opts (ss_log s) l \<Longrightarrow> pipe_gives s l \<Longrightarrow>
    group_step opts policy s (s\<lparr>ss_log := l, ss_readerClosed := ss_readerClosed s \<or> stream_ends (ss_log s) l,
      ss_buffered := ss_buffered s \<and> \<not> stream_ends (ss_log s) l\<rparr>)"
| follow_reads: "follow_step opts (ss_log s) l \<Longrightarrow> reads (ss_log s) l \<Longrightarrow>
    ss_buffered s \<or> ss_writerClosed s \<and> \<not> ss_readerClosed s \<Longrightarrow>
    group_step opts policy s (s\<lparr>ss_log := l, ss_buffered := another, ss_taken := Suc (ss_taken s)\<rparr>)"
| pipe_read: "fo_phase (ss_log s) = Streaming Reading h c \<Longrightarrow> \<not> ss_buffered s \<Longrightarrow> \<not> ss_readerClosed s \<Longrightarrow>
    0 < ss_writing s \<Longrightarrow>
    group_step opts policy s (s\<lparr>ss_writing := (if rest then ss_writing s - 1 else ss_writing s),
      ss_buffered := whole, ss_taken := Suc (ss_taken s)\<rparr>)"
| write_fails: "0 < ss_writing s \<Longrightarrow> 0 < ss_copiers s \<Longrightarrow> ss_readerClosed s \<Longrightarrow>
    group_step opts policy s (s\<lparr>ss_writing := ss_writing s - 1, ss_copiers := ss_copiers s - 1\<rparr>)"
| complete_failed: "ss_mover s = Completing r \<Longrightarrow> \<not> signals policy r \<Longrightarrow>
    completeMoverSession r policy None = (e, v) \<Longrightarrow>
    group_step opts policy s (s\<lparr>ss_mover := ClosingListener e, ss_vanished := v\<rparr>)"
| complete_signalled: "ss_mover s = Completing r \<Longrightarrow> signals policy r \<Longrightarrow> \<not> fo_signal (ss_log s) \<Longrightarrow>
    completeMoverSession r policy None = (e, v) \<Longrightarrow>
    group_step opts policy s (s\<lparr>ss_mover := ClosingListener e, ss_vanished := v,
      ss_log := (ss_log s)\<lparr>fo_signal := True\<rparr>\<rparr>)"
| complete_cancelled: "ss_mover s = Completing r \<Longrightarrow> signals policy r \<Longrightarrow> fo_cancelled (ss_log s) \<Longrightarrow>
    completeMoverSession r policy (Some ContextDone) = (e, v) \<Longrightarrow>
    group_step opts policy s (s\<lparr>ss_mover := ClosingListener e, ss_vanished := v\<rparr>)"
| close_listener: "ss_mover s = ClosingListener e \<Longrightarrow>
    group_step opts policy s (s\<lparr>ss_mover := ClosingWriter e, ss_listenerClosed := True\<rparr>)"
| close_writer: "ss_mover s = ClosingWriter e \<Longrightarrow>
    group_step opts policy s (s\<lparr>ss_mover := ClosingDone e, ss_writerClosed := True\<rparr>)"
| close_done: "ss_mover s = ClosingDone e \<Longrightarrow>
    group_step opts policy s (group_return e (s\<lparr>ss_mover := MoverDone, ss_moverDone := True\<rparr>))"

text \<open>
  The steps of the outside: the caller cancels, a copier that is free receives output, \<open>Run\<close> returns in
  any way because the mover ended or the remote side closed a session that was closed here, a
  connection comes or ends, the listener ends because the ssh connection did (\<open>io.EOF\<close>), or it fails.
  On a failure \<open>forwardTunnelConnections\<close> returns without waiting for the connections it proxies.
\<close>

inductive outside_step :: "session \<Rightarrow> session \<Rightarrow> bool" where
  caller_cancels: "outside_step s (s\<lparr>ss_log := (ss_log s)\<lparr>fo_cancelled := True\<rparr>\<rparr>)"
| run_writes: "ss_mover s = Running \<Longrightarrow> ss_writing s < ss_copiers s \<Longrightarrow>
    outside_step s (s\<lparr>ss_tail := fst (lt_Write data (ss_tail s)), ss_output := ss_output s @ [data],
      ss_writing := Suc (ss_writing s)\<rparr>)"
| run_ends: "ss_mover s = Running \<Longrightarrow> ss_writing s = 0 \<Longrightarrow> outside_step s (s\<lparr>ss_mover := Completing r, ss_result := Some r\<rparr>)"
| accept: "ss_tunnel s = Accepting \<Longrightarrow> \<not> ss_listenerClosed s \<Longrightarrow>
    outside_step s (s\<lparr>ss_conns := ss_conns s + 1\<rparr>)"
| accept_eof: "ss_tunnel s = Accepting \<Longrightarrow> outside_step s (s\<lparr>ss_tunnel := Draining\<rparr>)"
| accept_failed: "ss_tunnel s = Accepting \<Longrightarrow>
    outside_step s (group_return (Some (AcceptFailed msg)) (s\<lparr>ss_tunnel := TunnelDone\<rparr>))"
| conn_ends: "0 < ss_conns s \<Longrightarrow> outside_step s (s\<lparr>ss_conns := ss_conns s - 1\<rparr>)"

definition session_step :: "LoggerOptions \<Rightarrow> moverPolicy \<Rightarrow> session \<Rightarrow> session \<Rightarrow> bool" where
  "session_step opts policy s s' \<longleftrightarrow> group_step opts policy s s' \<or> outside_step s s'"

text \<open>\<open>eg.Wait\<close> returns when all four have.\<close>

definition joined :: "session \<Rightarrow> bool" where
  "joined s \<longleftrightarrow> \<not> ss_watching s \<and> ss_tunnel s = TunnelDone \<and> fo_phase (ss_log s) = Returned \<and> ss_mover s = MoverDone"

definition runMoverSession :: "moverPolicy \<Rightarrow> bool \<Rightarrow> session \<Rightarrow> session_report" where
  "runMoverSession policy made s =
     finishMoverSession (ss_err s) policy (ss_vanished s) (ss_tail s) made (fo_bar (ss_log s))"

section \<open>What holds in every state\<close>

text \<open>What the mover goroutine returns for a result of the session, and what it leaves in \<open>vanished\<close>.\<close>

definition returns :: "moverPolicy \<Rightarrow> run_result \<Rightarrow> session_error option \<Rightarrow> bool \<Rightarrow> bool" where
  "returns policy r e v \<longleftrightarrow>
     (if signals policy r then e \<in> {None, Some ContextDone} else e = Some (moverRunError r)) \<and>
     v = (signals policy r \<and> r \<noteq> RunOk)"

lemma completeMoverSession_returns:
  "completeMoverSession r policy m = (e, v) \<Longrightarrow> m \<in> {None, Some ContextDone} \<Longrightarrow> returns policy r e v"
  by (auto simp: completeMoverSession_def returns_def signals_def split: if_splits)

fun mover_ok :: "moverPolicy \<Rightarrow> mover_pc \<Rightarrow> session \<Rightarrow> bool" where
  "mover_ok policy Running s = (ss_result s = None \<and> \<not> ss_vanished s)"
| "mover_ok policy (Completing r) s = (ss_result s = Some r)"
| "mover_ok policy (ClosingListener e) s = (\<exists>r. ss_result s = Some r \<and> returns policy r e (ss_vanished s))"
| "mover_ok policy (ClosingWriter e) s =
     (ss_listenerClosed s \<and> (\<exists>r. ss_result s = Some r \<and> returns policy r e (ss_vanished s)))"
| "mover_ok policy (ClosingDone e) s =
     (ss_listenerClosed s \<and> ss_writerClosed s \<and> (\<exists>r. ss_result s = Some r \<and> returns policy r e (ss_vanished s)))"
| "mover_ok policy MoverDone s =
     (ss_listenerClosed s \<and> ss_writerClosed s \<and> ss_moverDone s \<and>
      (\<exists>r e. ss_result s = Some r \<and> returns policy r e (ss_vanished s) \<and> (ss_err s = None \<longrightarrow> e = None)))"

definition session_ok :: "moverPolicy \<Rightarrow> session \<Rightarrow> bool" where
  "session_ok policy s \<longleftrightarrow> mover_ok policy (ss_mover s) s \<and> (ss_err s \<noteq> None \<longrightarrow> fo_cancelled (ss_log s)) \<and>
     (\<forall>r. ss_err s = Some (moverRunError r) \<longrightarrow>
        ss_mover s = MoverDone \<and> ss_result s = Some r \<and> \<not> signals policy r) \<and>
     ss_tail s = lt_writes (ss_output s) (lt_new sessionTailLines)"

text \<open>The other goroutines leave what the mover relies on alone.\<close>

lemma mover_ok_frame [simp]:
  "mover_ok policy m (s\<lparr>ss_watching := w\<rparr>) = mover_ok policy m s"
  "mover_ok policy m (s\<lparr>ss_sessionClosed := c\<rparr>) = mover_ok policy m s"
  "mover_ok policy m (s\<lparr>ss_tunnel := t\<rparr>) = mover_ok policy m s"
  "mover_ok policy m (s\<lparr>ss_conns := n\<rparr>) = mover_ok policy m s"
  "mover_ok policy m (s\<lparr>ss_log := l\<rparr>) = mover_ok policy m s"
  "mover_ok policy m (s\<lparr>ss_tail := u\<rparr>) = mover_ok policy m s"
  "mover_ok policy m (s\<lparr>ss_output := out\<rparr>) = mover_ok policy m s"
  "mover_ok policy m (s\<lparr>ss_writing := n\<rparr>) = mover_ok policy m s"
  "mover_ok policy m (s\<lparr>ss_copiers := n\<rparr>) = mover_ok policy m s"
  "mover_ok policy m (s\<lparr>ss_readerClosed := c\<rparr>) = mover_ok policy m s"
  "mover_ok policy m (s\<lparr>ss_buffered := w\<rparr>) = mover_ok policy m s"
  "mover_ok policy m (s\<lparr>ss_taken := n\<rparr>) = mover_ok policy m s"
  by (cases m; simp)+

lemma session_start_ok: "session_ok policy session_start"
  by (simp add: session_ok_def session_start_def lt_writes_def)

lemma lt_writes_snoc: "lt_writes (ds @ [d]) t = fst (lt_Write d (lt_writes ds t))"
  by (simp add: lt_writes_def)

lemma close_done_ok:
  assumes "ss_mover s = ClosingDone e" and "session_ok policy s"
  shows "session_ok policy (group_return e (s\<lparr>ss_mover := MoverDone, ss_moverDone := True\<rparr>))"
proof (cases e)
  case None
  with assms show ?thesis by (auto simp: session_ok_def group_return_def)
next
  case (Some x)
  with assms show ?thesis
    by (auto simp: session_ok_def group_return_def returns_def split: if_splits)
qed

lemma group_step_ok: "group_step opts policy s s' \<Longrightarrow> session_ok policy s \<Longrightarrow> session_ok policy s'"
proof (induction rule: group_step.induct)
  case (close_done s e)
  then show ?case by (rule close_done_ok)
qed (auto simp: session_ok_def dest: completeMoverSession_returns follow_step_cancelled)

lemma accept_failed_ok:
  assumes "session_ok policy s"
  shows "session_ok policy (group_return (Some (AcceptFailed msg)) (s\<lparr>ss_tunnel := TunnelDone\<rparr>))"
  using assms by (cases "ss_mover s") (auto simp: session_ok_def group_return_def)

lemma outside_step_ok: "outside_step s s' \<Longrightarrow> session_ok policy s \<Longrightarrow> session_ok policy s'"
proof (induction rule: outside_step.induct)
  case (accept_failed s msg)
  from accept_failed.prems show ?case by (rule accept_failed_ok)
qed (auto simp: session_ok_def lt_writes_snoc)

lemma session_reachable_ok:
  "(session_step opts policy)\<^sup>*\<^sup>* session_start s \<Longrightarrow> session_ok policy s"
  by (induction rule: rtranclp_induct)
    (auto simp: session_start_ok session_step_def intro: group_step_ok outside_step_ok)

text \<open>The follower inside the group takes only steps of a follower with its caller.\<close>

lemma group_return_log: "ss_log (group_return e s) = (if e = None then ss_log s else (ss_log s)\<lparr>fo_cancelled := True\<rparr>)"
  by (simp add: group_return_def split: option.split)

lemma session_step_log: "session_step opts policy s s' \<Longrightarrow> ss_log s' = ss_log s \<or> any_step opts (ss_log s) (ss_log s')"
  unfolding session_step_def
proof (elim disjE)
  assume "group_step opts policy s s'"
  then show ?thesis
    by cases (auto simp: any_step_def group_return_log intro: caller_step.intros)
next
  assume "outside_step s s'"
  then show ?thesis by cases (auto simp: any_step_def group_return_log intro: caller_step.intros)
qed

lemma session_follower_ok:
  "(session_step opts policy)\<^sup>*\<^sup>* session_start s \<Longrightarrow> follower_ok (ss_log s)"
proof (induction rule: rtranclp_induct)
  case base
  show ?case
    by (simp add: session_start_def follower_ok_def NewLogger_def bar_zero_def logRetryInitialDelay_def logRetryMaxDelay_def)
next
  case (step s s')
  then show ?case using session_step_log any_step_ok by metis
qed

section \<open>The report\<close>

text \<open>The lines a report shows of what the session wrote.\<close>

definition shown :: "string list \<Rightarrow> string list" where
  "shown output = (let s = concat output; rest = TrimSpace (snd (segments s))
     in takelast sessionTailLines (full_lines s) @ (if rest \<noteq> [] then [rest] else []))"

lemma tail_shown: "session_ok policy s \<Longrightarrow> lt_Lines (ss_tail s) = shown (ss_output s)"
  by (simp add: session_ok_def shown_def lineTail_Lines sessionTailLines_def)

lemma joined_released:
  "session_ok policy s \<Longrightarrow> joined s \<Longrightarrow> ss_listenerClosed s \<and> ss_writerClosed s \<and> ss_moverDone s"
  by (simp add: session_ok_def joined_def)

lemma joined_success:
  assumes "session_ok policy s" "joined s" "ss_err s = None"
  shows "\<exists>r. ss_result s = Some r \<and> signals policy r \<and> (ss_vanished s \<longleftrightarrow> r \<noteq> RunOk)"
  using assms by (auto simp: session_ok_def joined_def returns_def split: if_splits)

lemma runMoverSession_cases:
  assumes "session_ok policy s" and "joined s"
  shows "case runMoverSession policy made s of
      Transferred caveat b \<Rightarrow> \<exists>r. ss_result s = Some r \<and> signals policy r \<and> (caveat \<longleftrightarrow> r \<noteq> RunOk)
    | Explained msg \<Rightarrow> \<exists>r. ss_result s = Some r \<and> \<not> signals policy r \<and>
        msg = moverSessionError policy r (shown (ss_output s))
    | Untouched e \<Rightarrow> e = ContextDone \<or> (\<exists>why. e = AcceptFailed why)"
proof (cases "ss_err s")
  case None
  with joined_success [OF assms this] show ?thesis by (simp add: runMoverSession_def finishMoverSession_def)
next
  case (Some e)
  with assms(1) tail_shown [OF assms(1)] show ?thesis
    by (cases e) (simp_all add: runMoverSession_def finishMoverSession_def session_ok_def)
qed

text \<open>
  C5: however the four goroutines, the caller and the remote side interleave, once the group is joined
  the tunnel listener and the pipe are closed, and the report is true to the session. Success is
  reported only if the mover exited with zero or with a status its policy tolerates, with the caveat
  exactly in the second case; the mover's own failure is explained with its status and the last lines
  of everything it wrote; any other error is one of the tunnel or of the context. The bar is finished
  at most once.
\<close>

theorem session_report_true:
  assumes "(session_step opts policy)\<^sup>*\<^sup>* session_start s" and "joined s"
  shows "ss_listenerClosed s \<and> ss_writerClosed s \<and>
    (case runMoverSession policy made s of
       Transferred caveat b \<Rightarrow> br_Finishes b \<le> 1 \<and>
         (\<exists>r. ss_result s = Some r \<and>
            (if caveat then \<exists>code. ExitStatus r = Some code \<and> tolerates policy code else r = RunOk))
     | Explained msg \<Rightarrow> \<exists>r. ss_result s = Some r \<and> r \<noteq> RunOk \<and> \<not> isToleratedExit policy r \<and>
         msg = moverSessionError policy r (shown (ss_output s))
     | Untouched e \<Rightarrow> e = ContextDone \<or> (\<exists>why. e = AcceptFailed why))"
proof -
  have ok: "session_ok policy s" using assms(1) by (rule session_reachable_ok)
  have fin: "br_Finishes (FinishBar made (fo_bar (ss_log s))) \<le> 1"
    using session_follower_ok [OF assms(1)] by (simp add: follower_ok_def FinishBar_def finish_bar_def)
  show ?thesis
    using joined_released [OF ok assms(2)] runMoverSession_cases [OF ok assms(2), of made] fin
    by (auto simp: signals_def isToleratedExit_def runMoverSession_def finishMoverSession_def
        split: option.splits session_error.splits)
qed

lemma group_return_frame [simp]:
  "ss_watching (group_return e s) = ss_watching s" "ss_tunnel (group_return e s) = ss_tunnel s"
  "ss_mover (group_return e s) = ss_mover s" "fo_phase (ss_log (group_return e s)) = fo_phase (ss_log s)"
  "ss_conns (group_return e s) = ss_conns s" "ss_listenerClosed (group_return e s) = ss_listenerClosed s"
  "ss_writing (group_return e s) = ss_writing s" "ss_copiers (group_return e s) = ss_copiers s"
  "ss_readerClosed (group_return e s) = ss_readerClosed s" "ss_taken (group_return e s) = ss_taken s"
  "ss_moverDone (group_return e s) = ss_moverDone s" "ss_sessionClosed (group_return e s) = ss_sessionClosed s"
  by (simp_all add: group_return_def split: option.split)

lemma session_step_intros:
  "group_step opts policy s s' \<Longrightarrow> session_step opts policy s s'"
  "outside_step s s' \<Longrightarrow> session_step opts policy s s'"
  by (simp_all add: session_step_def)

text \<open>A session that is cancelled at once, and one whose mover succeeds before the follower starts.\<close>

definition session_cancelled :: session where
  "session_cancelled = session_start\<lparr>ss_log := NewLogger\<lparr>fo_cancelled := True\<rparr>\<rparr>"

definition session_succeeded :: session where
  "session_succeeded = session_start\<lparr>ss_log := NewLogger\<lparr>fo_signal := True\<rparr>, ss_result := Some RunOk,
     ss_mover := ClosingListener None, ss_vanished := False\<rparr>"

definition session_released :: session where
  "session_released = session_succeeded\<lparr>ss_mover := MoverDone, ss_listenerClosed := True, ss_writerClosed := True,
     ss_moverDone := True\<rparr>"

definition session_joined :: session where
  "session_joined = session_released\<lparr>ss_log := NewLogger\<lparr>fo_phase := Returned, fo_signal := False\<rparr>, ss_watching := False,
     ss_tunnel := TunnelDone\<rparr>"

lemmas session_path_defs = session_cancelled_def session_succeeded_def session_released_def session_joined_def
  session_start_def NewLogger_def

lemma session_cancelled_reach: "(session_step opts policy)\<^sup>*\<^sup>* session_start session_cancelled"
proof -
  have "outside_step session_start session_cancelled"
    using caller_cancels [of session_start] by (simp add: session_path_defs)
  then show ?thesis by (blast intro: session_step_intros)
qed

lemma session_succeeded_reach: "(session_step opts policy)\<^sup>*\<^sup>* session_start session_succeeded"
proof -
  let ?s = "session_start\<lparr>ss_mover := Completing RunOk, ss_result := Some RunOk\<rparr>"
  have "outside_step session_start ?s" by (rule run_ends) (simp_all add: session_path_defs)
  moreover have "group_step opts policy ?s session_succeeded"
    using complete_signalled [of ?s RunOk policy None False opts]
    by (simp add: session_path_defs signals_def completeMoverSession_def)
  ultimately show ?thesis by (meson session_step_intros converse_rtranclp_into_rtranclp rtranclp.rtrancl_refl)
qed

lemma session_released_reach: "(session_step opts policy)\<^sup>*\<^sup>* session_succeeded session_released"
proof -
  let ?s = "session_succeeded\<lparr>ss_mover := ClosingWriter None, ss_listenerClosed := True\<rparr>"
  let ?t = "?s\<lparr>ss_mover := ClosingDone None, ss_writerClosed := True\<rparr>"
  have "group_step opts policy session_succeeded ?s" by (rule close_listener) (simp add: session_path_defs)
  moreover have "group_step opts policy ?s ?t" by (rule close_writer) simp
  moreover have "group_step opts policy ?t session_released"
    using close_done [of ?t None opts policy] by (simp add: session_path_defs group_return_def)
  ultimately show ?thesis by (meson session_step_intros(1) converse_rtranclp_into_rtranclp rtranclp.rtrancl_refl)
qed

lemma session_joined_reach: "(session_step opts policy)\<^sup>*\<^sup>* session_released session_joined"
proof -
  let ?s = "session_released\<lparr>ss_log := NewLogger\<lparr>fo_phase := Returned, fo_signal := False\<rparr>\<rparr>"
  let ?t = "?s\<lparr>ss_watching := False\<rparr>"
  let ?u = "?t\<lparr>ss_tunnel := Draining\<rparr>"
  have "group_step opts policy session_released ?s"
    using follow [of opts session_released "NewLogger\<lparr>fo_phase := Returned, fo_signal := False\<rparr>" policy]
      top_signal [of "ss_log session_released"]
    by (simp add: follow_step_def pipe_gives_def stream_ends_def session_path_defs)
  moreover have "group_step opts policy ?s ?t" by (rule watch_done) (simp_all add: session_path_defs)
  moreover have "group_step opts policy ?t ?u" by (rule accept_closed) (simp_all add: session_path_defs)
  moreover have "group_step opts policy ?u session_joined"
    using drained [of ?u opts policy] by (simp add: session_path_defs)
  ultimately show ?thesis by (meson session_step_intros(1) converse_rtranclp_into_rtranclp rtranclp.rtrancl_refl)
qed

lemma session_joined_reachable: "(session_step opts policy)\<^sup>*\<^sup>* session_start session_joined"
  using session_succeeded_reach session_released_reach session_joined_reach by (meson rtranclp_trans)

lemma session_joined_joined: "joined session_joined"
  by (simp add: joined_def session_path_defs)

theorem session_report_true_witness:
  "ss_listenerClosed session_joined \<and> (\<exists>b. runMoverSession rsyncPolicy True session_joined = Transferred False b \<and> br_Finishes b \<le> 1)"
proof -
  have "runMoverSession rsyncPolicy True session_joined = Transferred False (FinishBar True (fo_bar (ss_log session_joined)))"
    by (simp add: runMoverSession_def finishMoverSession_def session_path_defs)
  with session_report_true [OF session_joined_reachable [of "\<lparr>lo_ShowProgressBar = True, lo_ParseLine = None\<rparr>" rsyncPolicy]
    session_joined_joined, of True] show ?thesis by simp
qed

section \<open>A session that failed or was cancelled ends\<close>

fun mover_rank :: "mover_pc \<Rightarrow> nat" where
  "mover_rank Running = 4"
| "mover_rank (Completing _) = 4"
| "mover_rank (ClosingListener _) = 3"
| "mover_rank (ClosingWriter _) = 2"
| "mover_rank (ClosingDone _) = 1"
| "mover_rank MoverDone = 0"

fun tunnel_rank :: "tunnel_pc \<Rightarrow> nat" where
  "tunnel_rank Accepting = 2"
| "tunnel_rank Draining = 1"
| "tunnel_rank TunnelDone = 0"

definition session_rank :: "session \<Rightarrow> nat" where
  "session_rank s = (if ss_watching s then 1 else 0) + tunnel_rank (ss_tunnel s) + mover_rank (ss_mover s) +
     ss_copiers s + rank (fo_phase (ss_log s))"

text \<open>A run of the session, with the steps of the program counted.\<close>

inductive session_runs :: "LoggerOptions \<Rightarrow> moverPolicy \<Rightarrow> nat \<Rightarrow> session \<Rightarrow> session \<Rightarrow> bool" for opts policy where
  session_runs_nil: "session_runs opts policy 0 s s"
| session_runs_group: "session_runs opts policy n s s' \<Longrightarrow> group_step opts policy s' s'' \<Longrightarrow>
    session_runs opts policy (Suc n) s s''"
| session_runs_outside: "session_runs opts policy n s s' \<Longrightarrow> outside_step s' s'' \<Longrightarrow>
    session_runs opts policy n s s''"

lemma pipe_gives_no_read: "pipe_gives s l \<Longrightarrow> \<not> reads (ss_log s) l"
  by (auto simp: pipe_gives_def reads_def)

text \<open>A step is paid for by the rank, or by what the follower takes.\<close>

lemma group_step_rank:
  assumes "group_step opts policy s s'" "fo_cancelled (ss_log s)"
  shows "Suc (session_rank s' + 2 * ss_taken s) \<le> session_rank s + 2 * ss_taken s'"
  using assms(1)
proof cases
  case (follow l)
  then show ?thesis using follow_step_rank [OF follow(2) assms(2)] pipe_gives_no_read [OF follow(3)]
    by (simp add: session_rank_def)
next
  case (follow_reads l another)
  then show ?thesis using follow_step_rank [OF follow_reads(2) assms(2)] by (simp add: session_rank_def)
qed (simp_all add: session_rank_def)

lemma outside_step_rank: "outside_step s s' \<Longrightarrow> session_rank s' \<le> session_rank s \<and> ss_taken s' = ss_taken s"
  by (induction rule: outside_step.induct) (simp_all add: session_rank_def)

lemma session_step_cancelled:
  "group_step opts policy s s' \<Longrightarrow> fo_cancelled (ss_log s) \<Longrightarrow> fo_cancelled (ss_log s')"
  "outside_step s s' \<Longrightarrow> fo_cancelled (ss_log s) \<Longrightarrow> fo_cancelled (ss_log s')"
  by (auto elim!: group_step.cases outside_step.cases simp: group_return_log dest: follow_step_cancelled)

text \<open>The watcher leaves only after it has closed the session or the mover is done.\<close>

definition watch_ok :: "session \<Rightarrow> bool" where
  "watch_ok s \<longleftrightarrow> (ss_watching s \<or> ss_sessionClosed s \<or> ss_moverDone s) \<and>
     (ss_moverDone s \<longleftrightarrow> ss_mover s = MoverDone) \<and> ss_writing s \<le> ss_copiers s \<and> ss_copiers s \<le> 2"

lemma session_step_watch_ok:
  "group_step opts policy s s' \<Longrightarrow> watch_ok s \<Longrightarrow> watch_ok s'"
  "outside_step s s' \<Longrightarrow> watch_ok s \<Longrightarrow> watch_ok s'"
  by (auto elim!: group_step.cases outside_step.cases simp: watch_ok_def)

lemma session_reachable_watch_ok: "(session_step opts policy)\<^sup>*\<^sup>* session_start s \<Longrightarrow> watch_ok s"
proof (induction rule: rtranclp_induct)
  case base
  show ?case by (simp add: watch_ok_def session_start_def)
qed (auto simp: session_step_def intro: session_step_watch_ok)

text \<open>
  Whom a session whose context is cancelled waits for when no goroutine can go on: the remote side,
  which has yet to end the closed session or a connection that the forwarder proxies, or, for ever, a
  reader: the follower has returned without opening the pipe, and a copier is writing into it.
\<close>

definition awaits_remote :: "session \<Rightarrow> bool" where
  "awaits_remote s \<longleftrightarrow> (ss_mover s = Running \<and> ss_sessionClosed s \<and> ss_writing s = 0) \<or>
     (ss_tunnel s = Draining \<and> 0 < ss_conns s)"

definition unread :: "session \<Rightarrow> bool" where
  "unread s \<longleftrightarrow> ss_mover s = Running \<and> 0 < ss_writing s \<and> fo_phase (ss_log s) = Returned \<and> \<not> ss_readerClosed s"

lemma group_enabledI:
  "follow_step opts (ss_log s) l \<Longrightarrow> pipe_gives s l \<Longrightarrow> \<exists>s'. group_step opts policy s s'"
  by (blast intro: follow)

lemma reader_enabled:
  assumes "fo_phase (ss_log s) = Streaming Reading HandlerDone c"
    and "ss_writing s > 0 \<or> ss_writerClosed s \<or> ss_buffered s \<or> ss_readerClosed s"
  shows "\<exists>s'. group_step opts policy s s'"
proof -
  let ?l = "ss_log s"
  let ?send = "?l\<lparr>fo_phase := Streaming (Sending []) HandlerDone c\<rparr>"
  let ?fail = "?l\<lparr>fo_phase := Streaming (TailDone StreamFailed) HandlerDone True\<rparr>"
  have send: "follow_step opts ?l ?send" "reads ?l ?send"
    using read_line [OF assms(1), of opts "[]"] assms(1) by (simp_all add: follow_step_def reads_def)
  have fail: "follow_step opts ?l ?fail" using read_failed [OF assms(1), of opts] by (simp add: follow_step_def)
  consider "ss_buffered s \<or> ss_writerClosed s \<and> \<not> ss_readerClosed s" | "ss_readerClosed s"
    | "\<not> ss_buffered s" "\<not> ss_readerClosed s" "0 < ss_writing s" using assms(2) by argo
  then show ?thesis
  proof cases
    case 1
    then show ?thesis using follow_reads [OF send] by blast
  next
    case 2
    then show ?thesis using group_enabledI [OF fail] assms(1) by (simp add: pipe_gives_def)
  next
    case 3
    then show ?thesis using pipe_read [OF assms(1)] by blast
  qed
qed

text \<open>Outside the one read that can block, a cancelled follower goes on.\<close>

lemma follower_enabled:
  assumes "fo_cancelled (ss_log s)" "fo_phase (ss_log s) \<noteq> Returned"
    and "\<And>c. fo_phase (ss_log s) \<noteq> Streaming Reading HandlerDone c"
  shows "\<exists>s'. group_step opts policy s s'"
proof (cases "fo_phase (ss_log s)")
  case Opening
  with group_enabledI [of opts s _ policy] opened [of "ss_log s"] show ?thesis
    by (fastforce simp: follow_step_def pipe_gives_def)
next
  case (Streaming t h c)
  show ?thesis
  proof (cases h)
    case Selecting
    with group_enabledI [of opts s _ policy] handler_cancelled [of "ss_log s" t c opts] assms(1) Streaming
    show ?thesis by (cases t) (fastforce simp: follow_step_def pipe_gives_def)+
  next
    case Finishing
    with group_enabledI [of opts s _ policy] handler_finished [of "ss_log s" t c opts] Streaming
    show ?thesis by (cases t) (fastforce simp: follow_step_def pipe_gives_def)+
  next
    case HandlerDone
    with group_enabledI [of opts s _ policy] join [of "ss_log s" _ c] send_cancelled [of "ss_log s" _ h c opts]
      assms Streaming
    show ?thesis by (cases t) (fastforce simp: follow_step_def pipe_gives_def)+
  qed
next
  case (Failed e)
  with group_enabledI [of opts s _ policy] give_up [of "ss_log s"] retry [of "ss_log s" e] show ?thesis
    by (cases "e = Canceled") (fastforce simp: follow_step_def pipe_gives_def)+
next
  case Top
  with group_enabledI [of opts s _ policy] top_cancelled [of "ss_log s"] assms(1) show ?thesis
    by (fastforce simp: follow_step_def pipe_gives_def)
next
  case Waiting
  with group_enabledI [of opts s _ policy] wait_cancelled [of "ss_log s"] assms(1) show ?thesis
    by (fastforce simp: follow_step_def pipe_gives_def)
qed (use assms in simp)

lemma mover_enabled:
  assumes "fo_cancelled (ss_log s)" "ss_mover s \<noteq> MoverDone" "ss_mover s \<noteq> Running"
  shows "\<exists>s'. group_step opts policy s s'"
proof (cases "ss_mover s")
  case (Completing r)
  then show ?thesis
    using complete_failed [of s r policy _ _ opts] complete_cancelled [of s r policy _ _ opts] assms(1)
    by (metis surj_pair)
qed (use assms in \<open>blast intro: close_listener close_writer close_done\<close>)+

lemma running_enabled:
  assumes "watch_ok s" "fo_cancelled (ss_log s)" "ss_mover s = Running" "\<not> ss_watching s"
  shows "(\<exists>s'. group_step opts policy s s') \<or> awaits_remote s \<or> unread s"
proof (cases "ss_writing s = 0")
  case True
  with assms show ?thesis by (auto simp: watch_ok_def awaits_remote_def)
next
  case False
  show ?thesis
  proof (cases "fo_phase (ss_log s) = Returned")
    case True
    then show ?thesis
      using write_fails [of s opts policy] assms False by (auto simp: unread_def watch_ok_def)
  next
    case returned: False
    then show ?thesis
      using False follower_enabled [OF assms(2) returned, of opts policy] reader_enabled [of s _ opts policy] by blast
  qed
qed

lemma session_enabled:
  assumes "watch_ok s" "session_ok policy s" "fo_cancelled (ss_log s)"
  shows "joined s \<or> (\<exists>s'. group_step opts policy s s') \<or> awaits_remote s \<or> unread s"
proof (cases "ss_watching s")
  case True
  then show ?thesis using assms(3) watch_cancelled by blast
next
  case watching: False
  show ?thesis
  proof (cases "ss_mover s = MoverDone")
    case False
    then show ?thesis
      using mover_enabled [OF assms(3)] running_enabled [OF assms(1,3) _ watching] by blast
  next
    case True
    with assms(2) have closed: "ss_listenerClosed s" "ss_writerClosed s" by (simp_all add: session_ok_def)
    show ?thesis
    proof (cases "fo_phase (ss_log s) = Returned")
      case False
      then show ?thesis
        using closed follower_enabled [OF assms(3) False, of opts policy] reader_enabled [of s _ opts policy] by blast
    next
      case returned: True
      then show ?thesis
        using True watching closed accept_closed [of s opts policy] drained [of s opts policy]
        by (cases "ss_tunnel s") (auto simp: joined_def awaits_remote_def)
    qed
  qed
qed

lemma session_runs_reach: "session_runs opts policy n s s' \<Longrightarrow> (session_step opts policy)\<^sup>*\<^sup>* s s'"
  by (induction rule: session_runs.induct) (auto simp: session_step_def intro: rtranclp.rtrancl_into_rtrancl)

lemma session_runs_cancelled:
  "session_runs opts policy n s s' \<Longrightarrow> fo_cancelled (ss_log s) \<Longrightarrow> fo_cancelled (ss_log s')"
  by (induction rule: session_runs.induct) (auto dest: session_step_cancelled)

lemma session_runs_rank:
  assumes "session_runs opts policy n s s'" "fo_cancelled (ss_log s)"
  shows "n + session_rank s' + 2 * ss_taken s \<le> session_rank s + 2 * ss_taken s'"
  using assms
proof (induction rule: session_runs.induct)
  case (session_runs_group n s s' s'')
  from group_step_rank [OF session_runs_group.hyps(2) session_runs_cancelled [OF session_runs_group.hyps(1)]]
  show ?case using session_runs_group.IH session_runs_group.prems by simp
next
  case (session_runs_outside n s s' s'')
  then show ?case using outside_step_rank [OF session_runs_outside.hyps(2)] by simp
qed simp

lemma session_rank_max: "watch_ok s \<Longrightarrow> session_rank s \<le> 17"
proof -
  assume "watch_ok s"
  moreover have "rank (fo_phase (ss_log s)) \<le> 8"
    by (cases "fo_phase (ss_log s)") (auto split: tail_state.splits handler_state.splits)
  moreover have "tunnel_rank (ss_tunnel s) \<le> 2" by (cases "ss_tunnel s") simp_all
  moreover have "mover_rank (ss_mover s) \<le> 4" by (cases "ss_mover s") simp_all
  ultimately show ?thesis by (simp add: session_rank_def watch_ok_def)
qed

text \<open>
  C17: once the group's context is cancelled, by the caller or by the first error of any goroutine,
  the session ends as far as the program can end it. Wherever the goroutines stand, at most seventeen
  steps of theirs are left and two for each chunk or line that the follower still takes, whatever the
  remote side does meanwhile. And until all have returned one of them can go on, but for three cases:
  the remote side has not yet ended the closed ssh session, or it holds open a connection that the
  forwarder proxies, or the follower returned before it ever opened the pipe and the session's output
  is blocked in it (\<open>unread_session_stalls\<close> below shows that this happens).
\<close>

theorem cancelled_session_ends:
  assumes "(session_step opts policy)\<^sup>*\<^sup>* session_start s"
    and "ss_err s \<noteq> None \<or> fo_cancelled (ss_log s)"
    and "session_runs opts policy n s s'"
  shows "n \<le> 17 + 2 * (ss_taken s' - ss_taken s) \<and>
    (joined s' \<or> (\<exists>s''. group_step opts policy s' s'') \<or>
     (ss_mover s' = Running \<and> ss_sessionClosed s' \<and> ss_writing s' = 0) \<or>
     (ss_tunnel s' = Draining \<and> 0 < ss_conns s') \<or>
     (ss_mover s' = Running \<and> 0 < ss_writing s' \<and> fo_phase (ss_log s') = Returned \<and> \<not> ss_readerClosed s'))"
proof -
  have c: "fo_cancelled (ss_log s)"
    using assms(2) session_reachable_ok [OF assms(1)] by (auto simp: session_ok_def)
  have reach: "(session_step opts policy)\<^sup>*\<^sup>* session_start s'"
    using assms(1) session_runs_reach [OF assms(3)] by (rule rtranclp_trans)
  have "n \<le> 17 + 2 * (ss_taken s' - ss_taken s)"
    using session_runs_rank [OF assms(3) c] session_rank_max [OF session_reachable_watch_ok [OF assms(1)]] by linarith
  then show ?thesis
    using session_enabled [OF session_reachable_watch_ok [OF reach] session_reachable_ok [OF reach]
        session_runs_cancelled [OF assms(3) c], of opts] unfolding awaits_remote_def unread_def by blast
qed

theorem cancelled_session_ends_witness:
  "\<exists>s'. group_step \<lparr>lo_ShowProgressBar = True, lo_ParseLine = None\<rparr> rsyncPolicy session_cancelled s'"
proof -
  have "fo_cancelled (ss_log session_cancelled)" "\<not> joined session_cancelled" "ss_tunnel session_cancelled = Accepting"
    "\<not> ss_sessionClosed session_cancelled" "ss_writing session_cancelled = 0"
    by (simp_all add: session_path_defs joined_def)
  with cancelled_session_ends [OF session_cancelled_reach _ session_runs_nil] show ?thesis by fastforce
qed

text \<open>
  The third case is real. The context is cancelled before the follower starts, so the follower returns
  at the top of its loop without opening the pipe; the mover prints something, and its copier blocks
  in the pipe's \<open>Write\<close>. The watcher closes the session, but \<open>Run\<close> waits for its copiers. From there no
  step of the program or of the remote side ever joins the group.
\<close>

lemma unread_step: "session_step opts policy s s' \<Longrightarrow> unread s \<Longrightarrow> unread s'"
  unfolding session_step_def
proof (elim disjE)
  assume "group_step opts policy s s'" "unread s"
  then show ?thesis
    by cases (auto simp: unread_def follow_step_def reads_def elim: loop_step.cases stream_step.cases)
next
  assume "outside_step s s'" "unread s"
  then show ?thesis by cases (auto simp: unread_def)
qed

lemma unread_star: "(session_step opts policy)\<^sup>*\<^sup>* s s' \<Longrightarrow> unread s \<Longrightarrow> unread s'"
  by (induction rule: rtranclp_induct) (use unread_step in blast)+

theorem unread_session_stalls:
  "\<exists>s. (session_step opts policy)\<^sup>*\<^sup>* session_start s \<and> fo_cancelled (ss_log s) \<and>
     (\<forall>s'. (session_step opts policy)\<^sup>*\<^sup>* s s' \<longrightarrow> ss_mover s' = Running \<and> \<not> joined s')"
proof -
  let ?l = "NewLogger\<lparr>fo_cancelled := True, fo_phase := Returned\<rparr>"
  let ?r = "session_cancelled\<lparr>ss_log := ?l\<rparr>"
  let ?w = "?r\<lparr>ss_tail := fst (lt_Write ''x'' (ss_tail ?r)), ss_output := ss_output ?r @ [''x''],
    ss_writing := Suc (ss_writing ?r)\<rparr>"
  have "group_step opts policy session_cancelled ?r"
    using follow [of opts session_cancelled ?l policy] top_cancelled [of "ss_log session_cancelled"]
    by (simp add: follow_step_def pipe_gives_def stream_ends_def session_path_defs)
  moreover have "outside_step ?r ?w" by (rule run_writes) (simp_all add: session_path_defs)
  ultimately have reach: "(session_step opts policy)\<^sup>*\<^sup>* session_start ?w"
    using session_cancelled_reach by (meson session_step_intros rtranclp.rtrancl_into_rtrancl)
  have "unread ?w" by (simp add: unread_def session_path_defs)
  then have "ss_mover s' = Running \<and> \<not> joined s'" if "(session_step opts policy)\<^sup>*\<^sup>* ?w s'" for s'
    using unread_star [OF that] by (simp add: unread_def joined_def)
  moreover have "fo_cancelled (ss_log ?w)" by simp
  ultimately show ?thesis using reach by blast
qed

section \<open>A session that hangs\<close>

lemma stranded_group:
  "group_step opts policy s s' \<Longrightarrow> ss_mover s = MoverDone \<Longrightarrow> stranded (ss_log s) \<Longrightarrow>
     ss_mover s' = MoverDone \<and> stranded (ss_log s')"
  by (auto elim!: group_step.cases dest: stranded_step)

lemma stranded_group_star:
  "(group_step opts policy)\<^sup>*\<^sup>* s s' \<Longrightarrow> ss_mover s = MoverDone \<Longrightarrow> stranded (ss_log s) \<Longrightarrow>
     ss_mover s' = MoverDone \<and> stranded (ss_log s')"
  by (induction rule: rtranclp_induct) (use stranded_group in blast)+

definition session_streaming :: session where
  "session_streaming = session_start\<lparr>ss_log := NewLogger\<lparr>fo_phase := Streaming Reading Selecting False\<rparr>\<rparr>"

definition session_marked :: session where
  "session_marked = session_streaming\<lparr>ss_log := NewLogger\<lparr>fo_phase := Streaming Reading Selecting False, fo_signal := True\<rparr>,
     ss_mover := ClosingListener None, ss_vanished := False, ss_result := Some RunOk\<rparr>"

definition session_left :: session where
  "session_left = session_marked\<lparr>ss_mover := MoverDone, ss_listenerClosed := True, ss_writerClosed := True, ss_moverDone := True\<rparr>"

lemmas session_hang_defs = session_streaming_def session_marked_def session_left_def session_start_def NewLogger_def

lemma session_marked_reach: "(session_step opts policy)\<^sup>*\<^sup>* session_start session_marked"
proof -
  let ?o = "session_start\<lparr>ss_log := NewLogger\<lparr>fo_phase := Opening\<rparr>\<rparr>"
  let ?r = "session_streaming\<lparr>ss_mover := Completing RunOk, ss_result := Some RunOk\<rparr>"
  have "group_step opts policy session_start ?o"
    using follow [of opts session_start "NewLogger\<lparr>fo_phase := Opening\<rparr>" policy] top_default [of NewLogger]
    by (simp add: follow_step_def pipe_gives_def stream_ends_def session_hang_defs)
  moreover have "group_step opts policy ?o session_streaming"
    using follow [of opts ?o "NewLogger\<lparr>fo_phase := Streaming Reading Selecting False\<rparr>" policy]
      opened [of "NewLogger\<lparr>fo_phase := Opening\<rparr>"]
    by (simp add: follow_step_def pipe_gives_def stream_ends_def session_streaming_def NewLogger_def session_start_def)
  moreover have "outside_step session_streaming ?r" by (rule run_ends) (simp_all add: session_hang_defs)
  moreover have "group_step opts policy ?r session_marked"
    using complete_signalled [of ?r RunOk policy None False opts]
    by (simp add: session_hang_defs signals_def completeMoverSession_def)
  ultimately show ?thesis
    by (meson session_step_intros converse_rtranclp_into_rtranclp rtranclp.rtrancl_refl)
qed

lemma session_left_reach: "(session_step opts policy)\<^sup>*\<^sup>* session_marked session_left"
proof -
  let ?s = "session_marked\<lparr>ss_mover := ClosingWriter None, ss_listenerClosed := True\<rparr>"
  let ?t = "?s\<lparr>ss_mover := ClosingDone None, ss_writerClosed := True\<rparr>"
  have "group_step opts policy session_marked ?s" by (rule close_listener) (simp add: session_hang_defs)
  moreover have "group_step opts policy ?s ?t" by (rule close_writer) simp
  moreover have "group_step opts policy ?t session_left"
    using close_done [of ?t None opts policy] by (simp add: session_hang_defs group_return_def)
  ultimately show ?thesis
    by (meson session_step_intros(1) converse_rtranclp_into_rtranclp rtranclp.rtrancl_refl)
qed

text \<open>
  A session whose mover exited with zero can still hang. The mover signals completion and closes the
  pipe; the follower's reader sees the end of the pipe before its handler has looked at the signal;
  the handler, offered both, takes the signal; the follower then retries the closed pipe, and nothing
  the program does on its own ever joins the group.
\<close>

theorem session_can_hang:
  "\<exists>s. (session_step opts policy)\<^sup>*\<^sup>* session_start s \<and> ss_result s = Some RunOk \<and> ss_mover s = MoverDone \<and>
     (\<forall>s'. (group_step opts policy)\<^sup>*\<^sup>* s s' \<longrightarrow> \<not> joined s')"
proof -
  let ?l = "ss_log session_left"
  let ?e = "?l\<lparr>fo_phase := Streaming (TailDone EndOfStream) Selecting True\<rparr>"
  let ?b = "if lo_ShowProgressBar opts \<and> \<not> br_Finished (fo_bar ?e) then finish_bar (fo_bar ?e) else fo_bar ?e"
  let ?h = "?e\<lparr>fo_phase := Streaming (TailDone EndOfStream) Finishing True, fo_signal := False, fo_bar := ?b\<rparr>"
  let ?s = "session_left\<lparr>ss_log := ?e, ss_log := ?h\<rparr>"
  have "stream_step opts ?l ?e" using read_end [of ?l Selecting False opts] by (simp add: session_hang_defs)
  then have "group_step opts policy session_left (session_left\<lparr>ss_log := ?e\<rparr>)"
    using follow [of opts session_left ?e policy]
    by (simp add: follow_step_def pipe_gives_def stream_ends_def session_hang_defs)
  moreover have "stream_step opts ?e ?h" by (rule handler_signal) (simp_all add: session_hang_defs)
  then have "group_step opts policy (session_left\<lparr>ss_log := ?e\<rparr>) ?s"
    using follow [of opts "session_left\<lparr>ss_log := ?e\<rparr>" ?h policy]
    by (simp add: follow_step_def pipe_gives_def stream_ends_def session_hang_defs)
  ultimately have reach: "(session_step opts policy)\<^sup>*\<^sup>* session_start ?s"
    using session_marked_reach session_left_reach
    by (meson session_step_intros(1) rtranclp.rtrancl_into_rtrancl rtranclp_trans)
  have m: "ss_mover ?s = MoverDone" "ss_result ?s = Some RunOk" by (simp_all add: session_hang_defs)
  have "stranded (ss_log ?s)" by (simp add: stranded_def session_hang_defs)
  with m(1) have "\<forall>s'. (group_step opts policy)\<^sup>*\<^sup>* ?s s' \<longrightarrow> \<not> joined s'"
    using stranded_group_star stranded_not_returned by (metis joined_def)
  with reach m show ?thesis by blast
qed

end
