(* ===== verification/LocalTransfer.thy ===== *)
theory LocalTransfer
  imports MoverSession
begin

text \<open>
  The rest of the local strategy's transfer: \<open>src/internal/strategy/local.go\<close> from \<open>runLocalMigration\<close>
  to \<open>runMoverOverSSH\<close>, and \<open>src/internal/k8s/portforward.go\<close>. Opening the ssh connection, the reverse
  tunnel and the session is a function that gives the requests in order; the group that keeps two
  port-forwards alive around it is a step relation.
\<close>

section \<open>Small helpers\<close>

definition hasHelmOverrides :: "Request \<Rightarrow> bool" where
  "hasHelmOverrides req \<longleftrightarrow> rq_HelmValues req \<noteq> [] \<or> rq_HelmValuesFiles req \<noteq> [] \<or>
     rq_HelmFileValues req \<noteq> [] \<or> rq_HelmStringValues req \<noteq> []"

definition sshdLabelSelector :: "string \<Rightarrow> string" where
  "sshdLabelSelector release =
     ''app.kubernetes.io/component=sshd,app.kubernetes.io/instance='' @ release"

definition portForwardTimeout :: int where "portForwardTimeout = 30 * 10 ^ 9"

text \<open>
  \<open>proxyConn\<close>: the closes it makes, in order, when the dial fails, and otherwise when the copy towards
  the destination ends first or second. Each copy closes the end it wrote to when it ends, which ends
  the other copy; the deferred closes follow.
\<close>

datatype proxy_end = ProxySrc | ProxyDst

definition proxyConn :: "string option \<Rightarrow> bool \<Rightarrow> proxy_end list" where
  "proxyConn dialErr dstCopyFirst =
     (case dialErr of Some _ \<Rightarrow> [ProxySrc]
      | None \<Rightarrow> (if dstCopyFirst then [ProxyDst, ProxySrc] else [ProxySrc, ProxyDst]) @ [ProxyDst, ProxySrc])"

lemma proxyConn_closes: "ProxySrc \<in> set (proxyConn e b) \<and> (e = None \<longrightarrow> ProxyDst \<in> set (proxyConn e b))"
  by (simp add: proxyConn_def split: option.split)

section \<open>The connection, the tunnel and the session\<close>

datatype ssh_resource = SshClient | TunnelListener | SshSession

datatype ssh_event =
    Dial string string
  | Listen string
  | NewSession
  | RunMover moverCommand int
  | Close ssh_resource

text \<open>
  What the ssh package answers, \<open>None\<close> when the call succeeds, and the state in which the group of the
  session is joined.
\<close>

record ssh_env =
  se_ParsePrivateKey :: "string \<Rightarrow> string option"
  se_Dial :: "string \<Rightarrow> string \<Rightarrow> string option"
  se_Listen :: "string \<Rightarrow> string option"
  se_NewSession :: "string option"
  se_Joined :: "moverCommand \<Rightarrow> session"

datatype transfer_error =
    KeyUnparsable string
  | SourceUnreachable string
  | TunnelRefused int string
  | MoverUnbuildable mover_error
  | SessionRefused string
  | SessionEnded session_report
  | WaitTimeout side
  | ForwardFailed side string

definition localhost :: "int \<Rightarrow> string" where
  "localhost port = ''localhost:'' @ Itoa port"

text \<open>The closes made inside \<open>runMoverSession\<close>.\<close>

definition session_closes :: "session \<Rightarrow> ssh_event list" where
  "session_closes s = (if ss_sessionClosed s then [Close SshSession] else []) @
     (if ss_listenerClosed s then [Close TunnelListener] else [])"

definition session_failure :: "session_report \<Rightarrow> transfer_error option" where
  "session_failure r = (case r of Transferred _ _ \<Rightarrow> None | _ \<Rightarrow> Some (SessionEnded r))"

definition runMoverOverSSH ::
  "ssh_env \<Rightarrow> Request \<Rightarrow> string \<Rightarrow> int \<Rightarrow> int \<Rightarrow> transfer_error option \<times> ssh_event list" where
  "runMoverOverSSH env req privateKey srcFwdPort destFwdPort =
     (case se_ParsePrivateKey env privateKey of Some e \<Rightarrow> (Some (KeyUnparsable e), [])
      | None \<Rightarrow>
      let dial = Dial (localhost srcFwdPort) (sshUser req) in
      case se_Dial env (localhost srcFwdPort) (sshUser req) of Some e \<Rightarrow> (Some (SourceUnreachable e), [])
      | None \<Rightarrow>
      let tunnelPort = rq_SSHReverseTunnelPort req; listen = Listen (localhost tunnelPort) in
      case se_Listen env (localhost tunnelPort) of
        Some e \<Rightarrow> (Some (TunnelRefused tunnelPort e), [dial, Close SshClient])
      | None \<Rightarrow>
      case buildMoverCmdSSHSession req of
        Inl e \<Rightarrow> (Some (MoverUnbuildable e), [dial, listen, Close TunnelListener, Close SshClient])
      | Inr mover \<Rightarrow>
      case se_NewSession env of
        Some e \<Rightarrow> (Some (SessionRefused e), [dial, listen, Close TunnelListener, Close SshClient])
      | None \<Rightarrow>
      let s = se_Joined env mover in
      (session_failure (runMoverSession (mc_policy mover) (rq_ShowProgressBar req) s),
       [dial, listen, NewSession, RunMover mover destFwdPort] @ session_closes s @
         [Close SshSession, Close SshClient]))"

fun opens :: "ssh_event \<Rightarrow> ssh_resource option" where
  "opens (Dial _ _) = Some SshClient"
| "opens (Listen _) = Some TunnelListener"
| "opens NewSession = Some SshSession"
| "opens _ = None"

fun all_released :: "ssh_event list \<Rightarrow> bool" where
  "all_released [] = True"
| "all_released (e # es) =
     ((case opens e of None \<Rightarrow> True | Some r \<Rightarrow> Close r \<in> set es) \<and> all_released es)"

lemma all_released_closes: "(\<forall>e \<in> set es. opens e = None) \<Longrightarrow> all_released es"
  by (induction es) auto

text \<open>
  C18: whatever fails, the ssh connection, the reverse tunnel and the session that were opened are
  closed, the connection last. A transfer without error has run the mover built from the request, on
  a session over the source's forwarded port with the tunnel on the configured port, and the mover
  ended with zero or with a status its policy tolerates.
\<close>

theorem runMoverOverSSH_releases:
  assumes "\<And>m. (session_step (sessionProgressLogger req) (mc_policy m))\<^sup>*\<^sup>* session_start (se_Joined env m)"
    and "\<And>m. joined (se_Joined env m)"
    and "runMoverOverSSH env req key src dest = (err, tr)"
  shows "all_released tr \<and> (tr \<noteq> [] \<longrightarrow> last tr = Close SshClient) \<and>
    (err = None \<longrightarrow> (\<exists>m r. buildMoverCmdSSHSession req = Inr m \<and>
       take 4 tr = [Dial (''localhost:'' @ Itoa src) (sshUser req),
                    Listen (''localhost:'' @ Itoa (rq_SSHReverseTunnelPort req)), NewSession, RunMover m dest] \<and>
       ss_result (se_Joined env m) = Some r \<and> (r = RunOk \<or> isToleratedExit (mc_policy m) r)))"
proof -
  have closed: "ss_listenerClosed (se_Joined env m)" for m
    using joined_released [OF session_reachable_ok [OF assms(1)] assms(2)] by blast
  have ended: "\<exists>r. ss_result (se_Joined env m) = Some r \<and> (r = RunOk \<or> isToleratedExit (mc_policy m) r)"
    if "session_failure (runMoverSession (mc_policy m) made (se_Joined env m)) = None" for m made
    using that runMoverSession_cases [OF session_reachable_ok [OF assms(1)] assms(2), of m made]
    by (auto simp: session_failure_def signals_def split: session_report.splits)
  show ?thesis
    using assms(3) closed ended
    by (auto simp: runMoverOverSSH_def session_closes_def localhost_def all_released_closes Let_def
        split: option.splits sum.splits if_splits)
qed

definition ssh_example :: ssh_env where
  "ssh_example = \<lparr>se_ParsePrivateKey = (\<lambda>_. None), se_Dial = (\<lambda>_ _. None), se_Listen = (\<lambda>_. None), se_NewSession = None,
     se_Joined = (\<lambda>_. session_joined)\<rparr>"

lemma request_example_builds: "\<exists>m. buildMoverCmdSSHSession request_example = Inr m"
proof -
  have "rq_Mover request_example = MoverTar" "rq_RsyncExtraArgs request_example = []"
    "\<not> rq_NoCompress request_example" "\<not> rq_NonRoot request_example"
    by (simp_all add: request_example_def MoverTar_def Let_def)
  then show ?thesis
    by (simp add: buildMoverCmdSSHSession_def moverKind_def checkTarFlags_def resolve_example wrap_tar_def
        transfer_Build_def transfer_check_def TransferCmd_zero_def tarCompression_def transfer_compression_def
        transfer_level_def compressProgram_def checkLevel_def minLevel_def maxZstdLevel_def TransportLevel_def
        CompressionNone_def CompressionZstd_def CheckSingleLine_eval sshUser_def rootSSHUser_def MoverTar_def Let_def)
qed

theorem runMoverOverSSH_releases_witness:
  "\<exists>m tr. runMoverOverSSH ssh_example request_example ''key'' 1 2 = (None, tr) \<and> all_released tr \<and>
     buildMoverCmdSSHSession request_example = Inr m \<and> RunMover m 2 \<in> set tr"
proof -
  obtain m where m: "buildMoverCmdSSHSession request_example = Inr m" using request_example_builds by blast
  have f: "session_failure (runMoverSession p made session_joined) = None" for p made
    by (simp add: session_failure_def runMoverSession_def finishMoverSession_def session_path_defs)
  obtain tr where tr: "runMoverOverSSH ssh_example request_example ''key'' 1 2 = (None, tr)"
    using m f by (simp add: runMoverOverSSH_def ssh_example_def Let_def)
  have "all_released tr \<and> (\<exists>m. buildMoverCmdSSHSession request_example = Inr m \<and> RunMover m 2 \<in> set (take 4 tr))"
    using runMoverOverSSH_releases [OF _ _ tr] session_joined_reachable session_joined_joined
    by (auto simp: ssh_example_def)
  with tr show ?thesis by (meson in_set_takeD)
qed

section \<open>The group around the mover\<close>

text \<open>
  One \<open>k8s.PortForward\<close>: its notifier and its forwarder, the first error of the two, and whether it has
  returned. The forwarder blocks until it is stopped or loses the pod.
\<close>

record forward =
  fw_ready :: bool
  fw_notifying :: bool
  fw_forwarding :: bool
  fw_err :: "string option"
  fw_returned :: bool

datatype wait_pc = WaitSource | WaitDest int | Moving int int | Ended

text \<open>
  The state of \<open>runLocalMigration\<close>: the two forwards and their channels of one element, the goroutine
  of \<open>waitAndRunMover\<close>, the cancellation of the group's context and of \<open>fwdCtx\<close>, and the error of the
  group. Two fields are history: the ports announced, and the ports and the result of the mover.
\<close>

record transfer =
  tf_forward :: "side \<Rightarrow> forward"
  tf_ch :: "side \<Rightarrow> int option"
  tf_pc :: wait_pc
  tf_cancelled :: bool
  tf_fwdCancelled :: bool
  tf_err :: "transfer_error option"
  tf_announced :: "side \<Rightarrow> int option"
  tf_moved :: "(int \<times> int \<times> transfer_error option) option"

definition transfer_start :: transfer where
  "transfer_start =
     \<lparr>tf_forward = (\<lambda>_. \<lparr>fw_ready = False, fw_notifying = True, fw_forwarding = True, fw_err = None, fw_returned = False\<rparr>),
      tf_ch = (\<lambda>_. None), tf_pc = WaitSource, tf_cancelled = False, tf_fwdCancelled = False, tf_err = None,
      tf_announced = (\<lambda>_. None), tf_moved = None\<rparr>"

definition on_forward :: "side \<Rightarrow> (forward \<Rightarrow> forward) \<Rightarrow> transfer \<Rightarrow> transfer" where
  "on_forward d f s = s\<lparr>tf_forward := (tf_forward s)(d := f (tf_forward s d))\<rparr>"

definition transfer_return :: "transfer_error option \<Rightarrow> transfer \<Rightarrow> transfer" where
  "transfer_return e s =
     (case e of None \<Rightarrow> s
      | Some _ \<Rightarrow> s\<lparr>tf_err := (if tf_err s = None then e else tf_err s), tf_cancelled := True\<rparr>)"

text \<open>The context of a forward's own group: cancelled by its error, by \<open>fwdCancel\<close> or by the outer group.\<close>

definition stopped :: "side \<Rightarrow> transfer \<Rightarrow> bool" where
  "stopped d s \<longleftrightarrow> fw_err (tf_forward s d) \<noteq> None \<or> tf_cancelled s \<or> tf_fwdCancelled s"

definition forward_fails :: "string \<Rightarrow> forward \<Rightarrow> forward" where
  "forward_fails e f = f\<lparr>fw_err := (case fw_err f of None \<Rightarrow> Some e | Some e' \<Rightarrow> Some e')\<rparr>"

inductive forward_step :: "side \<Rightarrow> transfer \<Rightarrow> transfer \<Rightarrow> bool" for d where
  notify: "fw_notifying (tf_forward s d) \<Longrightarrow> fw_ready (tf_forward s d) \<Longrightarrow>
    forward_step d s (on_forward d (fw_notifying_update (\<lambda>_. False))
      (s\<lparr>tf_ch := (tf_ch s)(d \<mapsto> port), tf_announced := (tf_announced s)(d \<mapsto> port)\<rparr>))"
| notify_failed: "fw_notifying (tf_forward s d) \<Longrightarrow> fw_ready (tf_forward s d) \<Longrightarrow>
    forward_step d s (on_forward d (forward_fails e \<circ> fw_notifying_update (\<lambda>_. False)) s)"
| notify_stopped: "fw_notifying (tf_forward s d) \<Longrightarrow> stopped d s \<Longrightarrow>
    forward_step d s (on_forward d (fw_notifying_update (\<lambda>_. False)) s)"
| forward_stopped: "fw_forwarding (tf_forward s d) \<Longrightarrow> stopped d s \<Longrightarrow>
    forward_step d s (on_forward d (fw_forwarding_update (\<lambda>_. False)) s)"
| forward_returns: "\<not> fw_notifying (tf_forward s d) \<Longrightarrow> \<not> fw_forwarding (tf_forward s d) \<Longrightarrow>
    \<not> fw_returned (tf_forward s d) \<Longrightarrow>
    forward_step d s (transfer_return (map_option (ForwardFailed d) (fw_err (tf_forward s d)))
      (on_forward d (fw_returned_update (\<lambda>_. True)) s))"

text \<open>The goroutine of \<open>waitAndRunMover\<close>, which calls \<open>fwdCancel\<close> however it ends.\<close>

definition wait_ends :: "transfer_error option \<Rightarrow> transfer \<Rightarrow> transfer" where
  "wait_ends e s = transfer_return e (s\<lparr>tf_pc := Ended, tf_fwdCancelled := True\<rparr>)"

inductive wait_step :: "transfer \<Rightarrow> transfer \<Rightarrow> bool" where
  take_source: "tf_pc s = WaitSource \<Longrightarrow> tf_ch s SourceSide = Some srcFwdPort \<Longrightarrow>
    wait_step s (s\<lparr>tf_pc := WaitDest srcFwdPort, tf_ch := (tf_ch s)(SourceSide := None)\<rparr>)"
| take_dest: "tf_pc s = WaitDest srcFwdPort \<Longrightarrow> tf_ch s DestSide = Some destFwdPort \<Longrightarrow>
    wait_step s (s\<lparr>tf_pc := Moving srcFwdPort destFwdPort, tf_ch := (tf_ch s)(DestSide := None)\<rparr>)"
| source_cancelled: "tf_pc s = WaitSource \<Longrightarrow> tf_cancelled s \<Longrightarrow>
    wait_step s (wait_ends (Some (WaitTimeout SourceSide)) s)"
| dest_cancelled: "tf_pc s = WaitDest srcFwdPort \<Longrightarrow> tf_cancelled s \<Longrightarrow>
    wait_step s (wait_ends (Some (WaitTimeout DestSide)) s)"

definition runLocalMigration :: "transfer \<Rightarrow> transfer \<Rightarrow> bool" where
  "runLocalMigration s s' \<longleftrightarrow> wait_step s s' \<or> (\<exists>d. forward_step d s s')"

text \<open>
  The outside: a forward is refused at once, becomes ready or loses its pod, the timer of
  \<open>waitAndRunMover\<close> fires, the caller cancels, and \<open>runMoverOverSSH\<close> returns.
\<close>

inductive transfer_outside :: "transfer \<Rightarrow> transfer \<Rightarrow> bool" where
  refused: "fw_notifying (tf_forward s d) \<Longrightarrow> fw_forwarding (tf_forward s d) \<Longrightarrow> \<not> fw_ready (tf_forward s d) \<Longrightarrow>
    transfer_outside s (on_forward d (forward_fails e \<circ> fw_notifying_update (\<lambda>_. False) \<circ> fw_forwarding_update (\<lambda>_. False)) s)"
| ready: "fw_forwarding (tf_forward s d) \<Longrightarrow> transfer_outside s (on_forward d (fw_ready_update (\<lambda>_. True)) s)"
| lost: "fw_forwarding (tf_forward s d) \<Longrightarrow>
    transfer_outside s (on_forward d (forward_fails e \<circ> fw_forwarding_update (\<lambda>_. False)) s)"
| source_timeout: "tf_pc s = WaitSource \<Longrightarrow> transfer_outside s (wait_ends (Some (WaitTimeout SourceSide)) s)"
| dest_timeout: "tf_pc s = WaitDest srcFwdPort \<Longrightarrow> transfer_outside s (wait_ends (Some (WaitTimeout DestSide)) s)"
| transfer_cancelled: "transfer_outside s (s\<lparr>tf_cancelled := True\<rparr>)"
| mover_returns: "tf_pc s = Moving srcFwdPort destFwdPort \<Longrightarrow>
    transfer_outside s (wait_ends r (s\<lparr>tf_moved := Some (srcFwdPort, destFwdPort, r)\<rparr>))"

definition transfer_joined :: "transfer \<Rightarrow> bool" where
  "transfer_joined s \<longleftrightarrow> tf_pc s = Ended \<and> fw_returned (tf_forward s SourceSide) \<and> fw_returned (tf_forward s DestSide)"

text \<open>A run, with the steps the program itself takes.\<close>

inductive transfer_runs :: "nat \<Rightarrow> transfer \<Rightarrow> bool" where
  transfer_runs_start: "transfer_runs 0 transfer_start"
| transfer_runs_step: "transfer_runs n s \<Longrightarrow> runLocalMigration s s' \<Longrightarrow> transfer_runs (Suc n) s'"
| transfer_runs_outside: "transfer_runs n s \<Longrightarrow> transfer_outside s s' \<Longrightarrow> transfer_runs n s'"

subsection \<open>Invariant\<close>

lemma transfer_return_frame [simp]:
  "tf_forward (transfer_return e s) = tf_forward s" "tf_pc (transfer_return e s) = tf_pc s"
  "tf_ch (transfer_return e s) = tf_ch s" "tf_announced (transfer_return e s) = tf_announced s"
  "tf_moved (transfer_return e s) = tf_moved s" "tf_fwdCancelled (transfer_return e s) = tf_fwdCancelled s"
  by (simp_all add: transfer_return_def split: option.split)

lemma transfer_return_err: "tf_err (transfer_return e s) = (if tf_err s = None then e else tf_err s)"
  by (simp add: transfer_return_def split: option.split)

lemma on_forward_frame [simp]:
  "tf_ch (on_forward d f s) = tf_ch s" "tf_pc (on_forward d f s) = tf_pc s"
  "tf_announced (on_forward d f s) = tf_announced s" "tf_moved (on_forward d f s) = tf_moved s"
  "tf_err (on_forward d f s) = tf_err s" "tf_cancelled (on_forward d f s) = tf_cancelled s"
  "tf_fwdCancelled (on_forward d f s) = tf_fwdCancelled s"
  "tf_forward (on_forward d f s) c = (if c = d then f (tf_forward s d) else tf_forward s c)"
  by (simp_all add: on_forward_def)

lemma wait_ends_frame [simp]:
  "tf_forward (wait_ends e s) = tf_forward s" "tf_pc (wait_ends e s) = Ended"
  "tf_ch (wait_ends e s) = tf_ch s" "tf_announced (wait_ends e s) = tf_announced s"
  "tf_moved (wait_ends e s) = tf_moved s" "tf_fwdCancelled (wait_ends e s)"
  "tf_err (wait_ends e s) = (if tf_err s = None then e else tf_err s)"
  by (simp_all add: wait_ends_def transfer_return_err)

lemma forward_fails_frame [simp]:
  "fw_notifying (forward_fails e f) = fw_notifying f" "fw_forwarding (forward_fails e f) = fw_forwarding f"
  "fw_returned (forward_fails e f) = fw_returned f" "fw_ready (forward_fails e f) = fw_ready f"
  by (simp_all add: forward_fails_def)

fun ports_ok :: "transfer \<Rightarrow> wait_pc \<Rightarrow> bool" where
  "ports_ok s WaitSource = True"
| "ports_ok s (WaitDest a) = (tf_announced s SourceSide = Some a)"
| "ports_ok s (Moving a b) = (tf_announced s SourceSide = Some a \<and> tf_announced s DestSide = Some b)"
| "ports_ok s Ended = (tf_fwdCancelled s \<and> (case tf_moved s of None \<Rightarrow> tf_err s \<noteq> None
     | Some (a, b, r) \<Rightarrow> tf_announced s SourceSide = Some a \<and> tf_announced s DestSide = Some b \<and>
         (tf_err s = None \<longrightarrow> r = None)))"

definition transfer_ok :: "transfer \<Rightarrow> bool" where
  "transfer_ok s \<longleftrightarrow> ports_ok s (tf_pc s) \<and> (tf_pc s \<noteq> Ended \<longrightarrow> tf_moved s = None) \<and>
     (\<forall>d p. tf_ch s d = Some p \<longrightarrow> tf_announced s d = Some p) \<and>
     (\<forall>d. fw_notifying (tf_forward s d) \<longrightarrow> tf_announced s d = None)"

lemma ports_ok_cong:
  "tf_announced s' = tf_announced s \<Longrightarrow> tf_moved s' = tf_moved s \<Longrightarrow> tf_fwdCancelled s' = tf_fwdCancelled s \<Longrightarrow>
     (tf_err s' = tf_err s \<or> tf_err s = None) \<Longrightarrow> ports_ok s pc \<Longrightarrow> ports_ok s' pc"
  by (cases pc) (auto split: option.splits)

lemma ports_ok_announce:
  assumes "tf_announced s d = None" "ports_ok s pc"
  shows "ports_ok (on_forward d f (s\<lparr>tf_ch := c, tf_announced := (tf_announced s)(d \<mapsto> p)\<rparr>)) pc"
  using assms by (cases pc) (auto split: option.splits)

lemma forward_step_ok: "forward_step d s s' \<Longrightarrow> transfer_ok s \<Longrightarrow> transfer_ok s'"
proof (induction rule: forward_step.induct)
  case (notify s port)
  then show ?case by (auto simp: transfer_ok_def ports_ok_announce)
next
  case (forward_returns s)
  then show ?case
    by (auto simp: transfer_ok_def transfer_return_err intro: ports_ok_cong [of _ s])
qed (auto simp: transfer_ok_def intro: ports_ok_cong)

lemma wait_step_ok: "wait_step s s' \<Longrightarrow> transfer_ok s \<Longrightarrow> transfer_ok s'"
  by (induction rule: wait_step.induct) (auto simp: transfer_ok_def)

lemma transfer_outside_ok: "transfer_outside s s' \<Longrightarrow> transfer_ok s \<Longrightarrow> transfer_ok s'"
proof (induction rule: transfer_outside.induct)
  case (transfer_cancelled s)
  then show ?case by (auto simp: transfer_ok_def intro: ports_ok_cong)
qed (auto simp: transfer_ok_def intro: ports_ok_cong)

lemma transfer_runs_ok: "transfer_runs n s \<Longrightarrow> transfer_ok s"
  by (induction rule: transfer_runs.induct)
    (auto simp: runLocalMigration_def intro: forward_step_ok wait_step_ok transfer_outside_ok,
     simp add: transfer_ok_def transfer_start_def)

subsection \<open>Every step is one fewer\<close>

fun wait_rank :: "wait_pc \<Rightarrow> nat" where
  "wait_rank WaitSource = 3"
| "wait_rank (WaitDest _) = 2"
| "wait_rank (Moving _ _) = 1"
| "wait_rank Ended = 0"

definition forward_rank :: "forward \<Rightarrow> nat" where
  "forward_rank f = of_bool (fw_notifying f) + of_bool (fw_forwarding f) + of_bool (\<not> fw_returned f)"

definition transfer_rank :: "transfer \<Rightarrow> nat" where
  "transfer_rank s = wait_rank (tf_pc s) + forward_rank (tf_forward s SourceSide) + forward_rank (tf_forward s DestSide)"

lemma runLocalMigration_rank: "runLocalMigration s s' \<Longrightarrow> transfer_rank s' < transfer_rank s"
  unfolding runLocalMigration_def
proof (elim disjE exE)
  assume "wait_step s s'"
  then show ?thesis by cases (simp_all add: transfer_rank_def)
next
  fix d assume "forward_step d s s'"
  then show ?thesis by cases (cases d; simp add: transfer_rank_def forward_rank_def)+
qed

lemma transfer_outside_rank: "transfer_outside s s' \<Longrightarrow> transfer_rank s' \<le> transfer_rank s"
proof (induction rule: transfer_outside.induct)
  case (refused s d e)
  then show ?case by (cases d) (simp_all add: transfer_rank_def forward_rank_def)
next
  case (ready s d)
  then show ?case by (cases d) (simp_all add: transfer_rank_def forward_rank_def)
next
  case (lost s d e)
  then show ?case by (cases d) (simp_all add: transfer_rank_def forward_rank_def)
qed (simp_all add: transfer_rank_def)

lemma transfer_runs_rank: "transfer_runs n s \<Longrightarrow> n + transfer_rank s \<le> 9"
  by (induction rule: transfer_runs.induct)
    (use runLocalMigration_rank transfer_outside_rank in \<open>fastforce simp: transfer_rank_def forward_rank_def transfer_start_def\<close>)+

lemma forward_enabled:
  assumes "stopped d s" "\<not> fw_returned (tf_forward s d)"
  shows "\<exists>s'. forward_step d s s'"
  using assms notify_stopped [of s d] forward_stopped [of s d] forward_returns [of s d] by blast

lemma transfer_enabled:
  assumes "transfer_ok s"
  shows "transfer_joined s \<or> (\<exists>s'. runLocalMigration s s') \<or>
    (\<exists>a b. tf_pc s = Moving a b) \<or> (tf_pc s \<noteq> Ended \<and> \<not> tf_cancelled s)"
proof (cases "tf_pc s")
  case Ended
  with assms have "stopped d s" for d by (simp add: transfer_ok_def stopped_def)
  then show ?thesis
    unfolding transfer_joined_def runLocalMigration_def using Ended forward_enabled by metis
qed (auto simp: runLocalMigration_def intro: source_cancelled dest_cancelled)

text \<open>
  C19: the group around the mover, whatever the forwards and the mover do. It takes at most nine steps
  of its own. The mover is only given the ports that the two forwards announced, the source's first.
  When the group is joined without error, the mover ran over those ports and returned no error. And
  the group never waits on itself: until it is joined one of its goroutines can go on, or the mover is
  running, or a forward that may still come is awaited under the timer.
\<close>

theorem local_transfer_sound:
  assumes "transfer_runs n s"
  shows "n \<le> 9 \<and>
    (\<forall>a b. tf_pc s = Moving a b \<longrightarrow> tf_announced s SourceSide = Some a \<and> tf_announced s DestSide = Some b) \<and>
    (transfer_joined s \<and> tf_err s = None \<longrightarrow>
       (\<exists>a b. tf_moved s = Some (a, b, None) \<and> tf_announced s SourceSide = Some a \<and> tf_announced s DestSide = Some b)) \<and>
    (transfer_joined s \<or> (\<exists>s'. runLocalMigration s s') \<or>
       (\<exists>a b. tf_pc s = Moving a b) \<or> (tf_pc s \<noteq> Ended \<and> \<not> tf_cancelled s))"
proof (intro conjI)
  note ok = transfer_runs_ok [OF assms]
  show "n \<le> 9" using transfer_runs_rank [OF assms] by simp
  show "\<forall>a b. tf_pc s = Moving a b \<longrightarrow> tf_announced s SourceSide = Some a \<and> tf_announced s DestSide = Some b"
    using ok by (auto simp: transfer_ok_def)
  show "transfer_joined s \<and> tf_err s = None \<longrightarrow>
      (\<exists>a b. tf_moved s = Some (a, b, None) \<and> tf_announced s SourceSide = Some a \<and> tf_announced s DestSide = Some b)"
    using ok by (auto simp: transfer_ok_def transfer_joined_def split: option.splits)
qed (rule transfer_enabled [OF transfer_runs_ok [OF assms]])

text \<open>A run in which both forwards announce a port and the mover is given them.\<close>

definition transfer_moving :: transfer where
  "transfer_moving = transfer_start\<lparr>
     tf_forward := (\<lambda>_. \<lparr>fw_ready = True, fw_notifying = False, fw_forwarding = True, fw_err = None, fw_returned = False\<rparr>),
     tf_pc := Moving 1 2, tf_announced := (\<lambda>d. Some (case d of SourceSide \<Rightarrow> 1 | DestSide \<Rightarrow> 2))\<rparr>"

lemma transfer_moving_runs: "transfer_runs 4 transfer_moving"
proof -
  let ?up = "\<lambda>d. on_forward d (fw_ready_update (\<lambda>_. True))"
  let ?tell = "\<lambda>d port s. on_forward d (fw_notifying_update (\<lambda>_. False))
      (s\<lparr>tf_ch := (tf_ch s)(d \<mapsto> port), tf_announced := (tf_announced s)(d \<mapsto> port)\<rparr>)"
  let ?a = "?up SourceSide transfer_start" let ?b = "?tell SourceSide 1 ?a"
  let ?c = "?up DestSide ?b" let ?d = "?tell DestSide 2 ?c"
  let ?e = "?d\<lparr>tf_pc := WaitDest 1, tf_ch := (tf_ch ?d)(SourceSide := None)\<rparr>"
  let ?f = "?e\<lparr>tf_pc := Moving 1 2, tf_ch := (tf_ch ?e)(DestSide := None)\<rparr>"
  have "transfer_runs 0 ?a"
    by (rule transfer_runs_outside [OF transfer_runs_start ready]) (simp add: transfer_start_def)
  moreover have "forward_step SourceSide ?a ?b" by (rule notify) (simp_all add: transfer_start_def)
  ultimately have "transfer_runs 1 ?b"
    using transfer_runs_step [of 0 ?a ?b] by (auto simp: runLocalMigration_def)
  then have "transfer_runs 1 ?c" by (rule transfer_runs_outside) (rule ready, simp add: transfer_start_def)
  moreover have "forward_step DestSide ?c ?d" by (rule notify) (simp_all add: transfer_start_def)
  ultimately have "transfer_runs 2 ?d"
    using transfer_runs_step [of 1 ?c ?d] by (auto simp: runLocalMigration_def numeral_2_eq_2)
  moreover have "wait_step ?d ?e" by (rule take_source) (simp_all add: transfer_start_def)
  ultimately have "transfer_runs 3 ?e"
    using transfer_runs_step [of 2 ?d ?e] by (auto simp: runLocalMigration_def numeral_3_eq_3 numeral_2_eq_2)
  moreover have "wait_step ?e ?f" by (rule take_dest) (simp_all add: transfer_start_def)
  ultimately have "transfer_runs 4 ?f"
    using transfer_runs_step [of 3 ?e ?f] by (auto simp: runLocalMigration_def eval_nat_numeral)
  moreover have "?f = transfer_moving"
    by (auto simp: transfer_moving_def transfer_start_def on_forward_def fun_eq_iff side.split intro: side.exhaust)
  ultimately show ?thesis by simp
qed

theorem local_transfer_sound_witness:
  "(\<exists>s'. runLocalMigration (transfer_start\<lparr>tf_cancelled := True\<rparr>) s') \<and>
   tf_pc transfer_moving = Moving 1 2 \<and> tf_announced transfer_moving SourceSide = Some 1 \<and>
   tf_announced transfer_moving DestSide = Some 2"
proof
  have "transfer_runs 0 (transfer_start\<lparr>tf_cancelled := True\<rparr>)"
    by (rule transfer_runs_outside [OF transfer_runs_start transfer_cancelled])
  with local_transfer_sound [of 0 "transfer_start\<lparr>tf_cancelled := True\<rparr>"]
  show "\<exists>s'. runLocalMigration (transfer_start\<lparr>tf_cancelled := True\<rparr>) s'"
    by (auto simp: transfer_joined_def transfer_start_def)
  have "tf_pc transfer_moving = Moving 1 2" by (simp add: transfer_moving_def)
  with local_transfer_sound [OF transfer_moving_runs]
  show "tf_pc transfer_moving = Moving 1 2 \<and> tf_announced transfer_moving SourceSide = Some 1 \<and>
    tf_announced transfer_moving DestSide = Some 2" by blast
qed

end
