(* ===== verification/Cleanup.thy ===== *)
theory Cleanup
  imports SnapshotRuns K8sJobs Opid
begin

text \<open>
  The cleanup command (\<open>src/internal/app/cleanup.go\<close>): which releases it takes for an operation's, the
  check that none of their jobs runs, and the removal of releases and of what snapshot-backed runs
  left. A run is a function on the trace of the requests so far; every answer depends on that trace.
  A listed release whose accessor cannot be made is \<open>None\<close>.
\<close>

section \<open>The command\<close>

type_synonym listed_release = "(string \<times> string) option"

datatype cleanup_event =
  InitHelm string
| ListReleases string string bool
| ListReleaseJobs string string
| Uninstall string string
| NewSnapshotClient
| Leftovers string string "bevent list"

datatype uninstall_answer = Uninstalled | ReleaseMissing | UninstallError string

record cleanup_env =
  ce_InitHelm :: "cleanup_event list \<Rightarrow> string \<Rightarrow> string option"
  ce_List :: "cleanup_event list \<Rightarrow> string \<Rightarrow> bool \<Rightarrow> string \<Rightarrow> (string, listed_release list) result"
  ce_Jobs :: "cleanup_event list \<Rightarrow> string \<Rightarrow> string \<Rightarrow> (string, CoreJob list) result"
  ce_Uninstall :: "cleanup_event list \<Rightarrow> string \<Rightarrow> string \<Rightarrow> uninstall_answer"
  ce_NewSnapshots :: "cleanup_event list \<Rightarrow> (string, benv) result"

datatype cleanup_error =
  NoOperation
| EmptyOperation
| NoClient string
| HelmUnready string
| ListReleasesFailed string
| NoReleases string
| ListReleaseJobsFailed string string
| StillRunning string string
| UninstallFailed string string
| NoSnapshotClient string
| LeftoversFailed string run_error

text \<open>The arguments of the command: the prefix of the releases it is about.\<close>

definition cleanup_filter :: "bool \<Rightarrow> string list \<Rightarrow> (cleanup_error, string) result" where
  "cleanup_filter everything args =
     (if \<not> everything \<and> args = [] then Inl NoOperation
      else if everything then Inr ReleasePrefix
      else if hd args = [] then Inl EmptyOperation
      else Inr (ReleasePrefix @ hd args @ ''-''))"

definition instance_selector :: "string \<Rightarrow> string" where
  "instance_selector release = ''app.kubernetes.io/instance='' @ release"

fun checkNoActiveJobs ::
  "cleanup_env \<Rightarrow> listed_release list \<Rightarrow> cleanup_event list \<Rightarrow> cleanup_error option \<times> cleanup_event list" where
  "checkNoActiveJobs env [] tr = (None, tr)"
| "checkNoActiveJobs env (None # rs) tr = checkNoActiveJobs env rs tr"
| "checkNoActiveJobs env (Some (name, ns) # rs) tr =
     (case ce_Jobs env tr ns (instance_selector name) of
        Inl e \<Rightarrow> (Some (ListReleaseJobsFailed name e), tr @ [ListReleaseJobs ns name])
      | Inr jobs \<Rightarrow> (case List.find (\<lambda>j. jo_Active j > 0) jobs of
          Some j \<Rightarrow> (Some (StillRunning (jo_Namespace j) (jo_Name j)), tr @ [ListReleaseJobs ns name])
        | None \<Rightarrow> checkNoActiveJobs env rs (tr @ [ListReleaseJobs ns name])))"

text \<open>Whether the release was still there; another cleanup may have removed it.\<close>

definition uninstallRelease ::
  "cleanup_env \<Rightarrow> string \<Rightarrow> string \<Rightarrow> cleanup_event list \<Rightarrow> (cleanup_error, bool) result \<times> cleanup_event list" where
  "uninstallRelease env name ns tr =
     (case ce_InitHelm env tr ns of Some e \<Rightarrow> (Inl (HelmUnready e), tr @ [InitHelm ns])
      | None \<Rightarrow> (let tr1 = tr @ [InitHelm ns] in
          (case ce_Uninstall env tr1 name ns of Uninstalled \<Rightarrow> Inr True | ReleaseMissing \<Rightarrow> Inr False
             | UninstallError e \<Rightarrow> Inl (UninstallFailed name e),
           tr1 @ [Uninstall name ns])))"

definition removeSnapshotLeftovers ::
  "cleanup_env \<Rightarrow> string \<Rightarrow> string \<Rightarrow> cleanup_event list \<Rightarrow> (cleanup_error, string list) result \<times> cleanup_event list" where
  "removeSnapshotLeftovers env name ns tr =
     (case ce_NewSnapshots env tr of Inl e \<Rightarrow> (Inl (NoSnapshotClient e), tr @ [NewSnapshotClient])
      | Inr snapshots \<Rightarrow> (case DeleteLabeled snapshots ns (instance_selector name) [] of
          ((Some e, _), evs) \<Rightarrow> (Inl (LeftoversFailed name e), tr @ [NewSnapshotClient, Leftovers name ns evs])
        | ((None, removed), evs) \<Rightarrow> (Inr removed, tr @ [NewSnapshotClient, Leftovers name ns evs])))"

fun uninstallReleases ::
  "cleanup_env \<Rightarrow> listed_release list \<Rightarrow> cleanup_event list \<Rightarrow> cleanup_error option \<times> cleanup_event list" where
  "uninstallReleases env [] tr = (None, tr)"
| "uninstallReleases env (None # rs) tr = uninstallReleases env rs tr"
| "uninstallReleases env (Some (name, ns) # rs) tr =
     (case uninstallRelease env name ns tr of (Inl e, tr1) \<Rightarrow> (Some e, tr1)
      | (Inr _, tr1) \<Rightarrow> (case removeSnapshotLeftovers env name ns tr1 of (Inl e, tr2) \<Rightarrow> (Some e, tr2)
          | (Inr _, tr2) \<Rightarrow> uninstallReleases env rs tr2))"

text \<open>\<open>runCleanup\<close>; \<open>client\<close> is the error of connecting to the cluster.\<close>

definition runCleanup ::
  "cleanup_env \<Rightarrow> string option \<Rightarrow> string \<Rightarrow> string \<Rightarrow> bool \<Rightarrow> bool \<Rightarrow> cleanup_error option \<times> cleanup_event list" where
  "runCleanup env client ns filterPrefix everything force =
     (case client of Some e \<Rightarrow> (Some (NoClient e), []) | None \<Rightarrow>
      case ce_InitHelm env [] ns of Some e \<Rightarrow> (Some (HelmUnready e), [InitHelm ns]) | None \<Rightarrow>
      let tr1 = [InitHelm ns, ListReleases ns filterPrefix (ns = [])] in
      case ce_List env [InitHelm ns] ns (ns = []) filterPrefix of Inl e \<Rightarrow> (Some (ListReleasesFailed e), tr1)
      | Inr releases \<Rightarrow>
        if releases = [] then (if everything then None else Some (NoReleases filterPrefix), tr1)
        else (case (if force then (None, tr1) else checkNoActiveJobs env releases tr1) of
            (Some e, tr2) \<Rightarrow> (Some e, tr2)
          | (None, tr2) \<Rightarrow> uninstallReleases env releases tr2))"

definition cleanup_RunE ::
  "cleanup_env \<Rightarrow> string option \<Rightarrow> string \<Rightarrow> string list \<Rightarrow> bool \<Rightarrow> bool \<Rightarrow> cleanup_error option \<times> cleanup_event list" where
  "cleanup_RunE env client ns args everything force = (case cleanup_filter everything args of
     Inl e \<Rightarrow> (Some e, []) | Inr p \<Rightarrow> runCleanup env client ns p everything force)"

section \<open>What is removed\<close>

text \<open>The releases a cleanup can name, and the requests that remove something of one of them.\<close>

fun named_releases :: "listed_release list \<Rightarrow> (string \<times> string) list" where
  "named_releases [] = []"
| "named_releases (None # rs) = named_releases rs"
| "named_releases (Some r # rs) = r # named_releases rs"

fun removes :: "cleanup_event \<Rightarrow> (string \<times> string) option" where
  "removes (Uninstall name ns) = Some (name, ns)"
| "removes (Leftovers name ns _) = Some (name, ns)"
| "removes _ = None"

text \<open>The jobs the cluster answered with when the check asked for those of the \<open>i\<close>-th named release.\<close>

definition check_moment :: "cleanup_event list \<Rightarrow> (string \<times> string) list \<Rightarrow> nat \<Rightarrow> cleanup_event list" where
  "check_moment tr rs i = tr @ map (\<lambda>(name, ns). ListReleaseJobs ns name) (take i rs)"

definition seen_idle :: "cleanup_env \<Rightarrow> cleanup_event list \<Rightarrow> (string \<times> string) list \<Rightarrow> bool" where
  "seen_idle env tr rs \<longleftrightarrow> (\<forall>i < length rs. \<exists>jobs.
     ce_Jobs env (check_moment tr rs i) (snd (rs ! i)) (instance_selector (fst (rs ! i))) = Inr jobs
     \<and> (\<forall>j \<in> set jobs. jo_Active j \<le> 0))"


definition removals :: "cleanup_event list \<Rightarrow> (string \<times> string) list" where
  "removals tr = concat (map (\<lambda>e. case removes e of None \<Rightarrow> [] | Some r \<Rightarrow> [r]) tr)"

lemma removals_simps [simp]:
  "removals [] = []" "removals (e # tr) = (case removes e of None \<Rightarrow> removals tr | Some r \<Rightarrow> r # removals tr)"
  "removals (tr @ tr') = removals tr @ removals tr'"
  by (simp_all add: removals_def split: option.splits)

lemma removals_none: "\<forall>e \<in> set tr. removes e = None \<Longrightarrow> removals tr = []"
  by (simp add: removals_def)

lemma check_moment_simps [simp]:
  "check_moment tr rs 0 = tr"
  "check_moment tr ((name, ns) # rs) (Suc i) = check_moment (tr @ [ListReleaseJobs ns name]) rs i"
  by (simp_all add: check_moment_def)

lemma seen_idle_Cons:
  "seen_idle env tr ((name, ns) # rs) \<longleftrightarrow>
     (\<exists>jobs. ce_Jobs env tr ns (instance_selector name) = Inr jobs \<and> (\<forall>j \<in> set jobs. jo_Active j \<le> 0))
     \<and> seen_idle env (tr @ [ListReleaseJobs ns name]) rs"
  unfolding seen_idle_def by (auto simp: less_Suc_eq_0_disj)

lemma checkNoActiveJobs_spec:
  assumes "checkNoActiveJobs env rs tr = (err, tr')"
  shows "(\<exists>evs. tr' = tr @ evs \<and> (\<forall>e \<in> set evs. removes e = None))
    \<and> (err = None \<longrightarrow> seen_idle env tr (named_releases rs))"
  using assms
proof (induction env rs tr arbitrary: tr' rule: checkNoActiveJobs.induct)
  case (3 env name ns rs tr)
  show ?case
  proof (cases "\<exists>jobs. ce_Jobs env tr ns (instance_selector name) = Inr jobs \<and> List.find (\<lambda>j. jo_Active j > 0) jobs = None")
    case True
    then obtain jobs where j: "ce_Jobs env tr ns (instance_selector name) = Inr jobs"
      "List.find (\<lambda>j. jo_Active j > 0) jobs = None" by blast
    with "3.prems" have "checkNoActiveJobs env rs (tr @ [ListReleaseJobs ns name]) = (err, tr')" by simp
    from "3.IH" [OF j(1) j(2) this] j show ?thesis by (auto simp: seen_idle_Cons find_None_iff not_less)
  next
    case False
    with "3.prems" have "err \<noteq> None \<and> tr' = tr @ [ListReleaseJobs ns name]" by (auto split: sum.splits option.splits)
    then show ?thesis by auto
  qed
qed (auto simp: seen_idle_def)

lemma one_release_spec:
  "\<exists>evs. snd (uninstallRelease env name ns tr) = tr @ evs \<and> (\<forall>e \<in> set evs. \<forall>r. removes e = Some r \<longrightarrow> r = (name, ns))
     \<and> (\<not> isl (fst (uninstallRelease env name ns tr)) \<longrightarrow> removals evs = [(name, ns)])"
  "\<exists>evs. snd (removeSnapshotLeftovers env name ns tr) = tr @ evs \<and> (\<forall>e \<in> set evs. \<forall>r. removes e = Some r \<longrightarrow> r = (name, ns))
     \<and> (\<not> isl (fst (removeSnapshotLeftovers env name ns tr)) \<longrightarrow> removals evs = [(name, ns)])"
  unfolding uninstallRelease_def removeSnapshotLeftovers_def
  by (auto simp: Let_def split: option.splits sum.splits prod.splits)

lemma uninstallReleases_spec:
  "\<exists>evs. snd (uninstallReleases env rs tr) = tr @ evs
     \<and> (\<forall>e \<in> set evs. \<forall>r. removes e = Some r \<longrightarrow> r \<in> set (named_releases rs))
     \<and> (fst (uninstallReleases env rs tr) = None
        \<longrightarrow> removals evs = concat (map (\<lambda>r. [r, r]) (named_releases rs)))"
proof (induction env rs tr rule: uninstallReleases.induct)
  case (3 env name ns rs tr)
  obtain u evs1 where u: "uninstallRelease env name ns tr = (u, tr @ evs1)"
    "\<forall>e \<in> set evs1. \<forall>r. removes e = Some r \<longrightarrow> r = (name, ns)"
    "\<not> isl u \<longrightarrow> removals evs1 = [(name, ns)]"
    using one_release_spec(1) [of env name ns tr] by (metis prod.collapse)
  obtain l evs2 where l: "removeSnapshotLeftovers env name ns (tr @ evs1) = (l, (tr @ evs1) @ evs2)"
    "\<forall>e \<in> set evs2. \<forall>r. removes e = Some r \<longrightarrow> r = (name, ns)"
    "\<not> isl l \<longrightarrow> removals evs2 = [(name, ns)]"
    using one_release_spec(2) [of env name ns "tr @ evs1"] by (metis prod.collapse)
  show ?case
  proof (cases u)
    case (Inl e) with u show ?thesis by auto
  next
    case ui: (Inr b)
    show ?thesis
    proof (cases l)
      case (Inl e) with u l ui show ?thesis by auto
    next
      case (Inr x)
      from "3.IH" [OF u(1) [symmetric] ui l(1) [symmetric] Inr]
      obtain evs3 where "snd (uninstallReleases env rs ((tr @ evs1) @ evs2)) = ((tr @ evs1) @ evs2) @ evs3"
        "\<forall>e \<in> set evs3. \<forall>r. removes e = Some r \<longrightarrow> r \<in> set (named_releases rs)"
        "fst (uninstallReleases env rs ((tr @ evs1) @ evs2)) = None
           \<longrightarrow> removals evs3 = concat (map (\<lambda>r. [r, r]) (named_releases rs))"
        by (elim exE conjE)
      with u l ui Inr show ?thesis by (intro exI [of _ "evs1 @ evs2 @ evs3"]) auto
    qed
  qed
qed simp_all


text \<open>
  What a cleanup relies on of Helm's list: its filter is a regular expression, here a quoted prefix
  anchored at the start, so every release listed bears the prefix.
\<close>

definition lists_matching :: "cleanup_env \<Rightarrow> bool" where
  "lists_matching env \<longleftrightarrow> (\<forall>tr ns everywhere p rs. ce_List env tr ns everywhere p = Inr rs
     \<longrightarrow> (\<forall>r \<in> set (named_releases rs). HasPrefix (fst r) p))"

definition cleanup_listing :: "cleanup_env \<Rightarrow> string \<Rightarrow> string \<Rightarrow> (string \<times> string) list" where
  "cleanup_listing env ns p = (case ce_List env [InitHelm ns] ns (ns = []) p of Inl _ \<Rightarrow> [] | Inr rs \<Rightarrow> named_releases rs)"

abbreviation listing_requests :: "string \<Rightarrow> string \<Rightarrow> cleanup_event list" where
  "listing_requests ns p \<equiv> [InitHelm ns, ListReleases ns p (ns = [])]"

text \<open>
  C6: a cleanup spares what runs and what is not its own. Whatever the cluster and Helm answer, a
  release that is uninstalled or whose leftovers are deleted was listed and bears the prefix of the
  operation; without \<open>--force\<close> nothing is removed unless the jobs of every release listed were read
  and none of them was active; and a cleanup that succeeds has removed the release and then the
  leftovers of every release listed, in the order of the list.
\<close>

theorem cleanup_spares_running:
  assumes "lists_matching env" and "runCleanup env client ns p everything force = (err, tr)"
  shows "(\<forall>e \<in> set tr. \<forall>r. removes e = Some r \<longrightarrow>
        r \<in> set (cleanup_listing env ns p) \<and> HasPrefix (fst r) p
        \<and> (force \<or> seen_idle env (listing_requests ns p) (cleanup_listing env ns p)))
    \<and> (err = None \<longrightarrow> removals tr = concat (map (\<lambda>r. [r, r]) (cleanup_listing env ns p)))"
proof (cases "client = None \<and> ce_InitHelm env [] ns = None \<and> (\<exists>rs. ce_List env [InitHelm ns] ns (ns = []) p = Inr rs \<and> rs \<noteq> [])")
  case False
  with assms(2) have "(\<forall>e \<in> set tr. removes e = None) \<and> (err = None \<longrightarrow> cleanup_listing env ns p = [])"
    by (auto simp: runCleanup_def cleanup_listing_def Let_def split: option.splits sum.splits if_splits)
  moreover from this have "removals tr = []" by (simp add: removals_none)
  ultimately show ?thesis by simp
next
  case True
  then obtain rs where l: "ce_List env [InitHelm ns] ns (ns = []) p = Inr rs" "rs \<noteq> []" by blast
  define start where "start = listing_requests ns p"
  from l have listing: "cleanup_listing env ns p = named_releases rs" by (simp add: cleanup_listing_def)
  with assms(1) l have pre: "\<forall>r \<in> set (named_releases rs). HasPrefix (fst r) p" by (auto simp: lists_matching_def)
  have quiet: "\<forall>e \<in> set start. removes e = None" by (auto simp: start_def)
  obtain cerr tr2 where c: "(if force then (None, start) else checkNoActiveJobs env rs start) = (cerr, tr2)"
    by (metis prod.collapse)
  then obtain evs where tr2: "tr2 = start @ evs" "\<forall>e \<in> set evs. removes e = None"
    and idle: "cerr = None \<Longrightarrow> force \<or> seen_idle env start (named_releases rs)"
    using checkNoActiveJobs_spec [of env rs start cerr tr2] by (cases force) auto
  from assms(2) True l c have run: "(err, tr) = (case cerr of Some e \<Rightarrow> (Some e, tr2) | None \<Rightarrow> uninstallReleases env rs tr2)"
    by (cases cerr) (auto simp: runCleanup_def Let_def simp flip: start_def)
  show ?thesis
  proof (cases cerr)
    case (Some e)
    with run tr2 quiet show ?thesis by auto
  next
    case None
    with run have fin: "uninstallReleases env rs tr2 = (err, tr)" by simp
    from uninstallReleases_spec [of env rs tr2, unfolded fin fst_conv snd_conv] obtain evs3
      where evs3: "tr = tr2 @ evs3" "\<forall>e \<in> set evs3. \<forall>r. removes e = Some r \<longrightarrow> r \<in> set (named_releases rs)"
        "err = None \<longrightarrow> removals evs3 = concat (map (\<lambda>r. [r, r]) (named_releases rs))"
      by (elim exE conjE)
    have "\<forall>e \<in> set tr. \<forall>r. removes e = Some r \<longrightarrow> r \<in> set (named_releases rs)"
      unfolding evs3(1) tr2(1) using quiet tr2(2) evs3(2) by (metis Un_iff option.distinct(1) set_append)
    moreover have "removals tr2 = []" using tr2 quiet by (simp add: removals_none)
    ultimately show ?thesis
      using idle [OF None] pre evs3(1,3) unfolding listing start_def by fastforce
  qed
qed


text \<open>Two releases listed, whose jobs are over.\<close>

definition example_cleanup :: cleanup_env where
  "example_cleanup = \<lparr>
     ce_InitHelm = (\<lambda>_ _. None),
     ce_List = (\<lambda>_ _ _ p. Inr [Some (p @ ''src'', ''a''), None, Some (p @ ''dest'', ''b'')]),
     ce_Jobs = (\<lambda>_ _ _. Inr []),
     ce_Uninstall = (\<lambda>_ _ _. Uninstalled),
     ce_NewSnapshots = (\<lambda>_. Inl ''no config'')\<rparr>"

lemma example_cleanup_matching: "lists_matching example_cleanup"
  by (auto simp: lists_matching_def example_cleanup_def)

lemma example_cleanup_run:
  "runCleanup example_cleanup None [] ''pv-migrate-x-'' False False
     = (Some (NoSnapshotClient ''no config''),
        [InitHelm [], ListReleases [] ''pv-migrate-x-'' True, ListReleaseJobs ''a'' ''pv-migrate-x-src'',
         ListReleaseJobs ''b'' ''pv-migrate-x-dest'', InitHelm ''a'', Uninstall ''pv-migrate-x-src'' ''a'', NewSnapshotClient])"
  by (simp add: runCleanup_def example_cleanup_def uninstallRelease_def removeSnapshotLeftovers_def Let_def)

theorem cleanup_spares_running_witness:
  "seen_idle example_cleanup (listing_requests [] ''pv-migrate-x-'') (cleanup_listing example_cleanup [] ''pv-migrate-x-'')"
  using cleanup_spares_running [OF example_cleanup_matching example_cleanup_run] by simp

section \<open>The leftovers of one release\<close>

text \<open>
  Under one release only objects of its namespace are deleted, and the only lists asked for are those
  selected by its label.
\<close>

fun leftover_request :: "string \<Rightarrow> string \<Rightarrow> bevent \<Rightarrow> bool" where
  "leftover_request ns selector (ListClaims n s) \<longleftrightarrow> n = ns \<and> s = selector"
| "leftover_request ns selector (ListSnapshots n s) \<longleftrightarrow> n = ns \<and> s = selector"
| "leftover_request ns selector (DeleteClaim n _) \<longleftrightarrow> n = ns"
| "leftover_request ns selector (DeleteSnapshot n _) \<longleftrightarrow> n = ns"
| "leftover_request ns selector _ = False"

lemma delete_each_emits:
  assumes "\<And>n. emits P (del n)"
  shows "\<exists>evs. snd (delete_each del what ns removed tr) = tr @ evs \<and> list_all P evs"
proof (induction ns arbitrary: removed tr)
  case (Cons n ns)
  obtain r evs where n: "del n tr = (r, tr @ evs)" "list_all P evs" using assms emitsE by (metis prod.collapse)
  show ?case
  proof (cases r)
    case (Inr x)
    from Cons.IH [of "removed @ [what @ n]" "tr @ evs"] n Inr show ?thesis by auto
  qed (use n in auto)
qed simp

lemma DeleteLabeled_requests:
  "list_all (leftover_request ns selector) (snd (DeleteLabeled env ns selector []))"
proof -
  have c: "emits (leftover_request ns selector) (snapshot_DeleteClaim env ns n)"
    and s: "emits (leftover_request ns selector) (snapshot_DeleteSnapshot env ns n)" for n
    by (auto intro!: emits_intro simp: snapshot_DeleteClaim_def snapshot_DeleteSnapshot_def)
  have "\<exists>evs. snd (delete_each (snapshot_DeleteClaim env ns) w names r tr) = tr @ evs \<and> list_all (leftover_request ns selector) evs"
    and "\<exists>evs. snd (delete_each (snapshot_DeleteSnapshot env ns) w names r tr) = tr @ evs \<and> list_all (leftover_request ns selector) evs"
    for w names r tr by (rule delete_each_emits [OF c], rule delete_each_emits [OF s])
  note steps = this
  show ?thesis
  proof (cases "be_ListClaims env []")
    case (Inr claims)
    obtain e removed evs where cl: "delete_each (snapshot_DeleteClaim env ns) ''claim '' claims [] [ListClaims ns selector]
        = ((e, removed), [ListClaims ns selector] @ evs)" "list_all (leftover_request ns selector) evs"
      using steps(1) by (metis prod.collapse)
    let ?tr = "([ListClaims ns selector] @ evs) @ [ListSnapshots ns selector]"
    have "\<exists>evs'. snd (DeleteLabeled env ns selector []) = ([ListClaims ns selector] @ evs) @ evs'
        \<and> list_all (leftover_request ns selector) evs'"
    proof (cases "e = None \<and> (\<exists>names. be_ListSnapshots env ([ListClaims ns selector] @ evs) = Inr names)")
      case True
      then obtain names where "be_ListSnapshots env ([ListClaims ns selector] @ evs) = Inr names" by blast
      with True Inr cl have "DeleteLabeled env ns selector [] = delete_each (snapshot_DeleteSnapshot env ns) ''snapshot '' names removed ?tr"
        by (simp add: DeleteLabeled_def Let_def)
      with steps(2) [of "''snapshot ''" names removed ?tr] obtain evs'
        where "snd (DeleteLabeled env ns selector []) = ?tr @ evs'" "list_all (leftover_request ns selector) evs'"
        by auto
      then show ?thesis by (intro exI [of _ "ListSnapshots ns selector # evs'"]) simp
    next
      case False
      with Inr cl show ?thesis by (auto simp: DeleteLabeled_def Let_def split: option.splits sum.splits)
    qed
    with cl(2) show ?thesis by auto
  qed (simp add: DeleteLabeled_def Let_def)
qed

section \<open>Identifiers that extend each other\<close>

text \<open>
  The prefix of an operation is also a prefix of the releases of any identifier that extends it by a
  hyphen, and the identifiers the program accepts and generates contain hyphens: a cleanup of one
  operation takes the releases of the other.
\<close>

lemma cleanup_takes_longer_ids:
  assumes "x \<noteq> []" shows "\<exists>p. cleanup_filter False [x] = Inr p \<and> HasPrefix (ReleasePrefix @ (x @ ''-'' @ y) @ ''-'' @ rest) p"
  using assms by (simp add: cleanup_filter_def)

theorem cleanup_collision:
  "valid_id ''nightly'' \<and> valid_id ''nightly-db'' \<and> cleanup_filter False [''nightly''] = Inr ''pv-migrate-nightly-''
     \<and> HasPrefix (ReleasePrefix @ ''nightly-db'' @ ''-backup'') ''pv-migrate-nightly-''"
  by code_simp

end
