(* ===== verification/Status.thy ===== *)
theory Status
  imports Diagnostics Opid
begin

text \<open>
  The status command (\<open>src/internal/app/status.go\<close>): finding the job of an operation, its progress, its
  verdict and the evidence of a failure (\<open>WriteJobFailureEvidence\<close> of \<open>src/internal/k8s/exitcode.go\<close>).
  Instants are nanoseconds. What is logged or written is returned as a list of effects; of a log line
  the level and the varying parts are kept.
\<close>

section \<open>Formats\<close>

text \<open>
  \<open>time.Time.Sub\<close> saturates at the range of a duration; \<open>Truncate(time.Second).String()\<close> prints whole
  seconds, with minutes and hours as needed.
\<close>

definition time_Sub :: "int \<Rightarrow> int \<Rightarrow> int" where
  "time_Sub a b = max min_int64 (min max_int64 (a - b))"

definition seconds_String :: "int \<Rightarrow> string" where
  "seconds_String n = (let u = nat \<bar>n\<bar>; m = u div 60; h = m div 60 in
     (if n < 0 then ''-'' else [])
     @ (if h > 0 then show_nat h @ ''h'' else []) @ (if m > 0 then show_nat (m mod 60) @ ''m'' else [])
     @ show_nat (u mod 60) @ ''s'')"

definition jobElapsed :: "int \<Rightarrow> CoreJob \<Rightarrow> string" where
  "jobElapsed now job = (case jo_StartTime job of None \<Rightarrow> []
     | Some start \<Rightarrow>
       let end_time = (case jo_CompletionTime job of Some t \<Rightarrow> t
         | None \<Rightarrow> if jo_Failed job > 0
             then (case List.find (\<lambda>c. jc_Type c = ''Failed'' \<and> jc_Status c = ''True'' \<and> jc_LastTransition c \<noteq> None)
                          (jo_Conditions job) of
                     Some c \<Rightarrow> the (jc_LastTransition c) | None \<Rightarrow> now)
             else now)
       in seconds_String (quot (time_Sub end_time start) 1000000000))"

text \<open>\<open>formatBytes\<close>; an index beyond the unit letters would panic, here \<open>None\<close>. \<open>%.1f\<close> rounds to even.\<close>

function format_loop :: "int \<Rightarrow> int \<Rightarrow> nat \<Rightarrow> int \<times> nat" where
  "format_loop n d e = (if 1024 \<le> n then format_loop (n div 1024) (wrap64 (d * 1024)) (e + 1) else (d, e))"
  by auto
termination by (relation "measure (\<lambda>(n, d, e). nat n)") auto

declare format_loop.simps [simp del]

definition fixed1 :: "rat \<Rightarrow> string" where
  "fixed1 x = (let t = nat (half_even (x * 10)) in show_nat (t div 10) @ ''.'' @ show_nat (t mod 10))"

definition formatBytes :: "int \<Rightarrow> string option" where
  "formatBytes bytes =
     (if bytes < 1024 then Some (Itoa bytes @ '' B'')
      else let (d, e) = format_loop (bytes div 1024) 1024 0 in
        if e < length ''KMGTPE''
        then Some (fixed1 (float_div (float_of_int bytes) (float_of_int d)) @ '' '' @ [''KMGTPE'' ! e] @ ''iB'')
        else None)"

section \<open>The command\<close>

datatype log_level = LogInfo | LogWarn | LogError

datatype status_effect =
  ProgressLogged int "string option" "string option"
| StatusLogged log_level string string string string
| FailureLogged string
| Written string
| JobEffect job_effect
| EvidenceLogged string string "string list"

record status_env =
  se_Client :: "string option"
  se_NsInContext :: string
  se_Jobs :: jobapi
  se_Refreshed :: "(string, CoreJob) result"
  se_Diag :: "string \<Rightarrow> string \<Rightarrow> diagapi"
  se_Now :: int
  se_Terminal :: bool
  se_NoColor :: string
  se_Followed :: bar
  se_Entry :: json_entry
  se_Convert :: "rat \<Rightarrow> int"
  se_Reads :: "string \<Rightarrow> string list"

datatype status_error =
  NoStatusID
| StatusClient string
| StatusJob job_error
| FollowFailed job_error
| OperationFailed string

definition job_status :: "CoreJob \<Rightarrow> string" where
  "job_status job = (if jo_Succeeded job > 0 then ''Succeeded'' else if jo_Failed job > 0 then ''Failed''
     else if jo_Active job > 0 then ''Running'' else ''Pending'')"

definition status_level :: "CoreJob \<Rightarrow> log_level" where
  "status_level job = (if jo_Failed job > 0 then LogError
     else if jo_Succeeded job = 0 \<and> jo_Active job = 0 then LogWarn else LogInfo)"

definition printJobStatus :: "int \<Rightarrow> CoreJob \<Rightarrow> status_effect" where
  "printJobStatus now job = StatusLogged (status_level job) (jo_Name job) (jo_Namespace job) (job_status job) (jobElapsed now job)"

definition status_palette :: "status_env \<Rightarrow> bool \<Rightarrow> bool" where
  "status_palette env structuredLogs = ForTerminal (se_NoColor env) (se_Terminal env) structuredLogs"

definition followJobProgress :: "status_env \<Rightarrow> CoreJob \<Rightarrow> bool \<Rightarrow> status_error option \<times> status_effect list" where
  "followJobProgress env job structuredLogs =
     (case WaitForJobCompletion (se_Jobs env) (se_Followed env) (jo_Namespace job) (jo_Name job)
             (se_Terminal env) structuredLogs (status_palette env structuredLogs) of
        (Inl e, effs) \<Rightarrow> (Some (FollowFailed e), map JobEffect effs)
      | (Inr _, effs) \<Rightarrow> (None, map JobEffect effs))"

definition refreshJob :: "status_env \<Rightarrow> CoreJob \<Rightarrow> CoreJob" where
  "refreshJob env job = (case se_Refreshed env of Inl _ \<Rightarrow> job | Inr refreshed \<Rightarrow> refreshed)"

definition printJobProgress :: "status_env \<Rightarrow> CoreJob \<Rightarrow> status_effect list" where
  "printJobProgress env job =
     (case FindJobPod (se_Jobs env) job of Inl _ \<Rightarrow> []
      | Inr pod \<Rightarrow> (case ja_Logs (se_Jobs env) (jo_Namespace job) (cp_Name pod) (Some 5) of Inl _ \<Rightarrow> []
      | Inr data \<Rightarrow> (case jobprogress_FindLast (se_Entry env) (se_Convert env) (jo_Name job) (se_Reads env data) of None \<Rightarrow> []
      | Some latest \<Rightarrow> [ProgressLogged (up_Percentage latest) (formatBytes (up_Transferred latest)) (formatBytes (up_Total latest))])))"

definition WriteJobFailureEvidence :: "status_env \<Rightarrow> CoreJob \<Rightarrow> bool \<Rightarrow> bool \<Rightarrow> status_effect list" where
  "WriteJobFailureEvidence env job structuredLogs palette =
     (let release = job_release job; diag = se_Diag env (jo_Namespace job) (InstanceLabelSelector release) in
      (case findTerminalJobPod (se_Jobs env) (jo_Namespace job) (jo_Name job) of
         Inr (Some pod, _) \<Rightarrow> map JobEffect (writeFailureTail (se_Jobs env) (jo_Name job) pod structuredLogs palette)
       | _ \<Rightarrow> [])
      @ (if structuredLogs then [EvidenceLogged release (jo_Namespace job) (WriteWorkloadDiagnostics diag False)]
         else Written (newline_byte # Bold palette ''What the cluster reported:'' @ [newline_byte, newline_byte]
                @ ''  '' @ release @ '' (namespace '' @ jo_Namespace job @ ''):'' @ [newline_byte])
              # map (\<lambda>l. Written (l @ [newline_byte])) (WriteWorkloadDiagnostics diag palette)))"

text \<open>What \<open>runStatus\<close> says of a failed job before the evidence.\<close>

definition failure_verdict :: "status_env \<Rightarrow> CoreJob \<Rightarrow> bool \<Rightarrow> bool \<Rightarrow> status_effect list" where
  "failure_verdict env job structuredLogs palette =
     (let explanation = DescribeJobFailure (se_Jobs env) job in
      if structuredLogs then (if explanation = [] then [] else [FailureLogged explanation])
      else Written (newline_byte # Failure palette ''Operation failed.'' @ [newline_byte])
           # map (\<lambda>l. Written (''    '' @ l @ [newline_byte])) (Split explanation newline_byte))"

definition runStatus ::
  "status_env \<Rightarrow> string \<Rightarrow> string \<Rightarrow> bool \<Rightarrow> bool \<Rightarrow> status_error option \<times> status_effect list" where
  "runStatus env namespace operationID follow structuredLogs =
     (case se_Client env of Some e \<Rightarrow> (Some (StatusClient e), []) | None \<Rightarrow>
      let ns = (if namespace = [] then se_NsInContext env else namespace);
          releasePrefix = ReleasePrefix @ operationID @ ''-''
      in case FindDataMoverJob (se_Jobs env) ns releasePrefix of Inl e \<Rightarrow> (Some (StatusJob e), [])
       | Inr job \<Rightarrow>
         if follow then
           (case followJobProgress env job structuredLogs of (err, effs) \<Rightarrow>
              (err, effs @ [printJobStatus (se_Now env) (refreshJob env job)]))
         else
           let progress = (if jo_Active job > 0 then printJobProgress env job else []) in
           if jo_Failed job > 0 then
             (let palette = status_palette env structuredLogs in
              (Some (OperationFailed operationID),
               progress @ [printJobStatus (se_Now env) job] @ failure_verdict env job structuredLogs palette
                 @ WriteJobFailureEvidence env job structuredLogs palette))
           else (None, progress @ [printJobStatus (se_Now env) job]))"

definition status_RunE ::
  "status_env \<Rightarrow> string \<Rightarrow> string list \<Rightarrow> bool \<Rightarrow> bool \<Rightarrow> status_error option \<times> status_effect list" where
  "status_RunE env namespace args follow structuredLogs =
     (if hd args = [] then (Some NoStatusID, []) else runStatus env namespace (hd args) follow structuredLogs)"


section \<open>The printed size\<close>

lemma wrap64_id: "min_int64 \<le> n \<Longrightarrow> n \<le> max_int64 \<Longrightarrow> wrap64 n = n"
  by (simp add: wrap64_def min_int64_def max_int64_def)

lemma power_in_int64: "(1024::int) ^ k \<le> max_int64 \<Longrightarrow> k < 7"
  by (rule ccontr) (use power_increasing [of 7 k "1024::int"] in \<open>simp add: max_int64_def not_less\<close>)

lemma le_zdiv_iff: "a \<le> b div c \<longleftrightarrow> a * c \<le> b" if "0 < c" for a b c :: int
proof
  assume "a \<le> b div c"
  with that have "a * c \<le> b div c * c" by simp
  also have "\<dots> \<le> b" using div_mult_mod_eq [of b c] pos_mod_sign [OF that, of b] by linarith
  finally show "a * c \<le> b" .
next
  assume "a * c \<le> b"
  with that show "a \<le> b div c" using zdiv_mono1 [of "a * c" b c] by simp
qed

lemma format_loop_spec:
  assumes "1024 ^ Suc k \<le> bytes" and "bytes \<le> max_int64"
  shows "\<exists>j < 6. format_loop (bytes div 1024 ^ Suc k) (1024 ^ Suc k) k = (1024 ^ Suc j, j)
    \<and> 1024 ^ Suc j \<le> bytes \<and> bytes < 1024 ^ Suc (Suc j)"
  using assms(1)
proof (induction "6 - k" arbitrary: k rule: less_induct)
  case less
  from less.prems assms(2) have k: "k < 6" using power_in_int64 [of "Suc k"] by linarith
  have p: "(0::int) < 1024 ^ Suc k" by simp
  show ?case
  proof (cases "1024 \<le> bytes div 1024 ^ Suc k")
    case True
    then have le: "1024 * 1024 ^ Suc k \<le> bytes" using p by (simp add: le_zdiv_iff mult.commute)
    then have next_le: "1024 ^ Suc (Suc k) \<le> bytes" by simp
    have "wrap64 (1024 ^ Suc k * 1024) = 1024 ^ Suc (Suc k)"
      using le assms(2) by (subst wrap64_id) (auto simp: min_int64_def intro: order_trans [of _ 0])
    moreover have "bytes div 1024 ^ Suc k div 1024 = bytes div 1024 ^ Suc (Suc k)"
      by (simp add: zdiv_zmult2_eq [symmetric] mult.commute)
    ultimately have "format_loop (bytes div 1024 ^ Suc k) (1024 ^ Suc k) k
        = format_loop (bytes div 1024 ^ Suc (Suc k)) (1024 ^ Suc (Suc k)) (Suc k)"
      using True by (subst format_loop.simps) simp
    with less.hyps [OF _ next_le] k show ?thesis by simp
  next
    case False
    then have "bytes < 1024 * 1024 ^ Suc k" using p by (simp add: le_zdiv_iff mult.commute not_le)
    with False k less.prems show ?thesis by (subst format_loop.simps) auto
  qed
qed

lemma half_even_close: "\<bar>of_int (half_even x) - x\<bar> \<le> 1 / 2"
  unfolding half_even_def Let_def by (auto simp: abs_if) linarith+

lemma round64_close:
  assumes "1 \<le> x" shows "\<bar>round64 x - x\<bar> \<le> x / 2 ^ 53"
proof -
  let ?u = "2 powi ulp_exp x :: rat"
  have x: "0 < x" using assms by simp
  have "(2::rat) powi 0 < 2 powi (floor_log2 x + 1)" using floor_log2_bounds(2) [OF x] assms by simp
  then have l: "0 \<le> floor_log2 x" by (simp only: powi_less_iff)
  then have u: "?u * 2 ^ 52 = 2 powi floor_log2 x" by (simp add: ulp_exp_def powi_diff)
  have "round64 x - x = (of_int (half_even (x / ?u)) - x / ?u) * ?u" using x by (simp add: round64_def field_simps)
  then have "\<bar>round64 x - x\<bar> = \<bar>of_int (half_even (x / ?u)) - x / ?u\<bar> * ?u" by (simp add: abs_mult)
  also have "\<dots> \<le> 1 / 2 * ?u" by (intro mult_right_mono half_even_close) simp
  also have "\<dots> \<le> x / 2 ^ 53" using u floor_log2_bounds(1) [OF x] by simp
  finally show ?thesis .
qed


lemma round64_power: "round64 (2 ^ n) = 2 ^ n"
proof -
  have l: "floor_log2 (2 ^ n) = int n" by (rule floor_log2_eqI) (simp_all add: powi_add)
  have "(2::rat) ^ n = of_int (2 ^ 52) * 2 powi ulp_exp (2 ^ n)"
    by (simp add: ulp_exp_def l powi_diff max_def)
  then show ?thesis by (intro round64_exact [of _ "2 ^ 52"]) simp_all
qed

text \<open>The quotient that is printed, for a size between a unit and the next.\<close>

lemma unit_quotient:
  fixes b u :: rat
  assumes u: "round64 u = u" "round64 (1024 * u) = 1024 * u" "1 \<le> u" and b: "u \<le> b" "b \<le> 1024 * u"
  defines "q \<equiv> float_div (round64 b) u"
  shows "1 \<le> q \<and> q \<le> 1024 \<and> \<bar>q - b / u\<bar> \<le> 1 / 2 ^ 42"
proof -
  let ?y = "round64 b"
  from u(3) have up: "0 < u" by simp
  have y: "u \<le> ?y" "?y \<le> 1024 * u" using round64_mono [OF b(1)] round64_mono [OF b(2)] u by simp_all
  then have r: "1 \<le> ?y / u" "?y / u \<le> 1024" using up by (simp_all add: field_simps)
  have one: "round64 1 = 1" "round64 1024 = 1024" using round64_power [of 0] round64_power [of 10] by simp_all
  have q: "1 \<le> q" "q \<le> 1024"
    unfolding q_def float_div_def using round64_mono [OF r(1)] round64_mono [OF r(2)] by (simp_all only: one)
  have "\<bar>q - ?y / u\<bar> \<le> (?y / u) / 2 ^ 53" unfolding q_def float_div_def by (rule round64_close [OF r(1)])
  also have "\<dots> \<le> 1024 / 2 ^ 53" using r(2) by (intro divide_right_mono) simp_all
  finally have one_err: "\<bar>q - ?y / u\<bar> \<le> 1024 / 2 ^ 53" .
  have "?y / u - b / u = (?y - b) / u" by (simp add: diff_divide_distrib)
  then have "\<bar>?y / u - b / u\<bar> = \<bar>?y - b\<bar> / u" using up by simp
  also have "\<dots> \<le> b / 2 ^ 53 / u" using u(3) b(1) up by (intro divide_right_mono round64_close) simp_all
  also have "\<dots> = (b / u) / 2 ^ 53" by simp
  also have "\<dots> \<le> 1024 / 2 ^ 53" using b(2) up by (intro divide_right_mono) (simp_all add: field_simps)
  finally have "\<bar>?y / u - b / u\<bar> \<le> 1024 / 2 ^ 53" .
  with one_err have "\<bar>q - b / u\<bar> \<le> 1024 / 2 ^ 53 + 1024 / 2 ^ 53" by linarith
  with q show ?thesis by simp
qed

text \<open>
  C34: a size is printed for every 64-bit count, the index into the unit letters never out of range and
  the divisor never wrapped around. From 1024 on the unit is the largest binary one that is not larger
  than the count, the figure lies between 1.0 and 1024.0 and, although it went through two rounded
  floating point operations, it is the exact quotient to within half of its last digit and \<open>2 ^ -41\<close>.
\<close>

theorem formatBytes_in_range:
  assumes "bytes \<le> max_int64"
  shows "if bytes < 1024 then formatBytes bytes = Some (Itoa bytes @ '' B'')
    else \<exists>j < 6. \<exists>t. 1024 ^ Suc j \<le> bytes \<and> bytes < 1024 ^ Suc (Suc j) \<and> 10 \<le> t \<and> t \<le> 10240
      \<and> \<bar>rat_of_nat t / 10 - of_int bytes / 1024 ^ Suc j\<bar> \<le> 1 / 20 + 1 / 2 ^ 41
      \<and> formatBytes bytes = Some (show_nat (t div 10) @ ''.'' @ show_nat (t mod 10) @ '' '' @ [''KMGTPE'' ! j] @ ''iB'')"
proof (cases "bytes < 1024")
  case False
  then obtain j where j: "j < 6" "format_loop (bytes div 1024) 1024 0 = (1024 ^ Suc j, j)"
    "1024 ^ Suc j \<le> bytes" "bytes < 1024 ^ Suc (Suc j)"
    using format_loop_spec [of 0 bytes] assms by auto
  define u :: rat where "u = 1024 ^ Suc j"
  have pow: "u = 2 ^ (10 * Suc j)" "1024 * u = 2 ^ (10 * Suc (Suc j))"
    by (simp_all add: u_def power_mult power_add)
  have of: "of_int (1024 ^ Suc j) = u" by (simp add: u_def)
  have "rat_of_int (1024 ^ Suc j) \<le> of_int bytes" "rat_of_int bytes \<le> of_int (1024 ^ Suc (Suc j))"
    using j(3,4) by (simp_all only: of_int_le_iff)
  then have b: "u \<le> of_int bytes" "of_int bytes \<le> 1024 * u" by (simp_all add: u_def)
  have exact: "round64 u = u" "round64 (1024 * u) = 1024 * u"
    unfolding pow(2) by (simp_all only: pow(1) round64_power)
  have one_le: "1 \<le> u" unfolding pow(1) by (rule one_le_power) simp
  define q where "q = float_div (round64 (of_int bytes)) u"
  have q: "1 \<le> q \<and> q \<le> 1024 \<and> \<bar>q - of_int bytes / u\<bar> \<le> 1 / 2 ^ 42"
    unfolding q_def by (rule unit_quotient [OF exact one_le b])
  define h where "h = half_even (q * 10)"
  have h: "10 \<le> h" "h \<le> 10240" unfolding h_def using q by (auto intro!: half_even_ge_int half_even_le_int)
  have t: "of_nat (nat h) = rat_of_int h" using h by simp
  have "\<bar>rat_of_nat (nat h) / 10 - of_int bytes / u\<bar> \<le> 1 / 20 + 1 / 2 ^ 41"
  proof -
    have "(1::rat) / 2 ^ 42 \<le> 1 / 2 ^ 41" by simp
    then show ?thesis unfolding t h_def using half_even_close [of "q * 10"] q by linarith
  qed
  moreover have "formatBytes bytes
      = Some (show_nat (nat h div 10) @ ''.'' @ show_nat (nat h mod 10) @ '' '' @ [''KMGTPE'' ! j] @ ''iB'')"
    using False j(1,2) of exact(1)
    by (simp add: formatBytes_def fixed1_def Let_def h_def q_def float_of_int_def del: power_Suc)
  moreover have "10 \<le> nat h" "nat h \<le> 10240" using h by linarith+
  ultimately show ?thesis using False j(1,3,4) unfolding u_def by (simp only: if_False) blast
qed (simp add: formatBytes_def)

theorem formatBytes_in_range_witness:
  "\<exists>j < 6. \<exists>t. 1024 ^ Suc j \<le> (1536::int) \<and> 1536 < (1024::int) ^ Suc (Suc j)
     \<and> formatBytes 1536 = Some (show_nat (t div 10) @ ''.'' @ show_nat (t mod 10) @ '' '' @ [''KMGTPE'' ! j] @ ''iB'')"
  using formatBytes_in_range [of 1536] by (auto simp: max_int64_def simp del: power_Suc)


section \<open>The verdict\<close>

text \<open>
  The exit status of a plain status request is that of the job's counters: it is an error exactly when
  a pod of the job has failed, and the status line of the same job is always among what is reported.
\<close>

lemma runStatus_verdict:
  assumes "se_Client env = None"
    and "FindDataMoverJob (se_Jobs env) (if ns = [] then se_NsInContext env else ns) (ReleasePrefix @ op @ ''-'') = Inr job"
  shows "fst (runStatus env ns op False structured) = (if jo_Failed job > 0 then Some (OperationFailed op) else None)"
    and "printJobStatus (se_Now env) job \<in> set (snd (runStatus env ns op False structured))"
  using assms by (simp_all add: runStatus_def Let_def)

text \<open>
  A job that is retried, which the chart's \<open>backoffLimit\<close> allows, can have a failed pod and a pod that
  succeeded. It is reported as succeeded, at the level of an error, and the command fails.
\<close>

theorem retried_job_contradicts:
  assumes "se_Client env = None" and "jo_Failed job > 0" and "jo_Succeeded job > 0"
    and "FindDataMoverJob (se_Jobs env) (if ns = [] then se_NsInContext env else ns) (ReleasePrefix @ op @ ''-'') = Inr job"
  shows "fst (runStatus env ns op False structured) = Some (OperationFailed op)
    \<and> StatusLogged LogError (jo_Name job) (jo_Namespace job) ''Succeeded'' (jobElapsed (se_Now env) job)
        \<in> set (snd (runStatus env ns op False structured))"
  using runStatus_verdict [OF assms(1,4), of structured] assms(2,3)
  by (simp add: printJobStatus_def status_level_def job_status_def)

end
