(* ===== verification/PublicApi.thy ===== *)
theory PublicApi
  imports Migrator BucketRunFacts
begin

text \<open>
  The public interface (\<open>src/pvmigrate\<close>): the options of a migration, a backup and a restore, their
  defaults, and their translation into the requests of \<open>internal/migrator\<close> and \<open>internal/bucketstorage\<close>.
  Durations are nanoseconds. The writer and the logger of the options are left out with all output.
\<close>

section \<open>Options\<close>

definition Mount :: string where "Mount = ''mount''"
definition ClusterIP :: string where "ClusterIP = ''clusterip''"
definition LoadBalancer :: string where "LoadBalancer = ''loadbalancer''"
definition NodePort :: string where "NodePort = ''nodeport''"
definition Local :: string where "Local = ''local''"

definition Ed25519 :: string where "Ed25519 = ''ed25519''"
definition RSA :: string where "RSA = ''rsa''"

definition defaultHelmTimeout :: int where "defaultHelmTimeout = 60 * 10 ^ 9"
definition defaultLoadBalancerTimeout :: int where "defaultLoadBalancerTimeout = 120 * 10 ^ 9"
definition defaultPath :: string where "defaultPath = ''/''"
definition DefaultSSHReverseTunnelPort :: int where "DefaultSSHReverseTunnelPort = 22000"

definition DefaultStrategies :: "string list" where "DefaultStrategies = [Mount, ClusterIP, LoadBalancer]"
definition AllStrategies :: "string list" where "AllStrategies = [Mount, ClusterIP, LoadBalancer, NodePort, Local]"
definition KeyAlgorithms :: "string list" where "KeyAlgorithms = [RSA, Ed25519]"

lemmas strategy_names = Mount_def ClusterIP_def LoadBalancer_def NodePort_def Local_def

record PVC =
  pv_KubeconfigPath :: string
  pv_Context :: string
  pv_Namespace :: string
  pv_Name :: string
  pv_Path :: string

definition PVC_zero :: PVC where
  "PVC_zero = \<lparr>pv_KubeconfigPath = [], pv_Context = [], pv_Namespace = [], pv_Name = [], pv_Path = []\<rparr>"

record MigrationOptions =
  mi_ID :: string
  mi_ImageTag :: string
  mi_ChartVersion :: string
  mi_Source :: PVC
  mi_Dest :: PVC
  mi_DeleteExtraneousFiles :: bool
  mi_IgnoreMounted :: bool
  mi_IgnoreSizes :: bool
  mi_NoChown :: bool
  mi_Detach :: bool
  mi_Push :: bool
  mi_NoCleanup :: bool
  mi_NoCleanupOnFailure :: bool
  mi_ShowProgressBar :: bool
  mi_SourceMountReadWrite :: bool
  mi_NoCompress :: bool
  mi_Mover :: string
  mi_NonRoot :: bool
  mi_RsyncExtraArgs :: string
  mi_KeyAlgorithm :: string
  mi_SSHReverseTunnelPort :: int
  mi_Strategies :: "string list"
  mi_DestHostOverride :: string
  mi_HelmTimeout :: int
  mi_LoadBalancerTimeout :: int
  mi_HelmValuesFiles :: "string list"
  mi_HelmValues :: "string list"
  mi_HelmFileValues :: "string list"
  mi_HelmStringValues :: "string list"
  mi_StructuredLogs :: bool
  mi_ColorOutput :: bool

definition MigrationOptions_zero :: MigrationOptions where
  "MigrationOptions_zero =
     \<lparr>mi_ID = [], mi_ImageTag = [], mi_ChartVersion = [], mi_Source = PVC_zero, mi_Dest = PVC_zero,
      mi_DeleteExtraneousFiles = False, mi_IgnoreMounted = False, mi_IgnoreSizes = False, mi_NoChown = False,
      mi_Detach = False, mi_Push = False, mi_NoCleanup = False, mi_NoCleanupOnFailure = False,
      mi_ShowProgressBar = False, mi_SourceMountReadWrite = False, mi_NoCompress = False, mi_Mover = [],
      mi_NonRoot = False, mi_RsyncExtraArgs = [], mi_KeyAlgorithm = [], mi_SSHReverseTunnelPort = 0,
      mi_Strategies = [], mi_DestHostOverride = [], mi_HelmTimeout = 0, mi_LoadBalancerTimeout = 0,
      mi_HelmValuesFiles = [], mi_HelmValues = [], mi_HelmFileValues = [], mi_HelmStringValues = [],
      mi_StructuredLogs = False, mi_ColorOutput = False\<rparr>"

record Backup =
  ba_ID :: string
  ba_ImageTag :: string
  ba_ChartVersion :: string
  ba_PVC :: PVC
  ba_Backend :: string
  ba_Bucket :: string
  ba_S3Provider :: string
  ba_Endpoint :: string
  ba_Region :: string
  ba_AccessKey :: string
  ba_SecretKey :: string
  ba_StorageAccount :: string
  ba_StorageKey :: string
  ba_GCSServiceAccountJSON :: string
  ba_GCSBucketPolicyOnly :: "bool option"
  ba_Name :: string
  ba_Prefix :: string
  ba_Path :: string
  ba_RcloneConfigFile :: string
  ba_Remote :: string
  ba_RcloneExtraArgs :: string
  ba_ArchiveFile :: string
  ba_CompressionLevel :: int
  ba_Snapshot :: bool
  ba_SnapshotClass :: string
  ba_KeepSnapshot :: bool
  ba_FromSnapshot :: string
  ba_Flush :: string
  ba_FlushContainer :: string
  ba_FlushCommand :: "string list"
  ba_FlushUser :: string
  ba_FlushPassword :: string
  ba_FlushPasswordSecret :: string
  ba_IgnoreMounted :: bool
  ba_NonRoot :: bool
  ba_Detach :: bool
  ba_NoCleanup :: bool
  ba_NoCleanupOnFailure :: bool
  ba_HelmTimeout :: int
  ba_HelmValuesFiles :: "string list"
  ba_HelmValues :: "string list"
  ba_HelmFileValues :: "string list"
  ba_HelmStringValues :: "string list"
  ba_StructuredLogs :: bool
  ba_ColorOutput :: bool

record Restore =
  re_ID :: string
  re_ImageTag :: string
  re_ChartVersion :: string
  re_PVC :: PVC
  re_Backend :: string
  re_Bucket :: string
  re_S3Provider :: string
  re_Endpoint :: string
  re_Region :: string
  re_AccessKey :: string
  re_SecretKey :: string
  re_StorageAccount :: string
  re_StorageKey :: string
  re_GCSServiceAccountJSON :: string
  re_GCSBucketPolicyOnly :: "bool option"
  re_Name :: string
  re_Prefix :: string
  re_Path :: string
  re_RcloneConfigFile :: string
  re_Remote :: string
  re_RcloneExtraArgs :: string
  re_ArchiveFile :: string
  re_CompressionLevel :: int
  re_DeleteExtraneousFiles :: bool
  re_IgnoreMounted :: bool
  re_NonRoot :: bool
  re_Detach :: bool
  re_NoCleanup :: bool
  re_NoCleanupOnFailure :: bool
  re_HelmTimeout :: int
  re_HelmValuesFiles :: "string list"
  re_HelmValues :: "string list"
  re_HelmFileValues :: "string list"
  re_HelmStringValues :: "string list"
  re_StructuredLogs :: bool
  re_ColorOutput :: bool

section \<open>A migration\<close>

definition applyTransportDefaults :: "MigrationOptions \<Rightarrow> MigrationOptions" where
  "applyTransportDefaults m = m\<lparr>
     mi_SSHReverseTunnelPort := (if mi_SSHReverseTunnelPort m = 0 then DefaultSSHReverseTunnelPort else mi_SSHReverseTunnelPort m),
     mi_HelmTimeout := (if mi_HelmTimeout m = 0 then defaultHelmTimeout else mi_HelmTimeout m),
     mi_LoadBalancerTimeout := (if mi_LoadBalancerTimeout m = 0 then defaultLoadBalancerTimeout else mi_LoadBalancerTimeout m)\<rparr>"

definition default_path :: "PVC \<Rightarrow> PVC" where
  "default_path p = (if pv_Path p = [] then p\<lparr>pv_Path := defaultPath\<rparr> else p)"

definition ApplyDefaults :: "MigrationOptions \<Rightarrow> MigrationOptions" where
  "ApplyDefaults m = applyTransportDefaults (m\<lparr>
     mi_Source := default_path (mi_Source m),
     mi_Dest := default_path (mi_Dest m),
     mi_Strategies := (if mi_Strategies m = [] then DefaultStrategies else mi_Strategies m),
     mi_KeyAlgorithm := (if mi_KeyAlgorithm m = [] then Ed25519 else mi_KeyAlgorithm m),
     mi_Mover := (if mi_Mover m = [] then MoverRsync else mi_Mover m)\<rparr>)"

definition PVC_info :: "PVC \<Rightarrow> PVCInfo" where
  "PVC_info p = \<lparr>pi_KubeconfigPath = pv_KubeconfigPath p, pi_Context = pv_Context p, pi_Namespace = pv_Namespace p,
     pi_Name = pv_Name p, pi_Path = pv_Path p\<rparr>"

definition toInternalRequest :: "MigrationOptions \<Rightarrow> Request" where
  "toInternalRequest m =
     \<lparr>rq_ID = mi_ID m, rq_ImageTag = mi_ImageTag m, rq_ChartVersion = mi_ChartVersion m,
      rq_Source = PVC_info (mi_Source m), rq_Dest = PVC_info (mi_Dest m),
      rq_DeleteExtraneousFiles = mi_DeleteExtraneousFiles m, rq_IgnoreMounted = mi_IgnoreMounted m,
      rq_IgnoreSizes = mi_IgnoreSizes m, rq_NoChown = mi_NoChown m, rq_Detach = mi_Detach m, rq_Push = mi_Push m,
      rq_NoCleanup = mi_NoCleanup m, rq_NoCleanupOnFailure = mi_NoCleanupOnFailure m,
      rq_ShowProgressBar = mi_ShowProgressBar m, rq_SourceMountReadWrite = mi_SourceMountReadWrite m,
      rq_KeyAlgorithm = mi_KeyAlgorithm m, rq_SSHReverseTunnelPort = mi_SSHReverseTunnelPort m,
      rq_HelmTimeout = mi_HelmTimeout m, rq_HelmValuesFiles = mi_HelmValuesFiles m,
      rq_HelmValues = mi_HelmValues m, rq_HelmFileValues = mi_HelmFileValues m,
      rq_HelmStringValues = mi_HelmStringValues m, rq_Strategies = mi_Strategies m,
      rq_DestHostOverride = mi_DestHostOverride m, rq_LoadBalancerTimeout = mi_LoadBalancerTimeout m,
      rq_NoCompress = mi_NoCompress m, rq_NonRoot = mi_NonRoot m, rq_RsyncExtraArgs = mi_RsyncExtraArgs m,
      rq_Mover = mi_Mover m, rq_StructuredLogs = mi_StructuredLogs m, rq_ColorOutput = mi_ColorOutput m\<rparr>"

datatype api_failure =
  BadID opid_error
| BadTunnelPort int
| BadPaths mover_error
| MigrationFailed migrator_error

definition pvmigrate_Run :: "'sel world \<Rightarrow> MigrationOptions \<Rightarrow> api_failure option \<times> event list" where
  "pvmigrate_Run w options =
     (let m = ApplyDefaults options; p = mi_SSHReverseTunnelPort m in
      case (if mi_ID m \<noteq> [] then Validate (mi_ID m) else None) of Some e \<Rightarrow> (Some (BadID e), [])
      | None \<Rightarrow>
        if p < 1 \<or> 65535 < p then (Some (BadTunnelPort p), [])
        else case ValidatePaths (pv_Path (mi_Source m)) (pv_Path (mi_Dest m)) of Some e \<Rightarrow> (Some (BadPaths e), [])
        | None \<Rightarrow> (case migrator_Run w (toInternalRequest m) of (err, tr) \<Rightarrow> (map_option MigrationFailed err, tr)))"

section \<open>A backup and a restore\<close>

definition applyBackupDefaults :: "Backup \<Rightarrow> Backup" where
  "applyBackupDefaults b = b\<lparr>
     ba_Prefix := (if ba_Prefix b = [] then DefaultPrefix else ba_Prefix b),
     ba_HelmTimeout := (if ba_HelmTimeout b = 0 then defaultHelmTimeout else ba_HelmTimeout b)\<rparr>"

definition toBackupRequest :: "Backup \<Rightarrow> string \<Rightarrow> BRequest" where
  "toBackupRequest b direction =
     \<lparr>bq_ID = ba_ID b, bq_ImageTag = ba_ImageTag b, bq_ChartVersion = ba_ChartVersion b,
      bq_Direction = direction, bq_KubeconfigPath = pv_KubeconfigPath (ba_PVC b),
      bq_Context = pv_Context (ba_PVC b), bq_Namespace = pv_Namespace (ba_PVC b),
      bq_PVCName = pv_Name (ba_PVC b), bq_IgnoreMounted = ba_IgnoreMounted b, bq_NonRoot = ba_NonRoot b,
      bq_Detach = ba_Detach b, bq_NoCleanup = ba_NoCleanup b, bq_NoCleanupOnFailure = ba_NoCleanupOnFailure b,
      bq_DeleteExtraneousFiles = False, bq_Backend = ba_Backend b, bq_Bucket = ba_Bucket b,
      bq_S3Provider = ba_S3Provider b, bq_Endpoint = ba_Endpoint b, bq_Region = ba_Region b,
      bq_AccessKey = ba_AccessKey b, bq_SecretKey = ba_SecretKey b, bq_StorageAccount = ba_StorageAccount b,
      bq_StorageKey = ba_StorageKey b, bq_GCSServiceAccountJSON = ba_GCSServiceAccountJSON b,
      bq_GCSBucketPolicyOnly = ba_GCSBucketPolicyOnly b, bq_Name = ba_Name b, bq_Prefix = ba_Prefix b,
      bq_Path = ba_Path b, bq_RcloneConfigFile = ba_RcloneConfigFile b, bq_Remote = ba_Remote b,
      bq_RcloneExtraArgs = ba_RcloneExtraArgs b, bq_ArchiveFile = ba_ArchiveFile b,
      bq_CompressionLevel = ba_CompressionLevel b, bq_Snapshot = ba_Snapshot b,
      bq_FromSnapshot = ba_FromSnapshot b, bq_SnapshotClass = ba_SnapshotClass b,
      bq_KeepSnapshot = ba_KeepSnapshot b, bq_Flush = ba_Flush b, bq_FlushContainer = ba_FlushContainer b,
      bq_FlushCommand = ba_FlushCommand b, bq_FlushUser = ba_FlushUser b, bq_FlushPassword = ba_FlushPassword b,
      bq_FlushPasswordSecret = ba_FlushPasswordSecret b, bq_HelmTimeout = ba_HelmTimeout b,
      bq_HelmValuesFiles = ba_HelmValuesFiles b, bq_HelmValues = ba_HelmValues b,
      bq_HelmFileValues = ba_HelmFileValues b, bq_HelmStringValues = ba_HelmStringValues b,
      bq_StructuredLogs = ba_StructuredLogs b, bq_ColorOutput = ba_ColorOutput b\<rparr>"

definition applyRestoreDefaults :: "Restore \<Rightarrow> Restore" where
  "applyRestoreDefaults r = r\<lparr>
     re_Prefix := (if re_Prefix r = [] then DefaultPrefix else re_Prefix r),
     re_HelmTimeout := (if re_HelmTimeout r = 0 then defaultHelmTimeout else re_HelmTimeout r)\<rparr>"

definition toRestoreRequest :: "Restore \<Rightarrow> BRequest" where
  "toRestoreRequest r =
     \<lparr>bq_ID = re_ID r, bq_ImageTag = re_ImageTag r, bq_ChartVersion = re_ChartVersion r,
      bq_Direction = DirectionRestore, bq_KubeconfigPath = pv_KubeconfigPath (re_PVC r),
      bq_Context = pv_Context (re_PVC r), bq_Namespace = pv_Namespace (re_PVC r),
      bq_PVCName = pv_Name (re_PVC r), bq_IgnoreMounted = re_IgnoreMounted r, bq_NonRoot = re_NonRoot r,
      bq_Detach = re_Detach r, bq_NoCleanup = re_NoCleanup r, bq_NoCleanupOnFailure = re_NoCleanupOnFailure r,
      bq_DeleteExtraneousFiles = re_DeleteExtraneousFiles r, bq_Backend = re_Backend r, bq_Bucket = re_Bucket r,
      bq_S3Provider = re_S3Provider r, bq_Endpoint = re_Endpoint r, bq_Region = re_Region r,
      bq_AccessKey = re_AccessKey r, bq_SecretKey = re_SecretKey r, bq_StorageAccount = re_StorageAccount r,
      bq_StorageKey = re_StorageKey r, bq_GCSServiceAccountJSON = re_GCSServiceAccountJSON r,
      bq_GCSBucketPolicyOnly = re_GCSBucketPolicyOnly r, bq_Name = re_Name r, bq_Prefix = re_Prefix r,
      bq_Path = re_Path r, bq_RcloneConfigFile = re_RcloneConfigFile r, bq_Remote = re_Remote r,
      bq_RcloneExtraArgs = re_RcloneExtraArgs r, bq_ArchiveFile = re_ArchiveFile r,
      bq_CompressionLevel = re_CompressionLevel r, bq_Snapshot = False, bq_FromSnapshot = [],
      bq_SnapshotClass = [], bq_KeepSnapshot = False, bq_Flush = [], bq_FlushContainer = [],
      bq_FlushCommand = [], bq_FlushUser = [], bq_FlushPassword = [], bq_FlushPasswordSecret = [],
      bq_HelmTimeout = re_HelmTimeout r, bq_HelmValuesFiles = re_HelmValuesFiles r,
      bq_HelmValues = re_HelmValues r, bq_HelmFileValues = re_HelmFileValues r,
      bq_HelmStringValues = re_HelmStringValues r, bq_StructuredLogs = re_StructuredLogs r,
      bq_ColorOutput = re_ColorOutput r\<rparr>"

datatype storage_failure =
  BadStorageID opid_error
| StorageFailed run_error

definition run_storage ::
  "benv \<Rightarrow> bworld \<Rightarrow> string \<Rightarrow> BRequest \<Rightarrow> storage_failure option \<times> bevent list" where
  "run_storage env w i req =
     (case (if i \<noteq> [] then Validate i else None) of Some e \<Rightarrow> (Some (BadStorageID e), [])
      | None \<Rightarrow> (case bucket_Run env w req [] of (Inl e, tr) \<Rightarrow> (Some (StorageFailed e), tr) | (Inr _, tr) \<Rightarrow> (None, tr)))"

definition RunBackup :: "benv \<Rightarrow> bworld \<Rightarrow> Backup \<Rightarrow> storage_failure option \<times> bevent list" where
  "RunBackup env w options = (let b = applyBackupDefaults options in
     run_storage env w (ba_ID b) (toBackupRequest b DirectionBackup))"

definition RunRestore :: "benv \<Rightarrow> bworld \<Rightarrow> Restore \<Rightarrow> storage_failure option \<times> bevent list" where
  "RunRestore env w options = (let r = applyRestoreDefaults options in run_storage env w (re_ID r) (toRestoreRequest r))"


section \<open>Which releases a migration installs\<close>

lemma cleanup_installs_nothing:
  "\<exists>evs. st_trace (snd (strategy_Cleanup env st)) = st_trace st @ evs \<and> list_all (\<lambda>e. \<not> is_install e) evs"
proof -
  have one: "\<exists>evs. st_trace (snd (cleanupForPVC env n s st)) = st_trace st @ evs \<and> list_all (\<lambda>e. \<not> is_install e) evs" for n s st
    by (auto simp: cleanupForPVC_def bind_def ask_def guard_def ret_def fail_def split: uninstall_answer.splits option.splits)
  have "\<exists>evs. st_trace (snd (cleanup_all env todo st)) = st_trace st @ evs \<and> list_all (\<lambda>e. \<not> is_install e) evs" for todo st
  proof (induction todo arbitrary: st)
    case (Cons p todo)
    obtain s n where p: "p = (s, n)" by (cases p)
    from one [of n s st] Cons.IH [of "snd (cleanupForPVC env n s st)"] show ?case
      by (auto simp: p split: prod.splits)
  qed simp
  then show ?thesis by (simp add: strategy_Cleanup_def)
qed

fun named_install :: "string set \<Rightarrow> event \<Rightarrow> bool" where
  "named_install N (Install _ n _ _) \<longleftrightarrow> n \<in> N"
| "named_install N _ \<longleftrightarrow> True"

abbreviation names_installs :: "string set \<Rightarrow> event list \<Rightarrow> bool" where
  "names_installs N evs \<equiv> list_all (named_install N) evs"

lemma no_installs_named:
  assumes "list_all (\<lambda>e. \<not> is_install e) evs" shows "names_installs N evs"
proof -
  have "named_install N e" if "\<not> is_install e" for e using that by (cases e) simp_all
  with assms show ?thesis by (auto simp: list_all_iff)
qed

lemma quiet_named: "quiet_event N T e \<Longrightarrow> N \<subseteq> M \<Longrightarrow> named_install M e"
  by (cases e) auto

lemma runAttempt_installs:
  assumes "strategy_contract strat"
    and "runAttempt env strat \<lparr>st_attempt = new_attempt mig migrationID name, st_trace = tr\<rparr> = (r, st)"
  shows "\<exists>evs. st_trace st = tr @ evs \<and> names_installs (release_names_of (at_Prefix (new_attempt mig migrationID name))) evs"
proof -
  let ?st0 = "\<lparr>st_attempt = new_attempt mig migrationID name, st_trace = tr\<rparr>"
  let ?N = "release_names_of (at_Prefix (new_attempt mig migrationID name))"
  obtain r1 st1 where run: "strat env ?st0 = (r1, st1)" by (cases "strat env ?st0")
  have "kept_contract ?st0 r1 st1"
    using strategy_contract.keeps [OF assms(1) run] by (simp add: new_attempt_def)
  then obtain evs1 where e1: "st_trace st1 = tr @ evs1" "names_installs ?N evs1"
    by (auto simp: kept_contract_def list_all_iff intro: quiet_named)
  define st2 where "st2 = (if is_error r1 \<and> no_decline r1 then collectDiagnostics env st1 else st1)"
  obtain evs2 where e2: "st_trace st2 = st_trace st1 @ evs2" "names_installs ?N evs2"
  proof (cases "is_error r1 \<and> no_decline r1")
    case True
    obtain evs where "st_trace (collectDiagnostics env st1) = st_trace st1 @ evs" "list_all (\<lambda>e. \<not> is_install e) evs"
      by (rule collectDiagnostics_keeps)
    with True that no_installs_named show thesis by (simp add: st2_def)
  qed (use that [of "[]"] in \<open>auto simp: st2_def\<close>)
  have st: "st = cleanupAttempt env r1 st2"
    using assms(2) run by (auto simp: runAttempt_def st2_def Let_def split: if_splits)
  have "st = st2 \<or> st = snd (strategy_Cleanup env st2)" unfolding st by (simp add: cleanupAttempt_def Let_def)
  then obtain evs3 where "st_trace st = st_trace st2 @ evs3" "names_installs ?N evs3"
    using cleanup_installs_nothing [of env st2] no_installs_named by (metis append_Nil2 list.pred_inject(1))
  with e1 e2 show ?thesis by auto
qed


lemma ladder_installs:
  assumes "\<And>name strat. strategies name = Some strat \<Longrightarrow> strategy_contract strat \<and> names name"
  shows "\<exists>evs. snd (snd (ladder env strategies mig migrationID todo tr)) = tr @ evs
    \<and> names_installs (\<Union>name \<in> Collect names. release_names_of (at_Prefix (new_attempt mig migrationID name))) evs"
proof (induction todo arbitrary: tr)
  case (Cons name todo)
  let ?N = "\<Union>name \<in> Collect names. release_names_of (at_Prefix (new_attempt mig migrationID name))"
  show ?case
  proof (cases "strategies name")
    case (Some strat)
    let ?st0 = "\<lparr>st_attempt = new_attempt mig migrationID name, st_trace = tr\<rparr>"
    obtain r st where run: "runAttempt env strat ?st0 = (r, st)" by (cases "runAttempt env strat ?st0")
    from assms [OF Some] have c: "strategy_contract strat" "names name" by simp_all
    obtain evs where e: "st_trace st = tr @ evs"
      "names_installs (release_names_of (at_Prefix (new_attempt mig migrationID name))) evs"
      using runAttempt_installs [OF c(1) run] by blast
    have up: "named_install (release_names_of (at_Prefix (new_attempt mig migrationID name))) ev \<Longrightarrow> named_install ?N ev" for ev
      using c(2) by (cases ev) auto
    have e2: "names_installs ?N evs" using e(2) up by (auto simp: list_all_iff)
    obtain evs' where l: "snd (snd (ladder env strategies mig migrationID todo (st_trace st))) = st_trace st @ evs'"
      "names_installs ?N evs'" using Cons.IH by blast
    have "snd (snd (ladder env strategies mig migrationID (name # todo) tr)) = st_trace st
        \<or> snd (snd (ladder env strategies mig migrationID (name # todo) tr))
            = snd (snd (ladder env strategies mig migrationID todo (st_trace st)))"
      using Some run by (cases r) (simp_all add: Let_def split_beta)
    with e(1) e2 l show ?thesis by auto
  qed simp
qed simp


text \<open>
  A name Helm accepts for a release. The chart derives names from it by adding a component, \<open>-rclone\<close>
  at most, which stay within the 63 characters Kubernetes allows.
\<close>

definition release_name_ok :: "string \<Rightarrow> bool" where
  "release_name_ok n \<longleftrightarrow> valid_id n \<and> length n \<le> 53"

lemma migrator_Run_names:
  assumes "Validate (if rq_ID req = [] then wd_GenerateID w else rq_ID req) = None"
  shows "names_installs (Collect release_name_ok) (snd (migrator_Run w req))"
proof (cases "preflight req")
  case (Inr m)
  let ?i = "if rq_ID req = [] then wd_GenerateID w else rq_ID req"
  have known: "strategy_contract strat \<and> nameToStrategy name \<noteq> None" if "map_of m name = Some strat" for name strat
  proof -
    have "nameToStrategy name = Some strat"
      using that Inr GetStrategies_known by (auto simp: preflight_def split: option.splits sum.splits)
    with nameToStrategy_contract show ?thesis by simp
  qed
  have named: "names_installs (Collect release_name_ok) (snd (snd (ladder (wd_Env w) (map_of m) mig ?i todo [])))" for mig todo
  proof -
    have sub: "n \<in> Collect release_name_ok"
      if "n \<in> (\<Union>name \<in> Collect (\<lambda>name. nameToStrategy name \<noteq> None). release_names_of (at_Prefix (new_attempt mig ?i name)))" for n
      using that release_names_valid [OF assms] by (auto simp: release_name_ok_def)
    then have "named_install (\<Union>name \<in> Collect (\<lambda>name. nameToStrategy name \<noteq> None).
        release_names_of (at_Prefix (new_attempt mig ?i name))) e \<Longrightarrow> named_install (Collect release_name_ok) e" for e
      by (cases e) auto
    then show ?thesis
      using ladder_installs [of "map_of m" "\<lambda>name. nameToStrategy name \<noteq> None" "wd_Env w" mig ?i todo "[]", OF known]
      by (auto simp: list_all_iff)
  qed
  have snd: "snd (ladder_result l) = snd (snd l)" for l by (simp add: ladder_result_def split_beta)
  show ?thesis
    unfolding migrator_Run_def Let_def Inr using named by (auto simp: snd split: sum.splits)
qed (simp add: migrator_Run_def)

lemma defaults_keep_ID [simp]: "mi_ID (ApplyDefaults m) = mi_ID m"
  by (simp add: ApplyDefaults_def applyTransportDefaults_def)

lemma pvmigrate_Run_names:
  assumes "Validate (wd_GenerateID w) = None"
  shows "names_installs (Collect release_name_ok) (snd (pvmigrate_Run w m))"
proof -
  have "names_installs (Collect release_name_ok) (snd (migrator_Run w (toInternalRequest (ApplyDefaults m))))"
    if "mi_ID m \<noteq> [] \<longrightarrow> Validate (mi_ID m) = None"
    using that assms by (intro migrator_Run_names) (simp add: toInternalRequest_def)
  then show ?thesis
    by (auto simp: pvmigrate_Run_def Let_def split: option.splits prod.splits)
qed

section \<open>What a backup and a restore ask for\<close>

definition storage_release :: "bworld \<Rightarrow> BRequest \<Rightarrow> string" where
  "storage_release w req = ReleasePrefix @ (if bq_ID req = [] then bw_GenerateID w else bq_ID req) @ ''-'' @ bq_Direction req"

lemma check_request_release: "check_request w req = Inr checked \<Longrightarrow> fst (snd checked) = storage_release w req"
  by (auto simp: check_request_def storage_release_def Let_def split: sum.splits option.splits if_splits)

text \<open>The requests of a run without a snapshot: reads of claims, and one release with its job.\<close>

fun job_request :: "string \<Rightarrow> bevent \<Rightarrow> bool" where
  "job_request rel (LookupClaim _ _) \<longleftrightarrow> True"
| "job_request rel InitRelease \<longleftrightarrow> True"
| "job_request rel (CheckNetworkPolicy _) \<longleftrightarrow> True"
| "job_request rel (InstallRelease n _ _) \<longleftrightarrow> n = rel"
| "job_request rel (UninstallRelease n) \<longleftrightarrow> n = rel"
| "job_request rel (WaitJobStart _) \<longleftrightarrow> True"
| "job_request rel (WaitJob _) \<longleftrightarrow> True"
| "job_request rel (ReportFailure _) \<longleftrightarrow> True"
| "job_request rel _ \<longleftrightarrow> False"

lemma emits_release [emits_intro]:
  "emits (job_request rel) (init_release env)"
  "emits (job_request rel) (bucket_cleanupRelease env rel)"
  "emits (job_request rel) (await_job env req rel job)"
  by (auto intro!: emits_intro simp: init_release_def bucket_cleanupRelease_def await_job_def)

lemma emits_install [emits_intro]: "emits (job_request rel) (bucket_installHelmChart env rel vals req)"
proof -
  have "emits (job_request rel) (disable_forbidden env vals)"
    by (auto simp: emits_def disable_forbidden_def Let_def list_all_iff)
  then show ?thesis unfolding bucket_installHelmChart_def by (auto intro!: emits_intro)
qed

lemma emits_handle [emits_intro]: "emits (job_request rel) (handleJobCompletion env req rel job)"
  unfolding emits_def
proof
  fix tr
  obtain r evs where a: "await_job env req rel job tr = (r, tr @ evs)" "list_all (job_request rel) evs"
    using emits_release(3) emitsE by (metis prod.collapse)
  obtain more where "effect (bucket_cleanupRelease env rel) (tr @ evs) = (tr @ evs) @ more" "list_all (job_request rel) more"
    using effect_emits [OF emits_release(2)] by blast
  with a show "\<exists>evs. snd (handleJobCompletion env req rel job tr) = tr @ evs \<and> list_all (job_request rel) evs"
    by (auto simp: handleJobCompletion_def)
qed


lemma emits_run_job [emits_intro]:
  "emits (job_request rel) (run_job env w req ns (target, rel, conf, rp, lp) i)"
proof -
  have inst: "emits (job_request rel) (\<lambda>tr. case bucket_installHelmChart env rel vals req tr of
       (Inl e, tr1) \<Rightarrow> (Inl e, tr1 @ [ReportFailure rel]) | (Inr _, tr1) \<Rightarrow> handleJobCompletion env req rel job tr1)" for vals job
    unfolding emits_def
  proof
    fix tr
    obtain r evs where a: "bucket_installHelmChart env rel vals req tr = (r, tr @ evs)" "list_all (job_request rel) evs"
      using emits_install emitsE by (metis prod.collapse)
    obtain more where "snd (handleJobCompletion env req rel job (tr @ evs)) = (tr @ evs) @ more" "list_all (job_request rel) more"
      using emits_handle by (rule emitsE)
    with a show "\<exists>evs. snd (case bucket_installHelmChart env rel vals req tr of
       (Inl e, tr1) \<Rightarrow> (Inl e, tr1 @ [ReportFailure rel]) | (Inr _, tr1) \<Rightarrow> handleJobCompletion env req rel job tr1) = tr @ evs
         \<and> list_all (job_request rel) evs" by (cases r) auto
  qed
  have lookup: "emits (job_request rel) (if isArchive req \<and> InCluster target
      then bbind (resolveArchiveClaim env ns target i) (\<lambda>i. bret (Some i)) else bret None)"
    by (auto intro!: emits_intro simp: resolveArchiveClaim_def)
  show ?thesis
    unfolding run_job_def prod.case Let_def by (intro emits_bbind lookup emits_basic inst)
qed

text \<open>What a whole run may do beside its job: requests of the preparation and the removal of its copies.\<close>

definition storage_request :: "BRequest \<Rightarrow> string \<Rightarrow> bevent \<Rightarrow> bool" where
  "storage_request req rel e \<longleftrightarrow> job_request rel e \<or> usesSnapshot req \<and> (preparing e \<or> removes e)"

lemma bind_Inr: "bbind (blift f (Inr x)) g = g x"
  by (auto simp: bbind_def blift_def bret_def)

lemma bucket_Run_requests: "emits (storage_request req (storage_release w req)) (bucket_Run env w req)"
proof (cases "check_request w req")
  case (Inl e)
  then show ?thesis by (simp add: bucket_Run_def bbind_def blift_def bfail_def emits_def)
next
  case (Inr checked)
  obtain target rel conf rp lp where c: "checked = (target, rel, conf, rp, lp)" by (cases checked)
  then have rel: "rel = storage_release w req" using check_request_release [OF Inr] by simp
  let ?P = "storage_request req rel"
  have up: "job_request rel e \<Longrightarrow> ?P e" for e by (simp add: storage_request_def)
  have rest: "emits ?P (bbind (resolveSource env req live rel) (\<lambda>(pvcInfo, release) tr.
       case run_job env w req ns (target, rel, conf, rp, lp) pvcInfo tr of (r, tr1) \<Rightarrow> (r, release (isl r) tr1)))" for live ns
    unfolding emits_def
  proof
    fix tr
    obtain r1 tr1 where s: "resolveSource env req live rel tr = (r1, tr1)" by fastforce
    from resolveSource_preparing [OF s] obtain evs where e: "tr1 = tr @ evs" "list_all preparing evs" by blast
    have e': "list_all ?P evs"
    proof (cases "usesSnapshot req")
      case True with e(2) show ?thesis by (auto simp: list_all_iff storage_request_def)
    next
      case False
      with s e(1) have "evs = []" by (auto simp: resolveSource_def bret_def bfail_def split: if_splits)
      then show ?thesis by simp
    qed
    show "\<exists>evs. snd (bbind (resolveSource env req live rel) (\<lambda>(pvcInfo, release) tr.
       case run_job env w req ns (target, rel, conf, rp, lp) pvcInfo tr of (r, tr1) \<Rightarrow> (r, release (isl r) tr1)) tr) = tr @ evs
        \<and> list_all ?P evs"
    proof (cases r1)
      case (Inl err) with s e(1) e' show ?thesis by (simp add: bbind_def)
    next
      case (Inr src)
      obtain i release where src: "src = (i, release)" by (cases src)
      obtain r2 more where j: "run_job env w req ns (target, rel, conf, rp, lp) i tr1 = (r2, tr1 @ more)" "list_all (job_request rel) more"
        using emits_run_job emitsE by (metis prod.collapse)
      obtain last where "release (isl r2) (tr1 @ more) = (tr1 @ more) @ last" "list_all ?P last"
        using resolveSource_release [OF s [unfolded Inr src], of "isl r2" "tr1 @ more"]
        by (auto simp: storage_request_def list_all_iff split: if_splits)
      with s j e e' up Inr src show ?thesis by (auto simp: bbind_def list_all_iff)
    qed
  qed
  show ?thesis
    unfolding bucket_Run_def Inr bind_Inr c rel [symmetric] Let_def snd_conv fst_conv
    by (intro emits_bbind emits_basic rest) (simp add: storage_request_def)
qed


lemma run_storage_requests:
  "list_all (storage_request req (storage_release w req)) (snd (run_storage env w (bq_ID req) req))
    \<and> (snd (run_storage env w (bq_ID req) req) \<noteq> [] \<longrightarrow> bq_ID req = [] \<or> Validate (bq_ID req) = None)"
proof -
  obtain evs where "snd (bucket_Run env w req []) = [] @ evs" "list_all (storage_request req (storage_release w req)) evs"
    using bucket_Run_requests by (rule emitsE)
  then show ?thesis by (auto simp: run_storage_def split: option.splits prod.splits sum.splits)
qed

lemma storage_release_ok:
  assumes "bq_ID req = [] \<or> Validate (bq_ID req) = None" and "Validate (bw_GenerateID w) = None"
    and "bq_Direction req \<in> {DirectionBackup, DirectionRestore}"
  shows "release_name_ok (storage_release w req)"
proof -
  define i where "i = (if bq_ID req = [] then bw_GenerateID w else bq_ID req)"
  from assms(1,2) have i: "length i \<le> 24" "valid_id i" by (auto simp: i_def Validate_None)
  have seg: "valid_id ''pv''" "valid_id ''migrate''" "valid_id ''backup''" "valid_id ''restore''"
    by (simp_all add: valid_id_def id_segment_def id_byte_def is_lower_def byte_def)
  have rel: "storage_release w req = ''pv'' @ ''-'' @ ''migrate'' @ ''-'' @ i @ ''-'' @ bq_Direction req"
    by (simp add: storage_release_def ReleasePrefix_def i_def)
  have d: "valid_id (bq_Direction req)" "length (bq_Direction req) \<le> 7"
    using assms(3) seg by (auto simp: DirectionBackup_def DirectionRestore_def)
  have "valid_id (storage_release w req)" unfolding rel valid_id_append using seg i d by simp
  moreover have "length (storage_release w req) \<le> 53" unfolding rel using i(1) d(2) by simp
  ultimately show ?thesis by (simp add: release_name_ok_def)
qed

lemma run_storage_names:
  assumes "Validate (bw_GenerateID w) = None" and "bq_Direction req \<in> {DirectionBackup, DirectionRestore}"
    and "InstallRelease n v b \<in> set (snd (run_storage env w (bq_ID req) req))"
  shows "release_name_ok n"
proof -
  have "storage_request req (storage_release w req) (InstallRelease n v b)" and "bq_ID req = [] \<or> Validate (bq_ID req) = None"
    using run_storage_requests [of req w env] assms(3) by (auto simp: list_all_iff)
  then show ?thesis using storage_release_ok [OF _ assms(1,2)] by (simp add: storage_request_def)
qed

text \<open>
  C21: whatever options a caller of the public interface gives, every release a migration, a backup or
  a restore installs has a name Helm accepts, lower-case alphanumeric segments joined by single
  hyphens and at most 53 characters, provided generated identifiers are valid ones. An identifier the
  caller chose is checked before anything is asked of a cluster.
\<close>

theorem api_release_names:
  assumes "Validate (wd_GenerateID w) = None" and "Validate (bw_GenerateID bw) = None"
  shows "(\<forall>s n v b. Install s n v b \<in> set (snd (pvmigrate_Run w m)) \<longrightarrow> release_name_ok n)
    \<and> (\<forall>n v b. InstallRelease n v b \<in> set (snd (RunBackup env bw backup)) \<longrightarrow> release_name_ok n)
    \<and> (\<forall>n v b. InstallRelease n v b \<in> set (snd (RunRestore env bw restore)) \<longrightarrow> release_name_ok n)"
proof (intro conjI allI impI)
  fix s n v b assume "Install s n v b \<in> set (snd (pvmigrate_Run w m))"
  then show "release_name_ok n"
    using pvmigrate_Run_names [OF assms(1), of m] by (fastforce simp: list_all_iff)
next
  fix n v b
  let ?req = "toBackupRequest (applyBackupDefaults backup) DirectionBackup"
  assume "InstallRelease n v b \<in> set (snd (RunBackup env bw backup))"
  then have "InstallRelease n v b \<in> set (snd (run_storage env bw (bq_ID ?req) ?req))"
    by (simp add: RunBackup_def Let_def toBackupRequest_def)
  then show "release_name_ok n" by (rule run_storage_names [OF assms(2), rotated]) (simp add: toBackupRequest_def)
next
  fix n v b
  let ?req = "toRestoreRequest (applyRestoreDefaults restore)"
  assume "InstallRelease n v b \<in> set (snd (RunRestore env bw restore))"
  then have "InstallRelease n v b \<in> set (snd (run_storage env bw (bq_ID ?req) ?req))"
    by (simp add: RunRestore_def Let_def toRestoreRequest_def)
  then show "release_name_ok n" by (rule run_storage_names [OF assms(2), rotated]) (simp add: toRestoreRequest_def)
qed

text \<open>
  C20: a restore never touches a database or a snapshot. Whatever its options and whatever the cluster
  answers, it reads claims, checks permissions, and installs, awaits, reports on and removes one
  release: it makes no snapshot request, reads no secret, opens no client session, deletes no claim.
\<close>

theorem restore_only_its_job:
  "list_all (job_request (storage_release w (toRestoreRequest (applyRestoreDefaults restore)))) (snd (RunRestore env w restore))"
proof -
  let ?req = "toRestoreRequest (applyRestoreDefaults restore)"
  have "list_all (storage_request ?req (storage_release w ?req)) (snd (RunRestore env w restore))"
    using run_storage_requests [of ?req w env] by (simp add: RunRestore_def Let_def toRestoreRequest_def)
  moreover have "\<not> usesSnapshot ?req" by (simp add: usesSnapshot_def toRestoreRequest_def)
  ultimately show ?thesis by (auto simp: storage_request_def list_all_iff)
qed


text \<open>A migration through the API that installs: both claims on one node, the mounts ignored.\<close>

definition options_example :: MigrationOptions where
  "options_example = MigrationOptions_zero\<lparr>mi_Source := PVC_zero\<lparr>pv_Name := ''data''\<rparr>,
     mi_Dest := PVC_zero\<lparr>pv_Name := ''data''\<rparr>, mi_IgnoreMounted := True, mi_Mover := ''tar''\<rparr>"

lemma root_resolved: "mountSubPath srcMountPath ''/'' = Inr ''/source/''" "mountSubPath destMountPath ''/'' = Inr ''/dest/''"
  using mountSubPath_cases [of "''source''" "''/''"] mountSubPath_cases [of "''dest''" "''/''"]
  by (auto simp: srcMountPath_def destMountPath_def split: sum.splits)

lemma options_example_installs: "list_ex is_install (snd (pvmigrate_Run world_example options_example))"
proof -
  let ?m = "ApplyDefaults options_example" and ?req = "toInternalRequest (ApplyDefaults options_example)"
  have m: "mi_ID ?m = []" "mi_SSHReverseTunnelPort ?m = 22000" "pv_Path (mi_Source ?m) = ''/''" "pv_Path (mi_Dest ?m) = ''/''"
    "mi_Mover ?m = ''tar''" "mi_Strategies ?m = [''mount'', ''clusterip'', ''loadbalancer'']" "mi_IgnoreMounted ?m"
    "mi_RsyncExtraArgs ?m = []" "\<not> mi_Detach ?m" "\<not> mi_DeleteExtraneousFiles ?m"
    "mi_Source ?m = \<lparr>pv_KubeconfigPath = [], pv_Context = [], pv_Namespace = [], pv_Name = ''data'', pv_Path = ''/''\<rparr>"
    "mi_Dest ?m = \<lparr>pv_KubeconfigPath = [], pv_Context = [], pv_Namespace = [], pv_Name = ''data'', pv_Path = ''/''\<rparr>"
    by (simp_all add: options_example_def MigrationOptions_zero_def PVC_zero_def ApplyDefaults_def
        applyTransportDefaults_def default_path_def DefaultStrategies_def defaultPath_def DefaultSSHReverseTunnelPort_def
        strategy_names)
  have r: "rq_Mover ?req = MoverTar" "rq_RsyncExtraArgs ?req = []" "\<not> rq_Detach ?req" "rq_IgnoreMounted ?req"
    "rq_Strategies ?req = [''mount'', ''clusterip'', ''loadbalancer'']" "\<not> rq_DeleteExtraneousFiles ?req"
    "rq_Source ?req = \<lparr>pi_KubeconfigPath = [], pi_Context = [], pi_Namespace = [], pi_Name = ''data'', pi_Path = ''/''\<rparr>"
    "rq_Dest ?req = \<lparr>pi_KubeconfigPath = [], pi_Context = [], pi_Namespace = [], pi_Name = ''data'', pi_Path = ''/''\<rparr>"
    using m by (simp_all add: toInternalRequest_def PVC_info_def MoverTar_def)
  have paths: "resolveMountPaths ?req = Inr (''/source/'', ''/dest/'')"
    using r root_resolved by (simp add: resolveMountPaths_def resolve_paths_def)
  then obtain c where c: "buildMoverCmdLocal ?req = Inr c"
    using r by (simp add: buildMoverCmdLocal_def moverKind_def checkTarFlags_def wrap_tar_def
        transfer_Build_def transfer_check_def TransferCmd_zero_def transfer_compression_def
        transfer_level_def compressProgram_def checkLevel_def minLevel_def maxZstdLevel_def TransportLevel_def
        CompressionNone_def CompressionZstd_def CheckSingleLine_eval MoverTar_def Let_def)
  have cl: "getClusterClients world_example ?req = Inr (client_example, client_example)"
    using r by (simp add: getClusterClients_def world_example_def client_example_def Let_def)
  obtain mig where mig: "buildMigrationWithClients world_example ?req client_example client_example = Inr mig"
    "mg_Request mig = ?req" "Mount_cannotDoReason mig = []"
    using r by (simp add: buildMigrationWithClients_def world_example_def resolvedNamespaces_def
      pvc_New_def newInfo_def pvc_api_example_def readAccessModes_eq findMountedPod_def client_example_def
      pvc_resolveTopology_def AllowedNodesFor_def volumeNodeSelector_def ReadWriteOnce_def
      ReadOnlyMany_def ReadWriteMany_def ReadWriteOncePod_def handleMountedPVCs_def handleMounted_def
      validatePVCs_def handleSizes_def Size_def Mount_cannotDoReason_def sameCluster_def ns_of_def info_of_def Let_def)
  have pre: "preflight ?req = Inr [(''mount'', Mount_Run), (''clusterip'', ClusterIP_Run), (''loadbalancer'', LoadBalancer_Run)]"
    using r by (simp add: preflight_def CheckMoverFlags_def moverKind_def checkTarFlags_def MoverTar_def
        nameToStrategy_def mountStrategy_def clusterIPStrategy_def loadBalancerStrategy_def)
  have "list_ex is_install (snd (migrator_Run world_example ?req))"
    by (rule run_installs [OF mig c r(3) pre _ r(5) cl]) simp
  moreover have "snd (pvmigrate_Run world_example options_example) = snd (migrator_Run world_example ?req)"
    using m root_resolved by (simp add: pvmigrate_Run_def ValidatePaths_def resolve_paths_def Let_def split_beta)
  ultimately show ?thesis by simp
qed

theorem api_release_names_witness:
  "list_ex is_install (snd (pvmigrate_Run world_example options_example)) \<and>
   filter (\<lambda>e. case e of Install s n v b \<Rightarrow> \<not> release_name_ok n | _ \<Rightarrow> False)
     (snd (pvmigrate_Run world_example options_example)) = []"
proof -
  have "Validate (wd_GenerateID world_example) = None"
    by (simp add: world_example_def Validate_None valid_id_def id_segment_def id_byte_def is_lower_def byte_def)
  moreover have "Validate (bw_GenerateID bworld_example) = None"
    by (simp add: bworld_example_def Validate_None valid_id_def id_segment_def id_byte_def is_lower_def byte_def)
  ultimately show ?thesis using api_release_names [of world_example bworld_example options_example] options_example_installs
    by (fastforce simp: filter_empty_conv split: event.splits)
qed

section \<open>Defaults\<close>

text \<open>
  Applying the defaults twice is applying them once, and options that leave every field alone but the
  identifying ones pass all checks made before a cluster is asked for anything.
\<close>

definition named_claims :: "string \<Rightarrow> string \<Rightarrow> MigrationOptions" where
  "named_claims a b = MigrationOptions_zero\<lparr>mi_Source := PVC_zero\<lparr>pv_Name := a\<rparr>, mi_Dest := PVC_zero\<lparr>pv_Name := b\<rparr>\<rparr>"

lemmas default_defs = ApplyDefaults_def applyTransportDefaults_def default_path_def DefaultStrategies_def Ed25519_def
  MoverRsync_def defaultPath_def DefaultSSHReverseTunnelPort_def defaultHelmTimeout_def defaultLoadBalancerTimeout_def

lemma ApplyDefaults_idem: "ApplyDefaults (ApplyDefaults m) = ApplyDefaults m"
  by (simp add: default_defs)

lemma root_paths_valid: "ValidatePaths ''/'' ''/'' = None"
  using root_resolved by (simp add: ValidatePaths_def resolve_paths_def)

theorem defaults_suffice:
  "\<exists>strategies. preflight (toInternalRequest (ApplyDefaults (named_claims a b))) = Inr strategies
    \<and> map fst strategies = [''mount'', ''clusterip'', ''loadbalancer'']
    \<and> pvmigrate_Run w (named_claims a b)
        = apfst (map_option MigrationFailed) (migrator_Run w (toInternalRequest (ApplyDefaults (named_claims a b))))"
proof -
  let ?m = "ApplyDefaults (named_claims a b)"
  have m: "mi_ID ?m = []" "mi_SSHReverseTunnelPort ?m = 22000" "pv_Path (mi_Source ?m) = ''/''" "pv_Path (mi_Dest ?m) = ''/''"
    "mi_Mover ?m = ''rsync''" "mi_Strategies ?m = [''mount'', ''clusterip'', ''loadbalancer'']"
    by (simp_all add: named_claims_def MigrationOptions_zero_def PVC_zero_def default_defs strategy_names)
  have "pvmigrate_Run w (named_claims a b) = apfst (map_option MigrationFailed) (migrator_Run w (toInternalRequest ?m))"
    unfolding pvmigrate_Run_def Let_def m using root_paths_valid by (simp add: apfst_def map_prod_def split_beta)
  note run = this
  have "\<exists>s. preflight (toInternalRequest ?m) = Inr s \<and> map fst s = [''mount'', ''clusterip'', ''loadbalancer'']"
    using m by (auto simp: preflight_def CheckMoverFlags_def moverKind_def MoverRsync_def MoverTar_def
        toInternalRequest_def nameToStrategy_def mountStrategy_def clusterIPStrategy_def
        loadBalancerStrategy_def)
  then show ?thesis unfolding run by simp
qed

end
