(* ===== verification/CommandLine.thy ===== *)
theory CommandLine
  imports PublicApi Console
begin

text \<open>
  The command line (\<open>src/internal/app/migrate.go\<close>, \<open>backup.go\<close>): the flags of the commands, what each is
  bound to, and the way from a command line to the options of the public interface. The flag library
  is third-party code; a command line here is what it has read: the flags given, each with its value,
  a repeated list flag once with all its values. Help texts are left out. A pointer to a field of the
  options is a pair of the field's selector and its update.
\<close>

section \<open>Flags\<close>

datatype flag_value = FString string | FBool bool | FInt int | FDuration int | FStrings "string list"

type_synonym ('o, 'v) field = "('o \<Rightarrow> 'v) \<times> (('v \<Rightarrow> 'v) \<Rightarrow> 'o \<Rightarrow> 'o)"

record 'o flag =
  fl_Name :: string
  fl_Short :: string
  fl_Default :: flag_value
  fl_Get :: "'o \<Rightarrow> flag_value"
  fl_Set :: "flag_value \<Rightarrow> 'o \<Rightarrow> 'o option"

definition StringVar :: "('o, string) field \<Rightarrow> string \<Rightarrow> string \<Rightarrow> string \<Rightarrow> 'o flag" where
  "StringVar p n short d = \<lparr>fl_Name = n, fl_Short = short, fl_Default = FString d, fl_Get = (\<lambda>x. FString (fst p x)),
     fl_Set = (\<lambda>v x. case v of FString s \<Rightarrow> Some (snd p (\<lambda>_. s) x) | _ \<Rightarrow> None)\<rparr>"

definition BoolVar :: "('o, bool) field \<Rightarrow> string \<Rightarrow> string \<Rightarrow> bool \<Rightarrow> 'o flag" where
  "BoolVar p n short d = \<lparr>fl_Name = n, fl_Short = short, fl_Default = FBool d, fl_Get = (\<lambda>x. FBool (fst p x)),
     fl_Set = (\<lambda>v x. case v of FBool b \<Rightarrow> Some (snd p (\<lambda>_. b) x) | _ \<Rightarrow> None)\<rparr>"

definition IntVar :: "('o, int) field \<Rightarrow> string \<Rightarrow> string \<Rightarrow> int \<Rightarrow> 'o flag" where
  "IntVar p n short d = \<lparr>fl_Name = n, fl_Short = short, fl_Default = FInt d, fl_Get = (\<lambda>x. FInt (fst p x)),
     fl_Set = (\<lambda>v x. case v of FInt i \<Rightarrow> Some (snd p (\<lambda>_. i) x) | _ \<Rightarrow> None)\<rparr>"

definition DurationVar :: "('o, int) field \<Rightarrow> string \<Rightarrow> string \<Rightarrow> int \<Rightarrow> 'o flag" where
  "DurationVar p n short d = \<lparr>fl_Name = n, fl_Short = short, fl_Default = FDuration d, fl_Get = (\<lambda>x. FDuration (fst p x)),
     fl_Set = (\<lambda>v x. case v of FDuration i \<Rightarrow> Some (snd p (\<lambda>_. i) x) | _ \<Rightarrow> None)\<rparr>"

definition StringSliceVar :: "('o, string list) field \<Rightarrow> string \<Rightarrow> string \<Rightarrow> string list \<Rightarrow> 'o flag" where
  "StringSliceVar p n short d = \<lparr>fl_Name = n, fl_Short = short, fl_Default = FStrings d, fl_Get = (\<lambda>x. FStrings (fst p x)),
     fl_Set = (\<lambda>v x. case v of FStrings l \<Rightarrow> Some (snd p (\<lambda>_. l) x) | _ \<Rightarrow> None)\<rparr>"

lemmas flag_kinds = StringVar_def BoolVar_def IntVar_def DurationVar_def StringSliceVar_def

text \<open>A flag whose default is what the options hold already.\<close>

definition current :: "(('o, 'v) field \<Rightarrow> string \<Rightarrow> string \<Rightarrow> 'v \<Rightarrow> 'o flag) \<Rightarrow> 'o \<Rightarrow> ('o, 'v) field \<Rightarrow> string \<Rightarrow> string \<Rightarrow> 'o flag" where
  "current kind options p n short = kind p n short (fst p options)"

definition inside :: "('o, 'p) field \<Rightarrow> ('p, 'v) field \<Rightarrow> ('o, 'v) field" where
  "inside outer inner = (\<lambda>x. fst inner (fst outer x), \<lambda>f. snd outer (snd inner f))"

text \<open>Registering a flag sets its default; a command line then sets the flags it gives.\<close>

definition register :: "'o flag list \<Rightarrow> 'o \<Rightarrow> 'o" where
  "register flags x = fold (\<lambda>f x. case fl_Set f (fl_Default f) x of Some y \<Rightarrow> y | None \<Rightarrow> x) flags x"

datatype usage_error = UnknownFlag string | InvalidValue string | MissingFlag string

fun parse_flags :: "'o flag list \<Rightarrow> (string \<times> flag_value) list \<Rightarrow> 'o \<Rightarrow> (usage_error, 'o) result" where
  "parse_flags flags [] x = Inr x"
| "parse_flags flags ((n, v) # given) x =
     (case List.find (\<lambda>f. fl_Name f = n) flags of None \<Rightarrow> Inl (UnknownFlag n)
      | Some f \<Rightarrow> (case fl_Set f v x of None \<Rightarrow> Inl (InvalidValue n) | Some y \<Rightarrow> parse_flags flags given y))"

definition invoke :: "'o flag list \<Rightarrow> string list \<Rightarrow> (string \<times> flag_value) list \<Rightarrow> 'o \<Rightarrow> (usage_error, 'o) result" where
  "invoke flags required given x =
     (case parse_flags flags given (register flags x) of Inl e \<Rightarrow> Inl e
      | Inr y \<Rightarrow> (case List.find (\<lambda>n. n \<notin> set (map fst given)) required of Some n \<Rightarrow> Inl (MissingFlag n) | None \<Rightarrow> Inr y))"

section \<open>The migrate command\<close>

definition isReleaseVersion :: "string \<Rightarrow> bool" where
  "isReleaseVersion version \<longleftrightarrow> version \<noteq> [] \<and> \<not> Contains version ''SNAPSHOT'' \<and> \<not> Contains version ''dev''"

definition releaseImageTag :: "string \<Rightarrow> string" where
  "releaseImageTag version = (if \<not> isReleaseVersion version then [] else ''v'' @ version)"

definition releaseChartVersion :: "string \<Rightarrow> string" where
  "releaseChartVersion version = (if \<not> isReleaseVersion version then [] else version)"

definition logFormatText :: string where "logFormatText = ''text''"
definition logFormatJSON :: string where "logFormatJSON = ''json''"

record Options =
  op_LogLevel :: string
  op_LogFormat :: string
  op_Migration :: MigrationOptions
  op_strategies :: "string list"
  op_keyAlgorithm :: string

definition in_migration :: "(MigrationOptions, 'v) field \<Rightarrow> (Options, 'v) field" where
  "in_migration = inside (op_Migration, op_Migration_update)"

definition in_source :: "(PVC, 'v) field \<Rightarrow> (Options, 'v) field" where
  "in_source p = in_migration (inside (mi_Source, mi_Source_update) p)"

definition in_dest :: "(PVC, 'v) field \<Rightarrow> (Options, 'v) field" where
  "in_dest p = in_migration (inside (mi_Dest, mi_Dest_update) p)"

definition log_flags :: "Options \<Rightarrow> Options flag list" where
  "log_flags options =
    [current StringVar options (op_LogLevel, op_LogLevel_update) ''log-level'' [],
     current StringVar options (op_LogFormat, op_LogFormat_update) ''log-format'' []]"

definition setMigrateCmdFlags :: "Options \<Rightarrow> Options flag list" where
  "setMigrateCmdFlags options = log_flags options @ [
     current StringVar options (in_source (pv_KubeconfigPath, pv_KubeconfigPath_update)) ''source-kubeconfig'' ''k'',
     current StringVar options (in_source (pv_Context, pv_Context_update)) ''source-context'' ''c'',
     current StringVar options (in_source (pv_Namespace, pv_Namespace_update)) ''source-namespace'' ''n'',
     current StringVar options (in_source (pv_Name, pv_Name_update)) ''source'' [],
     current StringVar options (in_source (pv_Path, pv_Path_update)) ''source-path'' ''p'',
     current StringVar options (in_dest (pv_KubeconfigPath, pv_KubeconfigPath_update)) ''dest-kubeconfig'' ''K'',
     current StringVar options (in_dest (pv_Context, pv_Context_update)) ''dest-context'' ''C'',
     current StringVar options (in_dest (pv_Namespace, pv_Namespace_update)) ''dest-namespace'' ''N'',
     current StringVar options (in_dest (pv_Name, pv_Name_update)) ''dest'' [],
     current StringVar options (in_dest (pv_Path, pv_Path_update)) ''dest-path'' ''P'',
     current BoolVar options (in_migration (mi_DeleteExtraneousFiles, mi_DeleteExtraneousFiles_update)) ''dest-delete-extraneous-files'' ''d'',
     current BoolVar options (in_migration (mi_IgnoreMounted, mi_IgnoreMounted_update)) ''ignore-mounted'' ''i'',
     current BoolVar options (in_migration (mi_IgnoreSizes, mi_IgnoreSizes_update)) ''ignore-sizes'' [],
     current BoolVar options (in_migration (mi_NoChown, mi_NoChown_update)) ''no-chown'' ''o'',
     current StringVar options (in_migration (mi_ID, mi_ID_update)) ''id'' [],
     current BoolVar options (in_migration (mi_Detach, mi_Detach_update)) ''detach'' [],
     current BoolVar options (in_migration (mi_NoCleanup, mi_NoCleanup_update)) ''no-cleanup'' ''x'',
     current BoolVar options (in_migration (mi_NoCleanupOnFailure, mi_NoCleanupOnFailure_update)) ''no-cleanup-on-failure'' [],
     current BoolVar options (in_migration (mi_ShowProgressBar, mi_ShowProgressBar_update)) ''show-progress-bar'' ''b'',
     current BoolVar options (in_migration (mi_SourceMountReadWrite, mi_SourceMountReadWrite_update)) ''source-mount-read-write'' ''R'',
     current StringSliceVar options (op_strategies, op_strategies_update) ''strategies'' ''s'',
     current StringVar options (op_keyAlgorithm, op_keyAlgorithm_update) ''ssh-key-algorithm'' ''a'',
     current IntVar options (in_migration (mi_SSHReverseTunnelPort, mi_SSHReverseTunnelPort_update)) ''ssh-reverse-tunnel-port'' [],
     current StringVar options (in_migration (mi_DestHostOverride, mi_DestHostOverride_update)) ''dest-host-override'' ''H'',
     current DurationVar options (in_migration (mi_LoadBalancerTimeout, mi_LoadBalancerTimeout_update)) ''loadbalancer-timeout'' [],
     current BoolVar options (in_migration (mi_NoCompress, mi_NoCompress_update)) ''no-compress'' [],
     current StringVar options (in_migration (mi_Mover, mi_Mover_update)) ''mover'' [],
     current BoolVar options (in_migration (mi_NonRoot, mi_NonRoot_update)) ''non-root'' [],
     current StringVar options (in_migration (mi_RsyncExtraArgs, mi_RsyncExtraArgs_update)) ''rsync-extra-args'' [],
     current BoolVar options (in_migration (mi_Push, mi_Push_update)) ''rsync-push'' [],
     current DurationVar options (in_migration (mi_HelmTimeout, mi_HelmTimeout_update)) ''helm-timeout'' ''t'',
     current StringSliceVar options (in_migration (mi_HelmValuesFiles, mi_HelmValuesFiles_update)) ''helm-values'' ''f'',
     current StringSliceVar options (in_migration (mi_HelmValues, mi_HelmValues_update)) ''helm-set'' [],
     current StringSliceVar options (in_migration (mi_HelmStringValues, mi_HelmStringValues_update)) ''helm-set-string'' [],
     current StringSliceVar options (in_migration (mi_HelmFileValues, mi_HelmFileValues_update)) ''helm-set-file'' []]"

definition structuredLogsRequested :: "string \<Rightarrow> bool" where
  "structuredLogsRequested logFormat \<longleftrightarrow> logFormat = logFormatJSON"

definition colorOutputWanted :: "string \<Rightarrow> bool \<Rightarrow> string \<Rightarrow> bool" where
  "colorOutputWanted no_color isTerminal logFormat =
     (if no_color \<noteq> [] then False else isTerminal \<and> \<not> structuredLogsRequested logFormat)"

text \<open>What a process runs in: whether its error output is a terminal, and its variables.\<close>

record process =
  ps_Terminal :: bool
  ps_Getenv :: "string \<Rightarrow> string"
  ps_ReadFile :: "string \<Rightarrow> (string, string) result"

definition BuildMigrateCmd :: "string \<Rightarrow> process \<Rightarrow> Options" where
  "BuildMigrateCmd version ps =
     (let migration = (ApplyDefaults (MigrationOptions_zero\<lparr>mi_ImageTag := releaseImageTag version,
            mi_ChartVersion := releaseChartVersion version\<rparr>))\<lparr>mi_ShowProgressBar := ps_Terminal ps\<rparr>
      in \<lparr>op_LogLevel = ''INFO'', op_LogFormat = logFormatText, op_Migration = migration,
          op_strategies = mi_Strategies migration, op_keyAlgorithm = mi_KeyAlgorithm migration\<rparr>)"

text \<open>\<open>runMigration\<close>: the options it hands to the public interface.\<close>

definition runMigration :: "process \<Rightarrow> Options \<Rightarrow> MigrationOptions" where
  "runMigration ps options = (op_Migration options)\<lparr>
     mi_Strategies := op_strategies options,
     mi_KeyAlgorithm := op_keyAlgorithm options,
     mi_StructuredLogs := (op_LogFormat options = logFormatJSON),
     mi_ColorOutput := colorOutputWanted (ps_Getenv ps ''NO_COLOR'') (ps_Terminal ps) (op_LogFormat options)\<rparr>"

definition migrate_command ::
  "string \<Rightarrow> process \<Rightarrow> (string \<times> flag_value) list \<Rightarrow> (usage_error, MigrationOptions) result" where
  "migrate_command version ps given =
     (let options = BuildMigrateCmd version ps in
      map_sum id (runMigration ps) (invoke (setMigrateCmdFlags options) [''source'', ''dest''] given options))"

section \<open>The backup and restore commands\<close>

definition envS3AccessKey :: string where "envS3AccessKey = ''PV_MIGRATE_S3_ACCESS_KEY''"
definition envS3SecretKey :: string where "envS3SecretKey = ''PV_MIGRATE_S3_SECRET_KEY''"
definition envFlushPassword :: string where "envFlushPassword = ''PV_MIGRATE_FLUSH_PASSWORD''"
definition envAzureStorageAccount :: string where "envAzureStorageAccount = ''PV_MIGRATE_AZURE_STORAGE_ACCOUNT''"
definition envAzureStorageKey :: string where "envAzureStorageKey = ''PV_MIGRATE_AZURE_STORAGE_KEY''"
definition envGCSServiceAccountJSON :: string where "envGCSServiceAccountJSON = ''PV_MIGRATE_GCS_SERVICE_ACCOUNT_JSON''"

definition setBackupRestoreFlags ::
  "('o, string) field \<Rightarrow> ('o, bool) field \<Rightarrow> ('o, bool) field \<Rightarrow>
   ('o, bool) field \<Rightarrow> ('o, bool) field \<Rightarrow> ('o, bool) field \<Rightarrow>
   ('o, int) field \<Rightarrow> ('o, string list) field \<Rightarrow> ('o, string list) field \<Rightarrow>
   ('o, string list) field \<Rightarrow> ('o, string list) field \<Rightarrow> 'o flag list" where
  "setBackupRestoreFlags i ignoreMounted nonRoot detach noCleanup noCleanupOnFailure helmTimeout helmValuesFiles helmValues
      helmStringValues helmFileValues = [
      StringVar i ''id'' [] [],
      BoolVar ignoreMounted ''ignore-mounted'' ''i'' False,
      BoolVar nonRoot ''non-root'' [] False,
      BoolVar detach ''detach'' [] False,
      BoolVar noCleanup ''no-cleanup'' ''x'' False,
      BoolVar noCleanupOnFailure ''no-cleanup-on-failure'' [] False,
      DurationVar helmTimeout ''helm-timeout'' ''t'' defaultHelmTimeout,
      StringSliceVar helmValuesFiles ''helm-values'' ''f'' [],
      StringSliceVar helmValues ''helm-set'' [] [],
      StringSliceVar helmStringValues ''helm-set-string'' [] [],
      StringSliceVar helmFileValues ''helm-set-file'' [] []]"

definition setBucketStorageFlags ::
  "('o, string) field \<Rightarrow> ('o, string) field \<Rightarrow> ('o, string) field \<Rightarrow>
   ('o, string) field \<Rightarrow> ('o, string) field \<Rightarrow> ('o, string) field \<Rightarrow>
   ('o, string) field \<Rightarrow> ('o, string) field \<Rightarrow> ('o, string) field \<Rightarrow>
   ('o, string) field \<Rightarrow> ('o, bool) field \<Rightarrow> ('o, string) field \<Rightarrow>
   ('o, string) field \<Rightarrow> ('o, string) field \<Rightarrow> ('o, string) field \<Rightarrow> 'o flag list" where
  "setBucketStorageFlags backend bucket s3Provider endpoint region accessKey secretKey storageAccount storageKey gcsFile
      gcsBucketPolicyOnly name bucketPrefix pvcPath rcloneExtraArgs = [
      StringVar backend ''backend'' [] [],
      StringVar bucket ''bucket'' [] [],
      StringVar s3Provider ''s3-provider'' [] DefaultS3Provider,
      StringVar endpoint ''endpoint'' [] [],
      StringVar region ''region'' [] [],
      StringVar accessKey ''access-key'' [] [],
      StringVar secretKey ''secret-key'' [] [],
      StringVar storageAccount ''storage-account'' [] [],
      StringVar storageKey ''storage-key'' [] [],
      StringVar gcsFile ''gcs-service-account-file'' [] [],
      BoolVar gcsBucketPolicyOnly ''gcs-bucket-policy-only'' [] True,
      StringVar name ''name'' [] [],
      StringVar bucketPrefix ''prefix'' [] DefaultPrefix,
      StringVar pvcPath ''path'' ''p'' [],
      StringVar rcloneExtraArgs ''rclone-extra-args'' [] []]"

definition setRawConfigFlags :: "('o, string) field \<Rightarrow> ('o, string) field \<Rightarrow> 'o flag list" where
  "setRawConfigFlags rcloneConfig remote = [StringVar rcloneConfig ''rclone-config'' [] [], StringVar remote ''remote'' [] []]"

definition setArchiveFlags :: "'o \<Rightarrow> ('o, string) field \<Rightarrow> ('o, int) field \<Rightarrow> 'o flag list" where
  "setArchiveFlags options archiveFile level =
     [current StringVar options archiveFile ''archive-file'' [], current IntVar options level ''compression-level'' []]"

definition setRestoreDeleteFlags :: "('o, bool) field \<Rightarrow> 'o flag list" where
  "setRestoreDeleteFlags deleteExtraneousFiles = [BoolVar deleteExtraneousFiles ''delete-extraneous-files'' ''d'' False]"

text \<open>The variables the two commands bind: the options, the bucket policy and the key file.\<close>

record BackupCommand =
  bf_Backup :: Backup
  bf_Policy :: bool
  bf_GCSFile :: string

record RestoreCommand =
  rf_Restore :: Restore
  rf_Policy :: bool
  rf_GCSFile :: string

definition in_backup :: "(Backup, 'v) field \<Rightarrow> (BackupCommand, 'v) field" where
  "in_backup = inside (bf_Backup, bf_Backup_update)"

definition in_restore :: "(Restore, 'v) field \<Rightarrow> (RestoreCommand, 'v) field" where
  "in_restore = inside (rf_Restore, rf_Restore_update)"

definition setBackupPVCFlags :: "BackupCommand flag list" where
  "setBackupPVCFlags = (let pvc = (\<lambda>p. in_backup (inside (ba_PVC, ba_PVC_update) p)) in
     [StringVar (pvc (pv_KubeconfigPath, pv_KubeconfigPath_update)) ''source-kubeconfig'' ''k'' [],
      StringVar (pvc (pv_Context, pv_Context_update)) ''source-context'' ''c'' [],
      StringVar (pvc (pv_Namespace, pv_Namespace_update)) ''source-namespace'' ''n'' [],
      StringVar (pvc (pv_Name, pv_Name_update)) ''source'' [] []])"

definition setRestorePVCFlags :: "RestoreCommand flag list" where
  "setRestorePVCFlags = (let pvc = (\<lambda>p. in_restore (inside (re_PVC, re_PVC_update) p)) in
     [StringVar (pvc (pv_KubeconfigPath, pv_KubeconfigPath_update)) ''dest-kubeconfig'' ''K'' [],
      StringVar (pvc (pv_Context, pv_Context_update)) ''dest-context'' ''C'' [],
      StringVar (pvc (pv_Namespace, pv_Namespace_update)) ''dest-namespace'' ''N'' [],
      StringVar (pvc (pv_Name, pv_Name_update)) ''dest'' [] []])"

definition setSnapshotFlags :: "BackupCommand \<Rightarrow> BackupCommand flag list" where
  "setSnapshotFlags options = [
     current BoolVar options (in_backup (ba_Snapshot, ba_Snapshot_update)) ''snapshot'' [],
     current StringVar options (in_backup (ba_SnapshotClass, ba_SnapshotClass_update)) ''snapshot-class'' [],
     current BoolVar options (in_backup (ba_KeepSnapshot, ba_KeepSnapshot_update)) ''keep-snapshot'' [],
     current StringVar options (in_backup (ba_FromSnapshot, ba_FromSnapshot_update)) ''from-snapshot'' [],
     current StringVar options (in_backup (ba_Flush, ba_Flush_update)) ''flush'' [],
     current StringVar options (in_backup (ba_FlushContainer, ba_FlushContainer_update)) ''flush-container'' [],
     current StringSliceVar options (in_backup (ba_FlushCommand, ba_FlushCommand_update)) ''flush-command'' [],
     current StringVar options (in_backup (ba_FlushUser, ba_FlushUser_update)) ''flush-user'' [],
     current StringVar options (in_backup (ba_FlushPasswordSecret, ba_FlushPasswordSecret_update)) ''flush-password-secret'' []]"

definition buildBackupCmd :: "BackupCommand \<Rightarrow> BackupCommand flag list" where
  "buildBackupCmd options = setBackupPVCFlags
     @ setBackupRestoreFlags (in_backup (ba_ID, ba_ID_update)) (in_backup (ba_IgnoreMounted, ba_IgnoreMounted_update))
         (in_backup (ba_NonRoot, ba_NonRoot_update)) (in_backup (ba_Detach, ba_Detach_update))
         (in_backup (ba_NoCleanup, ba_NoCleanup_update))
         (in_backup (ba_NoCleanupOnFailure, ba_NoCleanupOnFailure_update))
         (in_backup (ba_HelmTimeout, ba_HelmTimeout_update)) (in_backup (ba_HelmValuesFiles, ba_HelmValuesFiles_update))
         (in_backup (ba_HelmValues, ba_HelmValues_update)) (in_backup (ba_HelmStringValues, ba_HelmStringValues_update))
         (in_backup (ba_HelmFileValues, ba_HelmFileValues_update))
     @ setBucketStorageFlags (in_backup (ba_Backend, ba_Backend_update)) (in_backup (ba_Bucket, ba_Bucket_update))
         (in_backup (ba_S3Provider, ba_S3Provider_update)) (in_backup (ba_Endpoint, ba_Endpoint_update))
         (in_backup (ba_Region, ba_Region_update)) (in_backup (ba_AccessKey, ba_AccessKey_update))
         (in_backup (ba_SecretKey, ba_SecretKey_update)) (in_backup (ba_StorageAccount, ba_StorageAccount_update))
         (in_backup (ba_StorageKey, ba_StorageKey_update)) (bf_GCSFile, bf_GCSFile_update) (bf_Policy, bf_Policy_update)
         (in_backup (ba_Name, ba_Name_update)) (in_backup (ba_Prefix, ba_Prefix_update))
         (in_backup (ba_Path, ba_Path_update)) (in_backup (ba_RcloneExtraArgs, ba_RcloneExtraArgs_update))
     @ setRawConfigFlags (in_backup (ba_RcloneConfigFile, ba_RcloneConfigFile_update)) (in_backup (ba_Remote, ba_Remote_update))
     @ setArchiveFlags options (in_backup (ba_ArchiveFile, ba_ArchiveFile_update)) (in_backup (ba_CompressionLevel, ba_CompressionLevel_update))
     @ setSnapshotFlags options"

definition buildRestoreCmd :: "RestoreCommand \<Rightarrow> RestoreCommand flag list" where
  "buildRestoreCmd options = setRestorePVCFlags
     @ setBackupRestoreFlags (in_restore (re_ID, re_ID_update)) (in_restore (re_IgnoreMounted, re_IgnoreMounted_update))
         (in_restore (re_NonRoot, re_NonRoot_update)) (in_restore (re_Detach, re_Detach_update))
         (in_restore (re_NoCleanup, re_NoCleanup_update))
         (in_restore (re_NoCleanupOnFailure, re_NoCleanupOnFailure_update))
         (in_restore (re_HelmTimeout, re_HelmTimeout_update))
         (in_restore (re_HelmValuesFiles, re_HelmValuesFiles_update)) (in_restore (re_HelmValues, re_HelmValues_update))
         (in_restore (re_HelmStringValues, re_HelmStringValues_update))
         (in_restore (re_HelmFileValues, re_HelmFileValues_update))
     @ setBucketStorageFlags (in_restore (re_Backend, re_Backend_update)) (in_restore (re_Bucket, re_Bucket_update))
         (in_restore (re_S3Provider, re_S3Provider_update)) (in_restore (re_Endpoint, re_Endpoint_update))
         (in_restore (re_Region, re_Region_update)) (in_restore (re_AccessKey, re_AccessKey_update))
         (in_restore (re_SecretKey, re_SecretKey_update)) (in_restore (re_StorageAccount, re_StorageAccount_update))
         (in_restore (re_StorageKey, re_StorageKey_update)) (rf_GCSFile, rf_GCSFile_update)
         (rf_Policy, rf_Policy_update) (in_restore (re_Name, re_Name_update)) (in_restore (re_Prefix, re_Prefix_update))
         (in_restore (re_Path, re_Path_update)) (in_restore (re_RcloneExtraArgs, re_RcloneExtraArgs_update))
     @ setRawConfigFlags (in_restore (re_RcloneConfigFile, re_RcloneConfigFile_update)) (in_restore (re_Remote, re_Remote_update))
     @ setRestoreDeleteFlags (in_restore (re_DeleteExtraneousFiles, re_DeleteExtraneousFiles_update))
     @ setArchiveFlags options (in_restore (re_ArchiveFile, re_ArchiveFile_update)) (in_restore (re_CompressionLevel, re_CompressionLevel_update))"

definition setStringFromEnvIfEmpty :: "process \<Rightarrow> string \<Rightarrow> string \<Rightarrow> string" where
  "setStringFromEnvIfEmpty ps target envName = (if target \<noteq> [] then target else ps_Getenv ps envName)"

definition readGCSServiceAccountFile :: "process \<Rightarrow> string \<Rightarrow> string \<Rightarrow> (string, string) result" where
  "readGCSServiceAccountFile ps saFile target = (if saFile = [] then Inr target else ps_ReadFile ps saFile)"

text \<open>\<open>runBackup\<close> and \<open>runRestore\<close> up to the call of the public interface.\<close>

definition runBackup :: "process \<Rightarrow> string \<Rightarrow> BackupCommand \<Rightarrow> (string, Backup) result" where
  "runBackup ps logFormat c =
     (let b = (bf_Backup c)\<lparr>ba_GCSBucketPolicyOnly := Some (bf_Policy c),
            ba_StructuredLogs := structuredLogsRequested logFormat,
            ba_ColorOutput := colorOutputWanted (ps_Getenv ps ''NO_COLOR'') (ps_Terminal ps) logFormat\<rparr>
      in case readGCSServiceAccountFile ps (bf_GCSFile c) (ba_GCSServiceAccountJSON b) of Inl e \<Rightarrow> Inl e
       | Inr json \<Rightarrow> Inr (b\<lparr>
           ba_AccessKey := setStringFromEnvIfEmpty ps (ba_AccessKey b) envS3AccessKey,
           ba_SecretKey := setStringFromEnvIfEmpty ps (ba_SecretKey b) envS3SecretKey,
           ba_StorageAccount := setStringFromEnvIfEmpty ps (ba_StorageAccount b) envAzureStorageAccount,
           ba_StorageKey := setStringFromEnvIfEmpty ps (ba_StorageKey b) envAzureStorageKey,
           ba_GCSServiceAccountJSON := setStringFromEnvIfEmpty ps json envGCSServiceAccountJSON,
           ba_FlushPassword := (if ba_FlushPasswordSecret b = []
             then setStringFromEnvIfEmpty ps (ba_FlushPassword b) envFlushPassword else ba_FlushPassword b)\<rparr>))"

definition runRestore :: "process \<Rightarrow> string \<Rightarrow> RestoreCommand \<Rightarrow> (string, Restore) result" where
  "runRestore ps logFormat c =
     (let r = (rf_Restore c)\<lparr>re_GCSBucketPolicyOnly := Some (rf_Policy c),
            re_StructuredLogs := structuredLogsRequested logFormat,
            re_ColorOutput := colorOutputWanted (ps_Getenv ps ''NO_COLOR'') (ps_Terminal ps) logFormat\<rparr>
      in case readGCSServiceAccountFile ps (rf_GCSFile c) (re_GCSServiceAccountJSON r) of Inl e \<Rightarrow> Inl e
       | Inr json \<Rightarrow> Inr (r\<lparr>
           re_AccessKey := setStringFromEnvIfEmpty ps (re_AccessKey r) envS3AccessKey,
           re_SecretKey := setStringFromEnvIfEmpty ps (re_SecretKey r) envS3SecretKey,
           re_StorageAccount := setStringFromEnvIfEmpty ps (re_StorageAccount r) envAzureStorageAccount,
           re_StorageKey := setStringFromEnvIfEmpty ps (re_StorageKey r) envAzureStorageKey,
           re_GCSServiceAccountJSON := setStringFromEnvIfEmpty ps json envGCSServiceAccountJSON\<rparr>))"


text \<open>An invocation of the two commands, from the flags given to the options of the public interface.\<close>

datatype command_error = Usage usage_error | Unreadable string

definition backup_command ::
  "process \<Rightarrow> string \<Rightarrow> BackupCommand \<Rightarrow> (string \<times> flag_value) list \<Rightarrow> (command_error, Backup) result" where
  "backup_command ps logFormat c given = (case invoke (buildBackupCmd c) [''source''] given c of Inl e \<Rightarrow> Inl (Usage e)
     | Inr c' \<Rightarrow> map_sum Unreadable id (runBackup ps logFormat c'))"

definition restore_command ::
  "process \<Rightarrow> string \<Rightarrow> RestoreCommand \<Rightarrow> (string \<times> flag_value) list \<Rightarrow> (command_error, Restore) result" where
  "restore_command ps logFormat c given = (case invoke (buildRestoreCmd c) [''dest''] given c of Inl e \<Rightarrow> Inl (Usage e)
     | Inr c' \<Rightarrow> map_sum Unreadable id (runRestore ps logFormat c'))"

end
