(* ===== verification/CommandLineFacts.thy ===== *)
theory CommandLineFacts
  imports CommandLine
begin

text \<open>
  What a command line asks for reaches the request. The locale \<open>flag_set\<close> is the contract of the flags
  of one command: distinct names, each flag sets its own field and no other. It is interpreted for
  the three commands, and composed with the translation of options into requests.
\<close>

section \<open>Sets of flags\<close>

locale flag_set =
  fixes flags :: "'o flag list"
  assumes distinct_names: "distinct (map fl_Name flags)"
    and get_set: "f \<in> set flags \<Longrightarrow> fl_Set f v x = Some y \<Longrightarrow> fl_Get f y = v"
    and get_other: "f \<in> set flags \<Longrightarrow> g \<in> set flags \<Longrightarrow> fl_Name f \<noteq> fl_Name g \<Longrightarrow> fl_Set g v x = Some y
      \<Longrightarrow> fl_Get f y = fl_Get f x"
    and default_fits: "f \<in> set flags \<Longrightarrow> fl_Set f (fl_Default f) x \<noteq> None"
begin

lemma same_name: "f \<in> set flags \<Longrightarrow> g \<in> set flags \<Longrightarrow> fl_Name f = fl_Name g \<Longrightarrow> f = g"
  using distinct_names by (simp add: distinct_map inj_on_def)

lemma registered:
  assumes "f \<in> set flags" shows "fl_Get f (register flags x) = fl_Default f"
proof -
  let ?step = "\<lambda>f x. case fl_Set f (fl_Default f) x of Some y \<Rightarrow> y | None \<Rightarrow> x"
  have other: "fl_Get f (fold ?step gs x) = fl_Get f x" if "set gs \<subseteq> set flags" "f \<notin> set gs" for gs x
    using that
  proof (induction gs arbitrary: x)
    case (Cons g gs)
    then have "fl_Name f \<noteq> fl_Name g" using same_name [OF assms, of g] by auto
    with Cons show ?case by (auto split: option.splits dest: get_other [OF assms])
  qed simp
  obtain gs hs where fl: "flags = gs @ f # hs" "f \<notin> set hs" using assms by (metis split_list_last)
  obtain y where y: "fl_Set f (fl_Default f) (fold ?step gs x) = Some y" using default_fits [OF assms] by fastforce
  have "fl_Get f (register flags x) = fl_Get f (fold ?step hs y)" unfolding register_def fl(1) using y by simp
  also have "\<dots> = fl_Get f y" by (rule other) (use fl in auto)
  finally show ?thesis using get_set [OF assms y] by simp
qed

lemma parsed:
  assumes "f \<in> set flags" and "parse_flags flags given x = Inr y"
  shows "fl_Get f y = (case map_of (rev given) (fl_Name f) of Some v \<Rightarrow> v | None \<Rightarrow> fl_Get f x)"
  using assms(2)
proof (induction given arbitrary: x)
  case (Cons nv given)
  obtain n v where nv: "nv = (n, v)" by (cases nv)
  from Cons.prems obtain g z where g: "List.find (\<lambda>f. fl_Name f = n) flags = Some g" "fl_Set g v x = Some z"
    "parse_flags flags given z = Inr y" by (auto simp: nv split: option.splits)
  then have gn: "g \<in> set flags" "fl_Name g = n" by (auto simp: find_Some_iff)
  have "fl_Get f z = (if fl_Name f = n then v else fl_Get f x)"
    using gn same_name [OF assms(1) gn(1)] get_set [OF gn(1) g(2)] get_other [OF assms(1) gn(1) _ g(2)] by auto
  with Cons.IH [OF g(3)] show ?case by (auto simp: nv map_add_def split: option.splits)
qed simp

text \<open>After an invocation a flag that was given has its last value, any other its default.\<close>

lemma invoked:
  assumes "f \<in> set flags" and "invoke flags required given x = Inr y"
  shows "fl_Get f y = (case map_of (rev given) (fl_Name f) of Some v \<Rightarrow> v | None \<Rightarrow> fl_Default f)"
proof -
  from assms(2) have "parse_flags flags given (register flags x) = Inr y"
    by (auto simp: invoke_def split: sum.splits option.splits)
  from parsed [OF assms(1) this] registered [OF assms(1), of x] show ?thesis by (simp split: option.splits)
qed

end

section \<open>The flags of the commands\<close>

lemmas migrate_flag_defs = setMigrateCmdFlags_def log_flags_def current_def in_source_def in_dest_def in_migration_def inside_def
lemmas storage_flag_defs = setBackupRestoreFlags_def setBucketStorageFlags_def setRawConfigFlags_def setArchiveFlags_def
  setRestoreDeleteFlags_def setSnapshotFlags_def setBackupPVCFlags_def setRestorePVCFlags_def in_backup_def in_restore_def
  current_def inside_def Let_def

definition flag_ok :: "'o flag list \<Rightarrow> 'o flag \<Rightarrow> bool" where
  "flag_ok flags f \<longleftrightarrow> (\<forall>v x y. fl_Set f v x = Some y \<longrightarrow>
     fl_Get f y = v \<and> list_all (\<lambda>g. fl_Name g = fl_Name f \<or> fl_Get g y = fl_Get g x) flags)"

lemma flag_ok_kinds:
  "flag_ok flags (StringVar p n sh d) \<longleftrightarrow> (\<forall>s x. fst p (snd p (\<lambda>_. s) x) = s
     \<and> list_all (\<lambda>g. fl_Name g = n \<or> fl_Get g (snd p (\<lambda>_. s) x) = fl_Get g x) flags)"
  "flag_ok flags (BoolVar q n sh b) \<longleftrightarrow> (\<forall>s x. fst q (snd q (\<lambda>_. s) x) = s
     \<and> list_all (\<lambda>g. fl_Name g = n \<or> fl_Get g (snd q (\<lambda>_. s) x) = fl_Get g x) flags)"
  "flag_ok flags (IntVar r n sh i) \<longleftrightarrow> (\<forall>s x. fst r (snd r (\<lambda>_. s) x) = s
     \<and> list_all (\<lambda>g. fl_Name g = n \<or> fl_Get g (snd r (\<lambda>_. s) x) = fl_Get g x) flags)"
  "flag_ok flags (DurationVar r n sh i) \<longleftrightarrow> (\<forall>s x. fst r (snd r (\<lambda>_. s) x) = s
     \<and> list_all (\<lambda>g. fl_Name g = n \<or> fl_Get g (snd r (\<lambda>_. s) x) = fl_Get g x) flags)"
  "flag_ok flags (StringSliceVar t n sh l) \<longleftrightarrow> (\<forall>s x. fst t (snd t (\<lambda>_. s) x) = s
     \<and> list_all (\<lambda>g. fl_Name g = n \<or> fl_Get g (snd t (\<lambda>_. s) x) = fl_Get g x) flags)"
  unfolding flag_ok_def flag_kinds by (auto split: flag_value.splits)

lemma flag_kinds_sel [simp]:
  "fl_Name (StringVar p n sh d) = n" "fl_Get (StringVar p n sh d) x = FString (fst p x)"
  "fl_Name (BoolVar q n sh b) = n" "fl_Get (BoolVar q n sh b) x = FBool (fst q x)"
  "fl_Name (IntVar r n sh i) = n" "fl_Get (IntVar r n sh i) x = FInt (fst r x)"
  "fl_Name (DurationVar r n sh i) = n" "fl_Get (DurationVar r n sh i) x = FDuration (fst r x)"
  "fl_Name (StringSliceVar t n sh l) = n" "fl_Get (StringSliceVar t n sh l) x = FStrings (fst t x)"
  "fl_Short (StringVar p n sh d) = sh" "fl_Short (BoolVar q n sh b) = sh" "fl_Short (IntVar r n sh i) = sh"
  "fl_Short (DurationVar r n sh i) = sh" "fl_Short (StringSliceVar t n sh l) = sh"
  by (simp_all add: flag_kinds)

lemma flag_kinds_default [simp]:
  "fl_Set (StringVar p n sh d) (fl_Default (StringVar p n sh d)) x \<noteq> None"
  "fl_Set (BoolVar q n sh b) (fl_Default (BoolVar q n sh b)) x \<noteq> None"
  "fl_Set (IntVar r n sh i) (fl_Default (IntVar r n sh i)) x \<noteq> None"
  "fl_Set (DurationVar r n sh i) (fl_Default (DurationVar r n sh i)) x \<noteq> None"
  "fl_Set (StringSliceVar t n sh l) (fl_Default (StringSliceVar t n sh l)) x \<noteq> None"
  by (simp_all add: flag_kinds)

lemma flag_laws:
  assumes "list_all (flag_ok flags) flags"
    and "distinct (map fl_Name flags)" and "list_all (\<lambda>f. \<forall>x. fl_Set f (fl_Default f) x \<noteq> None) flags"
  shows "flag_set flags"
proof
  fix f g v x y
  assume "f \<in> set flags" "g \<in> set flags" and n: "fl_Name f \<noteq> fl_Name g" and "fl_Set g v x = Some y"
  with assms(1) have "fl_Name f = fl_Name g \<or> fl_Get f y = fl_Get f x" unfolding list_all_iff flag_ok_def by blast
  with n show "fl_Get f y = fl_Get f x" by simp
next
  fix f v x y
  assume "f \<in> set flags" "fl_Set f v x = Some y"
  with assms(1) show "fl_Get f y = v" by (auto simp: list_all_iff flag_ok_def)
qed (use assms in \<open>auto simp: list_all_iff\<close>)

interpretation migrate: flag_set "setMigrateCmdFlags options" for options
proof (rule flag_laws)
  show "list_all (flag_ok (setMigrateCmdFlags options)) (setMigrateCmdFlags options)"
    by (simp add: migrate_flag_defs flag_ok_kinds)
  show "distinct (map fl_Name (setMigrateCmdFlags options))"
    by (simp add: migrate_flag_defs)
  show "list_all (\<lambda>f. \<forall>x. fl_Set f (fl_Default f) x \<noteq> None) (setMigrateCmdFlags options)"
    by (simp add: migrate_flag_defs flag_kinds)
qed


interpretation backup: flag_set "buildBackupCmd options" for options
proof (rule flag_laws)
  show "list_all (flag_ok (buildBackupCmd options)) (buildBackupCmd options)"
    by (simp add: buildBackupCmd_def storage_flag_defs flag_ok_kinds)
  show "distinct (map fl_Name (buildBackupCmd options))"
    by (simp add: buildBackupCmd_def storage_flag_defs)
  show "list_all (\<lambda>f. \<forall>x. fl_Set f (fl_Default f) x \<noteq> None) (buildBackupCmd options)"
    by (simp add: buildBackupCmd_def storage_flag_defs flag_kinds)
qed

interpretation restore: flag_set "buildRestoreCmd options" for options
proof (rule flag_laws)
  show "list_all (flag_ok (buildRestoreCmd options)) (buildRestoreCmd options)"
    by (simp add: buildRestoreCmd_def storage_flag_defs flag_ok_kinds)
  show "distinct (map fl_Name (buildRestoreCmd options))"
    by (simp add: buildRestoreCmd_def storage_flag_defs)
  show "list_all (\<lambda>f. \<forall>x. fl_Set f (fl_Default f) x \<noteq> None) (buildRestoreCmd options)"
    by (simp add: buildRestoreCmd_def storage_flag_defs flag_kinds)
qed

section \<open>From a flag to the request\<close>

text \<open>Where each flag has to show in the request.\<close>

definition migrate_fields :: "(string \<times> (Request \<Rightarrow> flag_value)) list" where
  "migrate_fields = [
     (''source-kubeconfig'', \<lambda>r. FString (pi_KubeconfigPath (rq_Source r))),
     (''source-context'', \<lambda>r. FString (pi_Context (rq_Source r))),
     (''source-namespace'', \<lambda>r. FString (pi_Namespace (rq_Source r))),
     (''source'', \<lambda>r. FString (pi_Name (rq_Source r))),
     (''source-path'', \<lambda>r. FString (pi_Path (rq_Source r))),
     (''dest-kubeconfig'', \<lambda>r. FString (pi_KubeconfigPath (rq_Dest r))),
     (''dest-context'', \<lambda>r. FString (pi_Context (rq_Dest r))),
     (''dest-namespace'', \<lambda>r. FString (pi_Namespace (rq_Dest r))),
     (''dest'', \<lambda>r. FString (pi_Name (rq_Dest r))),
     (''dest-path'', \<lambda>r. FString (pi_Path (rq_Dest r))),
     (''dest-delete-extraneous-files'', \<lambda>r. FBool (rq_DeleteExtraneousFiles r)),
     (''ignore-mounted'', \<lambda>r. FBool (rq_IgnoreMounted r)),
     (''ignore-sizes'', \<lambda>r. FBool (rq_IgnoreSizes r)),
     (''no-chown'', \<lambda>r. FBool (rq_NoChown r)),
     (''id'', \<lambda>r. FString (rq_ID r)),
     (''detach'', \<lambda>r. FBool (rq_Detach r)),
     (''no-cleanup'', \<lambda>r. FBool (rq_NoCleanup r)),
     (''no-cleanup-on-failure'', \<lambda>r. FBool (rq_NoCleanupOnFailure r)),
     (''show-progress-bar'', \<lambda>r. FBool (rq_ShowProgressBar r)),
     (''source-mount-read-write'', \<lambda>r. FBool (rq_SourceMountReadWrite r)),
     (''strategies'', \<lambda>r. FStrings (rq_Strategies r)),
     (''ssh-key-algorithm'', \<lambda>r. FString (rq_KeyAlgorithm r)),
     (''ssh-reverse-tunnel-port'', \<lambda>r. FInt (rq_SSHReverseTunnelPort r)),
     (''dest-host-override'', \<lambda>r. FString (rq_DestHostOverride r)),
     (''loadbalancer-timeout'', \<lambda>r. FDuration (rq_LoadBalancerTimeout r)),
     (''no-compress'', \<lambda>r. FBool (rq_NoCompress r)),
     (''mover'', \<lambda>r. FString (rq_Mover r)),
     (''non-root'', \<lambda>r. FBool (rq_NonRoot r)),
     (''rsync-extra-args'', \<lambda>r. FString (rq_RsyncExtraArgs r)),
     (''rsync-push'', \<lambda>r. FBool (rq_Push r)),
     (''helm-timeout'', \<lambda>r. FDuration (rq_HelmTimeout r)),
     (''helm-values'', \<lambda>r. FStrings (rq_HelmValuesFiles r)),
     (''helm-set'', \<lambda>r. FStrings (rq_HelmValues r)),
     (''helm-set-string'', \<lambda>r. FStrings (rq_HelmStringValues r)),
     (''helm-set-file'', \<lambda>r. FStrings (rq_HelmFileValues r))]"

definition storage_fields :: "(string \<times> (BRequest \<Rightarrow> flag_value)) list" where
  "storage_fields = [
     (''id'', \<lambda>r. FString (bq_ID r)),
     (''ignore-mounted'', \<lambda>r. FBool (bq_IgnoreMounted r)),
     (''non-root'', \<lambda>r. FBool (bq_NonRoot r)),
     (''detach'', \<lambda>r. FBool (bq_Detach r)),
     (''no-cleanup'', \<lambda>r. FBool (bq_NoCleanup r)),
     (''no-cleanup-on-failure'', \<lambda>r. FBool (bq_NoCleanupOnFailure r)),
     (''helm-timeout'', \<lambda>r. FDuration (bq_HelmTimeout r)),
     (''helm-values'', \<lambda>r. FStrings (bq_HelmValuesFiles r)),
     (''helm-set'', \<lambda>r. FStrings (bq_HelmValues r)),
     (''helm-set-string'', \<lambda>r. FStrings (bq_HelmStringValues r)),
     (''helm-set-file'', \<lambda>r. FStrings (bq_HelmFileValues r)),
     (''backend'', \<lambda>r. FString (bq_Backend r)),
     (''bucket'', \<lambda>r. FString (bq_Bucket r)),
     (''s3-provider'', \<lambda>r. FString (bq_S3Provider r)),
     (''endpoint'', \<lambda>r. FString (bq_Endpoint r)),
     (''region'', \<lambda>r. FString (bq_Region r)),
     (''access-key'', \<lambda>r. FString (bq_AccessKey r)),
     (''secret-key'', \<lambda>r. FString (bq_SecretKey r)),
     (''storage-account'', \<lambda>r. FString (bq_StorageAccount r)),
     (''storage-key'', \<lambda>r. FString (bq_StorageKey r)),
     (''gcs-bucket-policy-only'', \<lambda>r. FBool (bq_GCSBucketPolicyOnly r = Some True)),
     (''name'', \<lambda>r. FString (bq_Name r)),
     (''prefix'', \<lambda>r. FString (bq_Prefix r)),
     (''path'', \<lambda>r. FString (bq_Path r)),
     (''rclone-extra-args'', \<lambda>r. FString (bq_RcloneExtraArgs r)),
     (''rclone-config'', \<lambda>r. FString (bq_RcloneConfigFile r)),
     (''remote'', \<lambda>r. FString (bq_Remote r)),
     (''archive-file'', \<lambda>r. FString (bq_ArchiveFile r)),
     (''compression-level'', \<lambda>r. FInt (bq_CompressionLevel r))]"

definition backup_fields :: "(string \<times> (BRequest \<Rightarrow> flag_value)) list" where
  "backup_fields = storage_fields @ [
     (''source-kubeconfig'', \<lambda>r. FString (bq_KubeconfigPath r)),
     (''source-context'', \<lambda>r. FString (bq_Context r)),
     (''source-namespace'', \<lambda>r. FString (bq_Namespace r)),
     (''source'', \<lambda>r. FString (bq_PVCName r)),
     (''snapshot'', \<lambda>r. FBool (bq_Snapshot r)),
     (''snapshot-class'', \<lambda>r. FString (bq_SnapshotClass r)),
     (''keep-snapshot'', \<lambda>r. FBool (bq_KeepSnapshot r)),
     (''from-snapshot'', \<lambda>r. FString (bq_FromSnapshot r)),
     (''flush'', \<lambda>r. FString (bq_Flush r)),
     (''flush-container'', \<lambda>r. FString (bq_FlushContainer r)),
     (''flush-command'', \<lambda>r. FStrings (bq_FlushCommand r)),
     (''flush-user'', \<lambda>r. FString (bq_FlushUser r)),
     (''flush-password-secret'', \<lambda>r. FString (bq_FlushPasswordSecret r))]"

definition restore_fields :: "(string \<times> (BRequest \<Rightarrow> flag_value)) list" where
  "restore_fields = storage_fields @ [
     (''dest-kubeconfig'', \<lambda>r. FString (bq_KubeconfigPath r)),
     (''dest-context'', \<lambda>r. FString (bq_Context r)),
     (''dest-namespace'', \<lambda>r. FString (bq_Namespace r)),
     (''dest'', \<lambda>r. FString (bq_PVCName r)),
     (''delete-extraneous-files'', \<lambda>r. FBool (bq_DeleteExtraneousFiles r))]"


text \<open>A value that stands for no value: the empty ones and zero, which the defaults replace.\<close>

fun unset :: "flag_value \<Rightarrow> bool" where
  "unset (FString s) \<longleftrightarrow> s = []"
| "unset (FInt i) \<longleftrightarrow> i = 0"
| "unset (FDuration i) \<longleftrightarrow> i = 0"
| "unset (FStrings l) \<longleftrightarrow> l = []"
| "unset (FBool _) \<longleftrightarrow> False"

text \<open>\<open>R\<close> relates what a command line was read into with the request made of it.\<close>

definition fields_bound :: "'o flag list \<Rightarrow> ('o \<Rightarrow> 'r \<Rightarrow> bool) \<Rightarrow> (string \<times> ('r \<Rightarrow> flag_value)) list \<Rightarrow> bool" where
  "fields_bound flags R table \<longleftrightarrow> list_all (\<lambda>(n, read). list_ex (\<lambda>f. fl_Name f = n
     \<and> (\<forall>y r. R y r \<longrightarrow> \<not> unset (fl_Get f y) \<longrightarrow> read r = fl_Get f y)) flags) table"

lemma given_reaches:
  assumes "flag_set flags" and "fields_bound flags R table"
    and "invoke flags required given x = Inr y" and "R y r"
    and "(n, read) \<in> set table" and "map_of (rev given) n = Some v" and "\<not> unset v"
  shows "read r = v"
proof -
  from assms(2,5) obtain f where f: "f \<in> set flags" "fl_Name f = n"
    "\<forall>y r. R y r \<longrightarrow> \<not> unset (fl_Get f y) \<longrightarrow> read r = fl_Get f y"
    by (auto simp: fields_bound_def list_all_iff list_ex_iff)
  have "fl_Get f y = v" using flag_set.invoked [OF assms(1) f(1) assms(3)] f(2) assms(6) by simp
  with f(3) assms(4,7) show ?thesis by simp
qed

definition migrate_request :: "process \<Rightarrow> Options \<Rightarrow> Request \<Rightarrow> bool" where
  "migrate_request ps y r \<longleftrightarrow> r = toInternalRequest (ApplyDefaults (runMigration ps y))"

definition backup_request :: "process \<Rightarrow> string \<Rightarrow> BackupCommand \<Rightarrow> BRequest \<Rightarrow> bool" where
  "backup_request ps fmt y r \<longleftrightarrow> (\<exists>b. runBackup ps fmt y = Inr b \<and> r = toBackupRequest (applyBackupDefaults b) DirectionBackup)"

definition restore_request :: "process \<Rightarrow> string \<Rightarrow> RestoreCommand \<Rightarrow> BRequest \<Rightarrow> bool" where
  "restore_request ps fmt y r \<longleftrightarrow> (\<exists>b. runRestore ps fmt y = Inr b \<and> r = toRestoreRequest (applyRestoreDefaults b))"

lemma migrate_bound: "fields_bound (setMigrateCmdFlags options) (migrate_request ps) migrate_fields"
  by (simp add: fields_bound_def migrate_fields_def migrate_flag_defs migrate_request_def toInternalRequest_def PVC_info_def
      ApplyDefaults_def applyTransportDefaults_def default_path_def runMigration_def)

lemma run_backup_fields:
  assumes "runBackup ps fmt y = Inr b"
  shows "\<exists>json. b = (bf_Backup y)\<lparr>ba_GCSBucketPolicyOnly := Some (bf_Policy y),
      ba_StructuredLogs := structuredLogsRequested fmt,
      ba_ColorOutput := colorOutputWanted (ps_Getenv ps ''NO_COLOR'') (ps_Terminal ps) fmt,
      ba_AccessKey := setStringFromEnvIfEmpty ps (ba_AccessKey (bf_Backup y)) envS3AccessKey,
      ba_SecretKey := setStringFromEnvIfEmpty ps (ba_SecretKey (bf_Backup y)) envS3SecretKey,
      ba_StorageAccount := setStringFromEnvIfEmpty ps (ba_StorageAccount (bf_Backup y)) envAzureStorageAccount,
      ba_StorageKey := setStringFromEnvIfEmpty ps (ba_StorageKey (bf_Backup y)) envAzureStorageKey,
      ba_GCSServiceAccountJSON := json, ba_FlushPassword := ba_FlushPassword b\<rparr>"
  using assms by (auto simp: runBackup_def Let_def split: sum.splits)

lemma run_restore_fields:
  assumes "runRestore ps fmt y = Inr b"
  shows "\<exists>json. b = (rf_Restore y)\<lparr>re_GCSBucketPolicyOnly := Some (rf_Policy y),
      re_StructuredLogs := structuredLogsRequested fmt,
      re_ColorOutput := colorOutputWanted (ps_Getenv ps ''NO_COLOR'') (ps_Terminal ps) fmt,
      re_AccessKey := setStringFromEnvIfEmpty ps (re_AccessKey (rf_Restore y)) envS3AccessKey,
      re_SecretKey := setStringFromEnvIfEmpty ps (re_SecretKey (rf_Restore y)) envS3SecretKey,
      re_StorageAccount := setStringFromEnvIfEmpty ps (re_StorageAccount (rf_Restore y)) envAzureStorageAccount,
      re_StorageKey := setStringFromEnvIfEmpty ps (re_StorageKey (rf_Restore y)) envAzureStorageKey,
      re_GCSServiceAccountJSON := json\<rparr>"
  using assms by (auto simp: runRestore_def Let_def split: sum.splits)


lemma backup_request_fields:
  "backup_request ps fmt y r \<Longrightarrow> \<exists>json pw color. r = toBackupRequest (applyBackupDefaults ((bf_Backup y)\<lparr>
      ba_GCSBucketPolicyOnly := Some (bf_Policy y), ba_StructuredLogs := structuredLogsRequested fmt, ba_ColorOutput := color,
      ba_AccessKey := setStringFromEnvIfEmpty ps (ba_AccessKey (bf_Backup y)) envS3AccessKey,
      ba_SecretKey := setStringFromEnvIfEmpty ps (ba_SecretKey (bf_Backup y)) envS3SecretKey,
      ba_StorageAccount := setStringFromEnvIfEmpty ps (ba_StorageAccount (bf_Backup y)) envAzureStorageAccount,
      ba_StorageKey := setStringFromEnvIfEmpty ps (ba_StorageKey (bf_Backup y)) envAzureStorageKey,
      ba_GCSServiceAccountJSON := json, ba_FlushPassword := pw\<rparr>)) DirectionBackup"
  unfolding backup_request_def using run_backup_fields by metis

lemma backup_bound: "fields_bound (buildBackupCmd options) (backup_request ps fmt) backup_fields"
  unfolding fields_bound_def backup_fields_def storage_fields_def
  by (auto simp: buildBackupCmd_def storage_flag_defs toBackupRequest_def applyBackupDefaults_def
      setStringFromEnvIfEmpty_def dest!: backup_request_fields)


lemma restore_request_fields:
  "restore_request ps fmt y r \<Longrightarrow> \<exists>json color. r = toRestoreRequest (applyRestoreDefaults ((rf_Restore y)\<lparr>
      re_GCSBucketPolicyOnly := Some (rf_Policy y), re_StructuredLogs := structuredLogsRequested fmt, re_ColorOutput := color,
      re_AccessKey := setStringFromEnvIfEmpty ps (re_AccessKey (rf_Restore y)) envS3AccessKey,
      re_SecretKey := setStringFromEnvIfEmpty ps (re_SecretKey (rf_Restore y)) envS3SecretKey,
      re_StorageAccount := setStringFromEnvIfEmpty ps (re_StorageAccount (rf_Restore y)) envAzureStorageAccount,
      re_StorageKey := setStringFromEnvIfEmpty ps (re_StorageKey (rf_Restore y)) envAzureStorageKey,
      re_GCSServiceAccountJSON := json\<rparr>))"
  unfolding restore_request_def using run_restore_fields by metis

lemma restore_bound: "fields_bound (buildRestoreCmd options) (restore_request ps fmt) restore_fields"
  unfolding fields_bound_def restore_fields_def storage_fields_def
  by (auto simp: buildRestoreCmd_def storage_flag_defs toRestoreRequest_def applyRestoreDefaults_def
      setStringFromEnvIfEmpty_def dest!: restore_request_fields)

text \<open>
  C16: what a command line asks for is what the run gets. The last value given for a flag, unless it is
  an empty one that a default replaces, is found in the request in the field the flag stands for: for
  every flag of the migrate, backup and restore commands, whatever other flags are given and in
  whatever order, and for the keys whatever the environment variables hold.
\<close>

theorem flags_reach_request:
  assumes "map_of (rev given) n = Some v" and "\<not> unset v"
  shows "(\<forall>read m. (n, read) \<in> set migrate_fields \<longrightarrow> migrate_command version ps given = Inr m
        \<longrightarrow> read (toInternalRequest (ApplyDefaults m)) = v)
    \<and> (\<forall>read b. (n, read) \<in> set backup_fields \<longrightarrow> backup_command ps fmt bc given = Inr b
        \<longrightarrow> read (toBackupRequest (applyBackupDefaults b) DirectionBackup) = v)
    \<and> (\<forall>read r. (n, read) \<in> set restore_fields \<longrightarrow> restore_command ps fmt rc given = Inr r
        \<longrightarrow> read (toRestoreRequest (applyRestoreDefaults r)) = v)"
proof (intro conjI allI impI)
  fix read m assume f: "(n, read) \<in> set migrate_fields" and run: "migrate_command version ps given = Inr m"
  from run obtain y where "invoke (setMigrateCmdFlags (BuildMigrateCmd version ps)) [''source'', ''dest''] given
      (BuildMigrateCmd version ps) = Inr y" "m = runMigration ps y"
    by (auto simp: migrate_command_def Let_def map_sum_Inr_iff)
  then show "read (toInternalRequest (ApplyDefaults m)) = v"
    by (intro given_reaches [OF migrate.flag_set_axioms migrate_bound [of _ ps] _ _ f assms]) (auto simp: migrate_request_def)
next
  fix read b assume f: "(n, read) \<in> set backup_fields" and run: "backup_command ps fmt bc given = Inr b"
  from run obtain y where "invoke (buildBackupCmd bc) [''source''] given bc = Inr y" "runBackup ps fmt y = Inr b"
    by (auto simp: backup_command_def map_sum_Inr_iff split: sum.splits)
  then show "read (toBackupRequest (applyBackupDefaults b) DirectionBackup) = v"
    by (intro given_reaches [OF backup.flag_set_axioms backup_bound [of _ ps fmt] _ _ f assms]) (auto simp: backup_request_def)
next
  fix read r assume f: "(n, read) \<in> set restore_fields" and run: "restore_command ps fmt rc given = Inr r"
  from run obtain y where "invoke (buildRestoreCmd rc) [''dest''] given rc = Inr y" "runRestore ps fmt y = Inr r"
    by (auto simp: restore_command_def map_sum_Inr_iff split: sum.splits)
  then show "read (toRestoreRequest (applyRestoreDefaults r)) = v"
    by (intro given_reaches [OF restore.flag_set_axioms restore_bound [of _ ps fmt] _ _ f assms]) (auto simp: restore_request_def)
qed

definition example_process :: process where
  "example_process = \<lparr>ps_Terminal = False, ps_Getenv = (\<lambda>_. []), ps_ReadFile = (\<lambda>_. Inl ''no such file'')\<rparr>"

definition example_flags :: "(string \<times> flag_value) list" where
  "example_flags = [(''source'', FString ''a''), (''mover'', FString ''rsync''), (''dest'', FString ''b''), (''mover'', FString ''tar'')]"

theorem flags_reach_request_witness:
  "\<exists>m. migrate_command ''2.3.0'' example_process example_flags = Inr m \<and> rq_Mover (toInternalRequest (ApplyDefaults m)) = ''tar''"
proof -
  obtain m where m: "migrate_command ''2.3.0'' example_process example_flags = Inr m"
    by (simp add: migrate_command_def invoke_def example_flags_def migrate_flag_defs StringVar_def Let_def)
  have f: "(''mover'', \<lambda>r. FString (rq_Mover r)) \<in> set migrate_fields" by (simp add: migrate_fields_def)
  have "map_of (rev example_flags) ''mover'' = Some (FString ''tar'')" by (simp add: example_flags_def)
  moreover have "\<not> unset (FString ''tar'')" by simp
  ultimately have "FString (rq_Mover (toInternalRequest (ApplyDefaults m))) = FString ''tar''"
    using flags_reach_request [THEN conjunct1, rule_format, OF _ _ f m] by blast
  with m show ?thesis by simp
qed

text \<open>
  No command registers a flag or a shorthand twice, or the ones of the help flag, which the flag
  library would refuse with a panic as the program starts.
\<close>

definition registers_once :: "'o flag list \<Rightarrow> bool" where
  "registers_once flags \<longleftrightarrow> distinct (''help'' # map fl_Name flags) \<and> distinct (''h'' # filter (\<lambda>s. s \<noteq> []) (map fl_Short flags))"

lemma flags_register_once:
  "registers_once (setMigrateCmdFlags options)" "registers_once (buildBackupCmd bc)" "registers_once (buildRestoreCmd rc)"
  by (simp_all add: registers_once_def migrate_flag_defs buildBackupCmd_def buildRestoreCmd_def storage_flag_defs)

end
