(* ===== verification/Narrate.thy ===== *)
theory Narrate
  imports Console Shell Progress
begin

text \<open>
  The text log (\<open>src/internal/narrate/handler.go\<close>): a handler of \<open>log/slog\<close> that writes a step at the
  margin with a blank line before it and the details of a step indented below it. A handler is its
  options, the attributes added to it and the groups opened on it; the writer and whether anything was
  written are shared by all handlers derived from one, and a lock makes each record one write. The
  functions \<open>unicode.IsSpace\<close>, \<open>strconv.Quote\<close> and, for ASCII, \<open>unicode.IsPrint\<close> are modelled; the table of
  printable code points beyond ASCII is the argument \<open>printable\<close>.
\<close>

section \<open>Attributes\<close>

text \<open>
  A resolved value of \<open>log/slog\<close>: a whole number, a group, the absent value, or any other value by its
  \<open>String\<close>.
\<close>

datatype slog_value = VInt int | VGroup "(string \<times> slog_value) list" | VNil | VOther string

type_synonym slog_attr = "string \<times> slog_value"

fun value_String :: "slog_value \<Rightarrow> string" where
  "value_String (VInt n) = Itoa n"
| "value_String (VOther s) = s"
| "value_String VNil = ''<nil>''"
| "value_String (VGroup _) = []"

definition IndentKey :: string where "IndentKey = ''indent''"
definition indentWidth :: nat where "indentWidth = 3"
definition maxDepth :: int where "maxDepth = 2"

definition nest :: "string list \<Rightarrow> slog_attr list \<Rightarrow> slog_attr list" where
  "nest gs attrs = foldr (\<lambda>g as. [(g, VGroup as)]) gs attrs"

fun flatten :: "string \<Rightarrow> slog_attr list \<Rightarrow> slog_attr list" where
  "flatten pre [] = []"
| "flatten pre ((key, v) # attrs) =
     (if key = [] \<and> v = VNil then flatten pre attrs
      else case v of
        VGroup inner \<Rightarrow> flatten (if key \<noteq> [] then pre @ key @ ''.'' else pre) inner @ flatten pre attrs
      | _ \<Rightarrow> (pre @ key, v) # flatten pre attrs)"

definition clampDepth :: "int \<Rightarrow> int" where
  "clampDepth depth = min (max depth 0) maxDepth"

definition is_indent :: "slog_attr \<Rightarrow> bool" where
  "is_indent a \<longleftrightarrow> (fst a = IndentKey \<or> HasSuffix (fst a) (''.'' @ IndentKey)) \<and>
     (case snd a of VInt _ \<Rightarrow> True | _ \<Rightarrow> False)"

fun indent_of :: "slog_attr \<Rightarrow> int" where
  "indent_of (_, VInt n) = n"
| "indent_of _ = 0"

definition splitDepth :: "slog_attr list \<Rightarrow> int \<times> slog_attr list" where
  "splitDepth attrs =
     (clampDepth (fold (\<lambda>a depth. wrap64 (depth + indent_of a)) (filter is_indent attrs) 0),
      filter (\<lambda>a. \<not> is_indent a) attrs)"

section \<open>Values\<close>

text \<open>
  The code points of a string with the bytes of each, as a \<open>for range\<close> loop reads them: a byte that
  starts no encoding is the replacement character, marked by \<open>None\<close>.
\<close>

function code_points :: "string \<Rightarrow> (nat option \<times> string) list" where
  "code_points s =
     (if s = [] then []
      else case decode_rune s of None \<Rightarrow> (None, [hd s]) # code_points (tl s)
      | Some (r, s') \<Rightarrow> (Some r, take (length s - length s') s) # code_points s')"
  by pat_completeness auto
termination
  by (relation "measure length") (auto dest: decode_rune_shorter)

declare code_points.simps [simp del]

definition rune_error :: nat where "rune_error = 65533"

definition rune_of :: "nat option \<times> string \<Rightarrow> nat" where
  "rune_of p = (case fst p of None \<Rightarrow> rune_error | Some r \<Rightarrow> r)"

definition IsSpace :: "nat \<Rightarrow> bool" where
  "IsSpace r \<longleftrightarrow> r \<in> {9, 10, 11, 12, 13, 32, 133, 160, 5760, 8232, 8233, 8239, 8287, 12288} \<or> (8192 \<le> r \<and> r \<le> 8202)"

definition IsPrint :: "(nat \<Rightarrow> bool) \<Rightarrow> nat \<Rightarrow> bool" where
  "IsPrint printable r \<longleftrightarrow> (if r < 128 then 32 \<le> r \<and> r < 127 else printable r)"

definition hex_char :: "nat \<Rightarrow> char" where
  "hex_char n = (''0123456789abcdef'' ! (n mod 16))"

definition hex :: "nat \<Rightarrow> nat \<Rightarrow> string" where
  "hex width r = map (\<lambda>i. hex_char (r div 16 ^ (width - 1 - i))) [0..<width]"

text \<open>\<open>appendEscapedRune\<close> of \<open>strconv\<close>, for the quote character of \<open>strconv.Quote\<close>.\<close>

definition escaped :: "(nat \<Rightarrow> bool) \<Rightarrow> nat option \<times> string \<Rightarrow> string" where
  "escaped printable p =
     (case fst p of None \<Rightarrow> [backslash] @ ''x'' @ hex 2 (byte (hd (snd p)))
      | Some r \<Rightarrow>
        if r = byte dquote \<or> r = byte backslash then backslash # snd p
        else if IsPrint printable r then snd p
        else backslash # (if r = 7 then ''a'' else if r = 8 then ''b'' else if r = 12 then ''f''
          else if r = 10 then ''n'' else if r = 13 then ''r'' else if r = 9 then ''t'' else if r = 11 then ''v''
          else if r < 32 \<or> r = 127 then ''x'' @ hex 2 r
          else if r < 65536 then ''u'' @ hex 4 r else ''U'' @ hex 8 r))"

definition strconv_Quote :: "(nat \<Rightarrow> bool) \<Rightarrow> string \<Rightarrow> string" where
  "strconv_Quote printable s = [dquote] @ concat (map (escaped printable) (code_points s)) @ [dquote]"

definition needsQuotes :: "(nat \<Rightarrow> bool) \<Rightarrow> string \<Rightarrow> bool" where
  "needsQuotes printable t \<longleftrightarrow> t = [] \<or> ContainsAny t [dquote, CHR ''=''] \<or>
     list_ex (\<lambda>p. IsSpace (rune_of p) \<or> \<not> IsPrint printable (rune_of p)) (code_points t)"

definition formatValue :: "(nat \<Rightarrow> bool) \<Rightarrow> slog_value \<Rightarrow> string" where
  "formatValue printable v =
     (let t = value_String v in if needsQuotes printable t then strconv_Quote printable t else t)"

section \<open>The handler\<close>

definition LevelDebug :: int where "LevelDebug = - 4"
definition LevelInfo :: int where "LevelInfo = 0"
definition LevelWarn :: int where "LevelWarn = 4"
definition LevelError :: int where "LevelError = 8"

record Handler =
  nh_Level :: int
  nh_Color :: bool
  nh_attrs :: "slog_attr list"
  nh_groups :: "string list"

definition NewHandler :: "int \<Rightarrow> bool \<Rightarrow> Handler" where
  "NewHandler level color = \<lparr>nh_Level = level, nh_Color = color, nh_attrs = [], nh_groups = []\<rparr>"

definition handler_Enabled :: "Handler \<Rightarrow> int \<Rightarrow> bool" where
  "handler_Enabled h level \<longleftrightarrow> nh_Level h \<le> level"

definition WithAttrs :: "slog_attr list \<Rightarrow> Handler \<Rightarrow> Handler" where
  "WithAttrs attrs h = h\<lparr>nh_attrs := nh_attrs h @ nest (nh_groups h) attrs\<rparr>"

definition WithGroup :: "string \<Rightarrow> Handler \<Rightarrow> Handler" where
  "WithGroup name h = (if name = [] then h else h\<lparr>nh_groups := nh_groups h @ [name]\<rparr>)"

definition Detail :: "int \<Rightarrow> Handler \<Rightarrow> Handler" where
  "Detail depth = WithAttrs [(IndentKey, VInt depth)]"

record log_record =
  lr_Level :: int
  lr_Message :: string
  lr_Attrs :: "slog_attr list"

definition TrimRight :: "string \<Rightarrow> string \<Rightarrow> string" where
  "TrimRight s cutset = rev (dropWhile (\<lambda>c. c \<in> set cutset) (rev s))"

definition handler_format :: "(nat \<Rightarrow> bool) \<Rightarrow> Handler \<Rightarrow> log_record \<Rightarrow> slog_attr list \<Rightarrow> string" where
  "handler_format printable h r attrs =
     (let message = TrimRight (lr_Message r) [return_byte, newline_byte];
          message = (if lr_Level r \<ge> LevelError then Bad (nh_Color h) message
                     else if lr_Level r \<ge> LevelWarn then Warn (nh_Color h) message
                     else if lr_Level r < LevelInfo then Dim (nh_Color h) message else message)
      in if attrs = [] then message
         else message @ '' '' @ Dim (nh_Color h) (Join (map (\<lambda>(k, v). k @ ''='' @ formatValue printable v) attrs) '' ''))"

definition record_depth :: "Handler \<Rightarrow> log_record \<Rightarrow> int \<times> slog_attr list" where
  "record_depth h r =
     (let (depth, attrs) = splitDepth (flatten [] (nh_attrs h @ nest (nh_groups h) (lr_Attrs r)))
      in (if lr_Level r < LevelInfo \<and> depth = 0 then 1 else depth, attrs))"

definition handler_Handle :: "(nat \<Rightarrow> bool) \<Rightarrow> Handler \<Rightarrow> log_record \<Rightarrow> bool \<Rightarrow> string \<times> bool" where
  "handler_Handle printable h r started =
     (let (depth, attrs) = record_depth h r;
          indent = replicate (nat depth * indentWidth) CHR '' '';
          line = indent @ ReplaceByte (handler_format printable h r attrs) newline_byte (newline_byte # indent @ ''   '')
                   @ [newline_byte]
      in ((if depth = 0 \<and> started then newline_byte # line else line), True))"

text \<open>A log: the records that are enabled, each through the handler it was logged with.\<close>

fun write_log :: "(nat \<Rightarrow> bool) \<Rightarrow> (Handler \<times> log_record) list \<Rightarrow> bool \<Rightarrow> string" where
  "write_log printable [] started = []"
| "write_log printable ((h, r) # rest) started =
     (if handler_Enabled h (lr_Level r)
      then (case handler_Handle printable h r started of (out, s') \<Rightarrow> out @ write_log printable rest s')
      else write_log printable rest started)"

section \<open>The depth of a record\<close>

lemma wrap64_add: "wrap64 (wrap64 a + b) = wrap64 (a + b)"
  by (simp add: wrap64_def) presburger

lemma fold_indent: "wrap64 d = d \<Longrightarrow>
    fold (\<lambda>a depth. wrap64 (depth + indent_of a)) as d = wrap64 (d + sum_list (map indent_of as))"
proof (induction as arbitrary: d)
  case (Cons a as)
  from wrap64_add [of _ 0] have "wrap64 (wrap64 (d + indent_of a)) = wrap64 (d + indent_of a)" by simp
  from Cons.IH [OF this] show ?case using wrap64_add by (simp add: add.assoc)
qed simp

definition indents :: "slog_attr list \<Rightarrow> int" where
  "indents attrs = sum_list (map indent_of (filter is_indent attrs))"

lemma splitDepth_sum: "splitDepth attrs = (clampDepth (wrap64 (indents attrs)), filter (\<lambda>a. \<not> is_indent a) attrs)"
  using fold_indent [of 0 "filter is_indent attrs"] by (simp add: splitDepth_def indents_def wrap64_def)

lemma flatten_append: "flatten pre (as @ bs) = flatten pre as @ flatten pre bs"
  by (induction pre as rule: flatten.induct) (auto split: slog_value.split)

lemma flatten_nest_indent:
  "\<exists>key. (key = IndentKey \<or> HasSuffix key (''.'' @ IndentKey)) \<and>
     flatten pre (nest gs [(IndentKey, VInt d)]) = [(key, VInt d)]"
  if "pre = [] \<or> HasSuffix pre ''.''" for pre
  using that
proof (induction gs arbitrary: pre)
  case Nil
  then show ?case by (auto simp: nest_def suffix_def)
next
  case (Cons g gs)
  let ?pre = "if g \<noteq> [] then pre @ g @ ''.'' else pre"
  have "?pre = [] \<or> HasSuffix ?pre ''.''" using Cons.prems by (auto simp: suffix_def)
  from Cons.IH [OF this] show ?case by (simp add: nest_def)
qed

text \<open>
  A detail logger adds its depth to whatever the logger it derives from had, in any open groups, and
  leaves the other attributes of a record as they were.
\<close>

theorem Detail_deeper:
  "record_depth (Detail d h) r =
     (let attrs = flatten [] (nh_attrs h @ nest (nh_groups h) (lr_Attrs r));
          depth = clampDepth (wrap64 (d + indents attrs))
      in (if lr_Level r < LevelInfo \<and> depth = 0 then 1 else depth, filter (\<lambda>a. \<not> is_indent a) attrs))"
proof -
  obtain key where key: "key = IndentKey \<or> HasSuffix key (''.'' @ IndentKey)"
    "flatten [] (nest (nh_groups h) [(IndentKey, VInt d)]) = [(key, VInt d)]"
    using flatten_nest_indent [of "[]"] by blast
  then show ?thesis
    by (auto simp: record_depth_def Detail_def WithAttrs_def flatten_append splitDepth_sum indents_def is_indent_def
        Let_def algebra_simps)
qed

section \<open>The log as paragraphs\<close>

definition record_lines :: "(nat \<Rightarrow> bool) \<Rightarrow> Handler \<Rightarrow> log_record \<Rightarrow> string list" where
  "record_lines printable h r =
     (let (depth, attrs) = record_depth h r;
          indent = replicate (nat depth * indentWidth) CHR '' '';
          texts = Split (handler_format printable h r attrs) newline_byte
      in (indent @ hd texts) # map (\<lambda>l. indent @ ''   '' @ l) (tl texts))"

lemma Split_prefix: "sep \<notin> set w \<Longrightarrow> Split (w @ s) sep = (w @ hd (Split s sep)) # tl (Split s sep)"
  by (induction w) (auto split: list.split)

lemma Split_ReplaceByte:
  assumes "sep \<notin> set w"
  shows "Split (ReplaceByte s sep (sep # w)) sep = hd (Split s sep) # map ((@) w) (tl (Split s sep))"
proof (induction s)
  case (Cons c s)
  then show ?case using Split_prefix [OF assms] by (cases "Split s sep") auto
qed simp

lemma Split_Handle:
  assumes "handler_Handle printable h r started = (out, s')"
  shows "Split (out @ rest) newline_byte =
    (if fst (record_depth h r) = 0 \<and> started then [[]] else []) @ record_lines printable h r @ Split rest newline_byte \<and> s'"
proof -
  obtain depth attrs where d: "record_depth h r = (depth, attrs)" by fastforce
  define indent where "indent = replicate (nat depth * indentWidth) CHR '' ''"
  define t where "t = handler_format printable h r attrs"
  have n: "newline_byte \<notin> set indent" "newline_byte \<notin> set (indent @ ''   '')" by (auto simp: indent_def)
  have rl: "record_lines printable h r =
      (indent @ hd (Split t newline_byte)) # map (\<lambda>l. indent @ ''   '' @ l) (tl (Split t newline_byte))"
    by (simp add: record_lines_def d indent_def t_def Let_def)
  have m: "(@) (indent @ ''   '') = (\<lambda>l. indent @ ''   '' @ l)" by auto
  have "Split (indent @ ReplaceByte t newline_byte (newline_byte # indent @ ''   '')) newline_byte = record_lines printable h r"
    unfolding Split_prefix [OF n(1)] Split_ReplaceByte [OF n(2)] rl m by simp
  then have "Split (indent @ ReplaceByte t newline_byte (newline_byte # indent @ ''   '') @ newline_byte # rest) newline_byte =
      record_lines printable h r @ Split rest newline_byte"
    using Split_append_sep [of "indent @ ReplaceByte t newline_byte (newline_byte # indent @ ''   '')" newline_byte rest]
    by simp
  then show ?thesis
    using assms by (auto simp: handler_Handle_def d Let_def indent_def t_def)
qed

text \<open>
  How a reader takes a log apart: a blank line ends a paragraph. And how it is told: a step opens a
  paragraph, whatever else is logged goes under the one that is open.
\<close>

fun split_blank :: "string list \<Rightarrow> string list list" where
  "split_blank [] = [[]]"
| "split_blank (l # ls) =
     (if l = [] then [] # split_blank ls
      else (l # hd (split_blank ls)) # tl (split_blank ls))"

fun tell :: "(nat \<Rightarrow> bool) \<Rightarrow> (Handler \<times> log_record) list \<Rightarrow> string list list" where
  "tell printable [] = [[]]"
| "tell printable ((h, r) # rest) =
     (let paragraphs = tell printable rest;
          opened = (record_lines printable h r @ hd paragraphs) # tl paragraphs
      in if fst (record_depth h r) = 0 then [] # opened else opened)"

abbreviation enabled :: "(Handler \<times> log_record) list \<Rightarrow> (Handler \<times> log_record) list" where
  "enabled recs \<equiv> filter (\<lambda>(h, r). handler_Enabled h (lr_Level r)) recs"

text \<open>The text of the record does not begin with a line break.\<close>

definition speaks :: "(nat \<Rightarrow> bool) \<Rightarrow> Handler \<times> log_record \<Rightarrow> bool" where
  "speaks printable = (\<lambda>(h, r). hd (record_lines printable h r) \<noteq> [])"

lemma split_blank_append: "[] \<notin> set xs \<Longrightarrow> split_blank (xs @ ls) = (xs @ hd (split_blank ls)) # tl (split_blank ls)"
proof (induction xs)
  case Nil
  show ?case by (cases ls) auto
qed auto

lemma record_lines_solid: "speaks printable (h, r) \<Longrightarrow> [] \<notin> set (record_lines printable h r)"
  by (auto simp: speaks_def record_lines_def Let_def split: prod.splits)

lemma tell_enabled_step:
  assumes "speaks printable (h, r)"
  shows "split_blank ((if fst (record_depth h r) = 0 then [[]] else []) @ record_lines printable h r @ ls) =
    (let opened = (record_lines printable h r @ hd (split_blank ls)) # tl (split_blank ls)
     in if fst (record_depth h r) = 0 then [] # opened else opened)"
  using split_blank_append [OF record_lines_solid [OF assms]] by (simp add: Let_def)

lemma write_log_last: "last (Split (write_log printable recs started) newline_byte) = []"
proof (induction recs arbitrary: started)
  case (Cons hr recs)
  obtain h r where "hr = (h, r)" by fastforce
  with Cons show ?case
    by (cases "handler_Handle printable h r started") (simp add: Split_Handle)
qed simp

lemma write_log_ends: "\<exists>ls. Split (write_log printable recs started) newline_byte = ls @ [[]]"
  using append_butlast_last_id [OF Split_not_Nil, symmetric] write_log_last by metis

lemma write_log_started:
  assumes "\<forall>hr \<in> set (enabled recs). speaks printable hr"
  shows "split_blank (butlast (Split (write_log printable recs True) newline_byte)) = tell printable (enabled recs)"
  using assms
proof (induction recs)
  case (Cons hr recs)
  obtain h r where hr: "hr = (h, r)" by fastforce
  show ?case
  proof (cases "handler_Enabled h (lr_Level r)")
    case True
    obtain out s' where o: "handler_Handle printable h r True = (out, s')" by fastforce
    obtain ls where ls: "Split (write_log printable recs True) newline_byte = ls @ [[]]" using write_log_ends by blast
    from Split_Handle [OF o] have s: "s'"
      "Split (out @ write_log printable recs True) newline_byte =
        ((if fst (record_depth h r) = 0 then [[]] else []) @ record_lines printable h r @ ls) @ [[]]"
      by (simp_all add: ls)
    then have "butlast (Split (write_log printable (hr # recs) True) newline_byte) =
        (if fst (record_depth h r) = 0 then [[]] else []) @ record_lines printable h r @ ls"
      using True o by (simp add: hr butlast_append)
    moreover have "speaks printable (h, r)" using Cons.prems True by (simp add: hr)
    moreover have "split_blank ls = tell printable (enabled recs)" using Cons True by (simp add: ls hr)
    ultimately show ?thesis using tell_enabled_step [of printable h r ls] True by (simp add: hr Let_def)
  qed (use Cons hr in auto)
qed simp

text \<open>
  C36: the log reads as a story. Taken apart at its blank lines, what any sequence of records wrote
  through any handlers derived from one is one paragraph for each step: the lines of the step, then
  the lines of everything logged under it until the next step. A line break inside a message or a
  value never opens a paragraph, and the first step is not preceded by a blank line. Only a record
  whose text begins with a line break is excluded.
\<close>

theorem log_is_a_story:
  assumes "\<forall>hr \<in> set (enabled recs). speaks printable hr"
  shows "split_blank (butlast (Split (write_log printable recs False) newline_byte)) =
    (case enabled recs of [] \<Rightarrow> [[]]
     | (h, r) # rest \<Rightarrow> (if fst (record_depth h r) = 0 then tl (tell printable ((h, r) # rest))
                        else tell printable ((h, r) # rest)))"
  using assms
proof (induction recs)
  case (Cons hr recs)
  obtain h r where hr: "hr = (h, r)" by fastforce
  show ?case
  proof (cases "handler_Enabled h (lr_Level r)")
    case True
    obtain out s' where o: "handler_Handle printable h r False = (out, s')" by fastforce
    obtain ls where ls: "Split (write_log printable recs True) newline_byte = ls @ [[]]" using write_log_ends by blast
    from Split_Handle [OF o] have s: "s'"
      "Split (out @ write_log printable recs True) newline_byte = (record_lines printable h r @ ls) @ [[]]"
      by (simp_all add: ls)
    then have "butlast (Split (write_log printable (hr # recs) False) newline_byte) = record_lines printable h r @ ls"
      using True o by (simp add: hr butlast_append)
    moreover have "split_blank ls = tell printable (enabled recs)"
      using Cons.prems write_log_started [of recs printable] by (simp add: ls hr split: if_splits)
    moreover have "speaks printable (h, r)" using Cons.prems True by (simp add: hr)
    ultimately show ?thesis
      using split_blank_append [OF record_lines_solid, of printable h r ls] True by (simp add: hr Let_def)
  qed (use Cons hr in auto)
qed simp

definition example_log :: "(Handler \<times> log_record) list" where
  "example_log =
     (let h = NewHandler LevelInfo False in
      [(h, \<lparr>lr_Level = LevelInfo, lr_Message = ''a'', lr_Attrs = []\<rparr>),
       (Detail 1 h, \<lparr>lr_Level = LevelInfo, lr_Message = ''b'' @ [newline_byte, newline_byte] @ ''c'', lr_Attrs = []\<rparr>),
       (h, \<lparr>lr_Level = LevelDebug, lr_Message = ''hidden'', lr_Attrs = []\<rparr>),
       (h, \<lparr>lr_Level = LevelInfo, lr_Message = ''d'', lr_Attrs = []\<rparr>)])"

theorem log_is_a_story_witness:
  "split_blank (butlast (Split (write_log (\<lambda>_. True) example_log False) newline_byte)) =
     [[''a'', ''   b'', ''      '', ''      c''], [''d'']]"
proof -
  have "list_all (speaks (\<lambda>_. True)) (enabled example_log)" by code_simp
  then have "\<forall>hr \<in> set (enabled example_log). speaks (\<lambda>_. True) hr" by (simp add: list_all_iff)
  note log_is_a_story [OF this]
  also have "(case enabled example_log of [] \<Rightarrow> [[]]
     | (h, r) # rest \<Rightarrow> (if fst (record_depth h r) = 0 then tl (tell (\<lambda>_. True) ((h, r) # rest))
                        else tell (\<lambda>_. True) ((h, r) # rest))) =
     [[''a'', ''   b'', ''      '', ''      c''], [''d'']]" by code_simp
  finally show ?thesis .
qed

section \<open>What a value can do to a terminal\<close>

lemma decode_rune_bytes:
  assumes "decode_rune s = Some (r, s')"
  shows "(r < 128 \<and> (\<exists>c. take (length s - length s') s = [c] \<and> byte c = r)) \<or>
    (128 \<le> r \<and> (\<forall>c \<in> set (take (length s - length s') s). 128 \<le> byte c))"
  using assms
  by (cases s) (auto simp: two_byte_def three_byte_def four_byte_def cont_def split: if_splits list.splits)

lemma decode_rune_suffix: "decode_rune s = Some (r, s') \<Longrightarrow> take (length s - length s') s @ s' = s"
  by (cases s) (auto split: if_splits list.splits)

lemma code_points_Nil [simp]: "code_points [] = []"
  by (simp add: code_points.simps)

lemma code_points_concat: "concat (map snd (code_points s)) = s"
proof (induction s rule: code_points.induct)
  case (1 s)
  then show ?case
    by (cases "s = []") (auto simp: code_points.simps [of s] decode_rune_suffix split: option.split)
qed

definition piece_ok :: "nat option \<times> string \<Rightarrow> bool" where
  "piece_ok p = (case fst p of None \<Rightarrow> \<exists>c. snd p = [c] \<and> 128 \<le> byte c
     | Some r \<Rightarrow> (r < 128 \<and> (\<exists>c. snd p = [c] \<and> byte c = r)) \<or> (128 \<le> r \<and> (\<forall>c \<in> set (snd p). 128 \<le> byte c)))"

lemma decoded_piece_ok: "decode_rune s = Some (r, s') \<Longrightarrow> piece_ok (Some r, take (length s - length s') s)"
  using decode_rune_bytes [of s r s'] by (simp add: piece_ok_def)

lemma stray_piece_ok: "decode_rune s = None \<Longrightarrow> s \<noteq> [] \<Longrightarrow> piece_ok (None, [hd s])"
  by (cases s) (auto simp: piece_ok_def split: if_splits)

lemma code_points_ok: "\<forall>p \<in> set (code_points s). piece_ok p"
proof (induction s rule: code_points.induct)
  case (1 s)
  show ?case
  proof (cases "s = []")
    case False
    then show ?thesis
      using 1 decoded_piece_ok [of s] stray_piece_ok [of s]
      by (cases "decode_rune s") (auto simp: code_points.simps [of s])
  qed simp
qed

definition tame :: "string \<Rightarrow> bool" where
  "tame s \<longleftrightarrow> (\<forall>c \<in> set s. 32 \<le> byte c \<and> byte c \<noteq> 127)"

lemma tame_simps [simp]: "tame []" "tame (c # s) \<longleftrightarrow> 32 \<le> byte c \<and> byte c \<noteq> 127 \<and> tame s" "tame (s @ t) \<longleftrightarrow> tame s \<and> tame t"
  by (auto simp: tame_def)

lemma hex_char_tame: "32 \<le> byte (hex_char n) \<and> byte (hex_char n) \<noteq> 127"
proof -
  have "list_all (\<lambda>i. 32 \<le> byte (hex_char i) \<and> byte (hex_char i) \<noteq> 127) [0..<16]" by code_simp
  then have "\<forall>i < 16. 32 \<le> byte (hex_char i) \<and> byte (hex_char i) \<noteq> 127" by (simp add: list_all_iff)
  moreover have "hex_char n = hex_char (n mod 16)" by (simp add: hex_char_def)
  ultimately show ?thesis by simp
qed

lemma hex_tame [simp]: "tame (hex w n)"
  by (simp add: tame_def hex_def hex_char_tame)

lemma printable_tame: "piece_ok p \<Longrightarrow> IsPrint printable (rune_of p) \<Longrightarrow> tame (snd p)"
  by (auto simp: piece_ok_def tame_def IsPrint_def rune_of_def split: option.splits if_splits)

lemma escaped_tame: "piece_ok p \<Longrightarrow> tame (escaped printable p)"
  using printable_tame [of p printable]
  by (auto simp: escaped_def rune_of_def byte_def piece_ok_def IsPrint_def split: option.splits)

text \<open>
  Whatever an attribute holds, its rendering contains no ASCII control character: quoting is used
  exactly when the text could otherwise break the line or act on the terminal.
\<close>

theorem formatValue_tame: "tame (formatValue printable v)"
proof (cases "needsQuotes printable (value_String v)")
  case True
  have "tame (concat (map (escaped printable) (code_points s)))" for s
    using code_points_ok [of s] escaped_tame by (fastforce simp: tame_def)
  with True show ?thesis by (simp add: formatValue_def strconv_Quote_def byte_def)
next
  case False
  then have "\<forall>p \<in> set (code_points (value_String v)). IsPrint printable (rune_of p)"
    by (auto simp: needsQuotes_def list_ex_iff)
  then have "tame (concat (map snd (code_points (value_String v))))"
    using code_points_ok [of "value_String v"] printable_tame by (fastforce simp: tame_def)
  with False show ?thesis by (simp add: formatValue_def code_points_concat)
qed

end
