(* ===== verification/Summary.thy ===== *)
theory Summary
  imports Migrator Console
begin

text \<open>
  The report on an exhausted ladder (\<open>src/internal/migrator/outcome.go\<close>). The text of an error is an
  argument, what its \<open>Error\<close> method returns. Every outcome of the ladder carries an error.
  The names of strategies are ASCII, so their width is their length.
\<close>

definition oc_message :: "(strategy_error \<Rightarrow> string) \<Rightarrow> attemptOutcome \<Rightarrow> string" where
  "oc_message err_text oc =
     (case oc_err oc of Declined reason \<Rightarrow> if reason \<noteq> [] then reason else err_text (oc_err oc)
      | e \<Rightarrow> err_text e)"

text \<open>The lines written, each ended by a line feed.\<close>

definition writeIndented :: "string \<Rightarrow> string" where
  "writeIndented message = concat (map (\<lambda>l. ''    '' @ l @ [newline_byte]) (Split message newline_byte))"

definition writeDiagnosticsBlocks :: "attemptOutcome list \<Rightarrow> bool \<Rightarrow> string" where
  "writeDiagnosticsBlocks outcomes palette =
     (let texts = filter (\<lambda>t. t \<noteq> []) (map oc_diagnostics outcomes)
      in if texts = [] then []
         else [newline_byte] @ Bold palette ''What the cluster reported:'' @ [newline_byte, newline_byte] @ concat texts)"

definition pad :: "nat \<Rightarrow> string \<Rightarrow> string" where
  "pad width s = s @ replicate (width - length s) CHR '' ''"

definition outcome_row :: "(strategy_error \<Rightarrow> string) \<Rightarrow> nat \<Rightarrow> bool \<Rightarrow> attemptOutcome \<Rightarrow> string" where
  "outcome_row err_text nameWidth palette oc =
     (let name = Bold palette (pad nameWidth (oc_strategy oc)) in
      if oc_declined oc
      then ''  '' @ name @ ''  '' @ Warn palette ''declined'' @ ''  '' @ oc_message err_text oc @ [newline_byte]
      else ''  '' @ name @ ''  '' @ Bad palette ''failed'' @ [newline_byte] @ writeIndented (oc_message err_text oc))"

definition writeSummary :: "(strategy_error \<Rightarrow> string) \<Rightarrow> attemptOutcome list \<Rightarrow> bool \<Rightarrow> string" where
  "writeSummary err_text outcomes palette =
     [newline_byte] @
     (case outcomes of
        [oc] \<Rightarrow> Failure palette (''Migration failed: the '' @ oc_strategy oc @ '' strategy '' @ oc_status oc @ ''.'')
                 @ [newline_byte] @ writeIndented (oc_message err_text oc)
      | _ \<Rightarrow> (let nameWidth = foldl max 0 (map (length \<circ> oc_strategy) outcomes)
              in Failure palette ''Migration failed: no strategy could complete the migration.''
                 @ [newline_byte, newline_byte] @ concat (map (outcome_row err_text nameWidth palette) outcomes)))
     @ writeDiagnosticsBlocks outcomes palette"

datatype outcome_record =
    OutcomeWarn string string string "string option"
  | OutcomeError string string string "string option"

datatype outcome_report = Records "outcome_record list" | SummaryText string

definition outcome_log :: "(strategy_error \<Rightarrow> string) \<Rightarrow> attemptOutcome \<Rightarrow> outcome_record" where
  "outcome_log err_text oc =
     (if oc_declined oc then OutcomeWarn else OutcomeError) (oc_strategy oc) (oc_status oc) (oc_message err_text oc)
       (if oc_diagnostics oc \<noteq> [] then Some (oc_diagnostics oc) else None)"

definition reportOutcomes :: "(strategy_error \<Rightarrow> string) \<Rightarrow> Request \<Rightarrow> attemptOutcome list \<Rightarrow> outcome_report" where
  "reportOutcomes err_text req outcomes =
     (if rq_StructuredLogs req then Records (map (outcome_log err_text) outcomes)
      else SummaryText (writeSummary err_text outcomes (rq_ColorOutput req)))"

section \<open>Every attempt has its row\<close>

lemma foldl_max_start: "m \<le> foldl max (m :: nat) xs"
  by (induction xs arbitrary: m) (auto intro: order_trans [OF max.cobounded1])

lemma foldl_max_ge: "x \<in> set xs \<Longrightarrow> x \<le> foldl max (m :: nat) xs"
  by (induction xs arbitrary: m) (auto intro: order_trans [OF max.cobounded2 foldl_max_start])

lemma pad_length: "length s \<le> w \<Longrightarrow> length (pad w s) = w"
  by (simp add: pad_def)

lemma outcome_row_shape:
  "\<exists>rest. outcome_row err_text w False oc = (''  '' @ pad w (oc_strategy oc) @ ''  '' @ oc_status oc) @ rest @ [newline_byte]"
  by (cases "Split (oc_message err_text oc) newline_byte" rule: rev_cases)
    (auto simp: outcome_row_def oc_status_def writeIndented_def Let_def)

lemma Split_middle:
  assumes "sep \<notin> set row"
  shows "\<exists>l \<in> set (Split (pre @ sep # row @ rest) sep). prefix row l"
proof -
  have "Split (pre @ sep # row @ rest) sep = Split pre sep @ Split (row @ rest) sep" by (rule Split_append_sep)
  moreover have "Split (row @ rest) sep = (row @ hd (Split rest sep)) # tl (Split rest sep)" using assms
    by (induction row) (auto split: list.split)
  ultimately show ?thesis by (auto simp: prefix_def)
qed

lemma rows_end_lines:
  "\<exists>pre. x @ [newline_byte] @ concat (map (outcome_row err_text w False) ocs) = pre @ [newline_byte]"
proof (cases ocs rule: rev_cases)
  case (snoc ys y)
  with outcome_row_shape [of err_text w y] show ?thesis by auto
qed auto

text \<open>
  When several strategies were tried, the plain summary has for each of them a line that starts with
  its name, padded to one width for all, and what became of it.
\<close>

theorem summary_rows:
  assumes "length outcomes \<noteq> 1" and "oc \<in> set outcomes" and "newline_byte \<notin> set (oc_strategy oc)"
  shows "\<exists>w. (\<forall>o' \<in> set outcomes. length (pad w (oc_strategy o')) = w) \<and>
    (\<exists>l \<in> set (Split (writeSummary err_text outcomes False) newline_byte).
       prefix (''  '' @ pad w (oc_strategy oc) @ ''  '' @ oc_status oc) l)"
proof -
  define w where "w = foldl max 0 (map (length \<circ> oc_strategy) outcomes)"
  have "length (oc_strategy o') \<le> w" if "o' \<in> set outcomes" for o'
    unfolding w_def using that by (intro foldl_max_ge) auto
  then have pads: "\<forall>o' \<in> set outcomes. length (pad w (oc_strategy o')) = w" by (simp add: pad_length)
  obtain before after where o: "outcomes = before @ oc # after" using assms(2) by (meson split_list)
  define head where "head = [newline_byte] @ ''Migration failed: no strategy could complete the migration.'' @ [newline_byte]"
  obtain pre where pre: "head @ [newline_byte] @ concat (map (outcome_row err_text w False) before) = pre @ [newline_byte]"
    using rows_end_lines by blast
  obtain rest where row: "outcome_row err_text w False oc =
      (''  '' @ pad w (oc_strategy oc) @ ''  '' @ oc_status oc) @ rest @ [newline_byte]"
    using outcome_row_shape by blast
  have "writeSummary err_text outcomes False =
      head @ [newline_byte] @ concat (map (outcome_row err_text w False) outcomes) @ writeDiagnosticsBlocks outcomes False"
    using assms(1) unfolding w_def by (cases outcomes; cases "tl outcomes") (auto simp: writeSummary_def head_def Let_def)
  then have "writeSummary err_text outcomes False =
      (head @ [newline_byte] @ concat (map (outcome_row err_text w False) before)) @ outcome_row err_text w False oc @
      concat (map (outcome_row err_text w False) after) @ writeDiagnosticsBlocks outcomes False"
    by (simp add: o)
  then have "writeSummary err_text outcomes False = pre @ newline_byte # (''  '' @ pad w (oc_strategy oc) @ ''  '' @ oc_status oc) @
      (rest @ [newline_byte] @ concat (map (outcome_row err_text w False) after) @ writeDiagnosticsBlocks outcomes False)"
    unfolding pre row by simp
  moreover have "newline_byte \<notin> set (''  '' @ pad w (oc_strategy oc) @ ''  '' @ oc_status oc)"
    using assms(3) by (auto simp: pad_def oc_status_def)
  ultimately show ?thesis using pads Split_middle by metis
qed

end
