(* ===== verification/Completion.thy ===== *)
theory Completion
  imports CommandLine
begin

text \<open>
  Shell completion (\<open>src/internal/app/completion.go\<close>): what is suggested for the value of a flag. How
  cobra reads a flag that was typed so far, and what the cluster and the kubeconfig hold, are fields of
  an environment.
\<close>

datatype directive = DirectiveError | DirectiveDefault | DirectiveNoFileComp | DirectiveNoFileCompNoSpace

record completion_env =
  cm_GetString :: "string \<Rightarrow> (string, string) result"
  cm_BuildLogger :: "string \<Rightarrow> string \<Rightarrow> string option"
  cm_GetContexts :: "string \<Rightarrow> (string, string list) result"
  cm_GetNamespaces :: "string \<Rightarrow> string \<Rightarrow> (string, string list) result"
  cm_GetPVCs :: "string \<Rightarrow> string \<Rightarrow> string \<Rightarrow> (string, string list) result"

text \<open>Whether the logger of a completion can be made.\<close>

definition completionLogger :: "completion_env \<Rightarrow> bool" where
  "completionLogger env =
     (case cm_GetString env ''log-level'' of Inl _ \<Rightarrow> False
      | Inr level \<Rightarrow> (case cm_GetString env ''log-format'' of Inl _ \<Rightarrow> False
      | Inr format \<Rightarrow> cm_BuildLogger env level format = None))"

definition answer :: "directive \<Rightarrow> (string, string list) result \<Rightarrow> string list \<times> directive" where
  "answer d r = (case r of Inl _ \<Rightarrow> ([], DirectiveError) | Inr xs \<Rightarrow> (xs, d))"

definition buildKubeContextCompletionFunc :: "completion_env \<Rightarrow> string \<Rightarrow> string list \<times> directive" where
  "buildKubeContextCompletionFunc env kubeconfigFlag =
     (if \<not> completionLogger env then ([], DirectiveError)
      else case cm_GetString env kubeconfigFlag of Inl _ \<Rightarrow> ([], DirectiveError)
      | Inr kubeconfig \<Rightarrow> answer DirectiveDefault (cm_GetContexts env kubeconfig))"

definition buildKubeNSCompletionFunc :: "completion_env \<Rightarrow> string \<Rightarrow> string \<Rightarrow> string list \<times> directive" where
  "buildKubeNSCompletionFunc env kubeconfigFlag contextFlag =
     (if \<not> completionLogger env then ([], DirectiveError)
      else case cm_GetString env kubeconfigFlag of Inl _ \<Rightarrow> ([], DirectiveError)
      | Inr kubeconfig \<Rightarrow> (case cm_GetString env contextFlag of Inl _ \<Rightarrow> ([], DirectiveError)
      | Inr ctx \<Rightarrow> answer DirectiveDefault (cm_GetNamespaces env kubeconfig ctx)))"

definition buildPVCCompletionFunc :: "completion_env \<Rightarrow> bool \<Rightarrow> string list \<times> directive" where
  "buildPVCCompletionFunc env isDestPVC =
     (let side = (if isDestPVC then ''dest'' else ''source'') in
      if \<not> completionLogger env then ([], DirectiveError)
      else case cm_GetString env (side @ ''-kubeconfig'') of Inl _ \<Rightarrow> ([], DirectiveError)
      | Inr kubeconfig \<Rightarrow> (case cm_GetString env (side @ ''-context'') of Inl _ \<Rightarrow> ([], DirectiveError)
      | Inr ctx \<Rightarrow> (case cm_GetString env (side @ ''-namespace'') of Inl _ \<Rightarrow> ([], DirectiveError)
      | Inr ns \<Rightarrow> answer DirectiveNoFileComp (cm_GetPVCs env kubeconfig ctx ns))))"

definition buildStaticSliceCompletionFunc :: "string list \<Rightarrow> string list \<times> directive" where
  "buildStaticSliceCompletionFunc values = (values, DirectiveNoFileComp)"

text \<open>
  The completion of a comma-separated list. The remaining values are the keys of a map, whose order of
  iteration is the argument \<open>order\<close>.
\<close>

definition buildSliceCompletionFunc ::
  "(string list \<Rightarrow> string list) \<Rightarrow> string list \<Rightarrow> string \<Rightarrow> string list \<times> directive" where
  "buildSliceCompletionFunc order values toComplete =
     (let provided = map TrimSpace (Split toComplete CHR '','');
          remaining = order (filter (\<lambda>v. v \<notin> set provided) (remdups values));
          lastPart = last provided;
          suggestions = map (\<lambda>v. toComplete @ TrimPrefix v lastPart) (filter (\<lambda>v. HasPrefix v lastPart) remaining)
      in (suggestions,
          if length suggestions > 1 then DirectiveNoFileCompNoSpace else DirectiveNoFileComp))"

lemma Split_extend:
  "sep \<notin> set t \<Longrightarrow> Split (s @ t) sep = butlast (Split s sep) @ [last (Split s sep) @ t]"
proof (induction s)
  case Nil
  then show ?case by (simp add: Split_single)
next
  case (Cons c s)
  then show ?case by (cases "Split s sep") auto
qed

text \<open>
  A suggestion keeps the values already typed and completes the last one to a value of the flag that
  was not typed before, provided that what is typed does not end in white space.
\<close>

theorem slice_completion_sound:
  assumes "\<And>xs. set (order xs) = set xs" and "\<forall>v \<in> set values. CHR '','' \<notin> set v"
    and "HasSuffix (last (Split typed CHR '','')) (TrimSpace (last (Split typed CHR '','')))"
    and "s \<in> set (fst (buildSliceCompletionFunc order values typed))"
  shows "\<exists>v \<in> set values. v \<notin> set (map TrimSpace (Split typed CHR '','')) \<and>
    butlast (Split s CHR '','') = butlast (Split typed CHR '','') \<and> HasSuffix (last (Split s CHR '','')) v"
proof -
  define lastPart where "lastPart = TrimSpace (last (Split typed CHR '',''))"
  have l: "last (map TrimSpace (Split typed CHR '','')) = lastPart" by (simp add: lastPart_def last_map)
  from assms(1,4) obtain v where v: "v \<in> set values" "v \<notin> set (map TrimSpace (Split typed CHR '',''))"
    "HasPrefix v lastPart" "s = typed @ TrimPrefix v lastPart"
    unfolding buildSliceCompletionFunc_def Let_def l by auto
  from v(3) obtain rest where r: "v = lastPart @ rest" by (auto simp: prefix_def)
  then have t: "TrimPrefix v lastPart = rest" by (simp add: TrimPrefix_def)
  have "CHR '','' \<notin> set rest" using assms(2) v(1) r by auto
  from Split_extend [OF this, of typed] have "Split s CHR '','' =
      butlast (Split typed CHR '','') @ [last (Split typed CHR '','') @ rest]" by (simp add: v(4) t)
  moreover have "HasSuffix (last (Split typed CHR '','') @ rest) v"
    using assms(3) r by (auto simp: lastPart_def suffix_def)
  ultimately show ?thesis using v(1,2) by auto
qed

end
