(* ===== verification/Spec2Isabelle.thy ===== *)
theory Spec2Isabelle
  imports GoPrelude Shell GoPath Opid Rsync Rclone Archive LineTail HelmValues Pvc Mover SshHost
    Strategies StrategyContract Migrator
    Flush BucketTarget BucketFacts Snapshot SnapshotSource SnapshotRuns SnapshotFacts BucketRun BucketRunFacts
    GoRegexp Float64 Progress ProgressFacts ProgressLog Console K8sPods K8sJobs K8sFacts Diagnostics
    MoverSession LocalTransfer Cleanup Status PublicApi CommandLine CommandLineFacts
    Narrate Summary Completion
begin

text \<open>
  A verification development of pv-migrate, a command line tool that copies the contents of a
  Kubernetes PersistentVolumeClaim to another claim, to a bucket or to an archive file, and back.

  \<^bold>\<open>The program and its parts.\<close> A migration is a request that \<open>internal/migrator\<close> checks against the two
  claims (\<open>internal/pvc\<close>) and then tries strategy by strategy (\<open>internal/strategy\<close>): each strategy
  installs one or two Helm releases whose pods run a mover, rsync or tar, over a command line built by
  \<open>internal/rsync\<close> and \<open>internal/archive\<close> from paths resolved inside the mounts; after each attempt the
  releases are removed. A backup or restore is a request to \<open>internal/bucketstorage\<close>, which resolves
  where the data goes, optionally quiesces a database (\<open>internal/flush\<close>), cuts a snapshot
  (\<open>internal/snapshot\<close>) and clones a claim from it, installs one release that runs rclone or tar, waits
  for it and removes what it made.

  \<^bold>\<open>Conventions.\<close> Go strings are byte strings, so \<open>string\<close> is a list of bytes; a \<open>map[string]any\<close> of
  chart values is an association list; an error is the left side of a sum, its constructor standing for
  the error text; a nil slice or pointer is \<open>None\<close>. Code that changes something outside the process is
  a run: a function on the trace of the requests made so far, and every answer is a function of that
  trace held in an environment record. A theorem for every environment therefore holds for whatever
  the cluster, Helm or a database answers, and in whatever order. Deferred calls are written out on
  every path. Log lines are left out, and the text of a report unless a theory says otherwise.

  \<^bold>\<open>Libraries.\<close> \<open>GoPrelude\<close> has the functions of \<open>strings\<close> and \<open>strconv\<close> the sources call, and the facts
  about them; \<open>GoPath\<close> has package \<open>path\<close>, a reference that follows a path element by element, and the
  locale \<open>mount_resolver\<close>: what a resolver of paths into a mount promises and what follows from it.

  \<^bold>\<open>Commands.\<close> \<open>Shell\<close> models \<open>shell/quote.go\<close> and a reference lexer of POSIX shell words and operators;
  quoting is inverse to that lexer. \<open>Rsync\<close>, \<open>Rclone\<close> and \<open>Archive\<close> model the builders of command lines,
  the generated rclone configuration, compression levels and the \<open>--archive-file\<close> value with its time
  tokens; their theorems say which argument vector the shell hands to the program, and that what was
  written is read back. \<open>Opid\<close> models identifiers. \<open>LineTail\<close> models the bounded tail of a session's
  output, as a refinement of a function of all bytes written.

  \<^bold>\<open>Claims and values.\<close> \<open>HelmValues\<close> models the reading and adjusting of chart values, \<open>Pvc\<close> what is read
  of a claim and the node affinity derived from it; the theorems give the exact set of nodes.

  \<^bold>\<open>Migrations.\<close> \<open>Mover\<close> models the request, the paths (interpreting \<open>mount_resolver\<close> for both mounts) and
  the mover commands with their exit-code policies (locale \<open>exit_policy\<close>); \<open>SshHost\<close> the formatting of
  hosts; \<open>Strategies\<close> the five strategies and the installation and removal of releases. The locale
  \<open>strategy_contract\<close> of \<open>StrategyContract\<close> says what the migrator relies on: a strategy that declines
  has touched nothing, and what it installs is recorded. Every strategy is an interpretation.
  \<open>Migrator\<close> models the checks on claims, one attempt, and the ladder; its theorems rest on the contract.

  \<^bold>\<open>Backups.\<close> \<open>BucketTarget\<close> models the request, its checks, the target, the command, the metadata sidecar
  and the chart values; \<open>BucketFacts\<close> proves that paths stay in the mounts, that places in a bucket are
  distinct, and that the dry-run scan agrees with a reference for pflag. \<open>Flush\<close> models the recipes for
  databases and the choice of the MySQL lock. \<open>Snapshot\<close> has the events and the environment of a backup,
  the snapshot client and the client sessions; \<open>SnapshotSource\<close> the quiesce, the cut, the clone and their
  rollback. \<open>SnapshotRuns\<close> has a calculus of which requests a run makes and the locale \<open>lock_protocol\<close>,
  interpreted for each way of taking a lock; \<open>SnapshotFacts\<close> shows that the cut is protected, that
  secrets are one line, that waiting is bounded and returns, and that failures are rolled back.
  \<open>BucketRun\<close> and \<open>BucketRunFacts\<close> model the whole run and the order in which it removes things.

  \<^bold>\<open>Progress and jobs.\<close> \<open>GoRegexp\<close> and \<open>Float64\<close> model what is used of \<open>regexp\<close> and of floating point;
  \<open>Progress\<close> models the line splitter and the parsers of rsync, rclone and tar progress, \<open>ProgressFacts\<close>
  what they read and its ranges, and \<open>ProgressLog\<close> the follower of a log as a step relation over its
  goroutines, whose bar stays sound under every interleaving. \<open>Console\<close> has the palette and the
  line-erasing writer. \<open>K8sPods\<close>, \<open>K8sJobs\<close> and \<open>Diagnostics\<close> model package \<open>k8s\<close>: the waits (the locale
  \<open>watch_decision\<close> of \<open>K8sFacts\<close> is what they share), the search for a job, its end and the failure report.

  \<^bold>\<open>The local transfer.\<close> \<open>MoverSession\<close> composes the follower with the other three goroutines of the local
  strategy's session, the watcher, the tunnel and the mover, and with what the remote side may do at
  any moment. The pipe between the session and the follower has no buffer, so a copier of the session's
  output blocks until it is read. Reports are true, resources are closed, and a session that failed or
  was cancelled ends, but for the cases its theorem names; two further theorems show runs that hang.
  \<open>LocalTransfer\<close> has the opening of the connection, the tunnel and the session, and the group that
  keeps two port-forwards around them.

  \<^bold>\<open>Commands for the user.\<close> \<open>Cleanup\<close> and \<open>Status\<close> model the two commands on detached operations.
  \<open>PublicApi\<close> models package \<open>pvmigrate\<close>: options, defaults, checks and the requests made of them;
  its theorems speak of whole runs through the API. \<open>CommandLine\<close> models the flags of migrate, backup
  and restore, each with its default and the field it writes, and the environment variables. The
  locale \<open>flag_set\<close> of \<open>CommandLineFacts\<close> says what a set of flags promises; the three commands are its
  interpretations, and the theorem follows a flag from the command line into the internal request.
  \<open>Completion\<close> models what is suggested as a value, \<open>Summary\<close> the report on a migration no strategy
  completed, and \<open>Narrate\<close> the handler that lays the log out as steps and details.

  \<^bold>\<open>Bounds.\<close> A polling loop reads once at the start and once after every interval that ends before its
  deadline, so its fuel is the number of those intervals: 149 for the cut, 899 for readiness. The loop
  that waits for a marker has the quotient of its timeout and its interval, 150; Go's choice among the
  ready cases of its select may end it one reading earlier. The environment may end any wait earlier. Nothing else needs fuel: the groups of goroutines are step relations with a measure.
  Integers are Go's 64-bit ones; where a value is read from text the range is checked as \<open>strconv\<close> does,
  and where a product or a quotient may leave the range the wrap-around is written out.

  \<^bold>\<open>Parameters.\<close> The Kubernetes API, Helm, ssh, the scheduling library's node selectors, the YAML encoder
  and the JSON decoder, the generators of identifiers and of keys, the reading of the command line by
  pflag, the environment variables and files, and the platform's conversion of a floating point number
  out of range are fields of an environment or arguments. The hypotheses about them are named:
  \<open>helm_ready\<close> and its counterpart for backups (Helm's configuration can be initialised), \<open>cuts_after\<close> (the
  cluster answers and cuts within a number of intervals), \<open>lists_matching\<close> (Helm's list honours its
  filter), and that a generated identifier is a valid one. That \<open>Run\<close> of a closed ssh session returns is
  not relied on: it is a step of the remote side in \<open>MoverSession\<close>, possible only when no copier is
  blocked. A rule of \<open>LocalTransfer\<close> says that a stopped port-forward returns.

  \<^bold>\<open>Not modelled.\<close> The building of clients for clusters and for Helm, the texts of the log lines, the
  making of ssh keys and the loading of the embedded chart. In a strategy the session of the local transfer is one answer of the environment.
\<close>

end
